(* ===== verification/Prelude.thy ===== *)
theory Prelude
  imports Main "HOL-Library.Multiset" "HOL-Library.Sublist"
begin

text \<open>
  Shared vocabulary of the development. The backend keeps all of its state in MySQL
  tables and changes it only through single SQL statements of three shapes:
  \<^verbatim>\<open>UPDATE t SET ... WHERE p\<close>, \<^verbatim>\<open>DELETE FROM t WHERE p\<close> and
  \<^verbatim>\<open>SELECT ... FROM t WHERE p\<close>. A table is modelled as the list of its rows in
  insertion order, and the three statement shapes as \<open>update_where\<close>, \<open>delete_where\<close>
  and \<open>select_where\<close>; the number of rows a statement affects is \<open>affected\<close>.
  The lemmas below are the facts about these shapes that every component uses.
  Money is \<open>int\<close>: amounts are MySQL \<^verbatim>\<open>DECIMAL\<close> values counted in cents, so that
  the sums the database computes are exact. \<^verbatim>\<open>ORDER BY\<close> is the stable sort
  \<open>sort_by\<close>, and a multi-line JavaScript template literal is \<open>lines_text\<close> of its
  indented lines, with the facts that a line, and any part of it, is part of the text.
\<close>

named_theorems sql_simps "characteristic equations of the SQL statement shapes"
named_theorems handler_defs "definitions of the route handlers"

type_synonym user_id = nat
type_synonym category_id = nat
type_synonym money = int

section \<open>SQL statement shapes on a table\<close>

definition update_where :: "('r \<Rightarrow> bool) \<Rightarrow> ('r \<Rightarrow> 'r) \<Rightarrow> 'r list \<Rightarrow> 'r list" where
  "update_where P g rows = map (\<lambda>r. if P r then g r else r) rows"

definition delete_where :: "('r \<Rightarrow> bool) \<Rightarrow> 'r list \<Rightarrow> 'r list" where
  "delete_where P rows = filter (\<lambda>r. \<not> P r) rows"

definition select_where :: "('r \<Rightarrow> bool) \<Rightarrow> 'r list \<Rightarrow> 'r list" where
  "select_where P rows = filter P rows"

definition affected :: "('r \<Rightarrow> bool) \<Rightarrow> 'r list \<Rightarrow> nat" where
  "affected P rows = length (filter P rows)"

text \<open>\<^verbatim>\<open>ORDER BY\<close>: a stable insertion sort by a comparator \<open>le\<close> (\<open>le x y\<close>: \<open>x\<close>
  may come before \<open>y\<close>). Rows the comparator does not separate keep their table order;
  SQL leaves their order unspecified.\<close>

fun insort_by :: "('a \<Rightarrow> 'a \<Rightarrow> bool) \<Rightarrow> 'a \<Rightarrow> 'a list \<Rightarrow> 'a list" where
  "insort_by le x [] = [x]"
| "insort_by le x (y # ys) = (if le x y then x # y # ys else y # insort_by le x ys)"

definition sort_by :: "('a \<Rightarrow> 'a \<Rightarrow> bool) \<Rightarrow> 'a list \<Rightarrow> 'a list" where
  "sort_by le xs = foldr (insort_by le) xs []"

text \<open>A multi-line JavaScript template literal that opens with a line break, given by
  the lines after that break, each with its indentation; the last is the indentation
  before the closing backquote.\<close>

definition lines_text :: "string list \<Rightarrow> string" where
  "lines_text ls = concat (map (\<lambda>l. CHR 0x0A # l) ls)"

definition indent :: "nat \<Rightarrow> string \<Rightarrow> string" where
  "indent n l = replicate n (CHR 0x20) @ l"

lemma update_where_Nil [simp, sql_simps]: "update_where P g [] = []"
  by (simp add: update_where_def)

lemma update_where_Cons [simp, sql_simps]:
  "update_where P g (r # rs) = (if P r then g r else r) # update_where P g rs"
  by (simp add: update_where_def)

lemma update_where_append [simp, sql_simps]:
  "update_where P g (xs @ ys) = update_where P g xs @ update_where P g ys"
  by (simp add: update_where_def)

lemma length_update_where [simp]: "length (update_where P g rows) = length rows"
  by (simp add: update_where_def)

lemma update_where_no_match:
  "\<forall>r\<in>set rows. \<not> P r \<Longrightarrow> update_where P g rows = rows"
  by (induction rows) auto

lemma map_update_where_keep:
  "(\<And>r. P r \<Longrightarrow> f (g r) = f r) \<Longrightarrow> map f (update_where P g rows) = map f rows"
  by (induction rows) auto

text \<open>Changing the key of the one row a statement matches keeps keys distinct when the
  new key is not a key of any other row.\<close>

lemma distinct_update_where_one:
  assumes "distinct (map f rows)" and "filter P rows = [r]"
    and "\<forall>x\<in>set rows. \<not> P x \<longrightarrow> f x \<noteq> k" and "f (g r) = k"
  shows "distinct (map f (update_where P g rows))"
  using assms
proof (induction rows)
  case Nil
  then show ?case by simp
next
  case (Cons x xs)
  show ?case
  proof (cases "P x")
    case True
    with Cons.prems(2) have "x = r" and none: "\<forall>y\<in>set xs. \<not> P y"
      by (auto simp: filter_empty_conv split: if_splits)
    then have "update_where P g xs = xs" by (simp add: update_where_no_match)
    with True \<open>x = r\<close> Cons.prems none show ?thesis by auto
  next
    case False
    with Cons.prems have IH: "distinct (map f (update_where P g xs))" by (intro Cons.IH) auto
    have "f x \<notin> f ` set (update_where P g xs)"
    proof
      assume "f x \<in> f ` set (update_where P g xs)"
      then obtain y where y: "y \<in> set xs" and eq: "f x = f (if P y then g y else y)"
        by (auto simp: update_where_def)
      show False
      proof (cases "P y")
        case True
        with y have "y \<in> set (filter P (x # xs))" by simp
        with Cons.prems(2) have "y = r" by simp
        with True eq Cons.prems(3,4) False show False by simp
      next
        case False
        with eq y Cons.prems(1) show False by auto
      qed
    qed
    with False IH show ?thesis by simp
  qed
qed

lemma delete_where_Nil [simp, sql_simps]: "delete_where P [] = []"
  by (simp add: delete_where_def)

lemma delete_where_Cons [simp, sql_simps]:
  "delete_where P (r # rs) = (if P r then delete_where P rs else r # delete_where P rs)"
  by (simp add: delete_where_def)

lemma select_where_Nil [simp, sql_simps]: "select_where P [] = []"
  by (simp add: select_where_def)

lemma select_where_Cons [simp, sql_simps]:
  "select_where P (r # rs) = (if P r then r # select_where P rs else select_where P rs)"
  by (simp add: select_where_def)

lemma select_where_ConsD:
  assumes "select_where P rows = r # rest"
  shows "r \<in> set rows \<and> P r"
proof -
  have "r \<in> set (select_where P rows)" by (simp add: assms)
  then show ?thesis by (simp add: select_where_def)
qed

lemma affected_Nil [simp, sql_simps]: "affected P [] = 0"
  by (simp add: affected_def)

lemma affected_Cons [simp, sql_simps]:
  "affected P (r # rs) = (if P r then Suc (affected P rs) else affected P rs)"
  by (simp add: affected_def)

lemma affected_zero_iff: "affected P rows = 0 \<longleftrightarrow> (\<forall>r\<in>set rows. \<not> P r)"
  by (induction rows) auto

lemma select_where_empty_iff: "select_where P rows = [] \<longleftrightarrow> (\<forall>r\<in>set rows. \<not> P r)"
  by (induction rows) auto

lemma delete_where_no_match:
  "\<forall>r\<in>set rows. \<not> P r \<Longrightarrow> delete_where P rows = rows"
  by (induction rows) auto

lemma set_delete_where [simp]: "set (delete_where P rows) = {r \<in> set rows. \<not> P r}"
  by (auto simp: delete_where_def)

lemma set_update_where:
  "set (update_where P g rows) = {if P r then g r else r | r. r \<in> set rows}"
  by (auto simp: update_where_def)

lemma in_update_whereD:
  "x \<in> set (update_where P g rows) \<Longrightarrow> \<exists>r\<in>set rows. x = (if P r then g r else r)"
  by (auto simp: update_where_def)

lemma ball_map_eq:
  assumes eq: "map f xs = map f ys" and all: "\<forall>y\<in>set ys. P (f y)"
  shows "\<forall>x\<in>set xs. P (f x)"
proof
  fix x assume "x \<in> set xs"
  then have "f x \<in> set (map f xs)" by simp
  then have "f x \<in> set (map f ys)" by (simp only: eq)
  then obtain y where "y \<in> set ys" and "f x = f y" by auto
  with all show "P (f x)" by simp
qed

section \<open>Sums over filtered tables\<close>

text \<open>
  The cached aggregates of the schema are sums of one column over the rows that satisfy
  a predicate; these are the facts about such sums that the aggregate proofs share.
\<close>

lemma sum_filter_delete_where:
  fixes f :: "'r \<Rightarrow> int"
  shows "sum_list (map f (filter P rows)) =
           sum_list (map f (filter P (delete_where Q rows))) +
           sum_list (map f (filter (\<lambda>r. P r \<and> Q r) rows))"
  by (induction rows) (auto simp: algebra_simps)

lemma sum_filter_delete_unique:
  fixes f :: "'r \<Rightarrow> int"
  assumes "filter Q rows = [r]"
  shows "sum_list (map f (filter P (delete_where Q rows))) =
           sum_list (map f (filter P rows)) - (if P r then f r else 0)"
proof -
  have "filter (\<lambda>x. P x \<and> Q x) rows = filter P (filter Q rows)"
    by (simp add: conj_commute)
  then have "filter (\<lambda>x. P x \<and> Q x) rows = (if P r then [r] else [])"
    by (simp add: assms)
  then show ?thesis using sum_filter_delete_where [of f P rows Q] by simp
qed

lemma sum_filter_update_where:
  fixes f :: "'r \<Rightarrow> int"
  shows "sum_list (map f (filter P (update_where Q g rows))) =
           sum_list (map f (filter P (delete_where Q rows))) +
           sum_list (map f (filter P (map g (filter Q rows))))"
  by (induction rows) (auto simp: algebra_simps)

lemma sum_filter_update_unique:
  fixes f :: "'r \<Rightarrow> int"
  assumes "filter Q rows = [r]"
  shows "sum_list (map f (filter P (update_where Q g rows))) =
           sum_list (map f (filter P rows)) - (if P r then f r else 0) +
           (if P (g r) then f (g r) else 0)"
  using sum_filter_update_where [of f P Q g rows] sum_filter_delete_unique [OF assms, of f P]
  by (simp add: assms)

lemma sum_filter_cong:
  "(\<And>r. r \<in> set rows \<Longrightarrow> P r = Q r) \<Longrightarrow>
     sum_list (map f (filter P rows)) = sum_list (map f (filter Q rows))"
  by (induction rows) auto

lemma sum_filter_none:
  "\<forall>r\<in>set rows. \<not> P r \<Longrightarrow> sum_list (map f (filter P rows)) = 0"
  by (induction rows) auto


section \<open>Ordered and grouped results\<close>

lemma mset_insort_by [simp]: "mset (insort_by le x ys) = add_mset x (mset ys)"
  by (induction ys) simp_all

lemma set_insort_by [simp]: "set (insort_by le x ys) = insert x (set ys)"
  by (induction ys) auto

lemma length_insort_by [simp]: "length (insort_by le x ys) = Suc (length ys)"
  by (induction ys) simp_all

lemma sum_list_insort_by [simp]:
  "sum_list (map f (insort_by le x ys)) = f x + sum_list (map (f :: _ \<Rightarrow> 'b::comm_monoid_add) ys)"
  by (induction ys) (simp_all add: add.left_commute)

lemma sort_by_simps [simp]:
  "sort_by le [] = []" "sort_by le (x # xs) = insort_by le x (sort_by le xs)"
  by (simp_all add: sort_by_def)

lemma mset_sort_by [simp]: "mset (sort_by le xs) = mset xs"
  by (induction xs) simp_all

lemma set_sort_by [simp]: "set (sort_by le xs) = set xs"
  by (induction xs) simp_all

lemma length_sort_by [simp]: "length (sort_by le xs) = length xs"
  by (induction xs) simp_all

lemma sum_list_sort_by [simp]:
  "sum_list (map f (sort_by le xs)) = sum_list (map (f :: _ \<Rightarrow> 'b::comm_monoid_add) xs)"
  by (induction xs) simp_all

text \<open>\<open>sort_by\<close> on an ascending key is the library's stable \<open>sort_key\<close>; on any total,
  transitive comparator it returns a list sorted by that comparator.\<close>

lemma insort_by_key: "insort_by (\<lambda>x y. f x \<le> f y) x ys = insort_key f x ys"
  by (induction ys) simp_all

lemma sort_by_key: "sort_by (\<lambda>x y. f x \<le> f y) xs = sort_key f xs"
  by (induction xs) (simp_all add: insort_by_key)

lemma sorted_wrt_insort_by:
  assumes total: "\<And>x y. le x y \<or> le y x" and trans: "\<And>x y z. le x y \<Longrightarrow> le y z \<Longrightarrow> le x z"
  shows "sorted_wrt le ys \<Longrightarrow> sorted_wrt le (insort_by le x ys)"
proof (induction ys)
  case Nil
  then show ?case by simp
next
  case (Cons y ys)
  show ?case
  proof (cases "le x y")
    case True
    with Cons.prems show ?thesis by (auto intro: trans)
  next
    case False
    with total have "le y x" by blast
    with Cons False show ?thesis by simp
  qed
qed

lemma sorted_wrt_sort_by:
  assumes "\<And>x y. le x y \<or> le y x" and "\<And>x y z. le x y \<Longrightarrow> le y z \<Longrightarrow> le x z"
  shows "sorted_wrt le (sort_by le xs)"
  by (induction xs) (simp_all add: sorted_wrt_insort_by [OF assms])

lemma sorted_wrt_sort_by_desc:
  "sorted_wrt (\<lambda>x y. f y \<le> (f x :: 'b::linorder)) (sort_by (\<lambda>x y. f y \<le> f x) xs)"
  by (rule sorted_wrt_sort_by) auto

text \<open>Filtering first by a weaker condition changes nothing.\<close>

lemma filter_weaker:
  "\<forall>x. P x \<longrightarrow> Q x \<Longrightarrow> filter P (filter Q xs) = filter P xs"
  by (induction xs) auto

text \<open>An element no other element may precede lands at the front.\<close>

lemma sort_by_snoc_first:
  "\<forall>x\<in>set xs. \<not> le x y \<Longrightarrow> sort_by le (xs @ [y]) = y # sort_by le xs"
  by (induction xs) simp_all

text \<open>In a list sorted by descending key, an element whose key is above every other's
  comes first.\<close>

lemma sorted_desc_hd:
  assumes "sorted_wrt (\<lambda>x y. f y \<le> (f x :: 'b::linorder)) ys" and "x \<in> set ys"
    and "\<forall>y\<in>set ys. y \<noteq> x \<longrightarrow> f y < f x"
  shows "\<exists>rest. ys = x # rest"
proof (cases ys)
  case Nil
  with assms(2) show ?thesis by simp
next
  case (Cons y rest)
  have "y = x"
  proof (rule ccontr)
    assume "y \<noteq> x"
    with assms(2) Cons have "x \<in> set rest" by simp
    with assms(1) Cons have "f x \<le> f y" by simp
    moreover from \<open>y \<noteq> x\<close> assms(3) Cons have "f y < f x" by simp
    ultimately show False by simp
  qed
  with Cons show ?thesis by simp
qed

text \<open>\<^verbatim>\<open>GROUP BY\<close>: the group sums of a key add up to the sum over all rows.\<close>

lemma sum_filter_key_set:
  assumes "finite K" and "f ` set xs \<subseteq> K"
  shows "(\<Sum>k\<in>K. \<Sum>x\<leftarrow>filter (\<lambda>x. f x = k) xs. g x) = (\<Sum>x\<leftarrow>xs. g x :: 'b::comm_monoid_add)"
  using assms(2)
proof (induction xs)
  case Nil
  then show ?case by simp
next
  case (Cons a xs)
  have "(\<Sum>k\<in>K. \<Sum>x\<leftarrow>filter (\<lambda>x. f x = k) (a # xs). g x) =
        (\<Sum>k\<in>K. (if f a = k then g a else 0) + (\<Sum>x\<leftarrow>filter (\<lambda>x. f x = k) xs. g x))"
    by (rule sum.cong) simp_all
  also have "\<dots> = (\<Sum>k\<in>K. if f a = k then g a else 0) + (\<Sum>k\<in>K. \<Sum>x\<leftarrow>filter (\<lambda>x. f x = k) xs. g x)"
    by (rule sum.distrib)
  also have "(\<Sum>k\<in>K. if f a = k then g a else 0) = g a"
    using Cons.prems assms(1) by (simp add: sum.delta)
  finally show ?case using Cons by simp
qed

lemma sum_list_group:
  "(\<Sum>k\<leftarrow>remdups (map f xs). \<Sum>x\<leftarrow>filter (\<lambda>x. f x = k) xs. g x) = (\<Sum>x\<leftarrow>xs. g x :: 'b::comm_monoid_add)"
  by (simp add: sum_list_distinct_conv_sum_set sum_filter_key_set)

text \<open>A property every row has survives the statements that change rows.\<close>

lemma ball_update_where:
  "\<forall>r\<in>set rows. Q r \<Longrightarrow> (\<And>r. r \<in> set rows \<Longrightarrow> P r \<Longrightarrow> Q r \<Longrightarrow> Q (g r)) \<Longrightarrow>
     \<forall>x\<in>set (update_where P g rows). Q x"
  by (auto simp: update_where_def)

lemma ball_delete_where:
  "\<forall>r\<in>set rows. Q r \<Longrightarrow> \<forall>x\<in>set (delete_where P rows). Q x"
  by (simp add: delete_where_def)

text \<open>A line of a template is part of its text.\<close>

lemma sublist_lines_text:
  assumes "sublist x l" and "l \<in> set ls"
  shows "sublist x (lines_text ls)"
proof -
  from assms(2) obtain as bs where ls: "ls = as @ l # bs" by (auto dest: split_list)
  have "lines_text ls = (concat (map (\<lambda>l. CHR 0x0A # l) as) @ [CHR 0x0A]) @ l @
                        concat (map (\<lambda>l. CHR 0x0A # l) bs)"
    by (simp add: ls lines_text_def)
  then have "sublist l (lines_text ls)" by (simp only: sublist_appendI)
  with assms(1) show ?thesis by (rule sublist_order.order_trans)
qed

lemma sublist_indent [intro]:
  assumes "sublist x l" shows "sublist x (indent n l)"
proof -
  have "sublist l (indent n l)" unfolding indent_def by (rule sublist_append_leftI)
  with assms show ?thesis by (rule sublist_order.order_trans)
qed

end
