(* ===== verification/Dates.thy ===== *)
theory Dates
  imports Prelude "HOL-Library.Product_Lexorder"
begin

text \<open>
  Calendar dates and the month keys that tie expenses to budgets.
  A budget row is keyed by a \<^verbatim>\<open>YYYY-MM\<close> string. The code derives that string from
  an expense date in three ways:
  \<^item> \<^verbatim>\<open>DATE_FORMAT(expense_date, '%Y-%m')\<close> in SQL, when a budget is created
    (\<open>month_key\<close>, src/src/routes/budgets.ts);
  \<^item> \<^verbatim>\<open>new Date(expenseDate).toISOString().slice(0, 7)\<close> on the date string of a
    request (\<open>month_of_request\<close>, src/src/routes/expenses.ts);
  \<^item> the same expression on the \<^verbatim>\<open>expense_date\<close> of a row read back from MySQL
    (\<open>month_of_row\<close>). The mysql2 driver returns a \<^verbatim>\<open>DATE\<close> column as a JS
    \<^verbatim>\<open>Date\<close> at local midnight of the server, and \<^verbatim>\<open>toISOString\<close> prints it in
    UTC, so this key depends on the server's UTC offset \<open>tz\<close> (minutes east of UTC).
  The theorems show that the first two agree on every valid date, that the third agrees
  with them when the server is at or west of UTC, and that it names the previous month for
  the first day of a month on a server east of UTC.
\<close>

record date =
  d_year :: nat
  d_month :: nat
  d_day :: nat

definition leap_year :: "nat \<Rightarrow> bool" where
  "leap_year y \<longleftrightarrow> 4 dvd y \<and> (\<not> 100 dvd y \<or> 400 dvd y)"

definition days_in_month :: "nat \<Rightarrow> nat \<Rightarrow> nat" where
  "days_in_month y m =
     (if m = 2 then (if leap_year y then 29 else 28)
      else if m = 4 \<or> m = 6 \<or> m = 9 \<or> m = 11 then 30 else 31)"

text \<open>The range of a MySQL \<^verbatim>\<open>DATE\<close>: \<^verbatim>\<open>1000-01-01\<close> to \<^verbatim>\<open>9999-12-31\<close>.\<close>

definition valid_date :: "date \<Rightarrow> bool" where
  "valid_date d \<longleftrightarrow>
     1000 \<le> d_year d \<and> d_year d \<le> 9999 \<and> 1 \<le> d_month d \<and> d_month d \<le> 12 \<and>
     1 \<le> d_day d \<and> d_day d \<le> days_in_month (d_year d) (d_month d)"

section \<open>Decimal digits and zero padding\<close>

definition digit :: "nat \<Rightarrow> char" where
  "digit n = ''0123456789'' ! (n mod 10)"

definition digit_val :: "char \<Rightarrow> nat" where
  "digit_val c = of_char c - 48"

text \<open>JavaScript's \<^verbatim>\<open>\d\<close>: the ASCII digits only.\<close>

definition is_digit :: "char \<Rightarrow> bool" where
  "is_digit c \<longleftrightarrow> (48::nat) \<le> of_char c \<and> of_char c \<le> (57::nat)"

text \<open>\<open>pad k n\<close>: the last \<open>k\<close> decimal digits of \<open>n\<close>, zero-padded on the left.\<close>

fun pad :: "nat \<Rightarrow> nat \<Rightarrow> string" where
  "pad 0 n = []"
| "pad (Suc k) n = pad k (n div 10) @ [digit n]"

definition digits_val :: "string \<Rightarrow> nat" where
  "digits_val s = foldl (\<lambda>acc c. 10 * acc + digit_val c) 0 s"

text \<open>The decimal text of a natural number, as JavaScript prints an integer.\<close>

fun show_nat :: "nat \<Rightarrow> string" where
  "show_nat n = (if n < 10 then [digit n] else show_nat (n div 10) @ [digit n])"

declare show_nat.simps [simp del]

section \<open>Month keys\<close>

text \<open>\<^verbatim>\<open>DATE_FORMAT(d, '%Y-%m')\<close>: four-digit year, dash, two-digit month.\<close>

definition month_key :: "date \<Rightarrow> string" where
  "month_key d = pad 4 (d_year d) @ ''-'' @ pad 2 (d_month d)"

text \<open>An instant in UTC with minute resolution, as \<^verbatim>\<open>Date\<close> holds it.\<close>

record utc_time =
  ut_date :: date
  ut_minute :: nat

text \<open>\<^verbatim>\<open>Date.prototype.toISOString\<close> for years 0 to 9999 (whole minutes).\<close>

definition to_iso_string :: "utc_time \<Rightarrow> string" where
  "to_iso_string t =
     pad 4 (d_year (ut_date t)) @ ''-'' @ pad 2 (d_month (ut_date t)) @ ''-'' @
     pad 2 (d_day (ut_date t)) @ ''T'' @ pad 2 (ut_minute t div 60) @ '':'' @
     pad 2 (ut_minute t mod 60) @ '':00.000Z''"

text \<open>\<^verbatim>\<open>.toISOString().slice(0, 7)\<close>\<close>

definition iso_month_slice :: "utc_time \<Rightarrow> string" where
  "iso_month_slice t = take 7 (to_iso_string t)"

text \<open>\<^verbatim>\<open>new Date("YYYY-MM-DD")\<close>: a date-only ISO string is read as UTC midnight.\<close>

definition parse_date_only :: "date \<Rightarrow> utc_time" where
  "parse_date_only d = \<lparr>ut_date = d, ut_minute = 0\<rparr>"

definition prev_day :: "date \<Rightarrow> date" where
  "prev_day d =
     (if 1 < d_day d then d\<lparr>d_day := d_day d - 1\<rparr>
      else if 1 < d_month d then
        \<lparr>d_year = d_year d, d_month = d_month d - 1,
         d_day = days_in_month (d_year d) (d_month d - 1)\<rparr>
      else \<lparr>d_year = d_year d - 1, d_month = 12, d_day = 31\<rparr>)"

text \<open>
  A \<^verbatim>\<open>DATE\<close> value as mysql2 returns it: local midnight on a server \<open>tz\<close> minutes
  east of UTC (\<open>-1440 < tz < 1440\<close>), seen as a UTC instant.
\<close>

definition local_midnight :: "int \<Rightarrow> date \<Rightarrow> utc_time" where
  "local_midnight tz d =
     (if 0 < tz then \<lparr>ut_date = prev_day d, ut_minute = nat (1440 - tz)\<rparr>
      else \<lparr>ut_date = d, ut_minute = nat (- tz)\<rparr>)"

text \<open>\<^verbatim>\<open>new Date(expenseDate).toISOString().slice(0, 7)\<close> on a request body.\<close>

definition month_of_request :: "date \<Rightarrow> string" where
  "month_of_request d = iso_month_slice (parse_date_only d)"

text \<open>\<^verbatim>\<open>new Date(row.expense_date).toISOString().slice(0, 7)\<close> on a stored row.\<close>

definition month_of_row :: "int \<Rightarrow> date \<Rightarrow> string" where
  "month_of_row tz d = iso_month_slice (local_midnight tz d)"

text \<open>The pattern \<^verbatim>\<open>/^\d{4}-\d{2}$/\<close> that \<^verbatim>\<open>validateBudget\<close> requires of \<^verbatim>\<open>monthYear\<close>.\<close>

definition budget_month_ok :: "string \<Rightarrow> bool" where
  "budget_month_ok s \<longleftrightarrow>
     length s = 7 \<and> list_all is_digit (take 4 s) \<and> s ! 4 = CHR ''-'' \<and>
     list_all is_digit (drop 5 s)"

text \<open>Reading a \<^verbatim>\<open>YYYY-MM\<close> key back as a year and a month.\<close>

definition read_month_key :: "string \<Rightarrow> (nat \<times> nat) option" where
  "read_month_key s =
     (if budget_month_ok s then Some (digits_val (take 4 s), digits_val (drop 5 s)) else None)"

section \<open>Date order and date arithmetic in SQL\<close>

text \<open>The order of \<^verbatim>\<open>DATE\<close> values in comparisons and \<^verbatim>\<open>ORDER BY\<close>: year, then
  month, then day.\<close>

definition date_key :: "date \<Rightarrow> nat \<times> nat \<times> nat" where
  "date_key d = (d_year d, d_month d, d_day d)"

text \<open>\<^verbatim>\<open>DATE_SUB(d, INTERVAL k MONTH)\<close>: move back \<open>k\<close> calendar months and clamp
  the day to the length of the month reached (\<^verbatim>\<open>INTERVAL 1 YEAR\<close> is twelve months).\<close>

definition sub_months :: "nat \<Rightarrow> date \<Rightarrow> date" where
  "sub_months k d =
     (let t = d_year d * 12 + (d_month d - 1) - k; y = t div 12; m = t mod 12 + 1
      in \<lparr>d_year = y, d_month = m, d_day = min (d_day d) (days_in_month y m)\<rparr>)"

text \<open>\<^verbatim>\<open>DATE_SUB(d, INTERVAL k DAY)\<close>.\<close>

definition sub_days :: "nat \<Rightarrow> date \<Rightarrow> date" where
  "sub_days k d = (prev_day ^^ k) d"

section \<open>Lemmas\<close>

lemma digit_cases:
  "(n::nat) < 10 \<Longrightarrow>
     n = 0 \<or> n = 1 \<or> n = 2 \<or> n = 3 \<or> n = 4 \<or> n = 5 \<or> n = 6 \<or> n = 7 \<or> n = 8 \<or> n = 9"
  by arith

lemma digit_val_digit [simp]: "digit_val (digit n) = n mod 10"
proof -
  have "n mod 10 < 10" by simp
  then show ?thesis using digit_cases [of "n mod 10"] by (auto simp: digit_def digit_val_def)
qed

lemma is_digit_digit [simp]: "is_digit (digit n)"
proof -
  have "n mod 10 < 10" by simp
  then show ?thesis using digit_cases [of "n mod 10"] by (auto simp: digit_def is_digit_def)
qed

lemma digit_not_dash [simp]: "digit n \<noteq> CHR ''-''"
  using is_digit_digit [of n] by (auto simp: is_digit_def)

lemma pad_numeral [simp]: "pad (numeral k) n = pad (pred_numeral k) (n div 10) @ [digit n]"
  by (simp only: numeral_eq_Suc pad.simps)

lemma length_pad [simp]: "length (pad k n) = k"
  by (induction k arbitrary: n) auto

lemma list_all_is_digit_pad [simp]: "list_all is_digit (pad k n)"
  by (induction k arbitrary: n) auto

lemma digits_val_snoc: "digits_val (xs @ [c]) = 10 * digits_val xs + digit_val c"
  by (simp add: digits_val_def)

lemma digits_val_pad [simp]: "digits_val (pad k n) = n mod 10 ^ k"
proof (induction k arbitrary: n)
  case 0
  then show ?case by (simp add: digits_val_def)
next
  case (Suc k)
  then show ?case by (simp add: digits_val_snoc mod_mult2_eq)
qed

lemma length_month_key [simp]: "length (month_key d) = 7"
  by (simp add: month_key_def)

lemma take_iso_string: "take 7 (to_iso_string t) = month_key (ut_date t)"
proof -
  have "to_iso_string t = month_key (ut_date t) @ ''-'' @ pad 2 (d_day (ut_date t)) @ ''T'' @
          pad 2 (ut_minute t div 60) @ '':'' @ pad 2 (ut_minute t mod 60) @ '':00.000Z''"
    by (simp add: to_iso_string_def month_key_def)
  then show ?thesis by simp
qed

lemma iso_month_slice_eq [simp]: "iso_month_slice t = month_key (ut_date t)"
  by (simp add: iso_month_slice_def take_iso_string)

lemma month_of_request_eq [simp]: "month_of_request d = month_key d"
  by (simp add: month_of_request_def parse_date_only_def)

lemma month_key_budget_month_ok [simp]: "budget_month_ok (month_key d)"
proof -
  have "take 4 (month_key d) = pad 4 (d_year d)" and "drop 5 (month_key d) = pad 2 (d_month d)"
       and "month_key d ! 4 = CHR ''-''"
    by (simp_all add: month_key_def nth_append del: pad_numeral)
  then show ?thesis by (simp add: budget_month_ok_def del: pad_numeral)
qed

lemma read_month_key_month_key:
  "read_month_key (month_key d) = Some (d_year d mod 10000, d_month d mod 100)"
proof -
  have "take 4 (month_key d) = pad 4 (d_year d)" and "drop 5 (month_key d) = pad 2 (d_month d)"
    by (simp_all add: month_key_def del: pad_numeral)
  then show ?thesis by (simp add: read_month_key_def del: pad_numeral)
qed

lemma month_key_eq_imp:
  assumes "month_key d1 = month_key d2" and "d_year d1 < 10000" and "d_year d2 < 10000"
    and "d_month d1 < 100" and "d_month d2 < 100"
  shows "d_year d1 = d_year d2 \<and> d_month d1 = d_month d2"
  using read_month_key_month_key [of d1] read_month_key_month_key [of d2] assms by simp

lemma month_key_eq_iff_valid:
  "valid_date d1 \<Longrightarrow> valid_date d2 \<Longrightarrow>
     month_key d1 = month_key d2 \<longleftrightarrow> d_year d1 = d_year d2 \<and> d_month d1 = d_month d2"
  using month_key_eq_imp [of d1 d2] by (auto simp: valid_date_def month_key_def)

lemma month_of_row_west [simp]: "tz \<le> 0 \<Longrightarrow> month_of_row tz d = month_key d"
  by (simp add: month_of_row_def local_midnight_def)

lemma month_of_row_east: "0 < tz \<Longrightarrow> month_of_row tz d = month_key (prev_day d)"
  by (simp add: month_of_row_def local_midnight_def)

lemma prev_day_same_month: "1 < d_day d \<Longrightarrow> month_key (prev_day d) = month_key d"
  by (simp add: prev_day_def month_key_def)

lemma prev_day_first_other_month:
  assumes "valid_date d" and "d_day d = 1"
  shows "month_key (prev_day d) \<noteq> month_key d"
proof
  assume eq: "month_key (prev_day d) = month_key d"
  have "d_year (prev_day d) < 10000" and "d_month (prev_day d) < 100"
    using assms by (auto simp: prev_day_def valid_date_def)
  with eq assms have "d_year (prev_day d) = d_year d \<and> d_month (prev_day d) = d_month d"
    by (intro month_key_eq_imp) (auto simp: valid_date_def)
  with assms show False
    by (auto simp: prev_day_def valid_date_def split: if_splits)
qed


text \<open>The decimal text of a number reads back as that number.\<close>

lemma show_nat_digits:
  "list_all is_digit (show_nat n) \<and> digits_val (show_nat n) = n \<and> show_nat n \<noteq> []"
proof (induction n rule: show_nat.induct)
  case (1 n)
  show ?case
  proof (cases "n < 10")
    case True
    then have "show_nat n = [digit n]" by (simp add: show_nat.simps)
    with True show ?thesis by (simp add: digits_val_def)
  next
    case False
    with "1.IH" have ih: "list_all is_digit (show_nat (n div 10)) \<and> digits_val (show_nat (n div 10)) = n div 10"
      by simp
    have s: "show_nat n = show_nat (n div 10) @ [digit n]" using False by (simp add: show_nat.simps)
    have "10 * (n div 10) + n mod 10 = n" by simp
    with ih show ?thesis by (simp add: s digits_val_snoc)
  qed
qed

end
