(* ===== verification/Schema.thy ===== *)
theory Schema
  imports Dates
begin

text \<open>
  The relational store the backend runs against (src/src/types/index.ts gives the row
  shapes; src/src/config/database.ts the single \<^verbatim>\<open>database.query\<close> entry point).
  Each table is a list of rows in insertion order; \<^verbatim>\<open>AUTO_INCREMENT\<close> ids are a
  counter per table. Every handler is a function from the store to a result and a new
  store, \<open>(api_error + 'a) \<times> db\<close>: an error value is the response the route sends
  instead of its success payload (\<^verbatim>\<open>res.status(4xx)\<close> or \<^verbatim>\<open>next(error)\<close>).
  The store and the row types here are shared by all components.
\<close>

datatype goal_status = Active | Completed | Paused

datatype recommendation_type = Saving | Spending | Budgeting | Goal

record expense_row =
  ex_id :: nat
  ex_user_id :: user_id
  ex_category_id :: category_id
  ex_amount :: money
  ex_description :: string
  ex_expense_date :: date

record budget_row =
  bu_id :: nat
  bu_user_id :: user_id
  bu_category_id :: category_id
  bu_monthly_limit :: money
  bu_current_spent :: money
  bu_month_year :: string

record goal_row =
  go_id :: nat
  go_user_id :: user_id
  go_title :: string
  go_target_amount :: money
  go_current_amount :: money
  go_target_date :: date
  go_description :: string
  go_status :: goal_status

record user_row =
  us_id :: nat
  us_email :: string
  us_password :: string
  us_first_name :: string
  us_last_name :: string
  us_is_verified :: bool
  us_otp_code :: "string option"
  us_otp_expires_at :: "nat option"

record category_row =
  cat_id :: category_id
  cat_name :: string
  cat_color :: string
  cat_icon :: string

record recommendation_row =
  rc_id :: nat
  rc_user_id :: user_id
  rc_text :: string
  rc_type :: recommendation_type
  rc_is_read :: bool

record db =
  users :: "user_row list"
  categories :: "category_row list"
  expenses :: "expense_row list"
  budgets :: "budget_row list"
  goals :: "goal_row list"
  recommendations :: "recommendation_row list"
  next_user_id :: nat
  next_expense_id :: nat
  next_budget_id :: nat
  next_goal_id :: nat
  next_recommendation_id :: nat

definition empty_db :: db where
  "empty_db =
     \<lparr>users = [], categories = [], expenses = [], budgets = [], goals = [], recommendations = [],
      next_user_id = 1, next_expense_id = 1, next_budget_id = 1, next_goal_id = 1,
      next_recommendation_id = 1\<rparr>"

text \<open>
  The responses that are not a success: a 400 the route or a validator sends, a 404, and
  a 500 from \<^verbatim>\<open>next(error)\<close> (a thrown error without a \<^verbatim>\<open>statusCode\<close>).
\<close>

datatype api_error = Bad_Request string | Not_Found string | Server_Error string

fun status_code :: "api_error \<Rightarrow> nat" where
  "status_code (Bad_Request _) = 400"
| "status_code (Not_Found _) = 404"
| "status_code (Server_Error _) = 500"

type_synonym 'a response = "(api_error + 'a) \<times> db"

text \<open>
  mysql2's \<^verbatim>\<open>execute\<close> refuses a statement whose parameter list holds
  \<^verbatim>\<open>undefined\<close>, before anything reaches the server. The handlers pass optional body
  fields straight through, so a missing optional field is this error.
\<close>

definition bind_undefined_error :: api_error where
  "bind_undefined_error =
     Server_Error ''Bind parameters must not contain undefined. To pass SQL NULL specify JS null''"

text \<open>The budget key: \<^verbatim>\<open>UNIQUE (user_id, category_id, month_year)\<close>.\<close>

definition budget_key :: "budget_row \<Rightarrow> user_id \<times> category_id \<times> string" where
  "budget_key b = (bu_user_id b, bu_category_id b, bu_month_year b)"

text \<open>
  Well-formedness of the store as the schema keeps it: primary keys are distinct and below
  the next \<^verbatim>\<open>AUTO_INCREMENT\<close> value, and budget keys are unique.
\<close>

definition wf_db :: "db \<Rightarrow> bool" where
  "wf_db s \<longleftrightarrow>
     distinct (map ex_id (expenses s)) \<and> (\<forall>e\<in>set (expenses s). ex_id e < next_expense_id s) \<and>
     distinct (map bu_id (budgets s)) \<and> (\<forall>b\<in>set (budgets s). bu_id b < next_budget_id s) \<and>
     distinct (map budget_key (budgets s)) \<and>
     distinct (map go_id (goals s)) \<and> (\<forall>g\<in>set (goals s). go_id g < next_goal_id s) \<and>
     distinct (map us_id (users s)) \<and> (\<forall>u\<in>set (users s). us_id u < next_user_id s) \<and>
     distinct (map us_email (users s)) \<and>
     distinct (map rc_id (recommendations s)) \<and>
     (\<forall>r\<in>set (recommendations s). rc_id r < next_recommendation_id s)"

lemma wf_empty_db: "wf_db empty_db"
  by (simp add: wf_db_def empty_db_def)

lemma wf_db_budgets_cong:
  assumes "wf_db s" and "map bu_id bs = map bu_id (budgets s)"
    and "distinct (map budget_key bs)"
  shows "wf_db (s\<lparr>budgets := bs\<rparr>)"
proof -
  have "\<forall>b\<in>set bs. bu_id b < next_budget_id s"
    using assms(2) by (rule ball_map_eq) (use assms(1) in \<open>simp add: wf_db_def\<close>)
  with assms show ?thesis unfolding wf_db_def by (simp add: assms(2))
qed

lemma wf_db_budgets_insert:
  assumes "wf_db s" and "bu_id r = next_budget_id s"
    and "budget_key r \<notin> budget_key ` set (budgets s)"
  shows "wf_db (s\<lparr>budgets := budgets s @ [r], next_budget_id := Suc (next_budget_id s)\<rparr>)"
  using assms by (auto simp: wf_db_def)

lemma wf_db_budgets_delete:
  "wf_db s \<Longrightarrow> wf_db (s\<lparr>budgets := delete_where P (budgets s)\<rparr>)"
  by (auto simp: wf_db_def delete_where_def distinct_map_filter)

lemma wf_db_goals_cong:
  assumes "wf_db s" and "distinct (map go_id gs)" and "\<forall>g\<in>set gs. go_id g < n"
    and "next_goal_id s \<le> n"
  shows "wf_db (s\<lparr>goals := gs, next_goal_id := n\<rparr>)"
  using assms by (simp add: wf_db_def)

lemma wf_db_expenses_cong:
  assumes "wf_db s" and "distinct (map ex_id xs)" and "\<forall>e\<in>set xs. ex_id e < n"
    and "next_expense_id s \<le> n"
  shows "wf_db (s\<lparr>expenses := xs, next_expense_id := n\<rparr>)"
  using assms by (simp add: wf_db_def)

lemma wf_db_users_cong:
  assumes "wf_db s" and "map us_id us = map us_id (users s)"
    and "map us_email us = map us_email (users s)"
  shows "wf_db (s\<lparr>users := us\<rparr>)"
proof -
  have "\<forall>u\<in>set us. us_id u < next_user_id s"
    using assms(2) by (rule ball_map_eq) (use assms(1) in \<open>simp add: wf_db_def\<close>)
  with assms show ?thesis unfolding wf_db_def by (simp add: assms(2,3))
qed

lemma wf_db_users_insert:
  assumes "wf_db s" and "us_id u = next_user_id s" and "us_email u \<notin> us_email ` set (users s)"
  shows "wf_db (s\<lparr>users := users s @ [u], next_user_id := Suc (next_user_id s)\<rparr>)"
  using assms by (auto simp: wf_db_def)

lemma wf_email_unique:
  "wf_db s \<Longrightarrow> u \<in> set (users s) \<Longrightarrow> v \<in> set (users s) \<Longrightarrow> us_email v = us_email u \<Longrightarrow> v = u"
  by (auto simp: wf_db_def distinct_map inj_on_def)

text \<open>A row selected by its primary key, among distinct keys, is the only one.\<close>

lemma filter_key_unique:
  assumes "distinct (map k rows)" and "r \<in> set rows" and "P r" and "\<And>x. P x \<Longrightarrow> k x = k r"
  shows "filter P rows = [r]"
  using assms
proof (induction rows)
  case Nil
  then show ?case by simp
next
  case (Cons x xs)
  show ?case
  proof (cases "x = r")
    case True
    have "\<not> P y" if "y \<in> set xs" for y
    proof
      assume "P y"
      then have "k y = k x" using Cons.prems(4) True by simp
      moreover from that have "k y \<in> k ` set xs" by simp
      ultimately show False using Cons.prems(1) by simp
    qed
    with True Cons.prems(3) show ?thesis by (simp add: filter_empty_conv)
  next
    case False
    with Cons.prems(2) have r: "r \<in> set xs" by simp
    have "\<not> P x"
    proof
      assume "P x"
      then have "k x = k r" using Cons.prems(4) by simp
      moreover from r have "k r \<in> k ` set xs" by simp
      ultimately show False using Cons.prems(1) by simp
    qed
    have "distinct (map k xs)" using Cons.prems(1) by simp
    then have "filter P xs = [r]" using r Cons.prems(3,4) by (rule Cons.IH)
    with \<open>\<not> P x\<close> show ?thesis by simp
  qed
qed

end
