(* ===== verification/Validation.thy ===== *)
theory Validation
  imports Schema
begin

text \<open>
  The Joi validators of src/src/middleware/validation.ts. A request body is a record of
  optional fields (\<open>None\<close>: the key is absent, so JavaScript sees \<^verbatim>\<open>undefined\<close>);
  the JSON type of each field is the one the schema asks for. A validator returns
  \<open>Some\<close> the 400 response it sends, or \<open>None\<close> when it calls \<^verbatim>\<open>next()\<close>.
  Joi stops at the first failing key in schema order and rejects keys the schema does not
  name. The validated value Joi computes (defaults, conversions) is discarded by the
  middleware: the handlers read the raw \<^verbatim>\<open>req.body\<close>.
\<close>

record expense_body =
  eb_categoryId :: "int option"
  eb_amount :: "money option"
  eb_description :: "string option"
  eb_expenseDate :: "date option"

record budget_body =
  bb_categoryId :: "int option"
  bb_monthlyLimit :: "money option"
  bb_monthYear :: "string option"

text \<open>\<open>gb_status\<close> is the \<^verbatim>\<open>status\<close> key the goal update handler reads; the goal schema
  does not name it.\<close>

record goal_body =
  gb_title :: "string option"
  gb_targetAmount :: "money option"
  gb_currentAmount :: "money option"
  gb_targetDate :: "date option"
  gb_description :: "string option"
  gb_status :: "goal_status option"

definition required_positive :: "string \<Rightarrow> int option \<Rightarrow> api_error option" where
  "required_positive key v =
     (case v of
        None \<Rightarrow> Some (Bad_Request (''\"'' @ key @ ''\" is required''))
      | Some x \<Rightarrow> if 0 < x then None
                  else Some (Bad_Request (''\"'' @ key @ ''\" must be a positive number'')))"

text \<open>The first error of a list of checks, in schema order.\<close>

fun first_error :: "api_error option list \<Rightarrow> api_error option" where
  "first_error [] = None"
| "first_error (None # cs) = first_error cs"
| "first_error (Some e # cs) = Some e"

definition validateExpense :: "expense_body \<Rightarrow> api_error option" where
  "validateExpense b =
     first_error
       [required_positive ''categoryId'' (eb_categoryId b),
        required_positive ''amount'' (eb_amount b),
        (case eb_expenseDate b of
           None \<Rightarrow> Some (Bad_Request ''\"expenseDate\" is required'') | Some _ \<Rightarrow> None)]"

definition validateBudget :: "budget_body \<Rightarrow> api_error option" where
  "validateBudget b =
     first_error
       [required_positive ''categoryId'' (bb_categoryId b),
        required_positive ''monthlyLimit'' (bb_monthlyLimit b),
        (case bb_monthYear b of
           None \<Rightarrow> Some (Bad_Request ''\"monthYear\" is required'')
         | Some m \<Rightarrow> if budget_month_ok m then None
                     else Some (Bad_Request (''\"monthYear\" with value \"'' @ m @
                       ''\" fails to match the required pattern'')))]"

definition validateGoal :: "goal_body \<Rightarrow> api_error option" where
  "validateGoal b =
     first_error
       [(case gb_title b of
           None \<Rightarrow> Some (Bad_Request ''\"title\" is required'')
         | Some t \<Rightarrow> if 3 \<le> length t then None
                     else Some (Bad_Request ''\"title\" length must be at least 3 characters long'')),
        required_positive ''targetAmount'' (gb_targetAmount b),
        (case gb_currentAmount b of
           None \<Rightarrow> None
         | Some c \<Rightarrow> if 0 \<le> c then None
                     else Some (Bad_Request ''\"currentAmount\" must be greater than or equal to 0'')),
        (case gb_status b of
           None \<Rightarrow> None | Some _ \<Rightarrow> Some (Bad_Request ''\"status\" is not allowed''))]"

lemma first_error_None_iff [simp]: "first_error cs = None \<longleftrightarrow> (\<forall>c\<in>set cs. c = None)"
  by (induction cs rule: first_error.induct) auto

lemma required_positive_None_iff [simp]:
  "required_positive key v = None \<longleftrightarrow> (\<exists>x. v = Some x \<and> 0 < x)"
  by (auto simp: required_positive_def split: option.splits)

lemma first_error_SomeD: "first_error cs = Some e \<Longrightarrow> Some e \<in> set cs"
  by (induction cs rule: first_error.induct) auto

text \<open>Every validation error is a 400.\<close>

lemma validation_status_400:
  "validateExpense b = Some e \<Longrightarrow> status_code e = 400"
  "validateBudget bb = Some e \<Longrightarrow> status_code e = 400"
  "validateGoal gb = Some e \<Longrightarrow> status_code e = 400"
  by (auto dest!: first_error_SomeD simp: validateExpense_def validateBudget_def validateGoal_def
           required_positive_def split: option.splits if_splits)

text \<open>What a body that passes each validator carries.\<close>

lemma validateExpense_None_iff:
  "validateExpense b = None \<longleftrightarrow>
     (\<exists>c. eb_categoryId b = Some c \<and> 0 < c) \<and> (\<exists>a. eb_amount b = Some a \<and> 0 < a) \<and>
     eb_expenseDate b \<noteq> None"
  by (auto simp: validateExpense_def split: option.splits)

lemma validateBudget_None_iff:
  "validateBudget b = None \<longleftrightarrow>
     (\<exists>c. bb_categoryId b = Some c \<and> 0 < c) \<and> (\<exists>l. bb_monthlyLimit b = Some l \<and> 0 < l) \<and>
     (\<exists>m. bb_monthYear b = Some m \<and> budget_month_ok m)"
  by (auto simp: validateBudget_def split: option.splits if_splits)

lemma validateGoal_None_iff:
  "validateGoal b = None \<longleftrightarrow>
     (\<exists>t. gb_title b = Some t \<and> 3 \<le> length t) \<and> (\<exists>a. gb_targetAmount b = Some a \<and> 0 < a) \<and>
     (\<forall>c. gb_currentAmount b = Some c \<longrightarrow> 0 \<le> c) \<and> gb_status b = None"
  by (auto simp: validateGoal_def split: option.splits if_splits)

end
