(* ===== verification/Budgets.thy ===== *)
theory Budgets
  imports Validation
begin

text \<open>
  Budget rows (src/src/routes/budgets.ts) and the one statement through which the
  expense handlers change them, \<open>adjust_budget\<close>:
  \<^verbatim>\<open>UPDATE budgets SET current_spent = current_spent + ? WHERE user_id = ? AND
  category_id = ? AND month_year = ?\<close> (src/src/routes/expenses.ts). The statement with
  \<^verbatim>\<open>current_spent - ?\<close> is \<open>adjust_budget\<close> with the negated amount.
  \<open>backfill_spent\<close> is the \<^verbatim>\<open>SELECT COALESCE(SUM(amount), 0)\<close> with which a new
  budget row starts. The handlers: \<open>create_budget\<close> (\<^verbatim>\<open>POST /\<close>, an upsert on the
  unique key), \<open>update_budget\<close> (\<^verbatim>\<open>PUT /:id\<close>) and \<open>delete_budget\<close>
  (\<^verbatim>\<open>DELETE /:id\<close>). The read-only routes are in \<open>budget_overview\<close>.
\<close>

definition budget_match :: "user_id \<Rightarrow> category_id \<Rightarrow> string \<Rightarrow> budget_row \<Rightarrow> bool" where
  "budget_match u c m b \<longleftrightarrow> budget_key b = (u, c, m)"

definition adjust_budget :: "user_id \<Rightarrow> category_id \<Rightarrow> string \<Rightarrow> money \<Rightarrow> db \<Rightarrow> db" where
  "adjust_budget u c m d s =
     s\<lparr>budgets := update_where (budget_match u c m)
        (\<lambda>b. b\<lparr>bu_current_spent := bu_current_spent b + d\<rparr>) (budgets s)\<rparr>"

text \<open>\<^verbatim>\<open>WHERE user_id = ? AND category_id = ? AND DATE_FORMAT(expense_date, '%Y-%m') = ?\<close>\<close>

definition expense_in :: "user_id \<Rightarrow> category_id \<Rightarrow> string \<Rightarrow> expense_row \<Rightarrow> bool" where
  "expense_in u c m e \<longleftrightarrow>
     ex_user_id e = u \<and> ex_category_id e = c \<and> month_key (ex_expense_date e) = m"

definition backfill_spent :: "user_id \<Rightarrow> category_id \<Rightarrow> string \<Rightarrow> db \<Rightarrow> money" where
  "backfill_spent u c m s = sum_list (map ex_amount (filter (expense_in u c m) (expenses s)))"

text \<open>
  \<^verbatim>\<open>POST /api/budgets\<close>: the backfill query, then
  \<^verbatim>\<open>INSERT ... ON DUPLICATE KEY UPDATE monthly_limit = VALUES(monthly_limit)\<close>.
\<close>

definition create_budget :: "user_id \<Rightarrow> budget_body \<Rightarrow> db \<Rightarrow> unit response" where
  "create_budget uid b s =
     (case validateBudget b of
        Some err \<Rightarrow> (Inl err, s)
      | None \<Rightarrow>
          (case (bb_categoryId b, bb_monthlyLimit b, bb_monthYear b) of
             (Some ci, Some l, Some m) \<Rightarrow>
               let c = nat ci; spent = backfill_spent uid c m s in
               if list_ex (budget_match uid c m) (budgets s) then
                 (Inr (), s\<lparr>budgets := update_where (budget_match uid c m)
                            (\<lambda>r. r\<lparr>bu_monthly_limit := l\<rparr>) (budgets s)\<rparr>)
               else
                 (Inr (), s\<lparr>budgets := budgets s @
                            [\<lparr>bu_id = next_budget_id s, bu_user_id = uid, bu_category_id = c,
                              bu_monthly_limit = l, bu_current_spent = spent, bu_month_year = m\<rparr>],
                          next_budget_id := Suc (next_budget_id s)\<rparr>)
           | _ \<Rightarrow> (Inr (), s)))"

text \<open>
  \<^verbatim>\<open>PUT /api/budgets/:id\<close>: \<^verbatim>\<open>UPDATE budgets SET category_id = ?, monthly_limit = ?,
  month_year = ? WHERE id = ? AND user_id = ?\<close>, then 404 when no row matched. A new key
  that another row of the table already has is refused by the unique index
  (\<^verbatim>\<open>ER_DUP_ENTRY\<close>, a 500); when no row matches nothing is written and no such
  error can arise, so the 404 test comes first here.
\<close>

definition budget_row_of :: "user_id \<Rightarrow> nat \<Rightarrow> budget_row \<Rightarrow> bool" where
  "budget_row_of uid bid r \<longleftrightarrow> bu_id r = bid \<and> bu_user_id r = uid"

definition update_budget :: "user_id \<Rightarrow> nat \<Rightarrow> budget_body \<Rightarrow> db \<Rightarrow> unit response" where
  "update_budget uid bid b s =
     (case validateBudget b of
        Some err \<Rightarrow> (Inl err, s)
      | None \<Rightarrow>
          (case (bb_categoryId b, bb_monthlyLimit b, bb_monthYear b) of
             (Some ci, Some l, Some m) \<Rightarrow>
               let c = nat ci in
               if affected (budget_row_of uid bid) (budgets s) = 0 then
                 (Inl (Not_Found ''Budget not found''), s)
               else if list_ex (\<lambda>r. \<not> budget_row_of uid bid r \<and> budget_match uid c m r) (budgets s)
               then (Inl (Server_Error ''ER_DUP_ENTRY''), s)
               else (Inr (), s\<lparr>budgets := update_where (budget_row_of uid bid)
                       (\<lambda>r. r\<lparr>bu_category_id := c, bu_monthly_limit := l, bu_month_year := m\<rparr>)
                       (budgets s)\<rparr>)
           | _ \<Rightarrow> (Inr (), s)))"

text \<open>\<^verbatim>\<open>DELETE /api/budgets/:id\<close>\<close>

definition delete_budget :: "user_id \<Rightarrow> nat \<Rightarrow> db \<Rightarrow> unit response" where
  "delete_budget uid bid s =
     (if affected (budget_row_of uid bid) (budgets s) = 0 then (Inl (Not_Found ''Budget not found''), s)
      else (Inr (), s\<lparr>budgets := delete_where (budget_row_of uid bid) (budgets s)\<rparr>))"

declare create_budget_def [handler_defs] update_budget_def [handler_defs]
  delete_budget_def [handler_defs]

section \<open>Lemmas\<close>

lemma adjust_budget_frame [simp]:
  "expenses (adjust_budget u c m d s) = expenses s"
  "goals (adjust_budget u c m d s) = goals s"
  "users (adjust_budget u c m d s) = users s"
  "next_expense_id (adjust_budget u c m d s) = next_expense_id s"
  "next_budget_id (adjust_budget u c m d s) = next_budget_id s"
  by (simp_all add: adjust_budget_def)

lemma map_key_adjust_budget [simp]:
  "map budget_key (budgets (adjust_budget u c m d s)) = map budget_key (budgets s)"
  "map bu_id (budgets (adjust_budget u c m d s)) = map bu_id (budgets s)"
  by (simp_all add: adjust_budget_def budget_key_def map_update_where_keep)

text \<open>A row of the adjusted table is a row of the old one, moved by the delta when it
  has the key.\<close>

lemma in_adjust_budget:
  "b' \<in> set (budgets (adjust_budget u c m d s)) \<longleftrightarrow>
     (\<exists>b\<in>set (budgets s). b' = (if budget_match u c m b
                                  then b\<lparr>bu_current_spent := bu_current_spent b + d\<rparr> else b))"
  by (auto simp: adjust_budget_def update_where_def)

lemma budget_match_spent_update [simp]:
  "budget_match u c m (b\<lparr>bu_current_spent := x\<rparr>) = budget_match u c m b"
  "budget_key (b\<lparr>bu_current_spent := x\<rparr>) = budget_key b"
  by (simp_all add: budget_match_def budget_key_def)

lemma wf_adjust_budget: "wf_db s \<Longrightarrow> wf_db (adjust_budget u c m d s)"
  unfolding adjust_budget_def
  by (rule wf_db_budgets_cong) (simp_all add: budget_key_def map_update_where_keep wf_db_def)

lemma budget_row_of_unique:
  assumes "wf_db s" and "r \<in> set (budgets s)" and "budget_row_of uid bid r"
  shows "filter (budget_row_of uid bid) (budgets s) = [r]"
proof -
  from assms(1) have "distinct (map bu_id (budgets s))" by (simp add: wf_db_def)
  then show ?thesis using assms(2,3)
    by (rule filter_key_unique [where k = bu_id]) (use assms(3) in \<open>simp add: budget_row_of_def\<close>)
qed

lemma wf_create_budget: "wf_db s \<Longrightarrow> wf_db (snd (create_budget uid b s))"
proof -
  assume wf: "wf_db s"
  have upd: "wf_db (s\<lparr>budgets := update_where P (\<lambda>r. r\<lparr>bu_monthly_limit := l\<rparr>) (budgets s)\<rparr>)"
    for P l
    by (rule wf_db_budgets_cong [OF wf])
       (use wf in \<open>simp_all add: map_update_where_keep budget_key_def wf_db_def\<close>)
  have ins: "wf_db (s\<lparr>budgets := budgets s @ [r], next_budget_id := Suc (next_budget_id s)\<rparr>)"
    if "\<not> list_ex (budget_match uid c m) (budgets s)" and "bu_id r = next_budget_id s"
      and "budget_key r = (uid, c, m)" for r c m
    by (rule wf_db_budgets_insert [OF wf])
       (use that in \<open>auto simp: list_ex_iff budget_match_def\<close>)
  show ?thesis
    by (auto simp: create_budget_def Let_def wf budget_key_def intro: upd ins
             split: option.splits if_splits)
qed

lemma wf_update_budget: "wf_db s \<Longrightarrow> wf_db (snd (update_budget uid bid b s))"
proof -
  assume wf: "wf_db s"
  have step: "wf_db (s\<lparr>budgets := update_where (budget_row_of uid bid)
                (\<lambda>r. r\<lparr>bu_category_id := c, bu_monthly_limit := l, bu_month_year := m\<rparr>) (budgets s)\<rparr>)"
    if hit: "affected (budget_row_of uid bid) (budgets s) \<noteq> 0"
      and free: "\<not> list_ex (\<lambda>r. \<not> budget_row_of uid bid r \<and> budget_match uid c m r) (budgets s)"
    for c l m
  proof (rule wf_db_budgets_cong [OF wf])
    from hit obtain r where r: "r \<in> set (budgets s)" "budget_row_of uid bid r"
      by (auto simp: affected_zero_iff)
    from budget_row_of_unique [OF wf r] have one: "filter (budget_row_of uid bid) (budgets s) = [r]" .
    show "map bu_id (update_where (budget_row_of uid bid)
            (\<lambda>r. r\<lparr>bu_category_id := c, bu_monthly_limit := l, bu_month_year := m\<rparr>) (budgets s)) =
          map bu_id (budgets s)"
      by (simp add: map_update_where_keep)
    show "distinct (map budget_key (update_where (budget_row_of uid bid)
            (\<lambda>r. r\<lparr>bu_category_id := c, bu_monthly_limit := l, bu_month_year := m\<rparr>) (budgets s)))"
      by (rule distinct_update_where_one [OF _ one, where k = "(uid, c, m)"])
         (use wf free r in \<open>auto simp: wf_db_def list_ex_iff budget_match_def budget_key_def
                                        budget_row_of_def\<close>)
  qed
  show ?thesis using wf
    by (auto simp: update_budget_def Let_def intro: step split: option.splits if_splits)
qed

lemma wf_delete_budget: "wf_db s \<Longrightarrow> wf_db (snd (delete_budget uid bid s))"
  by (simp add: delete_budget_def wf_db_budgets_delete)

end
