(* ===== verification/Expenses.thy ===== *)
theory Expenses
  imports Budgets
begin

text \<open>
  The expense routes of src/src/routes/expenses.ts. Each handler runs its SQL statements
  in the order the route awaits them, with no transaction around them:
  \<^item> \<open>create_expense\<close> (\<^verbatim>\<open>POST /\<close>): insert the row, then add the amount to the
    budget of the request date's month;
  \<^item> \<open>update_expense\<close> (\<^verbatim>\<open>PUT /:id\<close>): read the old row (404 if it is not the
    caller's), update it, then either move the budget of the unchanged key by the
    difference, or take the old amount off the old key and add the new one to the new key;
  \<^item> \<open>delete_expense\<close> (\<^verbatim>\<open>DELETE /:id\<close>): read the row (404), delete it, take its
    amount off its budget.
  The old row's month is \<open>month_of_row tz\<close> of its stored date; the request's month is
  \<open>month_of_request\<close> of the body's date (theory \<open>Dates\<close>).
  \<open>list_limit\<close> and \<open>list_offset\<close> are the paging parameters of \<^verbatim>\<open>GET /\<close>.
\<close>

definition expense_row_of :: "user_id \<Rightarrow> nat \<Rightarrow> expense_row \<Rightarrow> bool" where
  "expense_row_of uid eid e \<longleftrightarrow> ex_id e = eid \<and> ex_user_id e = uid"

definition create_expense :: "user_id \<Rightarrow> expense_body \<Rightarrow> db \<Rightarrow> nat response" where
  "create_expense uid b s =
     (case validateExpense b of
        Some err \<Rightarrow> (Inl err, s)
      | None \<Rightarrow>
          (case (eb_categoryId b, eb_amount b, eb_expenseDate b) of
             (Some ci, Some a, Some d) \<Rightarrow>
               (case eb_description b of
                  None \<Rightarrow> (Inl bind_undefined_error, s)
                | Some desc \<Rightarrow>
                    let c = nat ci; eid = next_expense_id s;
                        s1 = s\<lparr>expenses := expenses s @
                                 [\<lparr>ex_id = eid, ex_user_id = uid, ex_category_id = c, ex_amount = a,
                                   ex_description = desc, ex_expense_date = d\<rparr>],
                               next_expense_id := Suc eid\<rparr>
                    in (Inr eid, adjust_budget uid c (month_of_request d) a s1))
           | _ \<Rightarrow> (Inl bind_undefined_error, s)))"

definition update_expense :: "int \<Rightarrow> user_id \<Rightarrow> nat \<Rightarrow> expense_body \<Rightarrow> db \<Rightarrow> unit response" where
  "update_expense tz uid eid b s =
     (case validateExpense b of
        Some err \<Rightarrow> (Inl err, s)
      | None \<Rightarrow>
          (case (eb_categoryId b, eb_amount b, eb_expenseDate b) of
             (Some ci, Some a, Some d) \<Rightarrow>
               (case select_where (expense_row_of uid eid) (expenses s) of
                  [] \<Rightarrow> (Inl (Not_Found ''Expense not found''), s)
                | old # _ \<Rightarrow>
                    (case eb_description b of
                       None \<Rightarrow> (Inl bind_undefined_error, s)
                     | Some desc \<Rightarrow>
                         let c = nat ci;
                             s1 = s\<lparr>expenses := update_where (expense_row_of uid eid)
                                    (\<lambda>e. e\<lparr>ex_category_id := c, ex_amount := a,
                                           ex_description := desc, ex_expense_date := d\<rparr>)
                                    (expenses s)\<rparr>;
                             old_month = month_of_row tz (ex_expense_date old);
                             new_month = month_of_request d
                         in if old_month = new_month \<and> ex_category_id old = c
                            then (Inr (), adjust_budget uid c new_month (a - ex_amount old) s1)
                            else (Inr (), adjust_budget uid c new_month a
                                   (adjust_budget uid (ex_category_id old) old_month
                                      (- ex_amount old) s1))))
           | _ \<Rightarrow> (Inl bind_undefined_error, s)))"

definition delete_expense :: "int \<Rightarrow> user_id \<Rightarrow> nat \<Rightarrow> db \<Rightarrow> unit response" where
  "delete_expense tz uid eid s =
     (case select_where (expense_row_of uid eid) (expenses s) of
        [] \<Rightarrow> (Inl (Not_Found ''Expense not found''), s)
      | old # _ \<Rightarrow>
          let s1 = s\<lparr>expenses := delete_where (expense_row_of uid eid) (expenses s)\<rparr>
          in (Inr (), adjust_budget uid (ex_category_id old) (month_of_row tz (ex_expense_date old))
                        (- ex_amount old) s1))"

declare create_expense_def [handler_defs] update_expense_def [handler_defs]
  delete_expense_def [handler_defs]

text \<open>
  \<^verbatim>\<open>parseInt(x) || d\<close>: \<open>parseInt\<close> gives an integer or \<^verbatim>\<open>NaN\<close> (\<open>None\<close>),
  and \<^verbatim>\<open>||\<close> replaces both \<^verbatim>\<open>NaN\<close> and \<open>0\<close> by the default.
\<close>

definition parse_int_or :: "int option \<Rightarrow> int \<Rightarrow> int" where
  "parse_int_or p d = (case p of None \<Rightarrow> d | Some n \<Rightarrow> if n = 0 then d else n)"

definition list_limit :: "int option \<Rightarrow> int" where
  "list_limit p = max 1 (min 1000 (parse_int_or p 50))"

definition list_offset :: "int option \<Rightarrow> int" where
  "list_offset p = max 0 (parse_int_or p 0)"

section \<open>Lemmas\<close>

lemma expense_row_of_update [simp]:
  "expense_row_of uid eid (e\<lparr>ex_category_id := c, ex_amount := a, ex_description := x,
                              ex_expense_date := d\<rparr>) = expense_row_of uid eid e"
  by (simp add: expense_row_of_def)

text \<open>Among distinct ids, the caller's row with a given id is the only one selected.\<close>

lemma select_expense_unique:
  assumes "distinct (map ex_id (expenses s))" and "select_where (expense_row_of uid eid) (expenses s) = old # rest"
  shows "filter (expense_row_of uid eid) (expenses s) = [old]"
proof -
  from select_where_ConsD [OF assms(2)]
  have old: "old \<in> set (expenses s)" "expense_row_of uid eid old" by simp_all
  show ?thesis
    using assms(1) old by (rule filter_key_unique [where k = ex_id]) (use old in \<open>simp add: expense_row_of_def\<close>)
qed

lemma select_expense_Cons:
  "select_where (expense_row_of uid eid) (expenses s) = old # rest \<Longrightarrow>
     old \<in> set (expenses s) \<and> ex_id old = eid \<and> ex_user_id old = uid"
  by (drule select_where_ConsD) (simp add: expense_row_of_def)

text \<open>
  What each handler does to the store: nothing, or the one statement sequence of its
  success path. The invariant proofs of all components start from these.
\<close>

lemma create_expense_cases:
  "snd (create_expense uid b s) = s \<or>
   (\<exists>e. ex_id e = next_expense_id s \<and> ex_user_id e = uid \<and> 0 < ex_amount e \<and>
        snd (create_expense uid b s) =
          adjust_budget uid (ex_category_id e) (month_key (ex_expense_date e)) (ex_amount e)
            (s\<lparr>expenses := expenses s @ [e], next_expense_id := Suc (next_expense_id s)\<rparr>))"
proof (cases "validateExpense b = None \<and> eb_description b \<noteq> None")
  case True
  then obtain ci a d desc where
    f: "eb_categoryId b = Some ci" "eb_amount b = Some a" "eb_expenseDate b = Some d"
       "eb_description b = Some desc" "0 < a"
    by (auto simp: validateExpense_None_iff)
  let ?e = "\<lparr>ex_id = next_expense_id s, ex_user_id = uid, ex_category_id = nat ci, ex_amount = a,
             ex_description = desc, ex_expense_date = d\<rparr>"
  show ?thesis
    by (rule disjI2, rule exI [of _ ?e]) (use True f in \<open>simp add: create_expense_def Let_def\<close>)
next
  case False
  then show ?thesis
    by (auto simp: create_expense_def validateExpense_None_iff split: option.splits)
qed

lemma delete_expense_cases:
  "snd (delete_expense tz uid eid s) = s \<or>
   (\<exists>old rest. select_where (expense_row_of uid eid) (expenses s) = old # rest \<and>
     snd (delete_expense tz uid eid s) =
       adjust_budget uid (ex_category_id old) (month_of_row tz (ex_expense_date old)) (- ex_amount old)
         (s\<lparr>expenses := delete_where (expense_row_of uid eid) (expenses s)\<rparr>))"
  by (auto simp: delete_expense_def Let_def split: list.splits)

lemma update_expense_cases:
  "snd (update_expense tz uid eid b s) = s \<or>
   (\<exists>old rest g. select_where (expense_row_of uid eid) (expenses s) = old # rest \<and>
     (\<forall>e. ex_id (g e) = ex_id e \<and> ex_user_id (g e) = ex_user_id e) \<and>
     (let s1 = s\<lparr>expenses := update_where (expense_row_of uid eid) g (expenses s)\<rparr>;
          om = month_of_row tz (ex_expense_date old); nm = month_key (ex_expense_date (g old))
      in if om = nm \<and> ex_category_id old = ex_category_id (g old)
         then snd (update_expense tz uid eid b s) =
                adjust_budget uid (ex_category_id (g old)) nm (ex_amount (g old) - ex_amount old) s1
         else snd (update_expense tz uid eid b s) =
                adjust_budget uid (ex_category_id (g old)) nm (ex_amount (g old))
                  (adjust_budget uid (ex_category_id old) om (- ex_amount old) s1)))"
proof (cases "validateExpense b = None \<and> eb_description b \<noteq> None \<and>
              select_where (expense_row_of uid eid) (expenses s) \<noteq> []")
  case True
  then obtain ci a d desc old rest where
    f: "eb_categoryId b = Some ci" "eb_amount b = Some a" "eb_expenseDate b = Some d"
       "eb_description b = Some desc" "select_where (expense_row_of uid eid) (expenses s) = old # rest"
    by (auto simp: validateExpense_None_iff neq_Nil_conv)
  let ?g = "\<lambda>e. e\<lparr>ex_category_id := nat ci, ex_amount := a, ex_description := desc,
                  ex_expense_date := d\<rparr>"
  show ?thesis
    by (rule disjI2, rule exI [of _ old], rule exI [of _ rest], rule exI [of _ ?g])
       (use True f in \<open>simp add: update_expense_def Let_def\<close>)
next
  case False
  then show ?thesis
    by (auto simp: update_expense_def validateExpense_None_iff split: option.splits list.splits)
qed

section \<open>Well-formedness\<close>

lemma wf_insert_expense:
  assumes wf: "wf_db s" and eid: "ex_id e = next_expense_id s"
  shows "wf_db (s\<lparr>expenses := expenses s @ [e], next_expense_id := Suc (next_expense_id s)\<rparr>)"
proof (rule wf_db_expenses_cong [OF wf])
  have "ex_id e \<notin> set (map ex_id (expenses s))" using wf eid by (auto simp: wf_db_def)
  then show "distinct (map ex_id (expenses s @ [e]))" using wf by (simp add: wf_db_def)
  show "\<forall>x\<in>set (expenses s @ [e]). ex_id x < Suc (next_expense_id s)"
    using wf eid by (auto simp: wf_db_def)
qed simp

lemma wf_create_expense: "wf_db s \<Longrightarrow> wf_db (snd (create_expense uid b s))"
  using create_expense_cases [of uid b s]
  by (auto intro!: wf_adjust_budget wf_insert_expense)

lemma wf_delete_where_expenses: "wf_db s \<Longrightarrow> wf_db (s\<lparr>expenses := delete_where P (expenses s)\<rparr>)"
  using wf_db_expenses_cong [of s "delete_where P (expenses s)" "next_expense_id s"]
  by (simp add: wf_db_def delete_where_def distinct_map_filter)

lemma wf_delete_expense: "wf_db s \<Longrightarrow> wf_db (snd (delete_expense tz uid eid s))"
  using delete_expense_cases [of tz uid eid s]
  by (auto intro!: wf_adjust_budget wf_delete_where_expenses)

lemma wf_update_expense: "wf_db s \<Longrightarrow> wf_db (snd (update_expense tz uid eid b s))"
proof -
  assume wf: "wf_db s"
  have keep: "wf_db (s\<lparr>expenses := update_where P g (expenses s)\<rparr>)"
    if "\<forall>e. ex_id (g e) = ex_id e" for P g
  proof -
    have "map ex_id (update_where P g (expenses s)) = map ex_id (expenses s)"
      using that by (simp add: map_update_where_keep)
    moreover have "set (update_where P g (expenses s)) \<subseteq> {g e |e. e \<in> set (expenses s)} \<union> set (expenses s)"
      by (auto simp: update_where_def)
    ultimately show ?thesis
      using wf that wf_db_expenses_cong [of s "update_where P g (expenses s)" "next_expense_id s"]
      by (auto simp: wf_db_def)
  qed
  show ?thesis
    using update_expense_cases [of tz uid eid b s] wf
    by (auto simp: Let_def intro!: wf_adjust_budget keep split: if_splits)
qed

end
