(* ===== verification/Ledger.thy ===== *)
theory Ledger
  imports Expenses
begin

text \<open>
  The reconciliation invariant of the spec (section 3): every budget row's cached
  \<^verbatim>\<open>current_spent\<close> equals the sum of the amounts of the caller's expenses in its
  category and month, which is what \<open>backfill_spent\<close> computes afresh.
  The proofs go through one abstraction: a handler \<^emph>\<open>shifts\<close> the store by a delta per
  budget key when it moves every fresh sum and every budget row with that key by the same
  delta. \<open>adjust_budget\<close> shifts the rows by one key's delta; inserting, deleting or
  updating one expense row shifts the sums by its amounts. The invariant survives every
  shift (\<open>ledger_inv_shift\<close>), so each handler needs only its two deltas to agree.
\<close>

definition ledger_inv :: "db \<Rightarrow> bool" where
  "ledger_inv s \<longleftrightarrow>
     (\<forall>b\<in>set (budgets s).
        bu_current_spent b = backfill_spent (bu_user_id b) (bu_category_id b) (bu_month_year b) s)"

type_synonym key_delta = "user_id \<Rightarrow> category_id \<Rightarrow> string \<Rightarrow> money"

definition budgets_shift :: "key_delta \<Rightarrow> budget_row list \<Rightarrow> budget_row list" where
  "budgets_shift \<Delta> bs =
     map (\<lambda>b. b\<lparr>bu_current_spent :=
                 bu_current_spent b + \<Delta> (bu_user_id b) (bu_category_id b) (bu_month_year b)\<rparr>) bs"

definition at_key :: "user_id \<Rightarrow> category_id \<Rightarrow> string \<Rightarrow> money \<Rightarrow> key_delta" where
  "at_key u c m d = (\<lambda>u' c' m'. if u' = u \<and> c' = c \<and> m' = m then d else 0)"

section \<open>Shifts\<close>

lemma budgets_adjust_budget:
  "budgets (adjust_budget u c m d s) = budgets_shift (at_key u c m d) (budgets s)"
  by (auto simp: adjust_budget_def update_where_def budgets_shift_def at_key_def
                 budget_match_def budget_key_def)

lemma budgets_shift_shift:
  "budgets_shift \<Delta>2 (budgets_shift \<Delta>1 bs) = budgets_shift (\<lambda>u c m. \<Delta>1 u c m + \<Delta>2 u c m) bs"
  by (simp add: budgets_shift_def algebra_simps)

lemma backfill_spent_cong:
  "expenses s' = expenses s \<Longrightarrow> backfill_spent u c m s' = backfill_spent u c m s"
  by (simp add: backfill_spent_def)

lemma expense_in_iff:
  "expense_in u c m e \<longleftrightarrow>
     ex_user_id e = u \<and> ex_category_id e = c \<and> month_key (ex_expense_date e) = m"
  by (simp add: expense_in_def)

lemma ledger_inv_shift:
  assumes inv: "ledger_inv s"
    and rows: "budgets s' = budgets_shift \<Delta> (budgets s)"
    and sums: "\<And>u c m. backfill_spent u c m s' = backfill_spent u c m s + \<Delta> u c m"
  shows "ledger_inv s'"
  unfolding ledger_inv_def
proof
  fix b' assume "b' \<in> set (budgets s')"
  then obtain b where b: "b \<in> set (budgets s)"
    and b': "b' = b\<lparr>bu_current_spent :=
                     bu_current_spent b + \<Delta> (bu_user_id b) (bu_category_id b) (bu_month_year b)\<rparr>"
    by (auto simp: rows budgets_shift_def)
  from inv b have "bu_current_spent b = backfill_spent (bu_user_id b) (bu_category_id b) (bu_month_year b) s"
    by (simp add: ledger_inv_def)
  with b' sums show "bu_current_spent b' =
      backfill_spent (bu_user_id b') (bu_category_id b') (bu_month_year b') s'"
    by simp
qed

section \<open>One expense row in, out, or changed\<close>

lemma ledger_inv_insert:
  assumes "ledger_inv s"
  shows "ledger_inv (adjust_budget (ex_user_id e) (ex_category_id e) (month_key (ex_expense_date e))
                       (ex_amount e) (s\<lparr>expenses := expenses s @ [e], next_expense_id := n\<rparr>))"
  by (rule ledger_inv_shift [OF assms,
        where \<Delta> = "at_key (ex_user_id e) (ex_category_id e) (month_key (ex_expense_date e)) (ex_amount e)"])
     (auto simp: budgets_adjust_budget backfill_spent_def at_key_def expense_in_iff)

lemma ledger_inv_delete:
  assumes "ledger_inv s" and uniq: "filter Q (expenses s) = [old]"
  shows "ledger_inv (adjust_budget (ex_user_id old) (ex_category_id old)
                       (month_key (ex_expense_date old)) (- ex_amount old)
                       (s\<lparr>expenses := delete_where Q (expenses s)\<rparr>))"
  by (rule ledger_inv_shift [OF assms(1),
        where \<Delta> = "at_key (ex_user_id old) (ex_category_id old) (month_key (ex_expense_date old))
                       (- ex_amount old)"])
     (auto simp: budgets_adjust_budget backfill_spent_def sum_filter_delete_unique [OF uniq]
                 at_key_def expense_in_iff)

text \<open>An updated row keeps its owner; its key and amount may change. Either the two keys
  are equal and one adjustment moves the difference, or two adjustments move the amounts.\<close>

lemma ledger_inv_update_same_key:
  assumes "ledger_inv s" and uniq: "filter Q (expenses s) = [old]"
    and same: "ex_user_id (g old) = ex_user_id old" "ex_category_id (g old) = ex_category_id old"
      "month_key (ex_expense_date (g old)) = month_key (ex_expense_date old)"
  shows "ledger_inv (adjust_budget (ex_user_id old) (ex_category_id old)
                       (month_key (ex_expense_date old)) (ex_amount (g old) - ex_amount old)
                       (s\<lparr>expenses := update_where Q g (expenses s)\<rparr>))"
  by (rule ledger_inv_shift [OF assms(1),
        where \<Delta> = "at_key (ex_user_id old) (ex_category_id old) (month_key (ex_expense_date old))
                       (ex_amount (g old) - ex_amount old)"])
     (auto simp: budgets_adjust_budget backfill_spent_def sum_filter_update_unique [OF uniq]
                 at_key_def expense_in_iff same)

lemma ledger_inv_update_move:
  assumes "ledger_inv s" and uniq: "filter Q (expenses s) = [old]"
    and owner: "ex_user_id (g old) = ex_user_id old"
  shows "ledger_inv (adjust_budget (ex_user_id old) (ex_category_id (g old))
                       (month_key (ex_expense_date (g old))) (ex_amount (g old))
                       (adjust_budget (ex_user_id old) (ex_category_id old)
                          (month_key (ex_expense_date old)) (- ex_amount old)
                          (s\<lparr>expenses := update_where Q g (expenses s)\<rparr>)))"
  by (rule ledger_inv_shift [OF assms(1),
        where \<Delta> = "\<lambda>u c m.
          at_key (ex_user_id old) (ex_category_id old) (month_key (ex_expense_date old))
            (- ex_amount old) u c m +
          at_key (ex_user_id old) (ex_category_id (g old)) (month_key (ex_expense_date (g old)))
            (ex_amount (g old)) u c m"])
     (auto simp: budgets_adjust_budget budgets_shift_shift backfill_spent_def
                 sum_filter_update_unique [OF uniq] at_key_def expense_in_iff owner)

section \<open>The expense handlers keep the ledger\<close>

lemma ledger_create_expense:
  assumes inv: "ledger_inv s"
  shows "ledger_inv (snd (create_expense uid b s))"
  using create_expense_cases [of uid b s]
proof
  assume "snd (create_expense uid b s) = s"
  with inv show ?thesis by simp
next
  assume "\<exists>e. ex_id e = next_expense_id s \<and> ex_user_id e = uid \<and> 0 < ex_amount e \<and>
        snd (create_expense uid b s) =
          adjust_budget uid (ex_category_id e) (month_key (ex_expense_date e)) (ex_amount e)
            (s\<lparr>expenses := expenses s @ [e], next_expense_id := Suc (next_expense_id s)\<rparr>)"
  then obtain e where "ex_user_id e = uid" and
    "snd (create_expense uid b s) =
       adjust_budget uid (ex_category_id e) (month_key (ex_expense_date e)) (ex_amount e)
         (s\<lparr>expenses := expenses s @ [e], next_expense_id := Suc (next_expense_id s)\<rparr>)"
    by blast
  with ledger_inv_insert [OF inv, of e "Suc (next_expense_id s)"] show ?thesis by simp
qed

lemma ledger_delete_expense:
  assumes tz: "tz \<le> 0" and wf: "wf_db s" and inv: "ledger_inv s"
  shows "ledger_inv (snd (delete_expense tz uid eid s))"
  using delete_expense_cases [of tz uid eid s]
proof
  assume "snd (delete_expense tz uid eid s) = s"
  with inv show ?thesis by simp
next
  assume "\<exists>old rest. select_where (expense_row_of uid eid) (expenses s) = old # rest \<and>
     snd (delete_expense tz uid eid s) =
       adjust_budget uid (ex_category_id old) (month_of_row tz (ex_expense_date old)) (- ex_amount old)
         (s\<lparr>expenses := delete_where (expense_row_of uid eid) (expenses s)\<rparr>)"
  then obtain old rest where sel: "select_where (expense_row_of uid eid) (expenses s) = old # rest"
    and res: "snd (delete_expense tz uid eid s) =
       adjust_budget uid (ex_category_id old) (month_of_row tz (ex_expense_date old)) (- ex_amount old)
         (s\<lparr>expenses := delete_where (expense_row_of uid eid) (expenses s)\<rparr>)"
    by blast
  from wf have "distinct (map ex_id (expenses s))" by (simp add: wf_db_def)
  from select_expense_unique [OF this sel] have "filter (expense_row_of uid eid) (expenses s) = [old]" .
  from ledger_inv_delete [OF inv this] select_expense_Cons [OF sel] tz res show ?thesis by simp
qed

lemma ledger_update_expense:
  assumes tz: "tz \<le> 0" and wf: "wf_db s" and inv: "ledger_inv s"
  shows "ledger_inv (snd (update_expense tz uid eid b s))"
  using update_expense_cases [of tz uid eid b s]
proof (elim disjE exE conjE)
  assume "snd (update_expense tz uid eid b s) = s"
  with inv show ?thesis by simp
next
  fix old rest g
  assume sel: "select_where (expense_row_of uid eid) (expenses s) = old # rest"
    and g: "\<forall>e. ex_id (g e) = ex_id e \<and> ex_user_id (g e) = ex_user_id e"
    and res: "let s1 = s\<lparr>expenses := update_where (expense_row_of uid eid) g (expenses s)\<rparr>;
          om = month_of_row tz (ex_expense_date old); nm = month_key (ex_expense_date (g old))
      in if om = nm \<and> ex_category_id old = ex_category_id (g old)
         then snd (update_expense tz uid eid b s) =
                adjust_budget uid (ex_category_id (g old)) nm (ex_amount (g old) - ex_amount old) s1
         else snd (update_expense tz uid eid b s) =
                adjust_budget uid (ex_category_id (g old)) nm (ex_amount (g old))
                  (adjust_budget uid (ex_category_id old) om (- ex_amount old) s1)"
  from wf have "distinct (map ex_id (expenses s))" by (simp add: wf_db_def)
  from select_expense_unique [OF this sel]
  have uniq: "filter (expense_row_of uid eid) (expenses s) = [old]" .
  have owner: "ex_user_id old = uid" and own_g: "ex_user_id (g old) = ex_user_id old"
    using select_expense_Cons [OF sel] g by simp_all
  show ?thesis
  proof (cases "month_key (ex_expense_date old) = month_key (ex_expense_date (g old)) \<and>
                ex_category_id old = ex_category_id (g old)")
    case True
    with ledger_inv_update_same_key [OF inv uniq, where g = g] own_g res tz owner show ?thesis
      by (simp add: Let_def)
  next
    case False
    with ledger_inv_update_move [OF inv uniq, where g = g] own_g res tz owner show ?thesis
      by (simp add: Let_def)
  qed
qed

section \<open>The budget handlers keep the ledger\<close>

lemma ledger_create_budget:
  assumes inv: "ledger_inv s"
  shows "ledger_inv (snd (create_budget uid b s))"
proof -
  have upd: "ledger_inv (s\<lparr>budgets := update_where P (\<lambda>r. r\<lparr>bu_monthly_limit := l\<rparr>) (budgets s)\<rparr>)"
    for P l
    using inv by (auto simp: ledger_inv_def backfill_spent_def update_where_def)
  have ins: "ledger_inv (s\<lparr>budgets := budgets s @ [r], next_budget_id := n\<rparr>)"
    if "bu_current_spent r = backfill_spent (bu_user_id r) (bu_category_id r) (bu_month_year r) s"
    for r n
    using inv that by (auto simp: ledger_inv_def backfill_spent_def)
  show ?thesis
    using inv by (auto simp: create_budget_def Let_def intro: upd ins split: option.splits)
qed

lemma ledger_delete_budget: "ledger_inv s \<Longrightarrow> ledger_inv (snd (delete_budget uid bid s))"
  by (auto simp: delete_budget_def ledger_inv_def backfill_spent_def)

end
