(* ===== verification/Goals.thy ===== *)
theory Goals
  imports Validation
begin

text \<open>
  The savings-goal routes of src/src/routes/goals.ts:
  \<^item> \<open>create_goal\<close> (\<^verbatim>\<open>POST /\<close>): insert a goal; its status is the column default
    \<^verbatim>\<open>'active'\<close>;
  \<^item> \<open>update_goal\<close> (\<^verbatim>\<open>PUT /:id\<close>): overwrite every field, the status with
    \<^verbatim>\<open>status || 'active'\<close>, then 404 when no row matched;
  \<^item> \<open>goal_progress\<close> (\<^verbatim>\<open>PATCH /:id/progress\<close>): the one automatic transition:
    add the amount, and set the status to completed when the target is reached, to active
    otherwise;
  \<^item> \<open>delete_goal\<close> (\<^verbatim>\<open>DELETE /:id\<close>).
  Both writers go through \<^verbatim>\<open>validateGoal\<close>, whose schema has no \<^verbatim>\<open>status\<close> key, so
  a body that names a status never reaches \<open>update_goal\<close>'s statement.
\<close>

definition goal_row_of :: "user_id \<Rightarrow> nat \<Rightarrow> goal_row \<Rightarrow> bool" where
  "goal_row_of uid gid g \<longleftrightarrow> go_id g = gid \<and> go_user_id g = uid"

text \<open>\<^verbatim>\<open>const { title, targetAmount, currentAmount = 0, targetDate, description } = req.body\<close>;
  \<open>targetDate\<close> and \<open>description\<close> are optional in the schema but bound as parameters.\<close>

definition create_goal :: "user_id \<Rightarrow> goal_body \<Rightarrow> db \<Rightarrow> nat response" where
  "create_goal uid b s =
     (case validateGoal b of
        Some err \<Rightarrow> (Inl err, s)
      | None \<Rightarrow>
          (case (gb_title b, gb_targetAmount b, gb_targetDate b, gb_description b) of
             (Some t, Some ta, Some td, Some desc) \<Rightarrow>
               let gid = next_goal_id s;
                   ca = (case gb_currentAmount b of None \<Rightarrow> 0 | Some c \<Rightarrow> c)
               in (Inr gid,
                   s\<lparr>goals := goals s @
                        [\<lparr>go_id = gid, go_user_id = uid, go_title = t, go_target_amount = ta,
                          go_current_amount = ca, go_target_date = td, go_description = desc,
                          go_status = Active\<rparr>],
                     next_goal_id := Suc gid\<rparr>)
           | _ \<Rightarrow> (Inl bind_undefined_error, s)))"

definition update_goal :: "user_id \<Rightarrow> nat \<Rightarrow> goal_body \<Rightarrow> db \<Rightarrow> unit response" where
  "update_goal uid gid b s =
     (case validateGoal b of
        Some err \<Rightarrow> (Inl err, s)
      | None \<Rightarrow>
          (case (gb_title b, gb_targetAmount b, gb_currentAmount b, gb_targetDate b, gb_description b) of
             (Some t, Some ta, Some ca, Some td, Some desc) \<Rightarrow>
               let st = (case gb_status b of None \<Rightarrow> Active | Some x \<Rightarrow> x) in
               if affected (goal_row_of uid gid) (goals s) = 0
               then (Inl (Not_Found ''Goal not found''), s)
               else (Inr (), s\<lparr>goals := update_where (goal_row_of uid gid)
                       (\<lambda>g. g\<lparr>go_title := t, go_target_amount := ta, go_current_amount := ca,
                              go_target_date := td, go_description := desc, go_status := st\<rparr>)
                       (goals s)\<rparr>)
           | _ \<Rightarrow> (Inl bind_undefined_error, s)))"

text \<open>The response of \<^verbatim>\<open>PATCH /:id/progress\<close>: \<open>newAmount\<close> and \<open>status\<close>.\<close>

definition goal_progress :: "user_id \<Rightarrow> nat \<Rightarrow> money option \<Rightarrow> db \<Rightarrow> (money \<times> goal_status) response" where
  "goal_progress uid gid amount s =
     (case amount of
        None \<Rightarrow> (Inl (Bad_Request ''Valid amount is required''), s)
      | Some a \<Rightarrow>
          if a = 0 \<or> a \<le> 0 then (Inl (Bad_Request ''Valid amount is required''), s)
          else (case select_where (goal_row_of uid gid) (goals s) of
                  [] \<Rightarrow> (Inl (Not_Found ''Goal not found''), s)
                | g # _ \<Rightarrow>
                    let new_amount = go_current_amount g + a;
                        new_status = (if go_target_amount g \<le> new_amount then Completed else Active)
                    in (Inr (new_amount, new_status),
                        s\<lparr>goals := update_where (goal_row_of uid gid)
                             (\<lambda>r. r\<lparr>go_current_amount := new_amount, go_status := new_status\<rparr>)
                             (goals s)\<rparr>)))"

definition delete_goal :: "user_id \<Rightarrow> nat \<Rightarrow> db \<Rightarrow> unit response" where
  "delete_goal uid gid s =
     (if affected (goal_row_of uid gid) (goals s) = 0 then (Inl (Not_Found ''Goal not found''), s)
      else (Inr (), s\<lparr>goals := delete_where (goal_row_of uid gid) (goals s)\<rparr>))"

declare create_goal_def [handler_defs] update_goal_def [handler_defs]
  goal_progress_def [handler_defs] delete_goal_def [handler_defs]

section \<open>Lemmas\<close>

lemma goal_row_of_update [simp]:
  "goal_row_of uid gid (g\<lparr>go_current_amount := x, go_status := y\<rparr>) = goal_row_of uid gid g"
  "goal_row_of uid gid (g\<lparr>go_title := t, go_target_amount := ta, go_current_amount := ca,
     go_target_date := td, go_description := desc, go_status := st\<rparr>) = goal_row_of uid gid g"
  by (simp_all add: goal_row_of_def)

lemma wf_goals_keep_ids:
  assumes "wf_db s" and "\<forall>g. go_id (f g) = go_id g"
  shows "wf_db (s\<lparr>goals := update_where P f (goals s)\<rparr>)"
proof -
  have ids: "map go_id (update_where P f (goals s)) = map go_id (goals s)"
    using assms(2) by (simp add: map_update_where_keep)
  then have "\<forall>g\<in>set (update_where P f (goals s)). go_id g < next_goal_id s"
    by (rule ball_map_eq) (use assms(1) in \<open>simp add: wf_db_def\<close>)
  with wf_db_goals_cong [OF assms(1), of "update_where P f (goals s)" "next_goal_id s"] ids assms(1)
  show ?thesis by (simp add: wf_db_def)
qed

lemma wf_insert_goal:
  assumes "wf_db s" and "go_id g = next_goal_id s"
  shows "wf_db (s\<lparr>goals := goals s @ [g], next_goal_id := Suc (next_goal_id s)\<rparr>)"
  using assms by (auto simp: wf_db_def)

lemma wf_create_goal: "wf_db s \<Longrightarrow> wf_db (snd (create_goal uid b s))"
  by (auto simp: create_goal_def Let_def intro!: wf_insert_goal split: option.splits)

lemma wf_update_goal: "wf_db s \<Longrightarrow> wf_db (snd (update_goal uid gid b s))"
  by (auto simp: update_goal_def Let_def intro!: wf_goals_keep_ids split: option.splits)

lemma wf_goal_progress: "wf_db s \<Longrightarrow> wf_db (snd (goal_progress uid gid a s))"
  by (auto simp: goal_progress_def Let_def intro!: wf_goals_keep_ids split: option.splits list.splits)

lemma wf_delete_goal: "wf_db s \<Longrightarrow> wf_db (snd (delete_goal uid gid s))"
  by (auto simp: delete_goal_def wf_db_def delete_where_def distinct_map_filter)

section \<open>The goal-status invariant\<close>

text \<open>No goal is paused, and a completed goal has reached its target.\<close>

definition goal_inv :: "db \<Rightarrow> bool" where
  "goal_inv s \<longleftrightarrow>
     (\<forall>g\<in>set (goals s). go_status g \<noteq> Paused \<and>
        (go_status g = Completed \<longrightarrow> go_target_amount g \<le> go_current_amount g))"

lemma goal_inv_update_where:
  assumes "goal_inv s"
    and "\<And>g. g \<in> set (goals s) \<Longrightarrow> P g \<Longrightarrow> go_status (f g) \<noteq> Paused \<and>
            (go_status (f g) = Completed \<longrightarrow> go_target_amount (f g) \<le> go_current_amount (f g))"
  shows "goal_inv (s\<lparr>goals := update_where P f (goals s)\<rparr>)"
  using assms by (auto simp: goal_inv_def update_where_def)

lemma goal_inv_create_goal: "goal_inv s \<Longrightarrow> goal_inv (snd (create_goal uid b s))"
  by (auto simp: create_goal_def goal_inv_def Let_def split: option.splits)

lemma goal_inv_update_goal: "goal_inv s \<Longrightarrow> goal_inv (snd (update_goal uid gid b s))"
  by (auto simp: update_goal_def Let_def validateGoal_None_iff intro!: goal_inv_update_where
           split: option.splits)

text \<open>The row the progress handler reads is the only row it writes, since goal ids are
  distinct.\<close>

lemma select_goal_only:
  assumes "wf_db s" and "select_where (goal_row_of uid gid) (goals s) = g # rest"
    and "r \<in> set (goals s)" and "goal_row_of uid gid r"
  shows "r = g"
proof -
  from select_where_ConsD [OF assms(2)] have g: "g \<in> set (goals s)" "goal_row_of uid gid g" by simp_all
  from assms(1) have "distinct (map go_id (goals s))" by (simp add: wf_db_def)
  then have "filter (goal_row_of uid gid) (goals s) = [g]" using g
    by (rule filter_key_unique [where k = go_id]) (use g in \<open>simp add: goal_row_of_def\<close>)
  moreover from assms(3,4) have "r \<in> set (filter (goal_row_of uid gid) (goals s))" by simp
  ultimately show ?thesis by simp
qed

lemma goal_inv_goal_progress:
  assumes wf: "wf_db s" and inv: "goal_inv s"
  shows "goal_inv (snd (goal_progress uid gid a s))"
proof (cases "\<exists>x. a = Some x \<and> 0 < x \<and> select_where (goal_row_of uid gid) (goals s) \<noteq> []")
  case True
  then obtain x g rest where a: "a = Some x" "0 < x"
    and sel: "select_where (goal_row_of uid gid) (goals s) = g # rest"
    by (auto simp: neq_Nil_conv)
  let ?n = "go_current_amount g + x"
  have "goal_inv (s\<lparr>goals := update_where (goal_row_of uid gid)
          (\<lambda>r. r\<lparr>go_current_amount := ?n,
                  go_status := (if go_target_amount g \<le> ?n then Completed else Active)\<rparr>)
          (goals s)\<rparr>)"
  proof (rule goal_inv_update_where [OF inv])
    fix r assume "r \<in> set (goals s)" "goal_row_of uid gid r"
    then have "r = g" by (rule select_goal_only [OF wf sel])
    then show "go_status (r\<lparr>go_current_amount := ?n,
                  go_status := (if go_target_amount g \<le> ?n then Completed else Active)\<rparr>) \<noteq> Paused \<and>
        (go_status (r\<lparr>go_current_amount := ?n,
                  go_status := (if go_target_amount g \<le> ?n then Completed else Active)\<rparr>) = Completed \<longrightarrow>
         go_target_amount (r\<lparr>go_current_amount := ?n,
                  go_status := (if go_target_amount g \<le> ?n then Completed else Active)\<rparr>) \<le>
         go_current_amount (r\<lparr>go_current_amount := ?n,
                  go_status := (if go_target_amount g \<le> ?n then Completed else Active)\<rparr>))"
      by simp
  qed
  with a sel show ?thesis by (simp add: goal_progress_def Let_def)
next
  case False
  then have "\<forall>x. a = Some x \<longrightarrow> 0 < x \<longrightarrow> select_where (goal_row_of uid gid) (goals s) = []"
    by auto
  then have "snd (goal_progress uid gid a s) = s"
    by (auto simp: goal_progress_def split: option.splits list.splits)
  with inv show ?thesis by simp
qed

lemma goal_inv_delete_goal: "goal_inv s \<Longrightarrow> goal_inv (snd (delete_goal uid gid s))"
  by (auto simp: delete_goal_def goal_inv_def)

end
