(* ===== verification/Auth.thy ===== *)
theory Auth
  imports Validation
begin

text \<open>
  Accounts, e-mail verification by one-time code, login and password reset:
  src/src/services/authService.ts (the class \<^verbatim>\<open>AuthService\<close>), the routes of
  src/src/routes/auth.ts that call it, and the two Joi validators
  \<^verbatim>\<open>validateRegistration\<close> and \<^verbatim>\<open>validateLogin\<close> of src/src/middleware/validation.ts.

  What the service takes from its environment is an explicit argument, an \<open>auth_env\<close>:
  the clock \<^verbatim>\<open>Date.now()\<close> in milliseconds, the draw \<^verbatim>\<open>Math.random() * 900000\<close>
  rounded down (the code is \<open>generate_otp\<close> of it), whether the SMTP call succeeded, and
  the verdict of Joi's e-mail rule on the body's e-mail (a library rule with a table of
  top-level domains, not code of this repository). bcrypt is the pair
  \<open>bcrypt_hash\<close>/\<open>bcrypt_compare\<close>: \<^verbatim>\<open>bcrypt.compare(p, h)\<close> holds exactly when
  \<open>h\<close> was hashed from \<open>p\<close>, whatever the salt, which is all the service relies on.
  A JWT is its payload \<^verbatim>\<open>{id, email}\<close> and its expiry. Every error the service throws
  reaches the client as a 400 (each route sets \<^verbatim>\<open>error.statusCode = 400\<close>).
  Request fields are options (\<open>None\<close>: absent); a route's \<^verbatim>\<open>!field\<close> test is
  \<open>falsy\<close>, true of an absent field and of the empty string.
\<close>

record auth_env =
  env_now :: nat
  env_rand :: nat
  env_mail_ok :: bool
  env_email_ok :: bool

record jwt =
  tok_id :: nat
  tok_email :: string
  tok_expires :: nat

record register_body =
  rb_email :: "string option"
  rb_password :: "string option"
  rb_firstName :: "string option"
  rb_lastName :: "string option"

record login_body =
  lb_email :: "string option"
  lb_password :: "string option"

text \<open>\<^verbatim>\<open>Math.floor(100000 + Math.random() * 900000).toString()\<close>, for the draw
  \<open>r = floor(Math.random() * 900000)\<close>.\<close>

definition generate_otp :: "nat \<Rightarrow> string" where
  "generate_otp r = pad 6 (100000 + r mod 900000)"

text \<open>\<^verbatim>\<open>jwt.sign({id, email}, secret, {expiresIn: '24h'})\<close>: \<^verbatim>\<open>exp\<close> is in seconds.\<close>

definition generate_jwt :: "nat \<Rightarrow> nat \<Rightarrow> string \<Rightarrow> jwt" where
  "generate_jwt now uid email = \<lparr>tok_id = uid, tok_email = email, tok_expires = now div 1000 + 86400\<rparr>"

definition bcrypt_hash :: "string \<Rightarrow> string" where
  "bcrypt_hash p = ''$2a$12$'' @ p"

definition bcrypt_compare :: "string \<Rightarrow> string \<Rightarrow> bool" where
  "bcrypt_compare p h \<longleftrightarrow> h = bcrypt_hash p"

text \<open>The OTP lifetime: \<^verbatim>\<open>10 * 60 * 1000\<close> ms.\<close>

definition otp_lifetime :: nat where
  "otp_lifetime = 600000"

definition falsy :: "string option \<Rightarrow> bool" where
  "falsy v \<longleftrightarrow> v = None \<or> v = Some []"

section \<open>Validators\<close>

text \<open>\<^verbatim>\<open>Joi.string().min(n).required()\<close>; Joi refuses the empty string before the length.\<close>

definition joi_string_min :: "string \<Rightarrow> nat \<Rightarrow> string option \<Rightarrow> api_error option" where
  "joi_string_min key n v =
     (case v of
        None \<Rightarrow> Some (Bad_Request (''\"'' @ key @ ''\" is required''))
      | Some x \<Rightarrow>
          if x = [] then Some (Bad_Request (''\"'' @ key @ ''\" is not allowed to be empty''))
          else if length x < n
          then Some (Bad_Request (''\"'' @ key @ ''\" length must be at least '' @ pad 1 n @
                                  '' characters long''))
          else None)"

definition joi_email :: "bool \<Rightarrow> string option \<Rightarrow> api_error option" where
  "joi_email email_ok v =
     (case joi_string_min ''email'' 0 v of
        Some err \<Rightarrow> Some err
      | None \<Rightarrow> if email_ok then None else Some (Bad_Request ''\"email\" must be a valid email''))"

definition validateRegistration :: "bool \<Rightarrow> register_body \<Rightarrow> api_error option" where
  "validateRegistration email_ok b =
     first_error
       [joi_email email_ok (rb_email b),
        joi_string_min ''password'' 6 (rb_password b),
        joi_string_min ''firstName'' 2 (rb_firstName b),
        joi_string_min ''lastName'' 2 (rb_lastName b)]"

definition validateLogin :: "bool \<Rightarrow> login_body \<Rightarrow> api_error option" where
  "validateLogin email_ok b =
     first_error [joi_email email_ok (lb_email b), joi_string_min ''password'' 0 (lb_password b)]"

section \<open>Shared statements and checks\<close>

definition user_by_email :: "string \<Rightarrow> user_row \<Rightarrow> bool" where
  "user_by_email e u \<longleftrightarrow> us_email u = e"

definition set_otp :: "string \<Rightarrow> string \<Rightarrow> nat \<Rightarrow> db \<Rightarrow> db" where
  "set_otp e code exp s =
     s\<lparr>users := update_where (user_by_email e)
                 (\<lambda>u. u\<lparr>us_otp_code := Some code, us_otp_expires_at := Some exp\<rparr>) (users s)\<rparr>"

text \<open>The OTP check shared by \<^verbatim>\<open>verifyOTP\<close> and \<^verbatim>\<open>resetPassword\<close>: the code is set,
  equal to the one given, and \<^verbatim>\<open>new Date() > new Date(otp_expires_at)\<close> is false
  (\<^verbatim>\<open>new Date(null)\<close> is the epoch).\<close>

definition check_otp :: "nat \<Rightarrow> string \<Rightarrow> user_row \<Rightarrow> api_error option" where
  "check_otp now otp u =
     (if falsy (us_otp_code u) \<or> us_otp_code u \<noteq> Some otp then Some (Bad_Request ''Invalid OTP'')
      else if (case us_otp_expires_at u of None \<Rightarrow> 0 | Some t \<Rightarrow> t) < now
      then Some (Bad_Request ''OTP has expired'')
      else None)"

section \<open>The service: src/src/services/authService.ts\<close>

text \<open>\<^verbatim>\<open>register\<close>: refuse a known e-mail, insert the unverified user with a fresh
  code, then send the code; a failed send is thrown after the insert.\<close>

definition register :: "auth_env \<Rightarrow> string \<Rightarrow> string \<Rightarrow> string \<Rightarrow> string \<Rightarrow> db \<Rightarrow> unit response" where
  "register env e p f l s =
     (if select_where (user_by_email e) (users s) \<noteq> []
      then (Inl (Bad_Request ''User already exists with this email''), s)
      else
        let uid = next_user_id s;
            s1 = s\<lparr>users := users s @
                   [\<lparr>us_id = uid, us_email = e, us_password = bcrypt_hash p,
                     us_first_name = f, us_last_name = l, us_is_verified = False,
                     us_otp_code = Some (generate_otp (env_rand env)),
                     us_otp_expires_at = Some (env_now env + otp_lifetime)\<rparr>],
                 next_user_id := Suc uid\<rparr>
        in if env_mail_ok env then (Inr (), s1)
           else (Inl (Bad_Request ''Failed to send verification email''), s1))"

text \<open>\<^verbatim>\<open>verifyOTP\<close>: check the code of the first row of the e-mail, mark every row of
  the e-mail verified with its code cleared, and return a token for that first row.\<close>

definition verifyOTP :: "nat \<Rightarrow> string \<Rightarrow> string \<Rightarrow> db \<Rightarrow> jwt response" where
  "verifyOTP now e otp s =
     (case select_where (user_by_email e) (users s) of
        [] \<Rightarrow> (Inl (Bad_Request ''User not found''), s)
      | u # _ \<Rightarrow>
          (case check_otp now otp u of
             Some err \<Rightarrow> (Inl err, s)
           | None \<Rightarrow>
               (Inr (generate_jwt now (us_id u) e),
                s\<lparr>users := update_where (user_by_email e)
                    (\<lambda>r. r\<lparr>us_is_verified := True, us_otp_code := None,
                           us_otp_expires_at := None\<rparr>) (users s)\<rparr>)))"

text \<open>\<^verbatim>\<open>login\<close>: the token and the public fields of the user; no write.\<close>

definition login :: "nat \<Rightarrow> string \<Rightarrow> string \<Rightarrow> db \<Rightarrow> (jwt \<times> user_row) response" where
  "login now e p s =
     (case select_where (user_by_email e) (users s) of
        [] \<Rightarrow> (Inl (Bad_Request ''Invalid email or password''), s)
      | u # _ \<Rightarrow>
          if \<not> us_is_verified u
          then (Inl (Bad_Request ''Please verify your email before logging in''), s)
          else if \<not> bcrypt_compare p (us_password u)
          then (Inl (Bad_Request ''Invalid email or password''), s)
          else (Inr (generate_jwt now (us_id u) (us_email u), u), s))"

text \<open>\<^verbatim>\<open>resendOTP\<close>: a new code for an unverified e-mail. No route of
  src/src/routes/auth.ts calls it.\<close>

definition resendOTP :: "auth_env \<Rightarrow> string \<Rightarrow> db \<Rightarrow> unit response" where
  "resendOTP env e s =
     (if select_where (\<lambda>u. user_by_email e u \<and> \<not> us_is_verified u) (users s) = []
      then (Inl (Bad_Request ''User not found or already verified''), s)
      else
        let s1 = set_otp e (generate_otp (env_rand env)) (env_now env + otp_lifetime) s in
        if env_mail_ok env then (Inr (), s1)
        else (Inl (Bad_Request ''Failed to send verification email''), s1))"

text \<open>\<^verbatim>\<open>requestPasswordReset\<close>: a new code for a verified e-mail.\<close>

definition requestPasswordReset :: "auth_env \<Rightarrow> string \<Rightarrow> db \<Rightarrow> unit response" where
  "requestPasswordReset env e s =
     (if select_where (\<lambda>u. user_by_email e u \<and> us_is_verified u) (users s) = []
      then (Inl (Bad_Request ''User not found or email not verified''), s)
      else
        let s1 = set_otp e (generate_otp (env_rand env)) (env_now env + otp_lifetime) s in
        if env_mail_ok env then (Inr (), s1)
        else (Inl (Bad_Request ''Failed to send password reset email''), s1))"

text \<open>\<^verbatim>\<open>resetPassword\<close>: check the code as \<^verbatim>\<open>verifyOTP\<close> does, store the new hash
  and clear the code. \<^verbatim>\<open>is_verified\<close> is neither read nor written.\<close>

definition resetPassword :: "nat \<Rightarrow> string \<Rightarrow> string \<Rightarrow> string \<Rightarrow> db \<Rightarrow> unit response" where
  "resetPassword now e otp p s =
     (case select_where (user_by_email e) (users s) of
        [] \<Rightarrow> (Inl (Bad_Request ''User not found''), s)
      | u # _ \<Rightarrow>
          (case check_otp now otp u of
             Some err \<Rightarrow> (Inl err, s)
           | None \<Rightarrow>
               (Inr (), s\<lparr>users := update_where (user_by_email e)
                  (\<lambda>r. r\<lparr>us_password := bcrypt_hash p, us_otp_code := None,
                         us_otp_expires_at := None\<rparr>) (users s)\<rparr>)))"

section \<open>The routes: src/src/routes/auth.ts\<close>

text \<open>Each route runs its validator or its \<^verbatim>\<open>!field\<close> test and then the service; an
  error the service throws is already the 400 the route's \<^verbatim>\<open>catch\<close> sends.\<close>

definition register_route :: "auth_env \<Rightarrow> register_body \<Rightarrow> db \<Rightarrow> unit response" where
  "register_route env b s =
     (case validateRegistration (env_email_ok env) b of
        Some err \<Rightarrow> (Inl err, s)
      | None \<Rightarrow> register env (the (rb_email b)) (the (rb_password b)) (the (rb_firstName b))
                 (the (rb_lastName b)) s)"

definition verify_otp_route :: "nat \<Rightarrow> string option \<Rightarrow> string option \<Rightarrow> db \<Rightarrow> jwt response" where
  "verify_otp_route now email otp s =
     (if falsy email \<or> falsy otp then (Inl (Bad_Request ''Email and OTP are required''), s)
      else verifyOTP now (the email) (the otp) s)"

definition login_route :: "nat \<Rightarrow> bool \<Rightarrow> login_body \<Rightarrow> db \<Rightarrow> (jwt \<times> user_row) response" where
  "login_route now email_ok b s =
     (case validateLogin email_ok b of
        Some err \<Rightarrow> (Inl err, s)
      | None \<Rightarrow> login now (the (lb_email b)) (the (lb_password b)) s)"

definition forgot_password_route :: "auth_env \<Rightarrow> string option \<Rightarrow> db \<Rightarrow> unit response" where
  "forgot_password_route env email s =
     (if falsy email then (Inl (Bad_Request ''Email is required''), s)
      else requestPasswordReset env (the email) s)"

definition reset_password_route ::
  "nat \<Rightarrow> string option \<Rightarrow> string option \<Rightarrow> string option \<Rightarrow> db \<Rightarrow> unit response" where
  "reset_password_route now email otp new_password s =
     (if falsy email \<or> falsy otp \<or> falsy new_password
      then (Inl (Bad_Request ''Email, OTP, and new password are required''), s)
      else resetPassword now (the email) (the otp) (the new_password) s)"

declare register_def [handler_defs] verifyOTP_def [handler_defs] login_def [handler_defs]
  resendOTP_def [handler_defs] requestPasswordReset_def [handler_defs]
  resetPassword_def [handler_defs] register_route_def [handler_defs]
  verify_otp_route_def [handler_defs] login_route_def [handler_defs]
  forgot_password_route_def [handler_defs] reset_password_route_def [handler_defs]

section \<open>Lemmas\<close>

lemma generate_otp_digits:
  "length (generate_otp r) = 6 \<and> list_all is_digit (generate_otp r) \<and>
   digits_val (generate_otp r) = 100000 + r mod 900000"
  by (simp add: generate_otp_def del: pad_numeral)

lemma generate_otp_ne [simp]: "generate_otp r \<noteq> []"
  using generate_otp_digits [of r] by auto

lemma map_update_users_keep [simp]:
  "map us_id (update_where P (\<lambda>u. u\<lparr>us_otp_code := c, us_otp_expires_at := t\<rparr>) us) = map us_id us"
  "map us_email (update_where P (\<lambda>u. u\<lparr>us_otp_code := c, us_otp_expires_at := t\<rparr>) us) = map us_email us"
  "map us_id (update_where P (\<lambda>u. u\<lparr>us_is_verified := v, us_otp_code := c, us_otp_expires_at := t\<rparr>) us) = map us_id us"
  "map us_email (update_where P (\<lambda>u. u\<lparr>us_is_verified := v, us_otp_code := c, us_otp_expires_at := t\<rparr>) us) = map us_email us"
  "map us_id (update_where P (\<lambda>u. u\<lparr>us_password := h, us_otp_code := c, us_otp_expires_at := t\<rparr>) us) = map us_id us"
  "map us_email (update_where P (\<lambda>u. u\<lparr>us_password := h, us_otp_code := c, us_otp_expires_at := t\<rparr>) us) = map us_email us"
  by (simp_all add: map_update_where_keep)

text \<open>The service writes the users table and its counter only, and \<^verbatim>\<open>login\<close> writes
  nothing.\<close>

lemma auth_service_frame [simp]:
  "expenses (snd (register env e p f l s)) = expenses s \<and> budgets (snd (register env e p f l s)) = budgets s \<and>
   goals (snd (register env e p f l s)) = goals s"
  "expenses (snd (verifyOTP now e c s)) = expenses s \<and> budgets (snd (verifyOTP now e c s)) = budgets s \<and>
   goals (snd (verifyOTP now e c s)) = goals s"
  "expenses (snd (resendOTP env e s)) = expenses s \<and> budgets (snd (resendOTP env e s)) = budgets s \<and>
   goals (snd (resendOTP env e s)) = goals s"
  "expenses (snd (requestPasswordReset env e s)) = expenses s \<and>
   budgets (snd (requestPasswordReset env e s)) = budgets s \<and> goals (snd (requestPasswordReset env e s)) = goals s"
  "expenses (snd (resetPassword now e c p s)) = expenses s \<and>
   budgets (snd (resetPassword now e c p s)) = budgets s \<and> goals (snd (resetPassword now e c p s)) = goals s"
  by (simp_all add: register_def verifyOTP_def resendOTP_def requestPasswordReset_def
                    resetPassword_def set_otp_def Let_def split: option.split list.split)

lemma login_no_write [simp]: "snd (login now e p s) = s"
  by (simp add: login_def split: list.split)

text \<open>A route leaves the store as it was or as its service call leaves it.\<close>

lemma route_stores:
  "snd (register_route env b s) = s \<or> (\<exists>e p f l. snd (register_route env b s) = snd (register env e p f l s))"
  "snd (verify_otp_route now em c s) = s \<or> (\<exists>e c'. snd (verify_otp_route now em c s) = snd (verifyOTP now e c' s))"
  "snd (login_route now ok lb s) = s"
  "snd (forgot_password_route env em s) = s \<or>
     (\<exists>e. snd (forgot_password_route env em s) = snd (requestPasswordReset env e s))"
  "snd (reset_password_route now em c pw s) = s \<or>
     (\<exists>e c' p. snd (reset_password_route now em c pw s) = snd (resetPassword now e c' p s))"
  by (auto simp: register_route_def verify_otp_route_def login_route_def forgot_password_route_def
                 reset_password_route_def split: option.split)

lemma wf_register: "wf_db s \<Longrightarrow> wf_db (snd (register env e p f l s))"
  by (auto simp: register_def Let_def select_where_empty_iff user_by_email_def
           intro!: wf_db_users_insert)

lemma wf_verifyOTP: "wf_db s \<Longrightarrow> wf_db (snd (verifyOTP now e c s))"
  by (auto simp: verifyOTP_def intro!: wf_db_users_cong split: option.split list.split)

lemma wf_set_otp: "wf_db s \<Longrightarrow> wf_db (set_otp e c t s)"
  by (simp add: set_otp_def wf_db_users_cong)

lemma wf_resendOTP: "wf_db s \<Longrightarrow> wf_db (snd (resendOTP env e s))"
  by (simp add: resendOTP_def Let_def wf_set_otp)

lemma wf_requestPasswordReset: "wf_db s \<Longrightarrow> wf_db (snd (requestPasswordReset env e s))"
  by (simp add: requestPasswordReset_def Let_def wf_set_otp)

lemma wf_resetPassword: "wf_db s \<Longrightarrow> wf_db (snd (resetPassword now e c p s))"
  by (auto simp: resetPassword_def intro!: wf_db_users_cong split: option.split list.split)

lemma check_otp_None_iff:
  "check_otp now c u = None \<longleftrightarrow>
     c \<noteq> [] \<and> us_otp_code u = Some c \<and> now \<le> (case us_otp_expires_at u of None \<Rightarrow> 0 | Some t \<Rightarrow> t)"
  by (auto simp: check_otp_def falsy_def)

lemma verifyOTP_success:
  assumes "verifyOTP now e c s = (Inr tok, s')"
  obtains u rest where "select_where (user_by_email e) (users s) = u # rest"
    "check_otp now c u = None" "tok = generate_jwt now (us_id u) e"
    "s' = s\<lparr>users := update_where (user_by_email e)
             (\<lambda>r. r\<lparr>us_is_verified := True, us_otp_code := None, us_otp_expires_at := None\<rparr>)
             (users s)\<rparr>"
  using assms by (auto simp: verifyOTP_def split: list.splits option.splits)

lemma register_success:
  assumes "register env e p f l s = (Inr (), s1)"
  shows "select_where (user_by_email e) (users s) = [] \<and> env_mail_ok env \<and>
    s1 = s\<lparr>users := users s @
            [\<lparr>us_id = next_user_id s, us_email = e, us_password = bcrypt_hash p,
              us_first_name = f, us_last_name = l, us_is_verified = False,
              us_otp_code = Some (generate_otp (env_rand env)),
              us_otp_expires_at = Some (env_now env + otp_lifetime)\<rparr>],
          next_user_id := Suc (next_user_id s)\<rparr>"
  using assms by (auto simp: register_def Let_def split: if_splits)

text \<open>What a body that passes each validator carries.\<close>

lemma validateRegistration_None_iff:
  "validateRegistration ok b = None \<longleftrightarrow>
     ok \<and> (\<exists>e. rb_email b = Some e \<and> e \<noteq> []) \<and> (\<exists>p. rb_password b = Some p \<and> 6 \<le> length p) \<and>
     (\<exists>f. rb_firstName b = Some f \<and> 2 \<le> length f) \<and> (\<exists>l. rb_lastName b = Some l \<and> 2 \<le> length l)"
  by (auto simp: validateRegistration_def joi_email_def joi_string_min_def split: option.splits if_splits)

lemma validateLogin_None_iff:
  "validateLogin ok b = None \<longleftrightarrow>
     ok \<and> (\<exists>e. lb_email b = Some e \<and> e \<noteq> []) \<and> (\<exists>p. lb_password b = Some p \<and> p \<noteq> [])"
  by (auto simp: validateLogin_def joi_email_def joi_string_min_def split: option.splits if_splits)

text \<open>How each service call changes the users table: not at all, by appending a row of a
  new e-mail, or by one \<^verbatim>\<open>UPDATE ... WHERE email = ?\<close>.\<close>

lemma register_users:
  "users (snd (register env e p f l s)) = users s \<or>
   (select_where (user_by_email e) (users s) = [] \<and>
    (\<exists>new. us_email new = e \<and> users (snd (register env e p f l s)) = users s @ [new]))"
  by (auto simp: register_def Let_def)

lemma verifyOTP_users:
  "users (snd (verifyOTP now e c s)) = users s \<or>
   users (snd (verifyOTP now e c s)) = update_where (user_by_email e)
     (\<lambda>r. r\<lparr>us_is_verified := True, us_otp_code := None, us_otp_expires_at := None\<rparr>) (users s)"
  by (auto simp: verifyOTP_def split: list.split option.split)

lemma resetPassword_users:
  "users (snd (resetPassword now e c p s)) = users s \<or>
   users (snd (resetPassword now e c p s)) = update_where (user_by_email e)
     (\<lambda>r. r\<lparr>us_password := bcrypt_hash p, us_otp_code := None, us_otp_expires_at := None\<rparr>) (users s)"
  by (auto simp: resetPassword_def split: list.split option.split)

lemma requestPasswordReset_users:
  "users (snd (requestPasswordReset env e s)) = users s \<or>
   (select_where (\<lambda>u. user_by_email e u \<and> us_is_verified u) (users s) \<noteq> [] \<and>
    users (snd (requestPasswordReset env e s)) = update_where (user_by_email e)
     (\<lambda>u. u\<lparr>us_otp_code := Some (generate_otp (env_rand env)),
            us_otp_expires_at := Some (env_now env + otp_lifetime)\<rparr>) (users s))"
  by (auto simp: requestPasswordReset_def set_otp_def Let_def)

text \<open>The service never gives an unverified user a new code: a row of that user's e-mail
  keeps its code or has it cleared. E-mails are unique in a well-formed store.\<close>

lemma row_of_update_where:
  assumes "u' \<in> set (update_where (user_by_email e) g (users s))" and "\<And>r. us_email (g r) = us_email r"
    and "wf_db s" and "u \<in> set (users s)" and "us_email u' = us_email u"
  shows "u' = (if us_email u = e then g u else u)"
proof -
  from in_update_whereD [OF assms(1)] obtain r where r: "r \<in> set (users s)"
    and u': "u' = (if user_by_email e r then g r else r)" by blast
  with assms(2,5) have "us_email r = us_email u" by (auto split: if_splits)
  with assms(3,4) r have "r = u" by (rule wf_email_unique)
  with u' show ?thesis by (simp add: user_by_email_def)
qed

lemma unverified_code_kept:
  assumes wf: "wf_db s" and u: "u \<in> set (users s)" "\<not> us_is_verified u"
    and u': "us_email u' = us_email u"
  shows "u' \<in> set (users (snd (register env e p f l s))) \<Longrightarrow> us_otp_code u' = us_otp_code u"
    and "u' \<in> set (users (snd (verifyOTP now e c s))) \<Longrightarrow> us_otp_code u' \<in> {us_otp_code u, None}"
    and "u' \<in> set (users (snd (requestPasswordReset env e s))) \<Longrightarrow> us_otp_code u' = us_otp_code u"
    and "u' \<in> set (users (snd (resetPassword now e c p s))) \<Longrightarrow> us_otp_code u' \<in> {us_otp_code u, None}"
proof -
  have same: "u' = u" if "u' \<in> set (users s)" using wf_email_unique [OF wf u(1) that u'] .
  show "us_otp_code u' = us_otp_code u" if mem: "u' \<in> set (users (snd (register env e p f l s)))"
  proof -
    from register_users [of env e p f l s] have "u' \<in> set (users s)"
    proof
      assume "select_where (user_by_email e) (users s) = [] \<and>
        (\<exists>new. us_email new = e \<and> users (snd (register env e p f l s)) = users s @ [new])"
      then obtain new where none: "\<forall>r\<in>set (users s). us_email r \<noteq> e" and "us_email new = e"
        and eq: "users (snd (register env e p f l s)) = users s @ [new]"
        by (auto simp: select_where_empty_iff user_by_email_def)
      with u(1) u' have "u' \<noteq> new" by auto
      with mem eq show ?thesis by simp
    qed (use mem in simp)
    then show ?thesis using same by simp
  qed
  show "us_otp_code u' \<in> {us_otp_code u, None}" if "u' \<in> set (users (snd (verifyOTP now e c s)))"
    using verifyOTP_users [of now e c s] that same row_of_update_where [OF _ _ wf u(1) u']
    by (cases "us_email u = e") fastforce+
  show "us_otp_code u' \<in> {us_otp_code u, None}" if "u' \<in> set (users (snd (resetPassword now e c p s)))"
    using resetPassword_users [of now e c p s] that same row_of_update_where [OF _ _ wf u(1) u']
    by (cases "us_email u = e") fastforce+
  show "us_otp_code u' = us_otp_code u" if mem: "u' \<in> set (users (snd (requestPasswordReset env e s)))"
  proof (cases "users (snd (requestPasswordReset env e s)) = users s")
    case True
    with mem same show ?thesis by simp
  next
    case False
    with requestPasswordReset_users [of env e s] obtain v vs where
      sel: "select_where (\<lambda>u. user_by_email e u \<and> us_is_verified u) (users s) = v # vs"
      and eq: "users (snd (requestPasswordReset env e s)) = update_where (user_by_email e)
     (\<lambda>u. u\<lparr>us_otp_code := Some (generate_otp (env_rand env)),
            us_otp_expires_at := Some (env_now env + otp_lifetime)\<rparr>) (users s)"
      by (auto simp: neq_Nil_conv)
    from select_where_ConsD [OF sel] have v: "v \<in> set (users s)" "us_email v = e" "us_is_verified v"
      by (simp_all add: user_by_email_def)
    have "us_email u \<noteq> e"
    proof
      assume "us_email u = e"
      with v wf u(1) have "v = u" by (intro wf_email_unique) simp_all
      with v u(2) show False by simp
    qed
    have "u' = u"
      using row_of_update_where [OF mem [unfolded eq] _ wf u(1) u'] \<open>us_email u \<noteq> e\<close> by simp
    then show ?thesis by simp
  qed
qed

text \<open>The equations that evaluate the service on concrete stores.\<close>

lemmas auth_eval = validateLogin_def validateRegistration_def joi_email_def joi_string_min_def
  user_by_email_def check_otp_def falsy_def bcrypt_compare_def otp_lifetime_def generate_jwt_def
  set_otp_def Let_def

end
