(* ===== verification/Reports.thy ===== *)
theory Reports
  imports Complex_Main Expenses Goals "HOL-Library.List_Lexorder" "HOL-Library.Char_ord"
begin

text \<open>
  The read routes: \<^verbatim>\<open>GET /\<close>, \<^verbatim>\<open>GET /:id\<close> and the summaries of
  src/src/routes/expenses.ts, src/src/routes/budgets.ts and src/src/routes/goals.ts. Each
  is one or two \<^verbatim>\<open>SELECT\<close> statements and writes nothing, so each is a function of the
  store that returns the rows the route sends.
  \<^item> \<^verbatim>\<open>JOIN categories c ON x.category_id = c.id\<close> is \<open>join_categories\<close>: one result
    row per matching category row; a row whose category is missing is dropped.
  \<^item> \<^verbatim>\<open>ORDER BY\<close> is \<open>sort_by\<close> with the comparator of the clause. \<^verbatim>\<open>created_at\<close>
    is not a column of the model: rows are inserted in id order, so \<^verbatim>\<open>created_at DESC\<close>
    is ordered by descending id. Names are ordered by their character codes (a binary
    collation).
  \<^item> Query-string parameters are options; a date parameter is \<open>Some\<close> when
    \<^verbatim>\<open>Date.parse\<close> accepts it, an integer when \<^verbatim>\<open>parseInt\<close> gives a number.
  \<^item> \<^verbatim>\<open>CURDATE()\<close> is the argument \<open>today\<close>; \<^verbatim>\<open>new Date()\<close> is the argument
    \<open>now\<close>, a UTC instant.
  Averages (\<^verbatim>\<open>AVG(amount)\<close>) and the percentage column are MySQL \<^verbatim>\<open>DECIMAL\<close>
  quotients, rounded to a scale the server's settings fix (\<^verbatim>\<open>div_precision_increment\<close>):
  the percentage is the argument \<open>dec_pct\<close>, the value the server computes for
  \<^verbatim>\<open>(current_spent / monthly_limit) * 100\<close>, and the average is left out.
\<close>

definition join_categories :: "('r \<Rightarrow> category_id) \<Rightarrow> 'r list \<Rightarrow> db \<Rightarrow> ('r \<times> category_row) list" where
  "join_categories cat rows s = [(r, c). r \<leftarrow> rows, c \<leftarrow> categories s, cat_id c = cat r]"

section \<open>Expenses: src/src/routes/expenses.ts\<close>

record expense_query =
  eq_startDate :: "date option"
  eq_endDate :: "date option"
  eq_categoryId :: "int option"
  eq_limit :: "int option"
  eq_offset :: "int option"

text \<open>The \<^verbatim>\<open>WHERE\<close> clause \<^verbatim>\<open>GET /\<close> builds from the query string.\<close>

definition expense_filter :: "user_id \<Rightarrow> expense_query \<Rightarrow> expense_row \<Rightarrow> bool" where
  "expense_filter uid q e \<longleftrightarrow>
     ex_user_id e = uid \<and>
     (case eq_startDate q of None \<Rightarrow> True | Some d \<Rightarrow> date_key d \<le> date_key (ex_expense_date e)) \<and>
     (case eq_endDate q of None \<Rightarrow> True | Some d \<Rightarrow> date_key (ex_expense_date e) \<le> date_key d) \<and>
     (case eq_categoryId q of None \<Rightarrow> True | Some c \<Rightarrow> int (ex_category_id e) = c)"

text \<open>\<^verbatim>\<open>ORDER BY e.expense_date DESC, e.created_at DESC\<close>\<close>

definition newest_first :: "expense_row \<times> 'c \<Rightarrow> expense_row \<times> 'c \<Rightarrow> bool" where
  "newest_first x y \<longleftrightarrow>
     (date_key (ex_expense_date (fst y)), ex_id (fst y)) \<le> (date_key (ex_expense_date (fst x)), ex_id (fst x))"

definition list_expenses :: "user_id \<Rightarrow> expense_query \<Rightarrow> db \<Rightarrow> (expense_row \<times> category_row) list" where
  "list_expenses uid q s =
     take (nat (list_limit (eq_limit q)))
       (drop (nat (list_offset (eq_offset q)))
          (sort_by newest_first
             (join_categories ex_category_id (filter (expense_filter uid q) (expenses s)) s)))"

definition get_expense :: "user_id \<Rightarrow> nat \<Rightarrow> db \<Rightarrow> api_error + expense_row \<times> category_row" where
  "get_expense uid eid s =
     (case join_categories ex_category_id (select_where (expense_row_of uid eid) (expenses s)) s of
        [] \<Rightarrow> Inl (Not_Found ''Expense not found'')
      | r # _ \<Rightarrow> Inr r)"

text \<open>\<^verbatim>\<open>GET /stats/summary?period=\<close>: \<^verbatim>\<open>week\<close>, \<^verbatim>\<open>month\<close> (the default) and
  \<^verbatim>\<open>year\<close> filter on \<^verbatim>\<open>DATE_SUB(CURDATE(), ...)\<close>; any other value filters nothing.\<close>

definition period_start :: "string option \<Rightarrow> date \<Rightarrow> date option" where
  "period_start period today =
     (let p = (case period of None \<Rightarrow> ''month'' | Some x \<Rightarrow> x) in
      if p = ''week'' then Some (sub_days 7 today)
      else if p = ''month'' then Some (sub_months 1 today)
      else if p = ''year'' then Some (sub_months 12 today)
      else None)"

definition in_period :: "user_id \<Rightarrow> date option \<Rightarrow> expense_row \<Rightarrow> bool" where
  "in_period uid start e \<longleftrightarrow>
     ex_user_id e = uid \<and>
     (case start of None \<Rightarrow> True | Some d \<Rightarrow> date_key d \<le> date_key (ex_expense_date e))"

record expense_summary =
  es_total_expenses :: nat
  es_total_amount :: money

record category_stat =
  cs_category :: "category_id \<times> string \<times> string"
  cs_expense_count :: nat
  cs_total_amount :: money

text \<open>\<^verbatim>\<open>GROUP BY c.id, c.name, c.color\<close>.\<close>

definition category_group :: "category_row \<Rightarrow> category_id \<times> string \<times> string" where
  "category_group c = (cat_id c, cat_name c, cat_color c)"

definition category_stats :: "(expense_row \<times> category_row) list \<Rightarrow> category_stat list" where
  "category_stats rows =
     sort_by (\<lambda>x y. cs_total_amount y \<le> cs_total_amount x)
       (map (\<lambda>k. let grp = filter (\<lambda>r. category_group (snd r) = k) rows in
                   \<lparr>cs_category = k, cs_expense_count = length grp,
                    cs_total_amount = sum_list (map (ex_amount \<circ> fst) grp)\<rparr>)
            (remdups (map (category_group \<circ> snd) rows)))"

definition expense_stats ::
  "user_id \<Rightarrow> string option \<Rightarrow> date \<Rightarrow> db \<Rightarrow> expense_summary \<times> category_stat list" where
  "expense_stats uid period today s =
     (let rows = filter (in_period uid (period_start period today)) (expenses s) in
      (\<lparr>es_total_expenses = length rows, es_total_amount = sum_list (map ex_amount rows)\<rparr>,
       category_stats (join_categories ex_category_id rows s)))"

section \<open>Budgets: src/src/routes/budgets.ts\<close>

text \<open>\<^verbatim>\<open>ORDER BY b.month_year DESC, c.name ASC\<close>\<close>

definition month_then_name :: "budget_row \<times> category_row \<Rightarrow> budget_row \<times> category_row \<Rightarrow> bool" where
  "month_then_name x y \<longleftrightarrow>
     bu_month_year (fst y) < bu_month_year (fst x) \<or>
     (bu_month_year (fst y) = bu_month_year (fst x) \<and> cat_name (snd x) \<le> cat_name (snd y))"

definition list_budgets :: "user_id \<Rightarrow> string option \<Rightarrow> db \<Rightarrow> (budget_row \<times> category_row) list" where
  "list_budgets uid month s =
     sort_by month_then_name
       (join_categories bu_category_id
          (filter (\<lambda>b. bu_user_id b = uid \<and>
                       (case month of None \<Rightarrow> True | Some m \<Rightarrow> m = [] \<or> bu_month_year b = m))
             (budgets s)) s)"

definition get_budget :: "user_id \<Rightarrow> nat \<Rightarrow> db \<Rightarrow> api_error + budget_row \<times> category_row" where
  "get_budget uid bid s =
     (case join_categories bu_category_id (select_where (budget_row_of uid bid) (budgets s)) s of
        [] \<Rightarrow> Inl (Not_Found ''Budget not found'')
      | r # _ \<Rightarrow> Inr r)"

text \<open>\<^verbatim>\<open>CASE WHEN b.monthly_limit > 0 THEN (b.current_spent / b.monthly_limit) * 100 ELSE 0 END\<close>:
  the guard is the route's, the value of the \<^verbatim>\<open>DECIMAL\<close> expression in the
  \<^verbatim>\<open>THEN\<close> branch is the server's (\<open>dec_pct spent limit\<close>).\<close>

definition usage_percentage :: "(money \<Rightarrow> money \<Rightarrow> rat) \<Rightarrow> budget_row \<Rightarrow> rat" where
  "usage_percentage dec_pct b =
     (if 0 < bu_monthly_limit b then dec_pct (bu_current_spent b) (bu_monthly_limit b) else 0)"

record budget_summary =
  bs_total_budgets :: nat
  bs_total_budget :: money
  bs_total_spent :: money
  bs_total_remaining :: money
  bs_exceeded_budgets :: nat

definition budget_summary_of :: "budget_row list \<Rightarrow> budget_summary" where
  "budget_summary_of rows =
     \<lparr>bs_total_budgets = length rows,
      bs_total_budget = sum_list (map bu_monthly_limit rows),
      bs_total_spent = sum_list (map bu_current_spent rows),
      bs_total_remaining = sum_list (map (\<lambda>b. bu_monthly_limit b - bu_current_spent b) rows),
      bs_exceeded_budgets = length (filter (\<lambda>b. bu_monthly_limit b < bu_current_spent b) rows)\<rparr>"

text \<open>\<^verbatim>\<open>GET /overview/current\<close>: the month is the UTC month of \<^verbatim>\<open>new Date()\<close>; the
  listed rows (with their percentage and \<^verbatim>\<open>monthly_limit - current_spent\<close>) are joined
  with the categories, the summary is taken over the budgets table alone.\<close>

definition budget_overview ::
  "(money \<Rightarrow> money \<Rightarrow> rat) \<Rightarrow> user_id \<Rightarrow> utc_time \<Rightarrow> db \<Rightarrow>
     (budget_row \<times> category_row \<times> rat \<times> money) list \<times> budget_summary \<times> string" where
  "budget_overview dec_pct uid now s =
     (let m = iso_month_slice now;
          rows = filter (\<lambda>b. bu_user_id b = uid \<and> bu_month_year b = m) (budgets s)
      in (sort_by (\<lambda>x y. fst (snd (snd y)) \<le> fst (snd (snd x)))
            (map (\<lambda>(b, c). (b, c, usage_percentage dec_pct b, bu_monthly_limit b - bu_current_spent b))
               (join_categories bu_category_id rows s)),
          budget_summary_of rows, m))"

text \<open>\<^verbatim>\<open>GET /missing/:monthYear\<close>: the categories with no budget of the caller in that
  month, \<^verbatim>\<open>ORDER BY c.name\<close>.\<close>

definition missing_categories :: "user_id \<Rightarrow> string \<Rightarrow> db \<Rightarrow> category_row list" where
  "missing_categories uid m s =
     sort_by (\<lambda>x y. cat_name x \<le> cat_name y)
       (filter (\<lambda>c. cat_id c \<notin> set (map bu_category_id
                       (filter (\<lambda>b. bu_user_id b = uid \<and> bu_month_year b = m) (budgets s))))
          (categories s))"

section \<open>Goals: src/src/routes/goals.ts\<close>

text \<open>The \<^verbatim>\<open>ENUM\<close> text of a status.\<close>

fun status_text :: "goal_status \<Rightarrow> string" where
  "status_text Active = ''active''"
| "status_text Completed = ''completed''"
| "status_text Paused = ''paused''"

definition newest_goal_first :: "goal_row \<Rightarrow> goal_row \<Rightarrow> bool" where
  "newest_goal_first x y \<longleftrightarrow> go_id y \<le> go_id x"

definition list_goals :: "user_id \<Rightarrow> string option \<Rightarrow> db \<Rightarrow> goal_row list" where
  "list_goals uid status s =
     sort_by newest_goal_first
       (filter (\<lambda>g. go_user_id g = uid \<and>
                    (case status of None \<Rightarrow> True | Some st \<Rightarrow> st = [] \<or> status_text (go_status g) = st))
          (goals s))"

definition get_goal :: "user_id \<Rightarrow> nat \<Rightarrow> db \<Rightarrow> api_error + goal_row" where
  "get_goal uid gid s =
     (case select_where (goal_row_of uid gid) (goals s) of
        [] \<Rightarrow> Inl (Not_Found ''Goal not found'')
      | g # _ \<Rightarrow> Inr g)"

record goal_summary =
  gs_total_goals :: nat
  gs_active_goals :: nat
  gs_completed_goals :: nat
  gs_paused_goals :: nat
  gs_total_target_amount :: money
  gs_total_current_amount :: money

text \<open>\<^verbatim>\<open>GET /stats/summary\<close>: the counts per status and the sums, and the five nearest
  deadlines of active goals not yet past (\<^verbatim>\<open>target_date >= CURDATE()\<close>).\<close>

definition goal_stats :: "user_id \<Rightarrow> date \<Rightarrow> db \<Rightarrow> goal_summary \<times> goal_row list" where
  "goal_stats uid today s =
     (let gs = filter (\<lambda>g. go_user_id g = uid) (goals s);
          count = (\<lambda>st. length (filter (\<lambda>g. go_status g = st) gs))
      in (\<lparr>gs_total_goals = length gs, gs_active_goals = count Active,
           gs_completed_goals = count Completed, gs_paused_goals = count Paused,
           gs_total_target_amount = sum_list (map go_target_amount gs),
           gs_total_current_amount = sum_list (map go_current_amount gs)\<rparr>,
          take 5 (sort_by (\<lambda>x y. date_key (go_target_date x) \<le> date_key (go_target_date y))
                    (filter (\<lambda>g. go_status g = Active \<and> date_key today \<le> date_key (go_target_date g)) gs))))"

section \<open>A store for the examples\<close>

text \<open>Three categories; the caller 1 has an overspent food budget and a bills budget in
  March 2024, the caller 2 a travel budget.\<close>

definition report_store :: db where
  "report_store = empty_db\<lparr>
     categories := [\<lparr>cat_id = 1, cat_name = ''Food'', cat_color = ''#f97316'', cat_icon = ''utensils''\<rparr>,
                    \<lparr>cat_id = 2, cat_name = ''Bills'', cat_color = ''#3b82f6'', cat_icon = ''receipt''\<rparr>,
                    \<lparr>cat_id = 3, cat_name = ''Travel'', cat_color = ''#10b981'', cat_icon = ''plane''\<rparr>],
     expenses := [\<lparr>ex_id = 1, ex_user_id = 1, ex_category_id = 1, ex_amount = 620, ex_description = [],
                    ex_expense_date = \<lparr>d_year = 2024, d_month = 3, d_day = 5\<rparr>\<rparr>,
                  \<lparr>ex_id = 2, ex_user_id = 1, ex_category_id = 2, ex_amount = 120, ex_description = [],
                    ex_expense_date = \<lparr>d_year = 2024, d_month = 3, d_day = 9\<rparr>\<rparr>,
                  \<lparr>ex_id = 3, ex_user_id = 2, ex_category_id = 3, ex_amount = 80, ex_description = [],
                    ex_expense_date = \<lparr>d_year = 2024, d_month = 3, d_day = 2\<rparr>\<rparr>],
     budgets := [\<lparr>bu_id = 1, bu_user_id = 1, bu_category_id = 1, bu_monthly_limit = 500,
                   bu_current_spent = 620, bu_month_year = ''2024-03''\<rparr>,
                 \<lparr>bu_id = 2, bu_user_id = 1, bu_category_id = 2, bu_monthly_limit = 300,
                   bu_current_spent = 120, bu_month_year = ''2024-03''\<rparr>,
                 \<lparr>bu_id = 3, bu_user_id = 2, bu_category_id = 3, bu_monthly_limit = 100,
                   bu_current_spent = 80, bu_month_year = ''2024-03''\<rparr>],
     next_expense_id := 4, next_budget_id := 4\<rparr>"

definition report_now :: utc_time where
  "report_now = \<lparr>ut_date = \<lparr>d_year = 2024, d_month = 3, d_day = 15\<rparr>, ut_minute = 600\<rparr>"

section \<open>Lemmas\<close>

lemma set_join_categories:
  "set (join_categories cat rows s) = {(r, c). r \<in> set rows \<and> c \<in> set (categories s) \<and> cat_id c = cat r}"
  by (auto simp: join_categories_def)

lemma pairs_with_filter: "[(r, c). c \<leftarrow> cs, P c] = map (Pair r) (filter P cs)"
  by (induction cs) auto

text \<open>When every row's category occurs exactly once, the join keeps every row once.\<close>

lemma map_fst_join_categories:
  assumes "distinct (map cat_id (categories s))" and "\<forall>r\<in>set rows. cat r \<in> cat_id ` set (categories s)"
  shows "map fst (join_categories cat rows s) = rows"
  using assms(2)
proof (induction rows)
  case Nil
  then show ?case by (simp add: join_categories_def)
next
  case (Cons r rows)
  from Cons.prems obtain c where c: "c \<in> set (categories s)" "cat_id c = cat r" by auto
  have "filter (\<lambda>c. cat_id c = cat r) (categories s) = [c]"
    using assms(1) c by (rule filter_key_unique [where k = cat_id]) (use c in simp)
  with Cons show ?case by (simp add: join_categories_def pairs_with_filter)
qed

lemma budget_summary_of_bounds [simp]:
  "bs_total_remaining (budget_summary_of rows) =
     bs_total_budget (budget_summary_of rows) - bs_total_spent (budget_summary_of rows)"
  "bs_exceeded_budgets (budget_summary_of rows) \<le> bs_total_budgets (budget_summary_of rows)"
  by (simp_all add: budget_summary_of_def sum_list_subtractf)

section \<open>The current budget overview\<close>

text \<open>
  C35. \<^verbatim>\<open>GET /api/budgets/overview/current\<close> reports the UTC month of the request; it
  lists only the caller's budgets of that month, each with its own category, its usage
  percentage and \<^verbatim>\<open>monthly_limit - current_spent\<close>, in descending order of usage; in its
  summary the total remaining is the total budget less the total spent, and no more
  budgets are exceeded than there are budgets.
\<close>

theorem budget_overview_rows:
  "snd (snd (budget_overview dec_pct uid now s)) = iso_month_slice now \<and>
   sorted_wrt (\<lambda>x y. fst (snd (snd y)) \<le> fst (snd (snd x))) (fst (budget_overview dec_pct uid now s)) \<and>
   (\<forall>(b, c, p, r)\<in>set (fst (budget_overview dec_pct uid now s)).
      b \<in> set (budgets s) \<and> bu_user_id b = uid \<and> bu_month_year b = iso_month_slice now \<and>
      c \<in> set (categories s) \<and> cat_id c = bu_category_id b \<and>
      p = usage_percentage dec_pct b \<and> r = bu_monthly_limit b - bu_current_spent b) \<and>
   bs_total_remaining (fst (snd (budget_overview dec_pct uid now s))) =
     bs_total_budget (fst (snd (budget_overview dec_pct uid now s))) -
     bs_total_spent (fst (snd (budget_overview dec_pct uid now s))) \<and>
   bs_exceeded_budgets (fst (snd (budget_overview dec_pct uid now s))) \<le>
     bs_total_budgets (fst (snd (budget_overview dec_pct uid now s)))"
  by (auto simp: budget_overview_def Let_def set_join_categories sorted_wrt_sort_by_desc)

theorem budget_overview_rows_witness:
  "snd (snd (budget_overview (\<lambda>sp l. of_int sp * 100 / of_int l) 1 report_now report_store)) = ''2024-03'' \<and>
   bs_total_remaining (fst (snd (budget_overview (\<lambda>sp l. of_int sp * 100 / of_int l) 1 report_now report_store))) = 60 \<and>
   bs_exceeded_budgets (fst (snd (budget_overview (\<lambda>sp l. of_int sp * 100 / of_int l) 1 report_now report_store))) = 1"
proof -
  have "bs_total_budget (fst (snd (budget_overview (\<lambda>sp l. of_int sp * 100 / of_int l) 1 report_now report_store))) = 800"
       "bs_total_spent (fst (snd (budget_overview (\<lambda>sp l. of_int sp * 100 / of_int l) 1 report_now report_store))) = 740"
       "bs_exceeded_budgets (fst (snd (budget_overview (\<lambda>sp l. of_int sp * 100 / of_int l) 1 report_now report_store))) = 1"
       "iso_month_slice report_now = ''2024-03''"
    by (simp_all add: budget_overview_def budget_summary_of_def report_store_def report_now_def
                      empty_db_def month_key_def digit_def Let_def)
  with budget_overview_rows [of "\<lambda>sp l. of_int sp * 100 / of_int l" 1 report_now report_store] show ?thesis by simp
qed

section \<open>Categories without a budget\<close>

text \<open>
  C36. \<^verbatim>\<open>GET /api/budgets/missing/:monthYear\<close> lists exactly the categories for which
  the caller has no budget in that month (budgets of other callers and other months do not
  count), ordered by name.
\<close>

theorem missing_categories_spec:
  "set (missing_categories uid m s) =
     {c \<in> set (categories s). \<forall>b\<in>set (budgets s).
        bu_user_id b = uid \<and> bu_month_year b = m \<longrightarrow> bu_category_id b \<noteq> cat_id c} \<and>
   sorted (map cat_name (missing_categories uid m s))"
  by (simp add: missing_categories_def sort_by_key) (auto simp: image_iff)

theorem missing_categories_spec_witness:
  "missing_categories 1 ''2024-03'' report_store =
     [\<lparr>cat_id = 3, cat_name = ''Travel'', cat_color = ''#10b981'', cat_icon = ''plane''\<rparr>] \<and>
   sorted (map cat_name (missing_categories 1 ''2024-03'' report_store))"
  using missing_categories_spec [of 1 "''2024-03''" report_store]
  by (simp add: missing_categories_def report_store_def empty_db_def)

section \<open>The expense statistics\<close>

text \<open>
  C40. When every expense's category is a row of the categories table (the foreign key of
  the schema) and category ids are distinct, the per-category breakdown of
  \<^verbatim>\<open>GET /api/expenses/stats/summary\<close> accounts for every expense of the period once:
  its amounts add up to the summary's total amount and its counts to the summary's count.
\<close>

theorem category_stats_sum:
  assumes "distinct (map cat_id (categories s))"
    and "\<forall>e\<in>set (expenses s). ex_category_id e \<in> cat_id ` set (categories s)"
  shows "sum_list (map cs_total_amount (snd (expense_stats uid p today s))) =
           es_total_amount (fst (expense_stats uid p today s)) \<and>
         sum_list (map cs_expense_count (snd (expense_stats uid p today s))) =
           es_total_expenses (fst (expense_stats uid p today s))"
proof -
  let ?rows = "filter (in_period uid (period_start p today)) (expenses s)"
  let ?j = "join_categories ex_category_id ?rows s"
  have j: "map fst ?j = ?rows"
    by (rule map_fst_join_categories) (use assms in auto)
  have amounts: "map (\<lambda>r. ex_amount (fst r)) ?j = map ex_amount ?rows"
  proof -
    have "map ex_amount (map fst ?j) = map ex_amount ?rows" by (simp only: j)
    then show ?thesis by (simp add: comp_def)
  qed
  have len: "length ?j = length ?rows"
  proof -
    have "length (map fst ?j) = length ?rows" by (simp only: j)
    then show ?thesis by simp
  qed
  have "sum_list (map cs_total_amount (category_stats ?j)) =
        (\<Sum>k\<leftarrow>remdups (map (\<lambda>r. category_group (snd r)) ?j).
           \<Sum>r\<leftarrow>filter (\<lambda>r. category_group (snd r) = k) ?j. ex_amount (fst r))"
    by (simp add: category_stats_def comp_def Let_def)
  also have "\<dots> = sum_list (map ex_amount ?rows)" by (simp only: sum_list_group amounts)
  finally have a: "sum_list (map cs_total_amount (category_stats ?j)) = sum_list (map ex_amount ?rows)" .
  have "sum_list (map cs_expense_count (category_stats ?j)) =
        (\<Sum>k\<leftarrow>remdups (map (\<lambda>r. category_group (snd r)) ?j).
           \<Sum>r\<leftarrow>filter (\<lambda>r. category_group (snd r) = k) ?j. (1::nat))"
    by (simp add: category_stats_def comp_def Let_def sum_list_triv)
  also have "\<dots> = length ?rows" by (simp only: sum_list_group) (simp add: sum_list_triv len)
  finally have c: "sum_list (map cs_expense_count (category_stats ?j)) = length ?rows" .
  show ?thesis using a c by (simp add: expense_stats_def Let_def)
qed

theorem category_stats_sum_witness:
  "distinct (map cat_id (categories report_store)) \<and>
   ex_category_id ` set (expenses report_store) \<subseteq> cat_id ` set (categories report_store) \<and>
   sum_list (map cs_total_amount (snd (expense_stats 1 None \<lparr>d_year = 2024, d_month = 3, d_day = 15\<rparr>
     report_store))) = es_total_amount (fst (expense_stats 1 None \<lparr>d_year = 2024, d_month = 3, d_day = 15\<rparr>
     report_store))"
proof -
  have d: "distinct (map cat_id (categories report_store))"
    and c: "\<forall>e\<in>set (expenses report_store). ex_category_id e \<in> cat_id ` set (categories report_store)"
    by (simp_all add: report_store_def empty_db_def)
  from category_stats_sum [OF d c] c d show ?thesis by blast
qed

end
