(* ===== verification/Insights.thy ===== *)
theory Insights
  imports Reports
begin

text \<open>
  The data behind the AI advice: \<^verbatim>\<open>getUserFinancialData\<close>,
  \<^verbatim>\<open>processFinancialData\<close> and \<^verbatim>\<open>saveRecommendation\<close> of
  src/src/services/geminiService.ts, and the three generators that call the Gemini model.
  \<^item> \<open>recent_expenses\<close> is the first query: the caller's expenses of the last three months
    (\<^verbatim>\<open>expense_date >= DATE_SUB(CURDATE(), INTERVAL 3 MONTH)\<close>) with their category
    names, newest first; \<open>active_goals\<close> and \<open>current_budgets\<close> are the other two.
  \<^item> \<open>process_financial_data\<close> is the JavaScript: a \<^verbatim>\<open>reduce\<close> for the total and one
    \<^verbatim>\<open>forEach\<close> that accumulates the per-category and per-month maps with
    \<^verbatim>\<open>map[k] = (map[k] || 0) + amount\<close>. A JS object used as a map is \<open>string \<rightharpoonup> money\<close>;
    the month of a row is \<^verbatim>\<open>expense_date.toISOString().slice(0, 7)\<close>, that is
    \<open>month_of_row tz\<close>.
  \<^item> The prompt text sent to the model and the model itself are outside the program: the
    model's reply is an input, \<open>Some\<close> text or \<open>None\<close> when the call throws.
  \<^verbatim>\<open>Number(exp.amount)\<close> turns the \<^verbatim>\<open>DECIMAL\<close> strings mysql2 returns into
  floating-point numbers and \<^verbatim>\<open>+\<close> adds them as such: a JavaScript number is an IEEE 754
  binary64 value, held in the model as the rational it denotes. \<open>to_double\<close> rounds a
  rational to the nearest binary64 value, ties to even, subnormals included; the sums of a
  user's amounts stay far below the largest double, so overflow to \<^verbatim>\<open>Infinity\<close> is not
  modelled.
\<close>

section \<open>JavaScript numbers\<close>

text \<open>The number of binary digits of a positive integer.\<close>

function nbits :: "int \<Rightarrow> nat" where
  "nbits n = (if n \<le> 0 then 0 else Suc (nbits (n div 2)))"
  by auto
termination by (relation "measure nat") auto

declare nbits.simps [simp del]

definition pow2 :: "int \<Rightarrow> rat" where
  "pow2 k = (if 0 \<le> k then 2 ^ nat k else 1 / 2 ^ nat (- k))"

text \<open>Rounding to an integer, halves to the even neighbour.\<close>

definition round_even :: "rat \<Rightarrow> int" where
  "round_even m =
     (let f = \<lfloor>m\<rfloor>; d = m - of_int f in
      if d < 1 / 2 then f else if 1 / 2 < d then f + 1 else if even f then f else f + 1)"

text \<open>The exponent of the last significant bit of a positive \<open>a\<close> as a double: with
  \<open>2 ^ l \<le> a < 2 ^ (l + 1)\<close> it is \<open>l - 52\<close> (53 significant bits), and never below
  \<open>-1074\<close> (the subnormals). \<open>l\<close> is found from the bit lengths of the numerator and the
  denominator, which fix it up to one.\<close>

definition double_exp :: "rat \<Rightarrow> int" where
  "double_exp a =
     (let k = int (nbits (fst (quotient_of a))) - int (nbits (snd (quotient_of a)))
      in max ((if pow2 k \<le> a then k else k - 1) - 52) (-1074))"

definition to_double :: "rat \<Rightarrow> rat" where
  "to_double r =
     (if r = 0 then 0
      else sgn r * of_int (round_even (\<bar>r\<bar> / pow2 (double_exp \<bar>r\<bar>))) * pow2 (double_exp \<bar>r\<bar>))"

text \<open>\<^verbatim>\<open>Number(s)\<close> of the decimal text of \<open>c\<close> cents, and the operators
  \<^verbatim>\<open>+\<close> and \<^verbatim>\<open>/\<close> on numbers: the exact result, rounded.\<close>

definition js_number :: "money \<Rightarrow> rat" where
  "js_number c = to_double (of_int c / 100)"

definition js_add :: "rat \<Rightarrow> rat \<Rightarrow> rat" where
  "js_add x y = to_double (x + y)"

definition js_div :: "rat \<Rightarrow> rat \<Rightarrow> rat" where
  "js_div x y = to_double (x / y)"

section \<open>The queries and the aggregation\<close>

record expense_fact =
  ef_amount :: money
  ef_date :: date
  ef_category :: string

definition recent_expenses :: "user_id \<Rightarrow> date \<Rightarrow> db \<Rightarrow> expense_fact list" where
  "recent_expenses uid today s =
     sort_by (\<lambda>x y. date_key (ef_date y) \<le> date_key (ef_date x))
       (map (\<lambda>(e, c). \<lparr>ef_amount = ex_amount e, ef_date = ex_expense_date e, ef_category = cat_name c\<rparr>)
          (join_categories ex_category_id
             (filter (\<lambda>e. ex_user_id e = uid \<and> date_key (sub_months 3 today) \<le> date_key (ex_expense_date e))
                (expenses s)) s))"

definition active_goals :: "user_id \<Rightarrow> db \<Rightarrow> goal_row list" where
  "active_goals uid s = filter (\<lambda>g. go_user_id g = uid \<and> go_status g = Active) (goals s)"

text \<open>The current month is the UTC month of \<^verbatim>\<open>new Date()\<close>.\<close>

definition current_budgets :: "user_id \<Rightarrow> utc_time \<Rightarrow> db \<Rightarrow> (budget_row \<times> category_row) list" where
  "current_budgets uid now s =
     join_categories bu_category_id
       (filter (\<lambda>b. bu_user_id b = uid \<and> bu_month_year b = iso_month_slice now) (budgets s)) s"

record financial_data =
  fd_totalSpent :: rat
  fd_categoryBreakdown :: "string \<rightharpoonup> rat"
  fd_monthlySpending :: "string \<rightharpoonup> rat"
  fd_goals :: "goal_row list"
  fd_budgets :: "(budget_row \<times> category_row) list"

text \<open>\<^verbatim>\<open>map[k] = (map[k] || 0) + amount\<close>: an absent key counts as 0 (a stored 0,
  also falsy, gives the same 0).\<close>

definition add_to :: "string \<Rightarrow> rat \<Rightarrow> (string \<rightharpoonup> rat) \<Rightarrow> string \<rightharpoonup> rat" where
  "add_to k a m = m(k \<mapsto> js_add (case m k of None \<Rightarrow> 0 | Some x \<Rightarrow> x) a)"

definition process_financial_data ::
  "int \<Rightarrow> expense_fact list \<Rightarrow> goal_row list \<Rightarrow> (budget_row \<times> category_row) list \<Rightarrow> financial_data" where
  "process_financial_data tz es gs bs =
     (let total = foldl (\<lambda>sum e. js_add sum (js_number (ef_amount e))) 0 es;
          (cb, ms) = foldl (\<lambda>(cb, ms) e. (add_to (ef_category e) (js_number (ef_amount e)) cb,
                                          add_to (month_of_row tz (ef_date e)) (js_number (ef_amount e)) ms))
                       (Map.empty, Map.empty) es
      in \<lparr>fd_totalSpent = total, fd_categoryBreakdown = cb, fd_monthlySpending = ms,
          fd_goals = gs, fd_budgets = bs\<rparr>)"

definition getUserFinancialData :: "int \<Rightarrow> date \<Rightarrow> utc_time \<Rightarrow> user_id \<Rightarrow> db \<Rightarrow> financial_data" where
  "getUserFinancialData tz today now uid s =
     process_financial_data tz (recent_expenses uid today s) (active_goals uid s) (current_budgets uid now s)"

text \<open>\<^verbatim>\<open>INSERT INTO ai_recommendations (user_id, recommendation_text, recommendation_type)\<close>;
  \<^verbatim>\<open>is_read\<close> takes its default \<^verbatim>\<open>FALSE\<close>.\<close>

definition saveRecommendation :: "user_id \<Rightarrow> string \<Rightarrow> recommendation_type \<Rightarrow> db \<Rightarrow> db" where
  "saveRecommendation uid text ty s =
     s\<lparr>recommendations := recommendations s @
          [\<lparr>rc_id = next_recommendation_id s, rc_user_id = uid, rc_text = text, rc_type = ty,
            rc_is_read = False\<rparr>],
        next_recommendation_id := Suc (next_recommendation_id s)\<rparr>"

text \<open>A generator: ask the model, save its reply with the generator's type and return it; any
  error becomes the generator's own message (the routes send it as a 500).\<close>

definition generate_advice ::
  "recommendation_type \<Rightarrow> string \<Rightarrow> string option \<Rightarrow> user_id \<Rightarrow> db \<Rightarrow> string response" where
  "generate_advice ty msg reply uid s =
     (case reply of
        None \<Rightarrow> (Inl (Server_Error msg), s)
      | Some text \<Rightarrow> (Inr text, saveRecommendation uid text ty s))"

definition generateFinancialRecommendation :: "string option \<Rightarrow> user_id \<Rightarrow> db \<Rightarrow> string response" where
  "generateFinancialRecommendation reply uid s =
     generate_advice Budgeting ''Failed to generate AI recommendation'' reply uid s"

definition generateSpendingInsights :: "string option \<Rightarrow> user_id \<Rightarrow> db \<Rightarrow> string response" where
  "generateSpendingInsights reply uid s =
     generate_advice Spending ''Failed to generate spending insights'' reply uid s"

definition generateGoalAdvice :: "string option \<Rightarrow> user_id \<Rightarrow> db \<Rightarrow> string response" where
  "generateGoalAdvice reply uid s = generate_advice Goal ''Failed to generate goal advice'' reply uid s"

text \<open>The reference the accumulation is compared with: for each key that occurs, the
  \<^verbatim>\<open>reduce\<close> of the amounts of its rows, in the order of the rows, as the total is
  the \<^verbatim>\<open>reduce\<close> of all of them.\<close>

definition js_sum :: "expense_fact list \<Rightarrow> rat" where
  "js_sum es = foldl (\<lambda>sum e. js_add sum (js_number (ef_amount e))) 0 es"

definition group_total :: "(expense_fact \<Rightarrow> string) \<Rightarrow> expense_fact list \<Rightarrow> string \<rightharpoonup> rat" where
  "group_total key es k =
     (if k \<in> set (map key es) then Some (js_sum (filter (\<lambda>e. key e = k) es)) else None)"

section \<open>Lemmas\<close>

lemma foldl_add_to:
  "foldl (\<lambda>m e. add_to (key e) (js_number (ef_amount e)) m) m0 es k =
     (if k \<in> set (map key es)
      then Some (foldl (\<lambda>sum e. js_add sum (js_number (ef_amount e)))
                  (case m0 k of None \<Rightarrow> 0 | Some x \<Rightarrow> x) (filter (\<lambda>e. key e = k) es))
      else m0 k)"
proof (induction es arbitrary: m0)
  case Nil
  then show ?case by simp
next
  case (Cons a es)
  have none: "filter (\<lambda>e. key e = k) es = []" if "k \<notin> set (map key es)"
    using that by (auto simp: filter_empty_conv)
  show ?case
    using Cons.IH [of "add_to (key a) (js_number (ef_amount a)) m0"] none
    by (auto simp: add_to_def)
qed

lemma foldl_pair_split:
  "foldl (\<lambda>(a, b) e. (f e a, g e b)) (a0, b0) es = (foldl (\<lambda>a e. f e a) a0 es, foldl (\<lambda>b e. g e b) b0 es)"
  by (induction es arbitrary: a0 b0) simp_all

lemma foldl_add_to_empty:
  "foldl (\<lambda>m e. add_to (key e) (js_number (ef_amount e)) m) Map.empty es = group_total key es"
  by (simp add: fun_eq_iff foldl_add_to group_total_def js_sum_def)

text \<open>The fields of \<^verbatim>\<open>processFinancialData\<close>'s result, one by one.\<close>

lemma process_financial_data_fields:
  "fd_totalSpent (process_financial_data tz es gs bs) = js_sum es"
  "fd_categoryBreakdown (process_financial_data tz es gs bs) = group_total ef_category es"
  "fd_monthlySpending (process_financial_data tz es gs bs) = group_total (\<lambda>e. month_of_row tz (ef_date e)) es"
  "fd_goals (process_financial_data tz es gs bs) = gs"
  "fd_budgets (process_financial_data tz es gs bs) = bs"
  by (simp_all add: process_financial_data_def foldl_pair_split foldl_add_to_empty js_sum_def)

section \<open>The accumulation computes the per-key reductions\<close>


text \<open>The sums are those of binary doubles, not of the cents the table stores: two
  expenses of 0.10 and 0.20 give a total of 0.30000000000000004, which the prompts print.\<close>

lemma float_total_differs:
  "fd_totalSpent (process_financial_data tz
      [\<lparr>ef_amount = 10, ef_date = d, ef_category = c\<rparr>, \<lparr>ef_amount = 20, ef_date = d, ef_category = c\<rparr>] gs bs) =
     5404319552844596 / 18014398509481984 \<and>
   js_number 30 = 5404319552844595 / 18014398509481984"
proof -
  have "js_add (js_add 0 (js_number 10)) (js_number 20) = 5404319552844596 / 18014398509481984"
       "js_number 30 = 5404319552844595 / 18014398509481984"
    by code_simp+
  then show ?thesis by (simp add: process_financial_data_def)
qed

end
