(* ===== verification/Recommendations.thy ===== *)
theory Recommendations
  imports Insights
begin

text \<open>
  The routes of src/src/routes/ai.ts. Three of them ask the Gemini model for advice and
  save the reply in \<^verbatim>\<open>ai_recommendations\<close> (theory \<open>Insights\<close>); a thrown error gets
  \<^verbatim>\<open>error.statusCode = 500\<close>. The others list, mark as read and delete the caller's
  saved recommendations. \<^verbatim>\<open>:goalId\<close> and \<^verbatim>\<open>:id\<close> are taken as the numbers they
  parse to.

  \<^verbatim>\<open>GET /recommendations\<close> binds \<^verbatim>\<open>LIMIT ? OFFSET ?\<close> as parameters of a prepared
  statement, which src/src/routes/expenses.ts avoids ("Add LIMIT and OFFSET as literal
  values (not parameters)"): MySQL 8.0.22 and later refuse numeric parameters there. The
  argument \<open>limit_params_ok\<close> says whether the server accepts them.
\<close>

definition budgeting_route :: "string option \<Rightarrow> user_id \<Rightarrow> db \<Rightarrow> string response" where
  "budgeting_route reply uid s = generateFinancialRecommendation reply uid s"

definition spending_route :: "string option \<Rightarrow> user_id \<Rightarrow> db \<Rightarrow> string response" where
  "spending_route reply uid s = generateSpendingInsights reply uid s"

text \<open>\<^verbatim>\<open>POST /advice/goal/:goalId\<close>: the goal must be the caller's.\<close>

definition goal_advice_route :: "string option \<Rightarrow> user_id \<Rightarrow> nat \<Rightarrow> db \<Rightarrow> string response" where
  "goal_advice_route reply uid gid s =
     (if select_where (goal_row_of uid gid) (goals s) = [] then (Inl (Not_Found ''Goal not found''), s)
      else generateGoalAdvice reply uid s)"

fun type_text :: "recommendation_type \<Rightarrow> string" where
  "type_text Saving = ''saving''"
| "type_text Spending = ''spending''"
| "type_text Budgeting = ''budgeting''"
| "type_text Goal = ''goal''"

record recommendation_query =
  rq_type :: "string option"
  rq_limit :: "int option"
  rq_offset :: "int option"
  rq_unreadOnly :: "string option"

definition recommendation_filter :: "user_id \<Rightarrow> recommendation_query \<Rightarrow> recommendation_row \<Rightarrow> bool" where
  "recommendation_filter uid q r \<longleftrightarrow>
     rc_user_id r = uid \<and>
     (case rq_type q of None \<Rightarrow> True | Some t \<Rightarrow> t = [] \<or> type_text (rc_type r) = t) \<and>
     (rq_unreadOnly q = Some ''true'' \<longrightarrow> \<not> rc_is_read r)"

text \<open>\<^verbatim>\<open>const { limit = 10, offset = 0 } = req.query\<close>, \<^verbatim>\<open>ORDER BY created_at DESC\<close>
  (descending id). A negative \<^verbatim>\<open>LIMIT\<close> or \<^verbatim>\<open>OFFSET\<close> is refused by MySQL.\<close>

definition list_recommendations ::
  "bool \<Rightarrow> user_id \<Rightarrow> recommendation_query \<Rightarrow> db \<Rightarrow> api_error + recommendation_row list" where
  "list_recommendations limit_params_ok uid q s =
     (let l = (case rq_limit q of None \<Rightarrow> 10 | Some n \<Rightarrow> n);
          off = (case rq_offset q of None \<Rightarrow> 0 | Some n \<Rightarrow> n)
      in if \<not> limit_params_ok \<or> l < 0 \<or> off < 0
         then Inl (Server_Error ''Incorrect arguments to mysqld_stmt_execute'')
         else Inr (take (nat l) (drop (nat off)
                    (sort_by (\<lambda>x y. rc_id y \<le> rc_id x)
                       (filter (recommendation_filter uid q) (recommendations s))))))"

text \<open>\<^verbatim>\<open>GET /recommendations\<close> with no query parameters.\<close>

definition no_query :: recommendation_query where
  "no_query = \<lparr>rq_type = None, rq_limit = None, rq_offset = None, rq_unreadOnly = None\<rparr>"

definition recommendation_of :: "user_id \<Rightarrow> nat \<Rightarrow> recommendation_row \<Rightarrow> bool" where
  "recommendation_of uid rid r \<longleftrightarrow> rc_id r = rid \<and> rc_user_id r = uid"

definition mark_read_route :: "user_id \<Rightarrow> nat \<Rightarrow> db \<Rightarrow> unit response" where
  "mark_read_route uid rid s =
     (if affected (recommendation_of uid rid) (recommendations s) = 0
      then (Inl (Not_Found ''Recommendation not found''), s)
      else (Inr (), s\<lparr>recommendations := update_where (recommendation_of uid rid)
                        (\<lambda>r. r\<lparr>rc_is_read := True\<rparr>) (recommendations s)\<rparr>))"

definition delete_recommendation_route :: "user_id \<Rightarrow> nat \<Rightarrow> db \<Rightarrow> unit response" where
  "delete_recommendation_route uid rid s =
     (if affected (recommendation_of uid rid) (recommendations s) = 0
      then (Inl (Not_Found ''Recommendation not found''), s)
      else (Inr (), s\<lparr>recommendations := delete_where (recommendation_of uid rid) (recommendations s)\<rparr>))"

declare budgeting_route_def [handler_defs] spending_route_def [handler_defs]
  goal_advice_route_def [handler_defs] mark_read_route_def [handler_defs]
  delete_recommendation_route_def [handler_defs]

section \<open>Lemmas\<close>

text \<open>The AI routes write the recommendations table and its counter only.\<close>

lemma generate_advice_cases:
  "generate_advice ty msg reply uid s = (Inl (Server_Error msg), s) \<and> reply = None \<or>
   (\<exists>text. reply = Some text \<and> generate_advice ty msg reply uid s = (Inr text, saveRecommendation uid text ty s))"
  by (cases reply) (simp_all add: generate_advice_def)

lemma ai_routes_frame [simp]:
  "users (snd (budgeting_route reply uid s)) = users s \<and> expenses (snd (budgeting_route reply uid s)) = expenses s \<and>
   budgets (snd (budgeting_route reply uid s)) = budgets s \<and> goals (snd (budgeting_route reply uid s)) = goals s"
  "users (snd (spending_route reply uid s)) = users s \<and> expenses (snd (spending_route reply uid s)) = expenses s \<and>
   budgets (snd (spending_route reply uid s)) = budgets s \<and> goals (snd (spending_route reply uid s)) = goals s"
  "users (snd (goal_advice_route reply uid gid s)) = users s \<and>
   expenses (snd (goal_advice_route reply uid gid s)) = expenses s \<and>
   budgets (snd (goal_advice_route reply uid gid s)) = budgets s \<and>
   goals (snd (goal_advice_route reply uid gid s)) = goals s"
  "users (snd (mark_read_route uid rid s)) = users s \<and> expenses (snd (mark_read_route uid rid s)) = expenses s \<and>
   budgets (snd (mark_read_route uid rid s)) = budgets s \<and> goals (snd (mark_read_route uid rid s)) = goals s"
  "users (snd (delete_recommendation_route uid rid s)) = users s \<and>
   expenses (snd (delete_recommendation_route uid rid s)) = expenses s \<and>
   budgets (snd (delete_recommendation_route uid rid s)) = budgets s \<and>
   goals (snd (delete_recommendation_route uid rid s)) = goals s"
  by (simp_all add: handler_defs generateFinancialRecommendation_def generateSpendingInsights_def
                    generateGoalAdvice_def generate_advice_def saveRecommendation_def split: option.split)

lemma wf_saveRecommendation: "wf_db s \<Longrightarrow> wf_db (saveRecommendation uid text ty s)"
  by (auto simp: wf_db_def saveRecommendation_def)

lemma wf_ai_routes:
  assumes "wf_db s"
  shows "wf_db (snd (budgeting_route reply uid s))" "wf_db (snd (spending_route reply uid s))"
    "wf_db (snd (goal_advice_route reply uid gid s))" "wf_db (snd (mark_read_route uid rid s))"
    "wf_db (snd (delete_recommendation_route uid rid s))"
proof -
  have adv: "wf_db (snd (generate_advice ty msg reply uid s))" for ty msg
    using generate_advice_cases [of ty msg reply uid s] assms by (auto simp: wf_saveRecommendation)
  show "wf_db (snd (budgeting_route reply uid s))" "wf_db (snd (spending_route reply uid s))"
    "wf_db (snd (goal_advice_route reply uid gid s))"
    using adv assms by (simp_all add: handler_defs generateFinancialRecommendation_def
                                      generateSpendingInsights_def generateGoalAdvice_def)
  have "map rc_id (update_where (recommendation_of uid rid) (\<lambda>r. r\<lparr>rc_is_read := True\<rparr>)
          (recommendations s)) = map rc_id (recommendations s)"
    by (rule map_update_where_keep) simp
  moreover from this have "\<forall>r\<in>set (update_where (recommendation_of uid rid)
      (\<lambda>r. r\<lparr>rc_is_read := True\<rparr>) (recommendations s)). rc_id r < next_recommendation_id s"
    by (rule ball_map_eq) (use assms in \<open>simp add: wf_db_def\<close>)
  ultimately show "wf_db (snd (mark_read_route uid rid s))"
    using assms by (simp only: mark_read_route_def wf_db_def split: if_split) simp
  show "wf_db (snd (delete_recommendation_route uid rid s))"
    using assms by (auto simp: delete_recommendation_route_def wf_db_def delete_where_def
                               distinct_map_filter)
qed

text \<open>On a well-formed store a saved recommendation has the largest id, so the default
  listing shows it first, followed by the first nine rows the listing showed before.\<close>

lemma saved_listed_first:
  assumes wf: "wf_db s"
  shows "list_recommendations True uid no_query (saveRecommendation uid t ty s) =
           Inr (\<lparr>rc_id = next_recommendation_id s, rc_user_id = uid, rc_text = t, rc_type = ty,
                 rc_is_read = False\<rparr> #
                take 9 (sort_by (\<lambda>x y. rc_id y \<le> rc_id x)
                          (filter (recommendation_filter uid no_query) (recommendations s))))"
proof -
  have "\<forall>x\<in>set (filter (recommendation_filter uid no_query) (recommendations s)).
          \<not> next_recommendation_id s \<le> rc_id x"
    using wf by (auto simp: wf_db_def)
  then show ?thesis
    by (simp add: list_recommendations_def saveRecommendation_def no_query_def recommendation_filter_def
                  sort_by_snoc_first [where y = "\<lparr>rc_id = next_recommendation_id s, rc_user_id = uid,
                     rc_text = t, rc_type = ty, rc_is_read = False\<rparr>"] numeral_eq_Suc)
qed

text \<open>
  C37. \<^verbatim>\<open>PATCH /api/ai/recommendations/:id/read\<close> and
  \<^verbatim>\<open>DELETE /api/ai/recommendations/:id\<close> act only on the caller's recommendation with
  that id: when no recommendation of the caller has it they answer 404 and change nothing,
  whoever owns the id; on a well-formed store, for the caller's recommendation, mark-read
  sets \<^verbatim>\<open>is_read\<close> of exactly that row and delete removes exactly that row, every other
  row kept.
\<close>

theorem recommendation_writes_owned:
  assumes wf: "wf_db s"
  shows "((\<forall>x\<in>set (recommendations s). \<not> recommendation_of uid rid x) \<longrightarrow>
            mark_read_route uid rid s = (Inl (Not_Found ''Recommendation not found''), s) \<and>
            delete_recommendation_route uid rid s = (Inl (Not_Found ''Recommendation not found''), s)) \<and>
         (\<forall>r\<in>set (recommendations s). recommendation_of uid rid r \<longrightarrow>
            mark_read_route uid rid s =
              (Inr (), s\<lparr>recommendations := map (\<lambda>x. if x = r then x\<lparr>rc_is_read := True\<rparr> else x)
                                                (recommendations s)\<rparr>) \<and>
            delete_recommendation_route uid rid s =
              (Inr (), s\<lparr>recommendations := filter (\<lambda>x. x \<noteq> r) (recommendations s)\<rparr>))"
proof -
  have none: "(\<forall>x\<in>set (recommendations s). \<not> recommendation_of uid rid x) \<longrightarrow>
            mark_read_route uid rid s = (Inl (Not_Found ''Recommendation not found''), s) \<and>
            delete_recommendation_route uid rid s = (Inl (Not_Found ''Recommendation not found''), s)"
    by (simp add: mark_read_route_def delete_recommendation_route_def affected_def filter_empty_conv)
  have one: "recommendation_of uid rid r \<longrightarrow>
            mark_read_route uid rid s =
              (Inr (), s\<lparr>recommendations := map (\<lambda>x. if x = r then x\<lparr>rc_is_read := True\<rparr> else x)
                                                (recommendations s)\<rparr>) \<and>
            delete_recommendation_route uid rid s =
              (Inr (), s\<lparr>recommendations := filter (\<lambda>x. x \<noteq> r) (recommendations s)\<rparr>)"
    if r: "r \<in> set (recommendations s)" for r
  proof
    assume own: "recommendation_of uid rid r"
    have iff: "recommendation_of uid rid x \<longleftrightarrow> x = r" if "x \<in> set (recommendations s)" for x
      using wf r own that by (auto simp: wf_db_def recommendation_of_def distinct_map inj_on_def)
    have aff: "affected (recommendation_of uid rid) (recommendations s) \<noteq> 0"
      using r own by (auto simp: affected_def filter_empty_conv)
    have "update_where (recommendation_of uid rid) (\<lambda>x. x\<lparr>rc_is_read := True\<rparr>) (recommendations s) =
            map (\<lambda>x. if x = r then x\<lparr>rc_is_read := True\<rparr> else x) (recommendations s)"
      unfolding update_where_def by (rule map_cong) (simp_all add: iff)
    moreover have "delete_where (recommendation_of uid rid) (recommendations s) =
            filter (\<lambda>x. x \<noteq> r) (recommendations s)"
      unfolding delete_where_def by (rule filter_cong) (simp_all add: iff)
    ultimately show "mark_read_route uid rid s =
              (Inr (), s\<lparr>recommendations := map (\<lambda>x. if x = r then x\<lparr>rc_is_read := True\<rparr> else x)
                                                (recommendations s)\<rparr>) \<and>
            delete_recommendation_route uid rid s =
              (Inr (), s\<lparr>recommendations := filter (\<lambda>x. x \<noteq> r) (recommendations s)\<rparr>)"
      using aff by (simp add: mark_read_route_def delete_recommendation_route_def)
  qed
  from none one show ?thesis by blast
qed

theorem recommendation_writes_owned_witness:
  "mark_read_route 2 1 (saveRecommendation 1 ''Save more'' Goal empty_db) =
     (Inl (Not_Found ''Recommendation not found''), saveRecommendation 1 ''Save more'' Goal empty_db) \<and>
   delete_recommendation_route 1 1 (saveRecommendation 1 ''Save more'' Goal empty_db) =
     (Inr (), (saveRecommendation 1 ''Save more'' Goal empty_db)\<lparr>recommendations := []\<rparr>)"
proof -
  let ?s = "saveRecommendation 1 ''Save more'' Goal empty_db"
  have wf: "wf_db ?s" by (rule wf_saveRecommendation [OF wf_empty_db])
  have rs: "recommendations ?s = [\<lparr>rc_id = 1, rc_user_id = 1, rc_text = ''Save more'', rc_type = Goal,
                                   rc_is_read = False\<rparr>]"
    by (simp add: saveRecommendation_def empty_db_def)
  show ?thesis
    using recommendation_writes_owned [OF wf, of 2 1] recommendation_writes_owned [OF wf, of 1 1]
    unfolding rs by (simp add: recommendation_of_def)
qed

end
