(* ===== verification/Api.thy ===== *)
theory Api
  imports Ledger Goals Auth Recommendations
begin

text \<open>
  The routes of the API as one step function over the store
  (src/src/server.ts mounts the routers; the \<^verbatim>\<open>authenticateToken\<close> middleware gives
  each handler the caller's id \<open>uid\<close>). A request is one constructor of \<open>request\<close>;
  \<open>handle tz uid r s\<close> is the store after the route has run, whether it answered with a
  success or an error. Requests of different callers interleave freely: \<open>reachable\<close>
  holds for every store that a sequence of requests, each of an arbitrary caller, builds
  from the empty store. \<open>allowed\<close> restricts which requests the sequence may contain.
  Since every handler runs its statements one after the other without another request in
  between, this is the interleaving at the granularity of whole requests.
\<close>

datatype request =
    Create_Expense expense_body
  | Update_Expense nat expense_body
  | Delete_Expense nat
  | Create_Budget budget_body
  | Update_Budget nat budget_body
  | Delete_Budget nat
  | Create_Goal goal_body
  | Update_Goal nat goal_body
  | Goal_Progress nat "money option"
  | Delete_Goal nat
  | Register auth_env register_body
  | Verify_OTP nat "string option" "string option"
  | Login nat bool login_body
  | Forgot_Password auth_env "string option"
  | Reset_Password nat "string option" "string option" "string option"
  | Recommend_Budgeting "string option"
  | Spending_Insights "string option"
  | Goal_Advice "string option" nat
  | Mark_Recommendation_Read nat
  | Delete_Recommendation nat

fun handle :: "int \<Rightarrow> user_id \<Rightarrow> request \<Rightarrow> db \<Rightarrow> db" where
  "handle tz uid (Create_Expense b) s = snd (create_expense uid b s)"
| "handle tz uid (Update_Expense i b) s = snd (update_expense tz uid i b s)"
| "handle tz uid (Delete_Expense i) s = snd (delete_expense tz uid i s)"
| "handle tz uid (Create_Budget b) s = snd (create_budget uid b s)"
| "handle tz uid (Update_Budget i b) s = snd (update_budget uid i b s)"
| "handle tz uid (Delete_Budget i) s = snd (delete_budget uid i s)"
| "handle tz uid (Create_Goal b) s = snd (create_goal uid b s)"
| "handle tz uid (Update_Goal i b) s = snd (update_goal uid i b s)"
| "handle tz uid (Goal_Progress i a) s = snd (goal_progress uid i a s)"
| "handle tz uid (Delete_Goal i) s = snd (delete_goal uid i s)"
| "handle tz uid (Register env b) s = snd (register_route env b s)"
| "handle tz uid (Verify_OTP now e c) s = snd (verify_otp_route now e c s)"
| "handle tz uid (Login now ok b) s = snd (login_route now ok b s)"
| "handle tz uid (Forgot_Password env e) s = snd (forgot_password_route env e s)"
| "handle tz uid (Reset_Password now e c p) s = snd (reset_password_route now e c p s)"
| "handle tz uid (Recommend_Budgeting reply) s = snd (budgeting_route reply uid s)"
| "handle tz uid (Spending_Insights reply) s = snd (spending_route reply uid s)"
| "handle tz uid (Goal_Advice reply i) s = snd (goal_advice_route reply uid i s)"
| "handle tz uid (Mark_Recommendation_Read i) s = snd (mark_read_route uid i s)"
| "handle tz uid (Delete_Recommendation i) s = snd (delete_recommendation_route uid i s)"

inductive reachable :: "int \<Rightarrow> (request \<Rightarrow> bool) \<Rightarrow> db \<Rightarrow> bool" for tz allowed where
  start: "reachable tz allowed empty_db"
| step: "reachable tz allowed s \<Longrightarrow> allowed r \<Longrightarrow> reachable tz allowed (handle tz uid r s)"

text \<open>Every request but \<^verbatim>\<open>PUT /api/budgets/:id\<close>.\<close>

definition not_budget_put :: "request \<Rightarrow> bool" where
  "not_budget_put r = (case r of Update_Budget _ _ \<Rightarrow> False | _ \<Rightarrow> True)"

text \<open>The equations that evaluate the handlers on concrete stores.\<close>

lemmas eval_simps = validateBudget_def validateExpense_def validateGoal_def budget_month_ok_def
  is_digit_def required_positive_def empty_db_def backfill_spent_def adjust_budget_def
  budget_match_def budget_key_def month_key_def digit_def expense_row_of_def month_of_row_def
  local_midnight_def prev_day_def days_in_month_def leap_year_def budget_row_of_def
  goal_row_of_def expense_in_def Let_def

section \<open>Frames: which tables a handler writes\<close>

lemma expense_handlers_goals [simp]:
  "goals (snd (create_expense uid b s)) = goals s"
  "goals (snd (update_expense tz uid i b s)) = goals s"
  "goals (snd (delete_expense tz uid i s)) = goals s"
  using create_expense_cases [of uid b s] update_expense_cases [of tz uid i b s]
    delete_expense_cases [of tz uid i s]
  by (auto simp: Let_def split: if_splits)

lemma create_budget_goals [simp]: "goals (snd (create_budget uid b s)) = goals s"
  by (simp add: create_budget_def Let_def split: option.split)

lemma update_budget_goals [simp]: "goals (snd (update_budget uid i b s)) = goals s"
  by (simp add: update_budget_def Let_def split: option.split)

lemma delete_budget_goals [simp]: "goals (snd (delete_budget uid i s)) = goals s"
  by (simp add: delete_budget_def)

lemma create_goal_ledger [simp]:
  "expenses (snd (create_goal uid b s)) = expenses s \<and> budgets (snd (create_goal uid b s)) = budgets s"
  by (simp add: create_goal_def Let_def split: option.split)

lemma update_goal_ledger [simp]:
  "expenses (snd (update_goal uid i b s)) = expenses s \<and> budgets (snd (update_goal uid i b s)) = budgets s"
  by (simp add: update_goal_def Let_def split: option.split)

lemma goal_progress_ledger [simp]:
  "expenses (snd (goal_progress uid i a s)) = expenses s \<and> budgets (snd (goal_progress uid i a s)) = budgets s"
  by (simp add: goal_progress_def Let_def split: option.split list.split)

lemma delete_goal_ledger [simp]:
  "expenses (snd (delete_goal uid i s)) = expenses s \<and> budgets (snd (delete_goal uid i s)) = budgets s"
  by (simp add: delete_goal_def)

lemma core_handlers_users [simp]:
  "users (snd (create_expense uid b s)) = users s"
  "users (snd (update_expense tz uid i b s)) = users s"
  "users (snd (delete_expense tz uid i s)) = users s"
  "users (snd (create_budget uid bb s)) = users s"
  "users (snd (update_budget uid i bb s)) = users s"
  "users (snd (delete_budget uid i s)) = users s"
  "users (snd (create_goal uid gb s)) = users s"
  "users (snd (update_goal uid i gb s)) = users s"
  "users (snd (goal_progress uid i a s)) = users s"
  "users (snd (delete_goal uid i s)) = users s"
  by (simp_all add: handler_defs Let_def split: option.split list.split)

lemma ledger_inv_frame:
  "ledger_inv s \<Longrightarrow> expenses s' = expenses s \<and> budgets s' = budgets s \<Longrightarrow> ledger_inv s'"
  by (simp add: ledger_inv_def backfill_spent_def)

lemma goal_inv_frame: "goal_inv s \<Longrightarrow> goals s' = goals s \<Longrightarrow> goal_inv s'"
  by (simp add: goal_inv_def)

text \<open>The account routes write the users table only.\<close>

lemma auth_routes_tables [simp]:
  "expenses (snd (register_route env b s)) = expenses s \<and> budgets (snd (register_route env b s)) = budgets s \<and>
   goals (snd (register_route env b s)) = goals s"
  "expenses (snd (verify_otp_route now em c s)) = expenses s \<and>
   budgets (snd (verify_otp_route now em c s)) = budgets s \<and> goals (snd (verify_otp_route now em c s)) = goals s"
  "expenses (snd (forgot_password_route env em s)) = expenses s \<and>
   budgets (snd (forgot_password_route env em s)) = budgets s \<and> goals (snd (forgot_password_route env em s)) = goals s"
  "expenses (snd (reset_password_route now em c pw s)) = expenses s \<and>
   budgets (snd (reset_password_route now em c pw s)) = budgets s \<and>
   goals (snd (reset_password_route now em c pw s)) = goals s"
  using route_stores(1) [of env b s] route_stores(2) [of now em c s] route_stores(4) [of env em s]
    route_stores(5) [of now em c pw s]
  by auto

lemma wf_auth_routes:
  assumes "wf_db s"
  shows "wf_db (snd (register_route env b s))" "wf_db (snd (verify_otp_route now em c s))"
    "wf_db (snd (forgot_password_route env em s))" "wf_db (snd (reset_password_route now em c pw s))"
  using route_stores(1) [of env b s] route_stores(2) [of now em c s] route_stores(4) [of env em s]
    route_stores(5) [of now em c pw s] assms
  by (auto simp: wf_register wf_verifyOTP wf_requestPasswordReset wf_resetPassword)

text \<open>Where the users table after a request comes from: it is unchanged, or it is the
  table one service call of src/src/services/authService.ts leaves.\<close>

lemma handle_users:
  "users (handle tz uid q s) = users s \<or>
   (\<exists>env e p f l. users (handle tz uid q s) = users (snd (register env e p f l s))) \<or>
   (\<exists>now e c. users (handle tz uid q s) = users (snd (verifyOTP now e c s))) \<or>
   (\<exists>env e. users (handle tz uid q s) = users (snd (requestPasswordReset env e s))) \<or>
   (\<exists>now e c p. users (handle tz uid q s) = users (snd (resetPassword now e c p s)))"
proof (cases q)
  case (Register env b)
  with route_stores(1) [of env b s] show ?thesis by (simp only: handle.simps) metis
next
  case (Verify_OTP now em c)
  with route_stores(2) [of now em c s] show ?thesis by (simp only: handle.simps) metis
next
  case (Forgot_Password env em)
  with route_stores(4) [of env em s] show ?thesis by (simp only: handle.simps) metis
next
  case (Reset_Password now em c pw)
  with route_stores(5) [of now em c pw s] show ?thesis by (simp only: handle.simps) metis
qed (simp_all add: route_stores(3))

section \<open>One request\<close>

lemma wf_handle: "wf_db s \<Longrightarrow> wf_db (handle tz uid r s)"
  by (cases r)
     (simp_all add: wf_create_expense wf_update_expense wf_delete_expense wf_create_budget
                    wf_update_budget wf_delete_budget wf_create_goal wf_update_goal
                    wf_goal_progress wf_delete_goal wf_auth_routes wf_ai_routes route_stores(3))

lemma goal_inv_handle:
  assumes wf: "wf_db s" and inv: "goal_inv s"
  shows "goal_inv (handle tz uid r s)"
  by (cases r)
     (simp_all add: goal_inv_frame [OF inv] goal_inv_create_goal [OF inv]
                    goal_inv_update_goal [OF inv] goal_inv_goal_progress [OF wf inv]
                    goal_inv_delete_goal [OF inv] route_stores(3))

lemma ledger_handle:
  assumes tz: "tz \<le> 0" and wf: "wf_db s" and inv: "ledger_inv s" and r: "not_budget_put r"
  shows "ledger_inv (handle tz uid r s)"
  using r
  by (cases r)
     (simp_all add: not_budget_put_def ledger_inv_frame [OF inv] ledger_create_expense [OF inv]
                    ledger_update_expense [OF tz wf inv] ledger_delete_expense [OF tz wf inv]
                    ledger_create_budget [OF inv] ledger_delete_budget [OF inv]
                    route_stores(3))

section \<open>Reachable stores\<close>

lemma reachable_wf: "reachable tz allowed s \<Longrightarrow> wf_db s"
  by (induction rule: reachable.induct) (simp_all add: wf_empty_db wf_handle)

lemma reachable_goal_inv: "reachable tz allowed s \<Longrightarrow> goal_inv s"
proof (induction rule: reachable.induct)
  case start
  show ?case by (simp add: goal_inv_def empty_db_def)
next
  case (step s r uid)
  then show ?case by (simp add: goal_inv_handle reachable_wf)
qed

end
