(* ===== verification/Typing.thy ===== *)
theory Typing
  imports Api
begin

text \<open>
  The column types the validators of src/src/middleware/validation.ts promise for the rows
  the handlers write: an expense has a positive amount and category, a budget a positive
  limit and category and a \<^verbatim>\<open>YYYY-MM\<close> month, a goal a title of at least three
  characters, a positive target and a current amount that is not negative. The handlers
  bind the raw request body, so these hold of the table because each write goes through
  the validator of its route and every other write (the budget adjustments of the expense
  routes, the progress of a goal) keeps them.
\<close>

definition expense_typed :: "expense_row \<Rightarrow> bool" where
  "expense_typed e \<longleftrightarrow> 0 < ex_amount e \<and> 0 < ex_category_id e"

definition budget_typed :: "budget_row \<Rightarrow> bool" where
  "budget_typed b \<longleftrightarrow> 0 < bu_monthly_limit b \<and> 0 < bu_category_id b \<and> budget_month_ok (bu_month_year b)"

definition goal_typed :: "goal_row \<Rightarrow> bool" where
  "goal_typed g \<longleftrightarrow> 3 \<le> length (go_title g) \<and> 0 < go_target_amount g \<and> 0 \<le> go_current_amount g"

definition typed_db :: "db \<Rightarrow> bool" where
  "typed_db s \<longleftrightarrow>
     (\<forall>e\<in>set (expenses s). expense_typed e) \<and> (\<forall>b\<in>set (budgets s). budget_typed b) \<and>
     (\<forall>g\<in>set (goals s). goal_typed g)"

section \<open>Lemmas\<close>

lemma ball_update_where_iff:
  "(\<forall>x\<in>set (update_where P g rows). Q x) \<longleftrightarrow> (\<forall>r\<in>set rows. Q (if P r then g r else r))"
  by (auto simp: update_where_def)

lemma ball_delete_where_iff:
  "(\<forall>x\<in>set (delete_where P rows). Q x) \<longleftrightarrow> (\<forall>r\<in>set rows. \<not> P r \<longrightarrow> Q r)"
  by (auto simp: delete_where_def)

lemmas typed_simps = typed_db_def expense_typed_def budget_typed_def goal_typed_def
  ball_update_where_iff ball_delete_where_iff adjust_budget_def Let_def

lemma typed_create_expense: "typed_db s \<Longrightarrow> typed_db (snd (create_expense uid b s))"
  by (auto simp: create_expense_def validateExpense_None_iff typed_simps split: option.splits)

lemma typed_update_expense: "typed_db s \<Longrightarrow> typed_db (snd (update_expense tz uid eid b s))"
  by (auto simp: update_expense_def validateExpense_None_iff typed_simps split: option.splits list.splits)

lemma typed_delete_expense: "typed_db s \<Longrightarrow> typed_db (snd (delete_expense tz uid eid s))"
  by (auto simp: delete_expense_def typed_simps split: list.splits)

lemma typed_create_budget: "typed_db s \<Longrightarrow> typed_db (snd (create_budget uid b s))"
  by (auto simp: create_budget_def validateBudget_None_iff typed_simps split: option.splits)

lemma typed_update_budget: "typed_db s \<Longrightarrow> typed_db (snd (update_budget uid bid b s))"
  by (auto simp: update_budget_def validateBudget_None_iff typed_simps split: option.splits)

lemma typed_delete_budget: "typed_db s \<Longrightarrow> typed_db (snd (delete_budget uid bid s))"
  by (auto simp: delete_budget_def typed_simps)

lemma typed_create_goal: "typed_db s \<Longrightarrow> typed_db (snd (create_goal uid b s))"
  by (auto simp: create_goal_def validateGoal_None_iff typed_simps split: option.splits)

lemma typed_update_goal: "typed_db s \<Longrightarrow> typed_db (snd (update_goal uid gid b s))"
  by (auto simp: update_goal_def validateGoal_None_iff typed_simps split: option.splits)

lemma typed_goal_progress: "typed_db s \<Longrightarrow> typed_db (snd (goal_progress uid gid a s))"
proof -
  have "0 \<le> go_current_amount g + x"
    if "typed_db s" "select_where (goal_row_of uid gid) (goals s) = g # rest" "0 < x" for g rest x
    using that select_where_ConsD [OF that(2)] by (force simp: typed_simps)
  then show "typed_db s \<Longrightarrow> typed_db (snd (goal_progress uid gid a s))"
    by (auto simp: goal_progress_def typed_simps split: option.splits list.splits)
qed

lemma typed_delete_goal: "typed_db s \<Longrightarrow> typed_db (snd (delete_goal uid gid s))"
  by (auto simp: delete_goal_def typed_simps)

lemma typed_ai_routes:
  "typed_db (snd (budgeting_route reply uid s)) = typed_db s"
  "typed_db (snd (spending_route reply uid s)) = typed_db s"
  "typed_db (snd (goal_advice_route reply uid gid s)) = typed_db s"
  "typed_db (snd (mark_read_route uid rid s)) = typed_db s"
  "typed_db (snd (delete_recommendation_route uid rid s)) = typed_db s"
  by (simp_all add: typed_db_def)

lemma typed_auth_routes:
  "typed_db (snd (register_route env rb s)) = typed_db s"
  "typed_db (snd (verify_otp_route now em c s)) = typed_db s"
  "typed_db (snd (login_route now ok lb s)) = typed_db s"
  "typed_db (snd (forgot_password_route env em s)) = typed_db s"
  "typed_db (snd (reset_password_route now em c pw s)) = typed_db s"
  by (simp_all add: typed_db_def route_stores(3))

lemma typed_handle: "typed_db s \<Longrightarrow> typed_db (handle tz uid r s)"
  by (cases r)
     (simp_all add: typed_create_expense typed_update_expense typed_delete_expense
                    typed_create_budget typed_update_budget typed_delete_budget typed_create_goal
                    typed_update_goal typed_goal_progress typed_delete_goal typed_ai_routes
                    typed_auth_routes)

section \<open>The typing invariant\<close>

text \<open>
  C30. In every store that a sequence of requests of any callers builds from the empty
  store, every expense has a positive amount and category, every budget a positive limit
  and category and a well-formed \<^verbatim>\<open>YYYY-MM\<close> month, and every goal a title of at least
  three characters, a positive target and a current amount that is not negative.
\<close>

theorem reachable_typed: "reachable tz allowed s \<Longrightarrow> typed_db s"
proof (induction rule: reachable.induct)
  case start
  show ?case by (simp add: typed_db_def empty_db_def)
next
  case (step s r uid)
  from step.IH show ?case by (rule typed_handle)
qed

theorem reachable_typed_witness:
  "reachable 0 (\<lambda>_. True) (handle 0 1 (Create_Goal
      \<lparr>gb_title = Some ''Car'', gb_targetAmount = Some 5000, gb_currentAmount = Some 100,
       gb_targetDate = Some \<lparr>d_year = 2026, d_month = 6, d_day = 1\<rparr>, gb_description = Some [],
       gb_status = None\<rparr>) empty_db) \<and>
   typed_db (handle 0 1 (Create_Goal
      \<lparr>gb_title = Some ''Car'', gb_targetAmount = Some 5000, gb_currentAmount = Some 100,
       gb_targetDate = Some \<lparr>d_year = 2026, d_month = 6, d_day = 1\<rparr>, gb_description = Some [],
       gb_status = None\<rparr>) empty_db)"
proof -
  have r: "reachable 0 (\<lambda>_. True) (handle 0 1 (Create_Goal
      \<lparr>gb_title = Some ''Car'', gb_targetAmount = Some 5000, gb_currentAmount = Some 100,
       gb_targetDate = Some \<lparr>d_year = 2026, d_month = 6, d_day = 1\<rparr>, gb_description = Some [],
       gb_status = None\<rparr>) empty_db)"
    by (intro reachable.step reachable.start) simp
  show ?thesis using r reachable_typed [OF r] by simp
qed

end
