(* ===== verification/Concurrency.thy ===== *)
theory Concurrency
  imports Typing
begin

text \<open>
  Requests of different connections run concurrently: each \<^verbatim>\<open>await database.query\<close>
  of a handler yields to the event loop, and the pool of src/src/config/database.ts runs
  the statements of other requests in between. No handler opens a transaction. So a
  handler is a sequence of statements, and two requests interleave at statement
  granularity.

  \<^verbatim>\<open>DELETE /api/expenses/:id\<close> has two phases: the \<^verbatim>\<open>SELECT\<close> of the row
  (\<open>delete_expense_read\<close>), then the \<^verbatim>\<open>DELETE\<close> and the budget \<^verbatim>\<open>UPDATE\<close> with the amount
  read (\<open>delete_expense_write\<close>). \<open>delete_expense_phases\<close> shows that the handler is
  these two phases run back to back. \<open>concurrent_deletes\<close> is the schedule in which two
  requests for the same expense both read before either writes.
\<close>

definition delete_expense_read :: "user_id \<Rightarrow> nat \<Rightarrow> db \<Rightarrow> expense_row option" where
  "delete_expense_read uid eid s =
     (case select_where (expense_row_of uid eid) (expenses s) of [] \<Rightarrow> None | old # _ \<Rightarrow> Some old)"

definition delete_expense_write :: "int \<Rightarrow> user_id \<Rightarrow> nat \<Rightarrow> expense_row \<Rightarrow> db \<Rightarrow> db" where
  "delete_expense_write tz uid eid old s =
     adjust_budget uid (ex_category_id old) (month_of_row tz (ex_expense_date old)) (- ex_amount old)
       (s\<lparr>expenses := delete_where (expense_row_of uid eid) (expenses s)\<rparr>)"

text \<open>Read A, read B, write A, write B.\<close>

definition concurrent_deletes :: "int \<Rightarrow> user_id \<Rightarrow> nat \<Rightarrow> db \<Rightarrow> db" where
  "concurrent_deletes tz uid eid s =
     (case (delete_expense_read uid eid s, delete_expense_read uid eid s) of
        (Some a, Some b) \<Rightarrow> delete_expense_write tz uid eid b (delete_expense_write tz uid eid a s)
      | _ \<Rightarrow> s)"

definition conc_store :: db where
  "conc_store = empty_db\<lparr>
     expenses := [\<lparr>ex_id = 1, ex_user_id = 1, ex_category_id = 2, ex_amount = 120, ex_description = [],
                    ex_expense_date = \<lparr>d_year = 2024, d_month = 3, d_day = 5\<rparr>\<rparr>],
     budgets := [\<lparr>bu_id = 1, bu_user_id = 1, bu_category_id = 2, bu_monthly_limit = 500,
                   bu_current_spent = 120, bu_month_year = ''2024-03''\<rparr>],
     next_expense_id := 2, next_budget_id := 2\<rparr>"

section \<open>Lemmas\<close>

lemma delete_expense_phases:
  "delete_expense tz uid eid s =
     (case delete_expense_read uid eid s of
        None \<Rightarrow> (Inl (Not_Found ''Expense not found''), s)
      | Some old \<Rightarrow> (Inr (), delete_expense_write tz uid eid old s))"
  by (simp add: delete_expense_def delete_expense_read_def delete_expense_write_def Let_def
           split: list.split)

lemma delete_where_idem [simp]: "delete_where P (delete_where P rows) = delete_where P rows"
  by (simp add: delete_where_def)

lemma expenses_delete_expense_write [simp]:
  "expenses (delete_expense_write tz uid eid old s) = delete_where (expense_row_of uid eid) (expenses s)"
  by (simp add: delete_expense_write_def adjust_budget_def)

text \<open>Moving one budget row by a non-zero amount, with the expenses unchanged, breaks the
  reconciliation invariant.\<close>

lemma adjust_budget_breaks_ledger:
  assumes inv: "ledger_inv s" and b: "b \<in> set (budgets s)" and d: "d \<noteq> 0"
  shows "\<not> ledger_inv (adjust_budget (bu_user_id b) (bu_category_id b) (bu_month_year b) d s)"
proof
  let ?s' = "adjust_budget (bu_user_id b) (bu_category_id b) (bu_month_year b) d s"
  assume inv': "ledger_inv ?s'"
  have "b\<lparr>bu_current_spent := bu_current_spent b + d\<rparr> \<in> set (budgets ?s')"
    using b by (auto simp: budgets_adjust_budget budgets_shift_def at_key_def)
  with inv' have "bu_current_spent (b\<lparr>bu_current_spent := bu_current_spent b + d\<rparr>) =
      backfill_spent (bu_user_id b) (bu_category_id b) (bu_month_year b) ?s'"
    unfolding ledger_inv_def by fastforce
  moreover have "backfill_spent (bu_user_id b) (bu_category_id b) (bu_month_year b) ?s' =
                 backfill_spent (bu_user_id b) (bu_category_id b) (bu_month_year b) s"
    by (rule backfill_spent_cong) (simp add: adjust_budget_def)
  moreover from inv b have "bu_current_spent b = backfill_spent (bu_user_id b) (bu_category_id b) (bu_month_year b) s"
    unfolding ledger_inv_def by blast
  ultimately show False using d by simp
qed

lemma budget_key_kept:
  "b \<in> set (budgets s) \<Longrightarrow> \<exists>b'\<in>set (budgets (adjust_budget u c m d s)). budget_key b' = budget_key b"
  by (force simp: budgets_adjust_budget budgets_shift_def budget_key_def)

section \<open>Two deletes of one expense\<close>

text \<open>
  C38. When two \<^verbatim>\<open>DELETE\<close> requests for the same expense both read the row before
  either deletes it (which the handler allows: it holds no lock between its
  \<^verbatim>\<open>SELECT\<close> and its \<^verbatim>\<open>DELETE\<close>), the row is deleted once but its amount is taken off
  its budget twice. One delete keeps the reconciliation invariant; the interleaved pair
  breaks it, driving \<^verbatim>\<open>current_spent\<close> below the sum of the remaining expenses.
\<close>

theorem concurrent_deletes_refund_twice:
  assumes tz: "tz \<le> 0" and wf: "wf_db s" and inv: "ledger_inv s"
    and old: "delete_expense_read uid eid s = Some old" and pos: "0 < ex_amount old"
    and b: "b \<in> set (budgets s)"
    and key: "budget_key b = (uid, ex_category_id old, month_key (ex_expense_date old))"
  shows "expenses (concurrent_deletes tz uid eid s) = expenses (snd (delete_expense tz uid eid s)) \<and>
         ledger_inv (snd (delete_expense tz uid eid s)) \<and>
         \<not> ledger_inv (concurrent_deletes tz uid eid s)"
proof -
  let ?s1 = "delete_expense_write tz uid eid old s"
  have d1: "delete_expense tz uid eid s = (Inr (), ?s1)" by (simp add: delete_expense_phases old)
  have inv1: "ledger_inv ?s1" using ledger_delete_expense [OF tz wf inv, of uid eid] d1 by simp
  have conc: "concurrent_deletes tz uid eid s = delete_expense_write tz uid eid old ?s1"
    by (simp add: concurrent_deletes_def old)
  have same: "?s1\<lparr>expenses := delete_where (expense_row_of uid eid) (expenses ?s1)\<rparr> = ?s1"
    by simp
  have eq: "delete_expense_write tz uid eid old ?s1 =
            adjust_budget uid (ex_category_id old) (month_key (ex_expense_date old)) (- ex_amount old) ?s1"
    using same tz by (simp only: delete_expense_write_def month_of_row_west)
  have "b \<in> set (budgets (s\<lparr>expenses := delete_where (expense_row_of uid eid) (expenses s)\<rparr>))"
    using b by simp
  from budget_key_kept [OF this, of uid "ex_category_id old" "month_of_row tz (ex_expense_date old)"
      "- ex_amount old"]
  obtain b1 where b1: "b1 \<in> set (budgets ?s1)" "budget_key b1 = budget_key b"
    unfolding delete_expense_write_def by blast
  have "\<not> ledger_inv (adjust_budget (bu_user_id b1) (bu_category_id b1) (bu_month_year b1) (- ex_amount old) ?s1)"
    by (rule adjust_budget_breaks_ledger [OF inv1 b1(1)]) (use pos in simp)
  with b1(2) key have nb: "\<not> ledger_inv (concurrent_deletes tz uid eid s)"
    by (simp add: conc eq budget_key_def)
  have e: "expenses (concurrent_deletes tz uid eid s) = expenses (snd (delete_expense tz uid eid s))"
    by (simp only: conc d1 snd_conv expenses_delete_expense_write delete_where_idem)
  have "ledger_inv (snd (delete_expense tz uid eid s))" by (simp only: d1 snd_conv inv1)
  with e nb show ?thesis by blast
qed

theorem concurrent_deletes_refund_twice_witness:
  "delete_expense_read 1 1 conc_store = Some (hd (expenses conc_store)) \<and>
   ledger_inv (snd (delete_expense 0 1 1 conc_store)) \<and>
   \<not> ledger_inv (concurrent_deletes 0 1 1 conc_store)"
proof -
  have wf: "wf_db conc_store" by (simp add: conc_store_def empty_db_def wf_db_def)
  have inv: "ledger_inv conc_store"
    by (simp add: conc_store_def empty_db_def ledger_inv_def backfill_spent_def expense_in_def
                  month_key_def digit_def)
  have rd: "delete_expense_read 1 1 conc_store = Some (hd (expenses conc_store))"
    by (simp add: conc_store_def empty_db_def delete_expense_read_def expense_row_of_def)
  have pos: "0 < ex_amount (hd (expenses conc_store))" by (simp add: conc_store_def)
  have b: "hd (budgets conc_store) \<in> set (budgets conc_store)" by (simp add: conc_store_def)
  have key: "budget_key (hd (budgets conc_store)) =
      (1, ex_category_id (hd (expenses conc_store)), month_key (ex_expense_date (hd (expenses conc_store))))"
    by (simp add: conc_store_def budget_key_def month_key_def digit_def)
  from concurrent_deletes_refund_twice [OF order_refl wf inv rd pos b key] rd show ?thesis by simp
qed

end
