(* ===== verification/Refinement.thy ===== *)
theory Refinement
  imports Concurrency
begin

text \<open>
  The expenses table seen as what the routes promise of it: a finite map from expense id
  to row, in which \<^verbatim>\<open>POST /api/expenses\<close> adds the request's row under a fresh id,
  \<^verbatim>\<open>PUT /:id\<close> replaces the caller's row under its id and \<^verbatim>\<open>DELETE /:id\<close> removes it;
  a body the validator refuses, a row of another user and a missing id leave the map as
  it is. \<open>expense_map\<close> is the abstraction of the table (the \<^verbatim>\<open>PRIMARY KEY\<close>
  lookup), \<open>expense_spec\<close> the abstract step, and \<open>expense_table_refines_map\<close> the
  simulation: on a well-formed store every request moves the abstraction as the abstract
  step moves it.
\<close>

definition expense_map :: "db \<Rightarrow> nat \<rightharpoonup> expense_row" where
  "expense_map s = map_of (map (\<lambda>e. (ex_id e, e)) (expenses s))"

text \<open>The row a request body describes, when the validator and the bound parameters
  accept it.\<close>

definition expense_of_body :: "nat \<Rightarrow> user_id \<Rightarrow> expense_body \<Rightarrow> expense_row option" where
  "expense_of_body k uid b =
     (if validateExpense b = None then
        (case (eb_categoryId b, eb_amount b, eb_expenseDate b, eb_description b) of
           (Some c, Some a, Some d, Some desc) \<Rightarrow>
             Some \<lparr>ex_id = k, ex_user_id = uid, ex_category_id = nat c, ex_amount = a,
                   ex_description = desc, ex_expense_date = d\<rparr>
         | _ \<Rightarrow> None)
      else None)"

fun expense_spec :: "user_id \<Rightarrow> request \<Rightarrow> nat \<Rightarrow> (nat \<rightharpoonup> expense_row) \<Rightarrow> (nat \<rightharpoonup> expense_row)" where
  "expense_spec uid (Create_Expense b) k m =
     (case expense_of_body k uid b of None \<Rightarrow> m | Some e \<Rightarrow> m(k \<mapsto> e))"
| "expense_spec uid (Update_Expense i b) k m =
     (case m i of
        Some old \<Rightarrow> if ex_user_id old = uid
                    then (case expense_of_body i uid b of None \<Rightarrow> m | Some e \<Rightarrow> m(i \<mapsto> e)) else m
      | None \<Rightarrow> m)"
| "expense_spec uid (Delete_Expense i) k m =
     (case m i of Some old \<Rightarrow> if ex_user_id old = uid then m(i := None) else m | None \<Rightarrow> m)"
| "expense_spec uid _ k m = m"

section \<open>Lemmas\<close>

lemma map_of_keyed_filter:
  "distinct (map k xs) \<Longrightarrow>
     map_of (map (\<lambda>x. (k x, x)) (filter (\<lambda>x. k x \<noteq> i) xs)) = (map_of (map (\<lambda>x. (k x, x)) xs))(i := None)"
  by (induction xs) (auto simp: fun_eq_iff map_of_eq_None_iff)

lemma map_of_keyed_update:
  "(\<And>x. k (g x) = k x) \<Longrightarrow>
     map_of (map (\<lambda>x. (k x, x)) (map (\<lambda>x. if k x = i then g x else x) xs)) =
     (map_of (map (\<lambda>x. (k x, x)) xs))(i := map_option g (map_of (map (\<lambda>x. (k x, x)) xs) i))"
  by (induction xs) (auto simp: fun_eq_iff)

lemma map_of_keyed_Some:
  "distinct (map k xs) \<Longrightarrow> map_of (map (\<lambda>x. (k x, x)) xs) i = Some x \<longleftrightarrow> x \<in> set xs \<and> k x = i"
  by (induction xs) (auto simp: map_of_eq_None_iff image_iff)

lemma map_add_fresh:
  "k \<notin> dom m \<Longrightarrow> [k \<mapsto> v] ++ m = m(k \<mapsto> v)"
  by (auto simp: fun_eq_iff map_add_def split: option.split)

text \<open>The caller's row with a given id, among distinct ids, is what the map holds there.\<close>

lemma select_expense_map:
  assumes "distinct (map ex_id (expenses s))"
  shows "select_where (expense_row_of uid i) (expenses s) =
           (case expense_map s i of Some e \<Rightarrow> if ex_user_id e = uid then [e] else [] | None \<Rightarrow> [])"
proof (cases "expense_map s i")
  case None
  then have "\<forall>e\<in>set (expenses s). ex_id e \<noteq> i"
    by (auto simp: expense_map_def map_of_eq_None_iff image_iff)
  with None show ?thesis by (auto simp: select_where_def expense_row_of_def filter_empty_conv)
next
  case (Some e)
  with assms have e: "e \<in> set (expenses s)" "ex_id e = i" by (simp_all add: expense_map_def map_of_keyed_Some)
  show ?thesis
  proof (cases "ex_user_id e = uid")
    case True
    have "filter (expense_row_of uid i) (expenses s) = [e]"
      using assms e(1) by (rule filter_key_unique [where k = ex_id]) (use e True in \<open>simp_all add: expense_row_of_def\<close>)
    with Some True show ?thesis by (simp add: select_where_def)
  next
    case False
    have "\<forall>x\<in>set (expenses s). \<not> expense_row_of uid i x"
    proof
      fix x assume "x \<in> set (expenses s)"
      with assms e have "ex_id x = i \<Longrightarrow> x = e" by (metis distinct_map inj_onD)
      with False show "\<not> expense_row_of uid i x" by (auto simp: expense_row_of_def)
    qed
    with Some False show ?thesis by (simp add: select_where_def filter_empty_conv)
  qed
qed

lemma expenses_of_other_handlers [simp]:
  "expenses (snd (create_budget uid bb s)) = expenses s"
  "expenses (snd (update_budget uid i bb s)) = expenses s"
  "expenses (snd (delete_budget uid i s)) = expenses s"
  by (simp_all add: handler_defs Let_def split: option.split)

text \<open>With distinct ids, the statements \<^verbatim>\<open>WHERE id = ? AND user_id = ?\<close> on the
  caller's row act on the id alone.\<close>

lemma owned_row_iff:
  assumes "distinct (map ex_id xs)" and "old \<in> set xs" "ex_id old = i" "ex_user_id old = uid"
    and "x \<in> set xs"
  shows "expense_row_of uid i x \<longleftrightarrow> ex_id x = i"
proof -
  have "ex_id x = i \<Longrightarrow> x = old" using assms by (metis distinct_map inj_onD)
  with assms show ?thesis by (auto simp: expense_row_of_def)
qed

lemma update_where_owned:
  assumes "distinct (map ex_id xs)" and "old \<in> set xs" "ex_id old = i" "ex_user_id old = uid"
  shows "update_where (expense_row_of uid i) g xs = map (\<lambda>x. if ex_id x = i then g x else x) xs"
  unfolding update_where_def using owned_row_iff [OF assms] by simp

lemma delete_where_owned:
  assumes "distinct (map ex_id xs)" and "old \<in> set xs" "ex_id old = i" "ex_user_id old = uid"
  shows "delete_where (expense_row_of uid i) xs = filter (\<lambda>x. ex_id x \<noteq> i) xs"
  unfolding delete_where_def using owned_row_iff [OF assms] by (auto intro: filter_cong)

lemma expenses_adjust_budget [simp]: "expenses (adjust_budget u c m d s) = expenses s"
  by (simp add: adjust_budget_def)

lemma refine_create:
  assumes wf: "wf_db s"
  shows "expense_map (snd (create_expense uid b s)) =
           expense_spec uid (Create_Expense b) (next_expense_id s) (expense_map s)"
proof -
  have fresh: "next_expense_id s \<notin> dom (map_of (map (\<lambda>e. (ex_id e, e)) (expenses s)))"
    using wf by (auto simp: wf_db_def dom_map_of_conv_image_fst)
  show ?thesis
    by (simp add: create_expense_def expense_of_body_def expense_map_def Let_def map_add_fresh [OF fresh]
             split: option.split)
qed

lemma refine_delete:
  assumes wf: "wf_db s"
  shows "expense_map (snd (delete_expense tz uid i s)) =
           expense_spec uid (Delete_Expense i) k (expense_map s)"
proof -
  from wf have dist: "distinct (map ex_id (expenses s))" by (simp add: wf_db_def)
  show ?thesis
  proof (cases "expense_map s i")
    case None
    with select_expense_map [OF dist, of uid i] show ?thesis by (simp add: delete_expense_def)
  next
    case (Some old)
    with dist have old: "old \<in> set (expenses s)" "ex_id old = i"
      by (simp_all add: expense_map_def map_of_keyed_Some)
    show ?thesis
    proof (cases "ex_user_id old = uid")
      case True
      with Some select_expense_map [OF dist, of uid i] have "select_where (expense_row_of uid i) (expenses s) = [old]"
        by simp
      with True Some show ?thesis
        using delete_where_owned [OF dist old True] map_of_keyed_filter [OF dist, of i]
        by (simp add: delete_expense_def expense_map_def)
    next
      case False
      with Some select_expense_map [OF dist, of uid i] show ?thesis by (simp add: delete_expense_def)
    qed
  qed
qed

lemma refine_update:
  assumes wf: "wf_db s"
  shows "expense_map (snd (update_expense tz uid i b s)) =
           expense_spec uid (Update_Expense i b) k (expense_map s)"
proof -
  from wf have dist: "distinct (map ex_id (expenses s))" by (simp add: wf_db_def)
  have unchanged: "snd (update_expense tz uid i b s) = s"
    if "select_where (expense_row_of uid i) (expenses s) = []"
    using that by (simp add: update_expense_def split: option.split prod.split)
  show ?thesis
  proof (cases "expense_map s i")
    case None
    with select_expense_map [OF dist, of uid i] unchanged show ?thesis by simp
  next
    case (Some old)
    with dist have old: "old \<in> set (expenses s)" "ex_id old = i"
      by (simp_all add: expense_map_def map_of_keyed_Some)
    show ?thesis
    proof (cases "ex_user_id old = uid")
      case False
      with Some select_expense_map [OF dist, of uid i] unchanged show ?thesis by simp
    next
      case True
      with Some select_expense_map [OF dist, of uid i]
      have sel: "select_where (expense_row_of uid i) (expenses s) = [old]" by simp
      have upd: "map_of (map (\<lambda>e. (ex_id e, e)) (update_where (expense_row_of uid i) g (expenses s))) =
                 (expense_map s)(i \<mapsto> g old)" if "\<And>e. ex_id (g e) = ex_id e" for g
        using update_where_owned [OF dist old True] map_of_keyed_update [of ex_id g i, OF that] Some
        by (simp add: expense_map_def)
      have row: "old\<lparr>ex_category_id := c, ex_amount := a, ex_description := desc, ex_expense_date := d\<rparr> =
                 \<lparr>ex_id = i, ex_user_id = uid, ex_category_id = c, ex_amount = a, ex_description = desc,
                  ex_expense_date = d\<rparr>" for c a desc d
        using old(2) True by (cases old) simp
      show ?thesis
        using Some True sel upd row
        by (auto simp: update_expense_def expense_of_body_def Let_def expense_map_def
                 split: option.split)
    qed
  qed
qed

section \<open>The simulation\<close>

text \<open>
  C39. The expenses table refines a finite map from id to row: on a well-formed store,
  after any request of any caller, the table's map is the abstract step applied to the
  map before it. A create adds the validated row under the next id, an update replaces
  the caller's row under its id, a delete removes it, and everything else (an error, a row
  of another user, any other route) leaves the map unchanged.
\<close>

theorem expense_table_refines_map:
  assumes wf: "wf_db s"
  shows "expense_map (handle tz uid r s) = expense_spec uid r (next_expense_id s) (expense_map s)"
proof (cases r)
  case (Create_Expense b)
  with refine_create [OF wf] show ?thesis by simp
next
  case (Update_Expense i b)
  with refine_update [OF wf] show ?thesis by simp
next
  case (Delete_Expense i)
  with refine_delete [OF wf] show ?thesis by simp
qed (simp_all add: expense_map_def route_stores(3))

theorem expense_table_refines_map_witness:
  "expense_map (handle 0 1 (Delete_Expense 1) conc_store) = Map.empty \<and>
   expense_map (handle 0 2 (Delete_Expense 1) conc_store) = expense_map conc_store"
proof -
  have wf: "wf_db conc_store" by (simp add: conc_store_def empty_db_def wf_db_def)
  have m: "expense_map conc_store = [1 \<mapsto> hd (expenses conc_store)]"
    by (simp add: conc_store_def empty_db_def expense_map_def)
  have u: "ex_user_id (hd (expenses conc_store)) = 1" by (simp add: conc_store_def)
  have "expense_spec 1 (Delete_Expense 1) 2 (expense_map conc_store) = Map.empty"
       "expense_spec 2 (Delete_Expense 1) 2 (expense_map conc_store) = expense_map conc_store"
    using m u by simp_all
  moreover have "next_expense_id conc_store = 2" by (simp add: conc_store_def)
  ultimately show ?thesis
    using expense_table_refines_map [OF wf, of 0 1 "Delete_Expense 1"]
      expense_table_refines_map [OF wf, of 0 2 "Delete_Expense 1"]
    by simp
qed

end
