(* ===== verification/Email.thy ===== *)
theory Email
  imports Auth
begin

text \<open>
  The mails of src/src/services/emailService.ts. Sending is SMTP I/O through nodemailer:
  whether \<^verbatim>\<open>transporter.sendMail\<close> succeeds is an input (\<open>sent\<close>, the
  \<open>env_mail_ok\<close> of the authentication model), and a method that sends returns the mail
  it hands to the transport (or the error it throws). \<^verbatim>\<open>process.env.EMAIL_USER\<close> is
  the argument \<open>email_user\<close>. The HTML bodies are the template literals of the source,
  one element of \<open>*_lines\<close> per line of the template, with its indentation
  (\<open>lines_text\<close>, \<open>indent\<close>);
  the emoji of the welcome heading is written as its UTF-8 bytes. \<open>register_mails\<close>,
  \<open>resend_mails\<close> and \<open>reset_mails\<close> are the mails that \<^verbatim>\<open>AuthService.register\<close>,
  \<^verbatim>\<open>resendOTP\<close> and \<^verbatim>\<open>requestPasswordReset\<close> (src/src/services/authService.ts)
  send. Nothing in src calls \<^verbatim>\<open>sendWelcomeEmail\<close>.
\<close>

record mail =
  mail_from :: string
  mail_to :: string
  mail_subject :: string
  mail_html :: string

definition mail_sender :: "string \<Rightarrow> string" where
  \<open>mail_sender email_user = ''"Financial Manager" <'' @ email_user @ ''>''\<close>

definition otp_lines :: "string \<Rightarrow> string list" where
  \<open>otp_lines otp =
     [indent 8 ''<div style="font-family: Arial, sans-serif; max-width: 600px; margin: 0 auto;">'',
      indent 10 ''<h2 style="color: #333;">Email Verification</h2>'',
      indent 10 ''<p>Hello,</p>'',
      indent 10 ''<p>Thank you for registering with our Financial Management App. To complete your registration, please use the following One-Time Password (OTP):</p>'',
      indent 10 [],
      indent 10 ''<div style="background-color: #f8f9fa; padding: 20px; border-radius: 5px; text-align: center; margin: 20px 0;">'',
      indent 12 (''<h1 style="color: #007bff; font-size: 32px; margin: 0; letter-spacing: 5px;">'' @ otp @ ''</h1>''),
      indent 10 ''</div>'',
      indent 10 [],
      indent 10 ''<p><strong>Important:</strong></p>'',
      indent 10 ''<ul>'',
      indent 12 ''<li>This OTP will expire in 10 minutes</li>'',
      indent 12 ''<li>Do not share this code with anyone</li>'',
      indent 12 ''<li>If you didn't request this verification, please ignore this email</li>'',
      indent 10 ''</ul>'',
      indent 10 [],
      indent 10 ''<p>Best regards,<br>Financial Manager Team</p>'',
      indent 10 [],
      indent 10 ''<hr style="border: none; border-top: 1px solid #eee; margin: 20px 0;">'',
      indent 10 ''<p style="font-size: 12px; color: #666;">'',
      indent 12 ''This is an automated email. Please do not reply to this message.'',
      indent 10 ''</p>'',
      indent 8 ''</div>'',
      indent 6 []]\<close>

definition otp_mail :: "string \<Rightarrow> string \<Rightarrow> string \<Rightarrow> mail" where
  "otp_mail email_user email otp =
     \<lparr>mail_from = mail_sender email_user, mail_to = email,
      mail_subject = ''Email Verification - OTP Code'', mail_html = lines_text (otp_lines otp)\<rparr>"

definition sendOTP :: "bool \<Rightarrow> string \<Rightarrow> string \<Rightarrow> string \<Rightarrow> string + mail" where
  "sendOTP sent email_user email otp =
     (if sent then Inr (otp_mail email_user email otp) else Inl ''Failed to send verification email'')"

definition party_emoji :: string where
  "party_emoji = map char_of [240, 159, 142, 137 :: nat]"

definition welcome_lines :: "string \<Rightarrow> string list" where
  \<open>welcome_lines first_name =
     [indent 8 ''<div style="font-family: Arial, sans-serif; max-width: 600px; margin: 0 auto;">'',
      indent 10 (''<h2 style="color: #333;">Welcome to Financial Manager! '' @ party_emoji @ ''</h2>''),
      indent 10 (''<p>Hello '' @ first_name @ '',</p>''),
      indent 10 ''<p>Congratulations! Your email has been successfully verified and your account is now active.</p>'',
      indent 10 [],
      indent 10 ''<p><strong>What's next?</strong></p>'',
      indent 10 ''<ul>'',
      indent 12 ''<li>Start tracking your expenses</li>'',
      indent 12 ''<li>Set your financial goals</li>'',
      indent 12 ''<li>Get AI-powered recommendations</li>'',
      indent 12 ''<li>Create budgets for better financial planning</li>'',
      indent 10 ''</ul>'',
      indent 10 [],
      indent 10 ''<p>We're here to help you achieve your financial goals. If you have any questions, feel free to reach out to our support team.</p>'',
      indent 10 [],
      indent 10 ''<p>Happy budgeting!<br>Financial Manager Team</p>'',
      indent 8 ''</div>'',
      indent 6 []]\<close>

definition welcome_mail :: "string \<Rightarrow> string \<Rightarrow> string \<Rightarrow> mail" where
  "welcome_mail email_user email first_name =
     \<lparr>mail_from = mail_sender email_user, mail_to = email,
      mail_subject = ''Welcome to Financial Manager!'', mail_html = lines_text (welcome_lines first_name)\<rparr>"

text \<open>A failed welcome mail is logged and swallowed: the method never throws.\<close>

definition sendWelcomeEmail :: "bool \<Rightarrow> string \<Rightarrow> string \<Rightarrow> string \<Rightarrow> mail option" where
  "sendWelcomeEmail sent email_user email first_name =
     (if sent then Some (welcome_mail email_user email first_name) else None)"

definition reset_lines :: "string \<Rightarrow> string list" where
  \<open>reset_lines otp =
     [indent 8 ''<div style="font-family: Arial, sans-serif; max-width: 600px; margin: 0 auto;">'',
      indent 10 ''<h2 style="color: #333;">Password Reset Request</h2>'',
      indent 10 ''<p>Hello,</p>'',
      indent 10 ''<p>We received a request to reset your password. To proceed with the password reset, please use the following One-Time Password (OTP):</p>'',
      indent 10 [],
      indent 10 ''<div style="background-color: #f8f9fa; padding: 20px; border-radius: 5px; text-align: center; margin: 20px 0;">'',
      indent 12 (''<h1 style="color: #dc3545; font-size: 32px; margin: 0; letter-spacing: 5px;">'' @ otp @ ''</h1>''),
      indent 10 ''</div>'',
      indent 10 [],
      indent 10 ''<p><strong>Important:</strong></p>'',
      indent 10 ''<ul>'',
      indent 12 ''<li>This OTP will expire in 10 minutes</li>'',
      indent 12 ''<li>Do not share this code with anyone</li>'',
      indent 12 ''<li>If you didn't request a password reset, please ignore this email</li>'',
      indent 10 ''</ul>'',
      indent 10 [],
      indent 10 ''<p>Best regards,<br>Financial Manager Team</p>'',
      indent 10 [],
      indent 10 ''<hr style="border: none; border-top: 1px solid #eee; margin: 20px 0;">'',
      indent 10 ''<p style="font-size: 12px; color: #666;">'',
      indent 12 ''This is an automated email. Please do not reply to this message.'',
      indent 10 ''</p>'',
      indent 8 ''</div>'',
      indent 6 []]\<close>

definition reset_mail :: "string \<Rightarrow> string \<Rightarrow> string \<Rightarrow> mail" where
  "reset_mail email_user email otp =
     \<lparr>mail_from = mail_sender email_user, mail_to = email,
      mail_subject = ''Password Reset - OTP Code'', mail_html = lines_text (reset_lines otp)\<rparr>"

definition sendPasswordResetOTP :: "bool \<Rightarrow> string \<Rightarrow> string \<Rightarrow> string \<Rightarrow> string + mail" where
  "sendPasswordResetOTP sent email_user email otp =
     (if sent then Inr (reset_mail email_user email otp) else Inl ''Failed to send password reset email'')"

text \<open>The mails \<^verbatim>\<open>register\<close>, \<^verbatim>\<open>resendOTP\<close> and \<^verbatim>\<open>requestPasswordReset\<close> hand to the transport: none when
  they stop before \<^verbatim>\<open>sendOTP\<close>, the code's mail when the send succeeds.\<close>

definition register_mails :: "auth_env \<Rightarrow> string \<Rightarrow> string \<Rightarrow> db \<Rightarrow> mail list" where
  "register_mails env email_user e s =
     (if select_where (user_by_email e) (users s) \<noteq> [] then []
      else case sendOTP (env_mail_ok env) email_user e (generate_otp (env_rand env)) of
             Inr m \<Rightarrow> [m] | Inl _ \<Rightarrow> [])"

definition resend_mails :: "auth_env \<Rightarrow> string \<Rightarrow> string \<Rightarrow> db \<Rightarrow> mail list" where
  "resend_mails env email_user e s =
     (if select_where (\<lambda>u. user_by_email e u \<and> \<not> us_is_verified u) (users s) = [] then []
      else case sendOTP (env_mail_ok env) email_user e (generate_otp (env_rand env)) of
             Inr m \<Rightarrow> [m] | Inl _ \<Rightarrow> [])"

definition reset_mails :: "auth_env \<Rightarrow> string \<Rightarrow> string \<Rightarrow> db \<Rightarrow> mail list" where
  "reset_mails env email_user e s =
     (if select_where (\<lambda>u. user_by_email e u \<and> us_is_verified u) (users s) = [] then []
      else case sendPasswordResetOTP (env_mail_ok env) email_user e (generate_otp (env_rand env)) of
             Inr m \<Rightarrow> [m] | Inl _ \<Rightarrow> [])"

section \<open>Lemmas\<close>

text \<open>The code is in the body of each code mail.\<close>

lemma otp_in_mails:
  "sublist otp (mail_html (otp_mail u e otp))"
  "sublist otp (mail_html (reset_mail u e otp))"
proof -
  have "sublist otp (otp_lines otp ! 6)" "otp_lines otp ! 6 \<in> set (otp_lines otp)"
    by (simp_all add: otp_lines_def sublist_indent sublist_appendI del: append.simps)
  then show "sublist otp (mail_html (otp_mail u e otp))"
    unfolding otp_mail_def mail.select_convs by (rule sublist_lines_text)
  have "sublist otp (reset_lines otp ! 6)" "reset_lines otp ! 6 \<in> set (reset_lines otp)"
    by (simp_all add: reset_lines_def sublist_indent sublist_appendI del: append.simps)
  then show "sublist otp (mail_html (reset_mail u e otp))"
    unfolding reset_mail_def mail.select_convs by (rule sublist_lines_text)
qed

text \<open>\<^verbatim>\<open>register\<close> and \<^verbatim>\<open>sendOTP\<close> agree: for a new e-mail the mail sent carries the
  code stored in the new user's row, and when the send fails nothing is sent and the
  service answers with the message \<^verbatim>\<open>sendOTP\<close> throws (after the row is stored).\<close>

lemma register_mails_code:
  assumes "select_where (user_by_email e) (users s) = []"
  shows "us_otp_code (last (users (snd (register env e p f l s)))) = Some (generate_otp (env_rand env)) \<and>
         (if env_mail_ok env
          then register_mails env u e s = [otp_mail u e (generate_otp (env_rand env))] \<and>
               fst (register env e p f l s) = Inr ()
          else register_mails env u e s = [] \<and>
               fst (register env e p f l s) =
                 Inl (Bad_Request (projl (sendOTP False u e (generate_otp (env_rand env))))))"
  using assms by (simp add: register_def register_mails_def sendOTP_def Let_def)

lemma reset_mails_code:
  assumes "select_where (\<lambda>u. user_by_email e u \<and> us_is_verified u) (users s) \<noteq> []"
  shows "(if env_mail_ok env
          then reset_mails env u e s = [reset_mail u e (generate_otp (env_rand env))] \<and>
               fst (requestPasswordReset env e s) = Inr ()
          else reset_mails env u e s = [] \<and>
               fst (requestPasswordReset env e s) =
                 Inl (Bad_Request (projl (sendPasswordResetOTP False u e (generate_otp (env_rand env))))))"
  using assms by (simp add: requestPasswordReset_def reset_mails_def sendPasswordResetOTP_def Let_def)

lemma resend_mails_code:
  assumes "select_where (\<lambda>u. user_by_email e u \<and> \<not> us_is_verified u) (users s) \<noteq> []"
  shows "(if env_mail_ok env
          then resend_mails env u e s = [otp_mail u e (generate_otp (env_rand env))] \<and>
               fst (resendOTP env e s) = Inr ()
          else resend_mails env u e s = [] \<and>
               fst (resendOTP env e s) =
                 Inl (Bad_Request (projl (sendOTP False u e (generate_otp (env_rand env))))))"
  using assms by (simp add: resendOTP_def resend_mails_def sendOTP_def Let_def)

text \<open>Whenever \<^verbatim>\<open>resendOTP\<close> or \<^verbatim>\<open>requestPasswordReset\<close> mails a code, that code
  is the one stored in every row of the e-mail address the mail goes to.\<close>

lemma set_otp_stores_code:
  assumes r: "r \<in> set (users (set_otp e c t s))" and e: "us_email r = e"
  shows "us_otp_code r = Some c"
proof -
  let ?g = "\<lambda>u. u\<lparr>us_otp_code := Some c, us_otp_expires_at := Some t\<rparr>"
  have "r \<in> (\<lambda>u. if user_by_email e u then ?g u else u) ` set (users s)"
    using r unfolding set_otp_def update_where_def by simp
  then obtain x where x: "r = (if user_by_email e x then ?g x else x)" by (rule imageE)
  then have "us_email x = e" using e by (simp split: if_splits)
  with x show ?thesis by (simp add: user_by_email_def)
qed

lemma mailed_code_stored:
  "m \<in> set (resend_mails env u e s) \<Longrightarrow>
     \<exists>c. m = otp_mail u e c \<and> (\<forall>r\<in>set (users (snd (resendOTP env e s))). us_email r = e \<longrightarrow> us_otp_code r = Some c)"
  "m \<in> set (reset_mails env u e s) \<Longrightarrow>
     \<exists>c. m = reset_mail u e c \<and>
         (\<forall>r\<in>set (users (snd (requestPasswordReset env e s))). us_email r = e \<longrightarrow> us_otp_code r = Some c)"
proof -
  let ?c = "generate_otp (env_rand env)" and ?t = "env_now env + otp_lifetime"
  assume "m \<in> set (resend_mails env u e s)"
  then have "m = otp_mail u e ?c"
    and "snd (resendOTP env e s) = set_otp e ?c ?t s"
    by (simp_all add: resend_mails_def resendOTP_def sendOTP_def Let_def split: if_splits)
  then show "\<exists>c. m = otp_mail u e c \<and> (\<forall>r\<in>set (users (snd (resendOTP env e s))). us_email r = e \<longrightarrow> us_otp_code r = Some c)"
    using set_otp_stores_code by auto
next
  let ?c = "generate_otp (env_rand env)" and ?t = "env_now env + otp_lifetime"
  assume "m \<in> set (reset_mails env u e s)"
  then have "m = reset_mail u e ?c"
    and "snd (requestPasswordReset env e s) = set_otp e ?c ?t s"
    by (simp_all add: reset_mails_def requestPasswordReset_def sendPasswordResetOTP_def Let_def split: if_splits)
  then show "\<exists>c. m = reset_mail u e c \<and>
         (\<forall>r\<in>set (users (snd (requestPasswordReset env e s))). us_email r = e \<longrightarrow> us_otp_code r = Some c)"
    using set_otp_stores_code by auto
qed

end
