(* ===== verification/Prompts.thy ===== *)
theory Prompts
  imports Recommendations
begin

text \<open>
  The prompts src/src/services/geminiService.ts sends to the model, and the goal lookup
  \<^verbatim>\<open>getGoalData\<close> behind the goal prompt. A prompt is the template literal of its
  builder, one element of a line list per template line with its indentation
  (\<open>lines_text\<close>, \<open>indent\<close>); an interpolated \<^verbatim>\<open>.join('\n')\<close> is one
  element holding the joined lines, so that only the first of them is indented.
  The values printed are of two kinds:
  \<^item> the sums of \<^verbatim>\<open>processFinancialData\<close> are JavaScript numbers, binary doubles
    (theory \<open>Insights\<close>); their text is \<^verbatim>\<open>Number.prototype.toString\<close>, the argument
    \<open>num\<close>;
  \<^item> the goal's amounts are the \<^verbatim>\<open>DECIMAL(10,2)\<close> strings mysql2 returns
    (\<open>decimal_text\<close>: the digits, a point, two decimals) and its date is
    \<^verbatim>\<open>toLocaleDateString\<close>, the argument \<open>local_date\<close>.
  \<^verbatim>\<open>Object.entries\<close> lists the keys of a map in insertion order, which is the order in
  which \<^verbatim>\<open>forEach\<close> first met them (category names and \<^verbatim>\<open>YYYY-MM\<close> keys are not
  array indices, which JavaScript would list first).
\<close>

definition decimal_text :: "money \<Rightarrow> string" where
  "decimal_text c = (if c < 0 then ''-'' else []) @ show_nat (nat \<bar>c\<bar> div 100) @ ''.'' @ pad 2 (nat \<bar>c\<bar> mod 100)"

fun join_str :: "string \<Rightarrow> string list \<Rightarrow> string" where
  "join_str sep [] = []"
| "join_str sep [x] = x"
| "join_str sep (x # y # xs) = x @ sep @ join_str sep (y # xs)"

text \<open>\<^verbatim>\<open>Object.entries(map)\<close> for a map built by \<^verbatim>\<open>forEach\<close> over \<open>es\<close>.\<close>

definition object_entries :: "(expense_fact \<Rightarrow> string) \<Rightarrow> expense_fact list \<Rightarrow> (string \<rightharpoonup> rat) \<Rightarrow> (string \<times> rat) list" where
  "object_entries key es m = map (\<lambda>k. (k, the (m k))) (remdups (map key es))"

definition entry_lines :: "(rat \<Rightarrow> string) \<Rightarrow> (string \<times> rat) list \<Rightarrow> string" where
  "entry_lines num xs = join_str [CHR 0x0A] (map (\<lambda>(k, a). ''- '' @ k @ '': $'' @ num a) xs)"

definition buildRecommendationPrompt ::
  "(rat \<Rightarrow> string) \<Rightarrow> int \<Rightarrow> expense_fact list \<Rightarrow> financial_data \<Rightarrow> string" where
  "buildRecommendationPrompt num tz es fd = lines_text
     [indent 6 ''Based on the following financial data, provide personalized budgeting recommendations:'',
      indent 6 [],
      indent 6 (''Total Spent (Last 3 months): $'' @ num (fd_totalSpent fd)),
      indent 6 [],
      indent 6 ''Category Breakdown:'',
      indent 6 (entry_lines num (object_entries ef_category es (fd_categoryBreakdown fd))),
      indent 6 [],
      indent 6 ''Monthly Spending Pattern:'',
      indent 6 (entry_lines num (object_entries (\<lambda>e. month_of_row tz (ef_date e)) es (fd_monthlySpending fd))),
      indent 6 [],
      indent 6 (''Active Goals: '' @ show_nat (length (fd_goals fd))),
      indent 6 (''Current Budgets: '' @ show_nat (length (fd_budgets fd))),
      indent 6 [],
      indent 6 ''Please provide 3-5 actionable budgeting recommendations to help improve financial health.'',
      indent 6 ''Keep recommendations practical and specific.'',
      indent 4 []]"

definition buildSpendingInsightsPrompt ::
  "(rat \<Rightarrow> string) \<Rightarrow> int \<Rightarrow> expense_fact list \<Rightarrow> financial_data \<Rightarrow> string" where
  "buildSpendingInsightsPrompt num tz es fd = lines_text
     [indent 6 ''Analyze the following spending data and provide insights:'',
      indent 6 [],
      indent 6 (''Total Spent (Last 3 months): $'' @ num (fd_totalSpent fd)),
      indent 6 [],
      indent 6 ''Category Breakdown:'',
      indent 6 (entry_lines num (object_entries ef_category es (fd_categoryBreakdown fd))),
      indent 6 [],
      indent 6 ''Monthly Spending Pattern:'',
      indent 6 (entry_lines num (object_entries (\<lambda>e. month_of_row tz (ef_date e)) es (fd_monthlySpending fd))),
      indent 6 [],
      indent 6 ''Provide insights about:'',
      indent 6 ''1. Spending patterns and trends'',
      indent 6 ''2. Areas where spending could be optimized'',
      indent 6 ''3. Notable changes in spending behavior'',
      indent 6 ''4. Recommendations for better financial management'',
      indent 4 []]"

text \<open>\<^verbatim>\<open>.sort(([,a], [,b]) => Number(b) - Number(a)).slice(0, 3)\<close>: the stable sort by
  descending amount, then the first three. The rounded difference of two doubles is zero
  only when they are equal and otherwise has the sign of the exact one, so the comparator
  orders as the exact comparison does.\<close>

definition top_categories :: "(string \<times> rat) list \<Rightarrow> (string \<times> rat) list" where
  "top_categories xs = take 3 (sort_by (\<lambda>x y. snd y \<le> snd x) xs)"

text \<open>\<^verbatim>\<open>SELECT ... FROM financial_goals WHERE id = ?\<close>, then \<^verbatim>\<open>goal[0] || null\<close>: the
  goal with that id, whoever owns it.\<close>

definition getGoalData :: "nat \<Rightarrow> db \<Rightarrow> goal_row option" where
  "getGoalData gid s = (case filter (\<lambda>g. go_id g = gid) (goals s) of [] \<Rightarrow> None | g # _ \<Rightarrow> Some g)"

text \<open>A stored goal always has a target date (the column is bound from the body), so the
  \<^verbatim>\<open>'Not set'\<close> branch of the template is not reachable in the model.\<close>

definition buildGoalAdvicePrompt ::
  "(rat \<Rightarrow> string) \<Rightarrow> (date \<Rightarrow> string) \<Rightarrow> expense_fact list \<Rightarrow> financial_data \<Rightarrow> goal_row option \<Rightarrow> string" where
  "buildGoalAdvicePrompt num local_date es fd goal =
     (case goal of
        None \<Rightarrow> ''Goal not found''
      | Some g \<Rightarrow> lines_text
          [indent 6 ''Provide advice for achieving the following financial goal:'',
           indent 6 [],
           indent 6 (''Goal: '' @ go_title g),
           indent 6 (''Target Amount: $'' @ decimal_text (go_target_amount g)),
           indent 6 (''Current Amount: $'' @ decimal_text (go_current_amount g)),
           indent 6 (''Target Date: '' @ local_date (go_target_date g)),
           indent 6 (''Description: '' @ (if go_description g = [] then ''No description'' else go_description g)),
           indent 6 [],
           indent 6 ''Current Financial Context:'',
           indent 6 (''- Monthly Average Spending: $'' @ num (js_div (fd_totalSpent fd) 3)),
           indent 6 (''- Top Spending Categories: '' @
             join_str '', '' (map (\<lambda>(k, a). k @ '' ($'' @ num a @ '')'')
               (top_categories (object_entries ef_category es (fd_categoryBreakdown fd))))),
           indent 6 [],
           indent 6 ''Provide specific advice on:'',
           indent 6 ''1. How much to save monthly to reach this goal'',
           indent 6 ''2. Areas to cut spending to free up money for this goal'',
           indent 6 ''3. Timeline adjustments if needed'',
           indent 6 ''4. Strategies to stay motivated'',
           indent 4 []])"

text \<open>The prompt each generator sends, from the store it reads.\<close>

definition recommendation_prompt ::
  "(rat \<Rightarrow> string) \<Rightarrow> int \<Rightarrow> date \<Rightarrow> utc_time \<Rightarrow> user_id \<Rightarrow> db \<Rightarrow> string" where
  "recommendation_prompt num tz today now uid s =
     buildRecommendationPrompt num tz (recent_expenses uid today s) (getUserFinancialData tz today now uid s)"

definition spending_prompt ::
  "(rat \<Rightarrow> string) \<Rightarrow> int \<Rightarrow> date \<Rightarrow> utc_time \<Rightarrow> user_id \<Rightarrow> db \<Rightarrow> string" where
  "spending_prompt num tz today now uid s =
     buildSpendingInsightsPrompt num tz (recent_expenses uid today s) (getUserFinancialData tz today now uid s)"

definition goal_advice_prompt ::
  "(rat \<Rightarrow> string) \<Rightarrow> (date \<Rightarrow> string) \<Rightarrow> int \<Rightarrow> date \<Rightarrow> utc_time \<Rightarrow> user_id \<Rightarrow> nat \<Rightarrow> db \<Rightarrow> string" where
  "goal_advice_prompt num local_date tz today now uid gid s =
     buildGoalAdvicePrompt num local_date (recent_expenses uid today s)
       (getUserFinancialData tz today now uid s) (getGoalData gid s)"

text \<open>\<^verbatim>\<open>POST /api/ai/advice/goal/:goalId\<close> statement by statement: the route's ownership
  query (src/src/routes/ai.ts), then \<^verbatim>\<open>generateGoalAdvice\<close>, which reads the financial
  data and the goal, builds the prompt, sends it to the model and saves the reply. The
  model is a function \<open>model\<close> from prompts to replies (\<open>None\<close> when the call throws).
  Other requests may run between the two awaits.\<close>

definition goal_advice_check :: "user_id \<Rightarrow> nat \<Rightarrow> db \<Rightarrow> unit response" where
  "goal_advice_check uid gid s =
     (if select_where (goal_row_of uid gid) (goals s) = [] then (Inl (Not_Found ''Goal not found''), s)
      else (Inr (), s))"

definition goal_advice_generate ::
  "(string \<Rightarrow> string option) \<Rightarrow> (rat \<Rightarrow> string) \<Rightarrow> (date \<Rightarrow> string) \<Rightarrow> int \<Rightarrow> date \<Rightarrow> utc_time \<Rightarrow>
     user_id \<Rightarrow> nat \<Rightarrow> db \<Rightarrow> string response" where
  "goal_advice_generate model num local_date tz today now uid gid s =
     generateGoalAdvice (model (goal_advice_prompt num local_date tz today now uid gid s)) uid s"

section \<open>Lemmas\<close>

text \<open>The three categories the goal prompt names are the largest, largest first.\<close>

lemma top_categories_largest:
  "sorted_wrt (\<lambda>x y. snd y \<le> snd x) (top_categories xs) \<and> length (top_categories xs) \<le> 3 \<and>
   set (top_categories xs) \<subseteq> set xs \<and>
   (\<forall>x\<in>set (top_categories xs). \<forall>y\<in>set (drop 3 (sort_by (\<lambda>x y. snd y \<le> snd x) xs)). snd y \<le> snd x) \<and>
   set xs = set (top_categories xs) \<union> set (drop 3 (sort_by (\<lambda>x y. snd y \<le> snd x) xs))"
proof -
  let ?R = "\<lambda>x y. snd y \<le> (snd x :: rat)"
  let ?l = "sort_by ?R xs"
  have "sorted_wrt ?R ?l" by (rule sorted_wrt_sort_by_desc)
  then have "sorted_wrt ?R (take 3 ?l @ drop 3 ?l)" by (simp only: append_take_drop_id)
  then have a: "sorted_wrt ?R (take 3 ?l)" and b: "\<forall>x\<in>set (take 3 ?l). \<forall>y\<in>set (drop 3 ?l). ?R x y"
    unfolding sorted_wrt_append by blast+
  have c: "length (take 3 ?l) \<le> 3" by simp
  have d: "set (take 3 ?l) \<subseteq> set xs" using set_take_subset [of 3 ?l] by (simp only: set_sort_by)
  have "set ?l = set (take 3 ?l) \<union> set (drop 3 ?l)" by (simp only: append_take_drop_id flip: set_append)
  then have e: "set xs = set (take 3 ?l) \<union> set (drop 3 ?l)" by (simp only: set_sort_by)
  from a b c d e show ?thesis unfolding top_categories_def by blast
qed

text \<open>The entries of the breakdown are the group totals, in first-occurrence order.\<close>

lemma object_entries_group_total:
  "object_entries key es (group_total key es) =
     map (\<lambda>k. (k, js_sum (filter (\<lambda>e. key e = k) es))) (remdups (map key es))"
  by (simp add: object_entries_def group_total_def)

text \<open>\<^verbatim>\<open>getGoalData\<close> reads the goal by id alone; after the route's ownership check it
  finds the caller's goal.\<close>

lemma getGoalData_owned:
  assumes wf: "wf_db s" and sel: "select_where (goal_row_of uid gid) (goals s) = g # rest"
  shows "getGoalData gid s = Some g"
proof -
  from select_where_ConsD [OF sel] have g: "g \<in> set (goals s)" "go_id g = gid" "go_user_id g = uid"
    by (simp_all add: goal_row_of_def)
  from wf have "distinct (map go_id (goals s))" by (simp add: wf_db_def)
  then have "filter (\<lambda>r. go_id r = gid) (goals s) = [g]"
    using g(1) by (rule filter_key_unique [where k = go_id]) (use g in simp_all)
  then show ?thesis by (simp add: getGoalData_def)
qed

lemma goal_prompt_names_goal:
  assumes "wf_db s" and "select_where (goal_row_of uid gid) (goals s) = g # rest"
  shows "sublist (''Goal: '' @ go_title g) (goal_advice_prompt num ld tz today now uid gid s)"
  unfolding goal_advice_prompt_def buildGoalAdvicePrompt_def getGoalData_owned [OF assms] option.case
  by (rule sublist_lines_text [OF sublist_indent [OF sublist_order.order_refl, of _ 6]]) simp

lemma sublist_join_str: "x \<in> set xs \<Longrightarrow> sublist x (join_str sep xs)"
proof (induction sep xs rule: join_str.induct)
  case (3 sep x' y xs)
  show ?case
  proof (cases "x = x'")
    case True
    then show ?thesis by (simp add: sublist_append_rightI)
  next
    case False
    with 3 have "sublist x (join_str sep (y # xs))" by simp
    moreover have "sublist (join_str sep (y # xs)) ((x' @ sep) @ join_str sep (y # xs))"
      by (rule sublist_append_leftI)
    ultimately show ?thesis by (simp add: sublist_order.order_trans)
  qed
qed simp_all

text \<open>Each entry of a breakdown built by \<^verbatim>\<open>forEach\<close> is a line of its
  \<^verbatim>\<open>.map(...).join('\n')\<close>, with the group's total.\<close>

lemma entry_line_in:
  assumes "k \<in> set (map key es)"
  shows "sublist (''- '' @ k @ '': $'' @ num (js_sum (filter (\<lambda>e. key e = k) es)))
           (indent 6 (entry_lines num (object_entries key es (group_total key es))))"
proof -
  let ?f = "\<lambda>(k, a). ''- '' @ k @ '': $'' @ num a"
  let ?t = "js_sum (filter (\<lambda>e. key e = k) es)"
  from assms have "(k, ?t) \<in> set (object_entries key es (group_total key es))"
    by (simp add: object_entries_group_total)
  then have "?f (k, ?t) \<in> set (map ?f (object_entries key es (group_total key es)))"
    unfolding set_map by (rule imageI)
  then have "sublist (?f (k, ?t)) (entry_lines num (object_entries key es (group_total key es)))"
    unfolding entry_lines_def by (rule sublist_join_str)
  then show ?thesis by (simp add: sublist_indent)
qed

text \<open>The recommendation and the insights prompt list every category and every month of
  the caller's last three months with its total.\<close>

lemma prompts_list_totals:
  fixes num :: "rat \<Rightarrow> string" and uid :: user_id and today :: date and s :: db
  defines "es \<equiv> recent_expenses uid today s"
  assumes "e \<in> set es"
  shows "sublist (''- '' @ ef_category e @ '': $'' @
            num (js_sum (filter (\<lambda>x. ef_category x = ef_category e) es)))
           (recommendation_prompt num tz today now uid s) \<and>
         sublist (''- '' @ ef_category e @ '': $'' @
            num (js_sum (filter (\<lambda>x. ef_category x = ef_category e) es)))
           (spending_prompt num tz today now uid s) \<and>
         sublist (''- '' @ month_of_row tz (ef_date e) @ '': $'' @
            num (js_sum (filter (\<lambda>x. month_of_row tz (ef_date x) = month_of_row tz (ef_date e)) es)))
           (recommendation_prompt num tz today now uid s) \<and>
         sublist (''- '' @ month_of_row tz (ef_date e) @ '': $'' @
            num (js_sum (filter (\<lambda>x. month_of_row tz (ef_date x) = month_of_row tz (ef_date e)) es)))
           (spending_prompt num tz today now uid s)"
proof -
  let ?fd = "getUserFinancialData tz today now uid s"
  let ?mk = "\<lambda>x. month_of_row tz (ef_date x)"
  have cb: "fd_categoryBreakdown ?fd = group_total ef_category es"
    and mb: "fd_monthlySpending ?fd = group_total ?mk es"
    by (simp_all add: getUserFinancialData_def process_financial_data_fields es_def)
  have c: "sublist (''- '' @ ef_category e @ '': $'' @
            num (js_sum (filter (\<lambda>x. ef_category x = ef_category e) es)))
           (indent 6 (entry_lines num (object_entries ef_category es (fd_categoryBreakdown ?fd))))"
    unfolding cb by (rule entry_line_in) (use assms(2) in simp)
  have m: "sublist (''- '' @ ?mk e @ '': $'' @
            num (js_sum (filter (\<lambda>x. ?mk x = ?mk e) es)))
           (indent 6 (entry_lines num (object_entries ?mk es (fd_monthlySpending ?fd))))"
    unfolding mb by (rule entry_line_in) (use assms(2) in simp)
  have r: "recommendation_prompt num tz today now uid s = buildRecommendationPrompt num tz es ?fd"
    and i: "spending_prompt num tz today now uid s = buildSpendingInsightsPrompt num tz es ?fd"
    by (simp_all add: recommendation_prompt_def spending_prompt_def es_def)
  show ?thesis
    unfolding r i buildRecommendationPrompt_def buildSpendingInsightsPrompt_def
    apply (intro conjI)
       apply (rule sublist_lines_text [OF c], simp)
      apply (rule sublist_lines_text [OF c], simp)
     apply (rule sublist_lines_text [OF m], simp)
    apply (rule sublist_lines_text [OF m], simp)
    done
qed

text \<open>After the caller deletes the goal, the goal prompt is the bare null branch.\<close>

lemma deleted_goal_prompt:
  assumes wf: "wf_db s" and sel: "select_where (goal_row_of uid gid) (goals s) = g # rest"
  shows "goal_advice_prompt num ld tz today now uid gid (snd (delete_goal uid gid s)) = ''Goal not found''"
proof -
  from select_where_ConsD [OF sel] have g: "g \<in> set (goals s)" "go_id g = gid" "go_user_id g = uid"
    by (simp_all add: goal_row_of_def)
  from wf have "distinct (map go_id (goals s))" by (simp add: wf_db_def)
  then have uniq: "r = g" if "r \<in> set (goals s)" "go_id r = gid" for r
    using that g(1,2) by (auto simp: distinct_map inj_on_def)
  have aff: "affected (goal_row_of uid gid) (goals s) \<noteq> 0"
    using sel by (simp add: affected_def select_where_def)
  have "go_id r \<noteq> gid" if r: "r \<in> set (delete_where (goal_row_of uid gid) (goals s))" for r
  proof
    assume "go_id r = gid"
    moreover from r have "r \<in> set (goals s)" "\<not> goal_row_of uid gid r" by (simp_all add: delete_where_def)
    ultimately show False using uniq g by (simp add: goal_row_of_def)
  qed
  then have "filter (\<lambda>r. go_id r = gid) (delete_where (goal_row_of uid gid) (goals s)) = []"
    by (simp add: filter_empty_conv)
  then have none: "getGoalData gid (snd (delete_goal uid gid s)) = None"
    using aff by (simp add: delete_goal_def getGoalData_def)
  show ?thesis
    unfolding goal_advice_prompt_def buildGoalAdvicePrompt_def none option.case ..
qed

text \<open>Run without interleaving, the two halves are the route of theory
  \<open>Recommendations\<close>, the model answering the prompt built from the store.\<close>

lemma goal_advice_sequential:
  "goal_advice_route (model (goal_advice_prompt num ld tz today now uid gid s)) uid gid s =
     (case goal_advice_check uid gid s of
        (Inl e, s') \<Rightarrow> (Inl e, s')
      | (Inr u, s') \<Rightarrow> goal_advice_generate model num ld tz today now uid gid s')"
  by (simp add: goal_advice_route_def goal_advice_check_def goal_advice_generate_def)

text \<open>
  C33. \<^verbatim>\<open>POST /api/ai/advice/goal/:goalId\<close> checks that the goal is the caller's and
  reads it again by id only in \<^verbatim>\<open>generateGoalAdvice\<close>, a later statement. When the
  caller's own \<^verbatim>\<open>DELETE /api/goals/:id\<close> runs between the two, the check has passed, the
  delete succeeds, and the generator sends the model the bare text
  \<^verbatim>\<open>'Goal not found'\<close> as the whole prompt and saves its reply as goal advice (or
  answers 500 when the model fails), instead of the route answering 404.
\<close>

theorem goal_advice_race:
  assumes wf: "wf_db s" and own: "select_where (goal_row_of uid gid) (goals s) \<noteq> []"
  shows "goal_advice_check uid gid s = (Inr (), s) \<and> fst (delete_goal uid gid s) = Inr () \<and>
         goal_advice_generate model num ld tz today now uid gid (snd (delete_goal uid gid s)) =
           (case model ''Goal not found'' of
              None \<Rightarrow> (Inl (Server_Error ''Failed to generate goal advice''), snd (delete_goal uid gid s))
            | Some t \<Rightarrow> (Inr t, saveRecommendation uid t Goal (snd (delete_goal uid gid s))))"
proof -
  from own obtain g rest where sel: "select_where (goal_row_of uid gid) (goals s) = g # rest"
    by (cases "select_where (goal_row_of uid gid) (goals s)") auto
  have chk: "goal_advice_check uid gid s = (Inr (), s)"
    using own by (simp add: goal_advice_check_def)
  have del: "fst (delete_goal uid gid s) = Inr ()"
    using sel by (simp add: delete_goal_def affected_def select_where_def)
  have "goal_advice_prompt num ld tz today now uid gid (snd (delete_goal uid gid s)) = ''Goal not found''"
    by (rule deleted_goal_prompt [OF wf sel])
  then show ?thesis
    using chk del
    by (simp add: goal_advice_generate_def generateGoalAdvice_def generate_advice_def split: option.split)
qed

end
