(* ===== verification/Categories.thy ===== *)
theory Categories
  imports Schema
begin

text \<open>
  The category list, answered by two routes with the same statement:
  \<^verbatim>\<open>GET /api/categories\<close> (src/src/routes/categories.ts) and
  \<^verbatim>\<open>GET /api/ai/categories\<close> (src/src/routes/ai.ts). Neither is behind
  \<^verbatim>\<open>authenticateToken\<close>. \<^verbatim>\<open>ORDER BY name\<close> compares names under the column's
  collation, given as the sort key \<open>coll\<close> (for MySQL's default collation, a
  case-insensitive key); rows with equal keys come in table order, one of the orders
  MySQL may return.
\<close>

definition categories_route :: "(string \<Rightarrow> 'k::linorder) \<Rightarrow> db \<Rightarrow> category_row list" where
  "categories_route coll s = sort_by (\<lambda>x y. coll (cat_name x) \<le> coll (cat_name y)) (categories s)"

definition ai_categories_route :: "(string \<Rightarrow> 'k::linorder) \<Rightarrow> db \<Rightarrow> category_row list" where
  "ai_categories_route coll s = sort_by (\<lambda>x y. coll (cat_name x) \<le> coll (cat_name y)) (categories s)"

section \<open>Lemmas\<close>

text \<open>The answer is the whole table, each row once, ordered by name under the collation,
  and both routes give it.\<close>

lemma categories_route_spec:
  "mset (categories_route coll s) = mset (categories s) \<and>
   sorted (map (\<lambda>c. coll (cat_name c)) (categories_route coll s)) \<and>
   ai_categories_route coll s = categories_route coll s"
  by (simp add: categories_route_def ai_categories_route_def sort_by_key [where f = "\<lambda>c. coll (cat_name c)"])

end
