(* ===== verification/Router.thy ===== *)
theory Router
  imports Prelude
begin

text \<open>
  Request routing: src/src/server.ts mounts one Express router per file of
  src/src/routes/ under a prefix, after a \<^verbatim>\<open>GET /health\<close> handler and before a
  catch-all 404 handler; each router lists its routes, in declaration order, as a method,
  a path pattern and the middleware that runs before the handler
  (\<^verbatim>\<open>authenticateToken\<close> and the validators of src/src/middleware/validation.ts).
  Express tries the layers in order and runs the first whose method and path match.
  Paths are compared the way Express 4 compiles them: segment by segment, literals
  case-insensitively, a parameter matching any non-empty segment, and one trailing slash
  allowed. A mounted router sees the path with its prefix removed (\<^verbatim>\<open>/\<close> when
  nothing is left); when none of its routes matches, the request falls through to the
  layers after it. Methods are the five the routes use (\<^verbatim>\<open>HEAD\<close> is not modelled) and
  paths are taken after percent-decoding.
\<close>

datatype http_method = GET | POST | PUT | PATCH | DELETE

datatype seg = Lit string | Par string

datatype middleware =
    AuthenticateToken
  | ValidateRegistration
  | ValidateLogin
  | ValidateExpense
  | ValidateBudget
  | ValidateGoal

datatype endpoint =
    Register_EP | Verify_OTP_EP | Login_EP | Forgot_Password_EP | Reset_Password_EP
  | List_Expenses_EP | Get_Expense_EP | Create_Expense_EP | Update_Expense_EP | Delete_Expense_EP
  | Expense_Stats_EP
  | List_Goals_EP | Get_Goal_EP | Create_Goal_EP | Update_Goal_EP | Goal_Progress_EP | Delete_Goal_EP
  | Goal_Stats_EP
  | List_Budgets_EP | Get_Budget_EP | Create_Budget_EP | Update_Budget_EP | Delete_Budget_EP
  | Budget_Overview_EP | Missing_Categories_EP
  | Recommend_Budgeting_EP | Spending_Insights_EP | Goal_Advice_EP | List_Recommendations_EP
  | Mark_Read_EP | Delete_Recommendation_EP | AI_Categories_EP
  | Categories_EP

record route =
  rt_method :: http_method
  rt_path :: "seg list"
  rt_mw :: "middleware list"
  rt_endpoint :: endpoint

section \<open>Route tables, in declaration order\<close>

text \<open>src/src/routes/auth.ts\<close>

definition auth_routes :: "route list" where
  "auth_routes =
     [\<lparr>rt_method = POST, rt_path = [Lit ''register''], rt_mw = [ValidateRegistration], rt_endpoint = Register_EP\<rparr>,
      \<lparr>rt_method = POST, rt_path = [Lit ''verify-otp''], rt_mw = [], rt_endpoint = Verify_OTP_EP\<rparr>,
      \<lparr>rt_method = POST, rt_path = [Lit ''login''], rt_mw = [ValidateLogin], rt_endpoint = Login_EP\<rparr>,
      \<lparr>rt_method = POST, rt_path = [Lit ''forgot-password''], rt_mw = [], rt_endpoint = Forgot_Password_EP\<rparr>,
      \<lparr>rt_method = POST, rt_path = [Lit ''reset-password''], rt_mw = [], rt_endpoint = Reset_Password_EP\<rparr>]"

text \<open>src/src/routes/expenses.ts\<close>

definition expense_routes :: "route list" where
  "expense_routes =
     [\<lparr>rt_method = GET, rt_path = [], rt_mw = [AuthenticateToken], rt_endpoint = List_Expenses_EP\<rparr>,
      \<lparr>rt_method = GET, rt_path = [Par ''id''], rt_mw = [AuthenticateToken], rt_endpoint = Get_Expense_EP\<rparr>,
      \<lparr>rt_method = POST, rt_path = [], rt_mw = [AuthenticateToken, ValidateExpense], rt_endpoint = Create_Expense_EP\<rparr>,
      \<lparr>rt_method = PUT, rt_path = [Par ''id''], rt_mw = [AuthenticateToken, ValidateExpense], rt_endpoint = Update_Expense_EP\<rparr>,
      \<lparr>rt_method = DELETE, rt_path = [Par ''id''], rt_mw = [AuthenticateToken], rt_endpoint = Delete_Expense_EP\<rparr>,
      \<lparr>rt_method = GET, rt_path = [Lit ''stats'', Lit ''summary''], rt_mw = [AuthenticateToken], rt_endpoint = Expense_Stats_EP\<rparr>]"

text \<open>src/src/routes/goals.ts\<close>

definition goal_routes :: "route list" where
  "goal_routes =
     [\<lparr>rt_method = GET, rt_path = [], rt_mw = [AuthenticateToken], rt_endpoint = List_Goals_EP\<rparr>,
      \<lparr>rt_method = GET, rt_path = [Par ''id''], rt_mw = [AuthenticateToken], rt_endpoint = Get_Goal_EP\<rparr>,
      \<lparr>rt_method = POST, rt_path = [], rt_mw = [AuthenticateToken, ValidateGoal], rt_endpoint = Create_Goal_EP\<rparr>,
      \<lparr>rt_method = PUT, rt_path = [Par ''id''], rt_mw = [AuthenticateToken, ValidateGoal], rt_endpoint = Update_Goal_EP\<rparr>,
      \<lparr>rt_method = PATCH, rt_path = [Par ''id'', Lit ''progress''], rt_mw = [AuthenticateToken], rt_endpoint = Goal_Progress_EP\<rparr>,
      \<lparr>rt_method = DELETE, rt_path = [Par ''id''], rt_mw = [AuthenticateToken], rt_endpoint = Delete_Goal_EP\<rparr>,
      \<lparr>rt_method = GET, rt_path = [Lit ''stats'', Lit ''summary''], rt_mw = [AuthenticateToken], rt_endpoint = Goal_Stats_EP\<rparr>]"

text \<open>src/src/routes/budgets.ts\<close>

definition budget_routes :: "route list" where
  "budget_routes =
     [\<lparr>rt_method = GET, rt_path = [], rt_mw = [AuthenticateToken], rt_endpoint = List_Budgets_EP\<rparr>,
      \<lparr>rt_method = GET, rt_path = [Par ''id''], rt_mw = [AuthenticateToken], rt_endpoint = Get_Budget_EP\<rparr>,
      \<lparr>rt_method = POST, rt_path = [], rt_mw = [AuthenticateToken, ValidateBudget], rt_endpoint = Create_Budget_EP\<rparr>,
      \<lparr>rt_method = PUT, rt_path = [Par ''id''], rt_mw = [AuthenticateToken, ValidateBudget], rt_endpoint = Update_Budget_EP\<rparr>,
      \<lparr>rt_method = DELETE, rt_path = [Par ''id''], rt_mw = [AuthenticateToken], rt_endpoint = Delete_Budget_EP\<rparr>,
      \<lparr>rt_method = GET, rt_path = [Lit ''overview'', Lit ''current''], rt_mw = [AuthenticateToken], rt_endpoint = Budget_Overview_EP\<rparr>,
      \<lparr>rt_method = GET, rt_path = [Lit ''missing'', Par ''monthYear''], rt_mw = [AuthenticateToken], rt_endpoint = Missing_Categories_EP\<rparr>]"

text \<open>src/src/routes/ai.ts\<close>

definition ai_routes :: "route list" where
  "ai_routes =
     [\<lparr>rt_method = POST, rt_path = [Lit ''recommendations'', Lit ''budgeting''], rt_mw = [AuthenticateToken], rt_endpoint = Recommend_Budgeting_EP\<rparr>,
      \<lparr>rt_method = POST, rt_path = [Lit ''insights'', Lit ''spending''], rt_mw = [AuthenticateToken], rt_endpoint = Spending_Insights_EP\<rparr>,
      \<lparr>rt_method = POST, rt_path = [Lit ''advice'', Lit ''goal'', Par ''goalId''], rt_mw = [AuthenticateToken], rt_endpoint = Goal_Advice_EP\<rparr>,
      \<lparr>rt_method = GET, rt_path = [Lit ''recommendations''], rt_mw = [AuthenticateToken], rt_endpoint = List_Recommendations_EP\<rparr>,
      \<lparr>rt_method = PATCH, rt_path = [Lit ''recommendations'', Par ''id'', Lit ''read''], rt_mw = [AuthenticateToken], rt_endpoint = Mark_Read_EP\<rparr>,
      \<lparr>rt_method = DELETE, rt_path = [Lit ''recommendations'', Par ''id''], rt_mw = [AuthenticateToken], rt_endpoint = Delete_Recommendation_EP\<rparr>,
      \<lparr>rt_method = GET, rt_path = [Lit ''categories''], rt_mw = [], rt_endpoint = AI_Categories_EP\<rparr>]"

text \<open>src/src/routes/categories.ts\<close>

definition category_routes :: "route list" where
  "category_routes =
     [\<lparr>rt_method = GET, rt_path = [], rt_mw = [], rt_endpoint = Categories_EP\<rparr>]"

text \<open>src/src/server.ts: the routers and the prefixes they are mounted under.\<close>

definition mounts :: "(string list \<times> route list) list" where
  "mounts =
     [([''api'', ''auth''], auth_routes),
      ([''api'', ''expenses''], expense_routes),
      ([''api'', ''goals''], goal_routes),
      ([''api'', ''budgets''], budget_routes),
      ([''api'', ''ai''], ai_routes),
      ([''api'', ''categories''], category_routes)]"

section \<open>Matching\<close>

definition lower_char :: "char \<Rightarrow> char" where
  "lower_char c = (let n = of_char c :: nat in if 65 \<le> n \<and> n \<le> 90 then char_of (n + 32) else c)"

definition ci_eq :: "string \<Rightarrow> string \<Rightarrow> bool" where
  "ci_eq a b \<longleftrightarrow> map lower_char a = map lower_char b"

fun split_on :: "char \<Rightarrow> string \<Rightarrow> string list" where
  "split_on c [] = [[]]"
| "split_on c (x # xs) = (let r = split_on c xs in if x = c then [] # r else (x # hd r) # tl r)"

text \<open>The segments of \<^verbatim>\<open>req.path\<close>, which starts with a slash.\<close>

definition path_segs :: "string \<Rightarrow> string list" where
  "path_segs p = split_on (CHR ''/'') (tl p)"

text \<open>A pattern against the segments: the parameters it binds, or \<open>None\<close>. One empty
  last segment (a trailing slash) is accepted.\<close>

fun match_segs :: "seg list \<Rightarrow> string list \<Rightarrow> (string \<times> string) list option" where
  "match_segs [] [] = Some []"
| "match_segs [] [x] = (if x = [] then Some [] else None)"
| "match_segs [] (x # y # zs) = None"
| "match_segs (Lit l # ps) (x # xs) = (if ci_eq l x then match_segs ps xs else None)"
| "match_segs (Par n # ps) (x # xs) =
     (if x = [] then None else map_option (\<lambda>bs. (n, x) # bs) (match_segs ps xs))"
| "match_segs (p # ps) [] = None"

text \<open>The mount prefix of \<^verbatim>\<open>app.use(prefix, router)\<close>: the rest of the path the router
  sees, as segments (\<^verbatim>\<open>/\<close> when nothing is left).\<close>

fun strip_mount :: "string list \<Rightarrow> string list \<Rightarrow> string list option" where
  "strip_mount [] [] = Some [[]]"
| "strip_mount [] xs = Some xs"
| "strip_mount (m # ms) (x # xs) = (if ci_eq m x then strip_mount ms xs else None)"
| "strip_mount (m # ms) [] = None"

datatype outcome =
    Health
  | Routed endpoint "middleware list" "(string \<times> string) list"
  | No_Route

text \<open>The first route of a router whose method and pattern match.\<close>

fun route_in :: "http_method \<Rightarrow> string list \<Rightarrow> route list \<Rightarrow> outcome option" where
  "route_in m xs [] = None"
| "route_in m xs (r # rs) =
     (if rt_method r = m then
        (case match_segs (rt_path r) xs of
           Some bs \<Rightarrow> Some (Routed (rt_endpoint r) (rt_mw r) bs)
         | None \<Rightarrow> route_in m xs rs)
      else route_in m xs rs)"

fun mounted :: "http_method \<Rightarrow> string list \<Rightarrow> (string list \<times> route list) list \<Rightarrow> outcome option" where
  "mounted m xs [] = None"
| "mounted m xs ((pre, rs) # ms) =
     (case strip_mount pre xs of
        Some ys \<Rightarrow> (case route_in m ys rs of Some out \<Rightarrow> Some out | None \<Rightarrow> mounted m xs ms)
      | None \<Rightarrow> mounted m xs ms)"

text \<open>The application's stack below the body parsers: \<^verbatim>\<open>GET /health\<close>, the mounted
  routers, then \<^verbatim>\<open>app.use('*', ...)\<close>, which answers 404 to everything else.\<close>

definition dispatch :: "http_method \<Rightarrow> string \<Rightarrow> outcome" where
  "dispatch m p =
     (if m = GET \<and> match_segs [Lit ''health''] (path_segs p) \<noteq> None then Health
      else case mounted m (path_segs p) mounts of Some out \<Rightarrow> out | None \<Rightarrow> No_Route)"

text \<open>Two patterns overlap when some path matches both.\<close>

fun overlap :: "seg list \<Rightarrow> seg list \<Rightarrow> bool" where
  "overlap [] [] = True"
| "overlap [] [Lit b] = (b = [])"
| "overlap [Lit a] [] = (a = [])"
| "overlap (Lit a # ps) (Lit b # qs) = (ci_eq a b \<and> overlap ps qs)"
| "overlap (p # ps) (q # qs) = overlap ps qs"
| "overlap _ _ = False"


text \<open>A router's table is unambiguous when no two of its routes with the same method have
  overlapping patterns; mount prefixes clash when a path can strip both.\<close>

fun unambiguous :: "route list \<Rightarrow> bool" where
  "unambiguous [] = True"
| "unambiguous (r # rs) =
     (list_all (\<lambda>r'. rt_method r' = rt_method r \<longrightarrow> \<not> overlap (rt_path r) (rt_path r')) rs \<and> unambiguous rs)"

fun prefix_clash :: "string list \<Rightarrow> string list \<Rightarrow> bool" where
  "prefix_clash (a # as) (b # bs) = (ci_eq a b \<and> prefix_clash as bs)"
| "prefix_clash _ _ = True"

fun mounts_disjoint :: "(string list \<times> route list) list \<Rightarrow> bool" where
  "mounts_disjoint [] = True"
| "mounts_disjoint (m # ms) = (list_all (\<lambda>m'. \<not> prefix_clash (fst m) (fst m')) ms \<and> mounts_disjoint ms)"

text \<open>The endpoints src/src/server.ts serves without a token.\<close>

definition public_endpoint :: "endpoint \<Rightarrow> bool" where
  "public_endpoint e \<longleftrightarrow>
     e \<in> {Register_EP, Verify_OTP_EP, Login_EP, Forgot_Password_EP, Reset_Password_EP,
          AI_Categories_EP, Categories_EP}"

section \<open>Lemmas\<close>

lemma ci_eq_trans_sym: "ci_eq a x \<Longrightarrow> ci_eq b x \<Longrightarrow> ci_eq a b"
  by (simp add: ci_eq_def)

lemma match_segs_slash: "match_segs q [[]] = Some b \<Longrightarrow> q = [] \<or> q = [Lit []]"
proof (cases q)
  case (Cons s qs)
  moreover assume "match_segs q [[]] = Some b"
  ultimately show ?thesis
    by (cases s; cases qs) (auto simp: ci_eq_def split: if_splits)
qed simp

text \<open>A path matching two patterns makes them overlap.\<close>

lemma match_segs_overlap:
  "match_segs p xs = Some a \<Longrightarrow> match_segs q xs = Some b \<Longrightarrow> overlap p q"
proof (induction p xs arbitrary: q a b rule: match_segs.induct)
  case (1 q)
  then show ?case by (cases q) auto
next
  case (2 x q)
  then have "x = []" by (simp split: if_splits)
  with 2 have "q = [] \<or> q = [Lit []]" by (blast dest: match_segs_slash)
  then show ?case by auto
next
  case (4 l ps x xs q)
  show ?case
  proof (cases q)
    case Nil
    with "4.prems"(2) have "x # xs = [[]]" by (cases xs) (auto split: if_splits)
    with "4.prems"(1) have "Lit l # ps = [] \<or> Lit l # ps = [Lit []]" by (simp only: match_segs_slash)
    with Nil show ?thesis by auto
  next
    case (Cons s qs)
    with 4 show ?thesis by (cases s) (auto split: if_splits intro: ci_eq_trans_sym)
  qed
next
  case (5 n ps x xs q)
  show ?case
  proof (cases q)
    case Nil
    with 5 show ?thesis by (cases xs) (auto split: if_splits)
  next
    case (Cons s qs)
    with 5 show ?thesis by (cases s) (auto split: if_splits)
  qed
qed simp_all

lemma strip_mount_clash:
  "strip_mount p xs = Some a \<Longrightarrow> strip_mount q xs = Some b \<Longrightarrow> prefix_clash p q"
proof (induction p xs arbitrary: q a b rule: strip_mount.induct)
  case (3 m ms x xs q)
  then show ?case by (cases q) (auto split: if_splits intro: ci_eq_trans_sym)
qed simp_all

lemma route_in_sound:
  "route_in m xs rs = Some out \<Longrightarrow>
     \<exists>r\<in>set rs. rt_method r = m \<and> (\<exists>bs. match_segs (rt_path r) xs = Some bs \<and>
                   out = Routed (rt_endpoint r) (rt_mw r) bs)"
  by (induction m xs rs rule: route_in.induct) (auto split: if_splits option.splits)

lemma route_in_complete:
  assumes "unambiguous rs" and "r \<in> set rs" and "rt_method r = m" and "match_segs (rt_path r) xs = Some bs"
  shows "route_in m xs rs = Some (Routed (rt_endpoint r) (rt_mw r) bs)"
  using assms
proof (induction rs)
  case (Cons r' rs)
  show ?case
  proof (cases "r' = r")
    case True
    with Cons.prems show ?thesis by simp
  next
    case False
    with Cons.prems have r: "r \<in> set rs" by simp
    from Cons.prems(1) have "unambiguous rs" by simp
    from Cons.IH [OF this r Cons.prems(3,4)]
    have "route_in m xs rs = Some (Routed (rt_endpoint r) (rt_mw r) bs)" .
    moreover have "rt_method r' \<noteq> m \<or> match_segs (rt_path r') xs = None"
    proof (rule ccontr)
      assume "\<not> ?thesis"
      then obtain a where "rt_method r' = m" "match_segs (rt_path r') xs = Some a" by auto
      with Cons.prems have "overlap (rt_path r') (rt_path r)" by (blast intro: match_segs_overlap)
      moreover from Cons.prems r have "rt_method r = rt_method r' \<longrightarrow> \<not> overlap (rt_path r') (rt_path r)"
        by (simp add: list_all_iff)
      ultimately show False using \<open>rt_method r' = m\<close> Cons.prems(3) by simp
    qed
    ultimately show ?thesis by auto
  qed
qed simp


lemma mounted_sound:
  "mounted m xs ms = Some out \<Longrightarrow>
     \<exists>pre rs ys. (pre, rs) \<in> set ms \<and> strip_mount pre xs = Some ys \<and> route_in m ys rs = Some out"
  by (induction m xs ms rule: mounted.induct) (auto split: option.splits)

lemma mounted_complete:
  assumes "mounts_disjoint ms" and "(pre, rs) \<in> set ms" and "strip_mount pre xs = Some ys"
    and "route_in m ys rs = Some out"
  shows "mounted m xs ms = Some out"
  using assms
proof (induction ms)
  case (Cons mt ms)
  obtain pre' rs' where mt: "mt = (pre', rs')" by fastforce
  show ?case
  proof (cases "mt = (pre, rs)")
    case True
    with Cons.prems show ?thesis by simp
  next
    case False
    with Cons.prems have inms: "(pre, rs) \<in> set ms" by simp
    from Cons.prems(1) have "mounts_disjoint ms" by simp
    from Cons.IH [OF this inms Cons.prems(3,4)] have rest: "mounted m xs ms = Some out" .
    have "strip_mount pre' xs = None"
    proof (rule ccontr)
      assume "strip_mount pre' xs \<noteq> None"
      then obtain a where "strip_mount pre' xs = Some a" by blast
      with Cons.prems(3) have "prefix_clash pre' pre" by (blast intro: strip_mount_clash)
      moreover from Cons.prems(1) inms mt have "\<not> prefix_clash pre' pre"
        by (auto simp: list_all_iff)
      ultimately show False by simp
    qed
    with rest mt show ?thesis by simp
  qed
qed simp

section \<open>The route tables of the application\<close>

lemma tables_unambiguous: "\<forall>(pre, rs)\<in>set mounts. unambiguous rs"
  by code_simp

lemma mounts_are_disjoint: "mounts_disjoint mounts"
  by code_simp

lemma mounts_under_api: "\<forall>(pre, rs)\<in>set mounts. \<exists>rest. pre = ''api'' # rest"
  by (simp add: mounts_def)

lemma tables_guarded:
  "\<forall>(pre, rs)\<in>set mounts. \<forall>r\<in>set rs.
     (AuthenticateToken \<in> set (rt_mw r) \<longleftrightarrow> \<not> public_endpoint (rt_endpoint r)) \<and>
     (AuthenticateToken \<in> set (rt_mw r) \<longrightarrow> hd (rt_mw r) = AuthenticateToken)"
  by code_simp

text \<open>A path the \<^verbatim>\<open>/api\<close> routers accept is not \<^verbatim>\<open>/health\<close>.\<close>

lemma mounted_not_health:
  assumes "(pre, rs) \<in> set mounts" and "strip_mount pre xs = Some ys"
  shows "match_segs [Lit ''health''] xs = None"
proof -
  from assms(1) mounts_under_api obtain rest where pre: "pre = ''api'' # rest" by blast
  with assms(2) obtain x xs' where xs: "xs = x # xs'" and "ci_eq ''api'' x"
    by (cases xs) (auto split: if_splits)
  then have "\<not> ci_eq ''health'' x" by (auto simp: ci_eq_def)
  with xs show ?thesis by simp
qed

lemma dispatch_sound:
  "dispatch m p = Routed e mw bs \<Longrightarrow>
     \<exists>pre rs ys r. (pre, rs) \<in> set mounts \<and> strip_mount pre (path_segs p) = Some ys \<and> r \<in> set rs \<and>
       rt_method r = m \<and> match_segs (rt_path r) ys = Some bs \<and> rt_endpoint r = e \<and> rt_mw r = mw"
  unfolding dispatch_def
  by (auto split: if_splits option.splits dest!: mounted_sound route_in_sound)


section \<open>Properties of the routing\<close>

text \<open>
  C14. The route a request reaches does not depend on the order in which the routes are
  declared: a request is routed to an endpoint exactly when some mounted router has a
  route of that method whose pattern matches the rest of the path. In particular
  \<^verbatim>\<open>GET /:id\<close>, declared before \<^verbatim>\<open>/overview/current\<close>,
  \<^verbatim>\<open>/missing/:monthYear\<close> and \<^verbatim>\<open>/stats/summary\<close>, never shadows them.
\<close>

theorem dispatch_order_independent:
  "dispatch m p = Routed e mw bs \<longleftrightarrow>
     (\<exists>pre rs ys r. (pre, rs) \<in> set mounts \<and> strip_mount pre (path_segs p) = Some ys \<and> r \<in> set rs \<and>
        rt_method r = m \<and> match_segs (rt_path r) ys = Some bs \<and> rt_endpoint r = e \<and> rt_mw r = mw)"
proof
  assume "dispatch m p = Routed e mw bs"
  then show "\<exists>pre rs ys r. (pre, rs) \<in> set mounts \<and> strip_mount pre (path_segs p) = Some ys \<and>
      r \<in> set rs \<and> rt_method r = m \<and> match_segs (rt_path r) ys = Some bs \<and> rt_endpoint r = e \<and> rt_mw r = mw"
    by (rule dispatch_sound)
next
  assume "\<exists>pre rs ys r. (pre, rs) \<in> set mounts \<and> strip_mount pre (path_segs p) = Some ys \<and>
      r \<in> set rs \<and> rt_method r = m \<and> match_segs (rt_path r) ys = Some bs \<and> rt_endpoint r = e \<and> rt_mw r = mw"
  then obtain pre rs ys r where mt: "(pre, rs) \<in> set mounts" and ys: "strip_mount pre (path_segs p) = Some ys"
    and r: "r \<in> set rs" "rt_method r = m" "match_segs (rt_path r) ys = Some bs" "rt_endpoint r = e" "rt_mw r = mw"
    by blast
  from tables_unambiguous mt have "unambiguous rs" by blast
  from route_in_complete [OF this r(1-3)] r(4,5)
  have "route_in m ys rs = Some (Routed e mw bs)" by simp
  from mounted_complete [OF mounts_are_disjoint mt ys this]
  have "mounted m (path_segs p) mounts = Some (Routed e mw bs)" .
  moreover from mounted_not_health [OF mt ys] have "match_segs [Lit ''health''] (path_segs p) = None" .
  ultimately show "dispatch m p = Routed e mw bs" by (simp add: dispatch_def)
qed

text \<open>
  C29. Every request routed to an endpoint other than the five account routes of
  \<^verbatim>\<open>/api/auth\<close> and the two category listings runs \<^verbatim>\<open>authenticateToken\<close>
  first, before any validator; the public endpoints run no authentication.
\<close>

theorem protected_routes_authenticate_first:
  assumes "dispatch m p = Routed e mw bs"
  shows "(AuthenticateToken \<in> set mw \<longleftrightarrow> \<not> public_endpoint e) \<and>
         (\<not> public_endpoint e \<longrightarrow> hd mw = AuthenticateToken)"
proof -
  from dispatch_sound [OF assms] obtain pre rs ys r where
    mt: "(pre, rs) \<in> set mounts" and r: "r \<in> set rs" "rt_endpoint r = e" "rt_mw r = mw"
    by blast
  from tables_guarded mt r(1) r(2,3) show ?thesis by fastforce
qed

theorem protected_routes_authenticate_first_witness:
  "dispatch DELETE ''/api/budgets/3'' = Routed Delete_Budget_EP [AuthenticateToken] [(''id'', ''3'')] \<and>
   hd [AuthenticateToken] = AuthenticateToken"
proof -
  have d: "dispatch DELETE ''/api/budgets/3'' = Routed Delete_Budget_EP [AuthenticateToken] [(''id'', ''3'')]"
    by code_simp
  have "\<not> public_endpoint Delete_Budget_EP" by (simp add: public_endpoint_def)
  with protected_routes_authenticate_first [OF d] have "hd [AuthenticateToken] = AuthenticateToken" by blast
  with d show ?thesis by blast
qed

end
