(* ===== verification/Limiter.thy ===== *)
theory Limiter
  imports Prelude
begin

text \<open>
  The rate limiter of src/src/server.ts: \<^verbatim>\<open>rateLimit({ windowMs: 15 * 60 * 1000, max: 100,
  message })\<close>, installed with \<^verbatim>\<open>app.use(limiter)\<close> before every route. Its counting is
  that of express-rate-limit's default memory store: each client (keyed by IP) has a hit
  count and a reset time; a request at or after the reset time starts a new window of
  \<open>window_ms\<close> with one hit, any other request adds a hit, and a request whose count
  exceeds \<open>limit_max\<close> is answered 429 with the message (it still counts). Times are
  milliseconds. \<open>rl_run\<close> runs the limiter over a sequence of requests, each a time and
  an IP, from a given store; the server starts with the empty store.
\<close>

record rl_client =
  rl_hits :: nat
  rl_reset :: nat

definition window_ms :: nat where
  "window_ms = 15 * 60 * 1000"

definition limit_max :: nat where
  "limit_max = 100"

definition limit_message :: string where
  "limit_message = ''Too many requests from this IP, please try again later.''"

definition rl_increment :: "nat \<Rightarrow> rl_client option \<Rightarrow> rl_client" where
  "rl_increment now c =
     (case c of
        Some x \<Rightarrow> if now < rl_reset x then x\<lparr>rl_hits := Suc (rl_hits x)\<rparr>
                 else \<lparr>rl_hits = 1, rl_reset = now + window_ms\<rparr>
      | None \<Rightarrow> \<lparr>rl_hits = 1, rl_reset = now + window_ms\<rparr>)"

definition rate_limit :: "nat \<Rightarrow> string \<Rightarrow> (string \<rightharpoonup> rl_client) \<Rightarrow> (string + unit) \<times> (string \<rightharpoonup> rl_client)" where
  "rate_limit now ip st =
     (let c = rl_increment now (st ip)
      in (if limit_max < rl_hits c then Inl limit_message else Inr (), st(ip \<mapsto> c)))"

fun rl_run :: "(string \<rightharpoonup> rl_client) \<Rightarrow> (nat \<times> string) list \<Rightarrow> (nat \<times> string \<times> bool) list" where
  "rl_run st [] = []"
| "rl_run st ((t, ip) # rs) =
     (t, ip, fst (rate_limit t ip st) = Inr ()) # rl_run (snd (rate_limit t ip st)) rs"

text \<open>One client's view: the time, whether the request passed, and the reset time after it.\<close>

fun rl1 :: "rl_client option \<Rightarrow> nat list \<Rightarrow> (nat \<times> bool \<times> nat) list" where
  "rl1 c [] = []"
| "rl1 c (t # ts) =
     (let c' = rl_increment t c in (t, rl_hits c' \<le> limit_max, rl_reset c') # rl1 (Some c') ts)"

text \<open>The requests of \<open>ip\<close> that passed at a time in \<open>[a, a + window_ms)\<close>.\<close>

definition passed_in :: "string \<Rightarrow> nat \<Rightarrow> (nat \<times> string \<times> bool) list \<Rightarrow> nat" where
  "passed_in ip a out = length (filter (\<lambda>(t, i, ok). i = ip \<and> ok \<and> a \<le> t \<and> t < a + window_ms) out)"

text \<open>The invariant behind the sliding bound, for the interval starting at \<open>a\<close>, a client
  state \<open>c\<close> and the number \<open>p\<close> of its passed requests in the interval so far.\<close>

definition rl_inv :: "nat \<Rightarrow> rl_client option \<Rightarrow> nat \<Rightarrow> bool" where
  "rl_inv a c p =
     (case c of
        None \<Rightarrow> p = 0
      | Some x \<Rightarrow>
          (let r = rl_reset x; m = min (rl_hits x) limit_max in
           1 \<le> rl_hits x \<and>
           (r \<le> a \<longrightarrow> p = 0) \<and>
           (a < r \<and> r < a + window_ms \<longrightarrow> p + 1 \<le> m) \<and>
           (r = a + window_ms \<longrightarrow> p \<le> m) \<and>
           (a + window_ms < r \<and> r < a + 2 * window_ms \<longrightarrow> p + 1 \<le> limit_max + m) \<and>
           p + 1 \<le> 2 * limit_max))"

definition window_ok :: "rl_client option \<Rightarrow> nat \<Rightarrow> bool" where
  "window_ok c t = (case c of None \<Rightarrow> True | Some x \<Rightarrow> rl_reset x \<le> t + window_ms)"

text \<open>A burst from one client around a window boundary: one request at time 0, which
  opens a window ending at \<open>window_ms\<close>, 99 requests just before that end and 100 at it.\<close>

definition burst_trace :: "(nat \<times> string) list" where
  "burst_trace = (0, ''203.0.113.7'') # replicate 99 (window_ms - 1, ''203.0.113.7'') @
                 replicate 100 (window_ms, ''203.0.113.7'')"

section \<open>Lemmas\<close>

lemma rate_limit_parts:
  "snd (rate_limit t ip st) = st(ip \<mapsto> rl_increment t (st ip))"
  "fst (rate_limit t ip st) = Inr () \<longleftrightarrow> rl_hits (rl_increment t (st ip)) \<le> limit_max"
  by (simp_all add: rate_limit_def Let_def not_less)

lemma rl_run_client:
  "map (\<lambda>(t, i, ok). (t, ok)) (filter (\<lambda>(t, i, ok). i = ip) (rl_run st tr)) =
     map (\<lambda>(t, ok, r). (t, ok)) (rl1 (st ip) (map fst (filter (\<lambda>(t, i). i = ip) tr)))"
proof (induction tr arbitrary: st)
  case (Cons q rs)
  obtain t i where q: "q = (t, i)" by fastforce
  show ?case
    by (cases "i = ip") (simp_all add: q rate_limit_parts Let_def Cons.IH)
qed simp

lemma passed_in_rl1:
  "passed_in ip a (rl_run st tr) =
     length (filter (\<lambda>(t, ok, r). ok \<and> a \<le> t \<and> t < a + window_ms) (rl1 (st ip) (map fst (filter (\<lambda>(t, i). i = ip) tr))))"
proof -
  let ?P = "\<lambda>(t, ok). ok \<and> a \<le> t \<and> t < a + window_ms"
  have "passed_in ip a (rl_run st tr) =
          length (filter ?P (map (\<lambda>(t, i, ok). (t, ok)) (filter (\<lambda>(t, i, ok). i = ip) (rl_run st tr))))"
    unfolding passed_in_def by (simp add: filter_map filter_filter comp_def case_prod_unfold conj_ac)
  also have "\<dots> = length (filter ?P (map (\<lambda>(t, ok, r). (t, ok)) (rl1 (st ip) (map fst (filter (\<lambda>(t, i). i = ip) tr)))))"
    by (simp only: rl_run_client)
  also have "\<dots> = length (filter (\<lambda>(t, ok, r). ok \<and> a \<le> t \<and> t < a + window_ms)
                     (rl1 (st ip) (map fst (filter (\<lambda>(t, i). i = ip) tr))))"
    by (simp add: filter_map comp_def case_prod_unfold)
  finally show ?thesis .
qed


lemma rl_inv_new:
  assumes "rl_inv a c p" and "\<forall>x. c = Some x \<longrightarrow> rl_reset x \<le> t"
  shows "rl_inv a (Some \<lparr>rl_hits = 1, rl_reset = t + window_ms\<rparr>)
           (p + (if a \<le> t \<and> t < a + window_ms then 1 else 0))"
proof (cases c)
  case None
  with assms(1) show ?thesis by (auto simp: rl_inv_def limit_max_def)
next
  case (Some x)
  with assms have inv: "rl_inv a (Some x) p" and r: "rl_reset x \<le> t" by auto
  from inv show ?thesis using r
    unfolding rl_inv_def Let_def limit_max_def by (auto split: if_splits)
qed

lemma rl_inv_same:
  assumes "rl_inv a (Some x) p" and "t < rl_reset x" and "rl_reset x \<le> t + window_ms"
  shows "rl_inv a (Some (x\<lparr>rl_hits := Suc (rl_hits x)\<rparr>))
           (p + (if Suc (rl_hits x) \<le> limit_max \<and> a \<le> t \<and> t < a + window_ms then 1 else 0))"
  using assms unfolding rl_inv_def Let_def limit_max_def by (auto split: if_splits)

lemma rl_inv_step:
  assumes "rl_inv a c p" and "window_ok c t"
  shows "rl_inv a (Some (rl_increment t c))
           (p + (if rl_hits (rl_increment t c) \<le> limit_max \<and> a \<le> t \<and> t < a + window_ms then 1 else 0))"
proof (cases "\<exists>x. c = Some x \<and> t < rl_reset x")
  case True
  then obtain x where c: "c = Some x" and t: "t < rl_reset x" by blast
  with assms show ?thesis by (simp add: rl_increment_def window_ok_def rl_inv_same)
next
  case False
  then have "rl_increment t c = \<lparr>rl_hits = 1, rl_reset = t + window_ms\<rparr>"
    by (auto simp: rl_increment_def split: option.split)
  moreover have "\<forall>x. c = Some x \<longrightarrow> rl_reset x \<le> t" using False by auto
  ultimately show ?thesis using rl_inv_new [OF assms(1)] by (simp add: limit_max_def)
qed


lemma window_ok_step: "window_ok c t \<Longrightarrow> t \<le> t' \<Longrightarrow> window_ok (Some (rl_increment t c)) t'"
  by (auto simp: window_ok_def rl_increment_def split: option.splits)

lemma rl1_bound:
  assumes "rl_inv a c p" and "sorted ts" and "\<forall>t\<in>set ts. window_ok c t"
  shows "p + length (filter (\<lambda>(t, ok, r). ok \<and> a \<le> t \<and> t < a + window_ms) (rl1 c ts)) < 2 * limit_max"
  using assms
proof (induction ts arbitrary: c p)
  case Nil
  then show ?case by (auto simp: rl_inv_def limit_max_def Let_def split: option.splits)
next
  case (Cons t ts)
  let ?c' = "rl_increment t c"
  let ?p' = "p + (if rl_hits ?c' \<le> limit_max \<and> a \<le> t \<and> t < a + window_ms then 1 else 0)"
  from Cons.prems have inv: "rl_inv a (Some ?c') ?p'" by (simp add: rl_inv_step)
  from Cons.prems have "\<forall>t'\<in>set ts. window_ok (Some ?c') t'" by (auto intro: window_ok_step)
  with Cons.IH [OF inv] Cons.prems(2)
  have "?p' + length (filter (\<lambda>(t, ok, r). ok \<and> a \<le> t \<and> t < a + window_ms) (rl1 (Some ?c') ts)) < 2 * limit_max"
    by simp
  then show ?case by (auto simp: Let_def split: if_splits)
qed


lemma rl1_replicate:
  assumes "t < rl_reset c"
  shows "rl1 (Some c) (replicate n t @ ts) =
           map (\<lambda>k. (t, Suc (rl_hits c + k) \<le> limit_max, rl_reset c)) [0..<n] @
           rl1 (Some (c\<lparr>rl_hits := rl_hits c + n\<rparr>)) ts"
  using assms
proof (induction n arbitrary: c)
  case (Suc n)
  let ?c = "c\<lparr>rl_hits := Suc (rl_hits c)\<rparr>"
  from Suc.prems have "rl1 (Some ?c) (replicate n t @ ts) =
           map (\<lambda>k. (t, Suc (rl_hits ?c + k) \<le> limit_max, rl_reset ?c)) [0..<n] @
           rl1 (Some (?c\<lparr>rl_hits := rl_hits ?c + n\<rparr>)) ts"
    by (intro Suc.IH) simp
  moreover have "map (\<lambda>k. (t, Suc (rl_hits c + k) \<le> limit_max, rl_reset c)) [0..<Suc n] =
                   (t, Suc (rl_hits c) \<le> limit_max, rl_reset c) #
                   map (\<lambda>k. (t, Suc (Suc (rl_hits c) + k) \<le> limit_max, rl_reset c)) [0..<n]"
    by (simp add: map_upt_Suc del: upt_Suc)
  ultimately show ?case using Suc.prems by (simp add: rl_increment_def Let_def)
qed simp

lemma burst_passes: "passed_in ''203.0.113.7'' (window_ms - 1) (rl_run Map.empty burst_trace) = 199"
proof -
  let ?W = window_ms
  let ?P = "\<lambda>(t, ok, r). ok \<and> ?W - 1 \<le> t \<and> t < ?W - 1 + ?W"
  let ?c1 = "\<lparr>rl_hits = 1, rl_reset = ?W\<rparr>"
  let ?c2 = "\<lparr>rl_hits = 1, rl_reset = 2 * ?W\<rparr>"
  have r: "replicate 100 x = x # replicate 99 x" for x :: "nat \<times> string"
    by (simp add: numeral_eq_Suc)
  have ts: "map fst (filter (\<lambda>(t, i). i = ''203.0.113.7'') burst_trace) =
              0 # replicate 99 (?W - 1) @ ?W # replicate 99 ?W"
    unfolding burst_trace_def r by (simp add: filter_replicate)
  have w: "0 < ?W" "1 < ?W" by (simp_all add: window_ms_def)
  have "rl1 None (0 # replicate 99 (?W - 1) @ ?W # replicate 99 ?W) =
          (0, True, ?W) # map (\<lambda>k. (?W - 1, Suc (1 + k) \<le> limit_max, ?W)) [0..<99] @
          (?W, True, 2 * ?W) # map (\<lambda>k. (?W, Suc (1 + k) \<le> limit_max, 2 * ?W)) [0..<99]"
  proof -
    have a: "rl1 None (0 # rest) = (0, True, ?W) # rl1 (Some ?c1) rest" for rest
      by (simp add: rl_increment_def limit_max_def)
    have b: "rl1 (Some ?c1) (replicate 99 (?W - 1) @ rest) =
               map (\<lambda>k. (?W - 1, Suc (1 + k) \<le> limit_max, ?W)) [0..<99] @
               rl1 (Some (?c1\<lparr>rl_hits := 1 + 99\<rparr>)) rest" for rest
      using rl1_replicate [of "?W - 1" ?c1 99 rest] w by simp
    have c: "rl1 (Some (?c1\<lparr>rl_hits := 1 + 99\<rparr>)) (?W # rest) =
               (?W, True, 2 * ?W) # rl1 (Some ?c2) rest" for rest
      by (simp add: rl_increment_def limit_max_def mult_2)
    have d: "rl1 (Some ?c2) (replicate 99 ?W) = map (\<lambda>k. (?W, Suc (1 + k) \<le> limit_max, 2 * ?W)) [0..<99]"
      using rl1_replicate [of ?W ?c2 99 "[]"] w by simp
    show ?thesis by (simp only: a b c d append_Cons append_Nil)
  qed
  then have "passed_in ''203.0.113.7'' (?W - 1) (rl_run Map.empty burst_trace) =
               length (filter ?P (map (\<lambda>k. (?W - 1, Suc (1 + k) \<le> limit_max, ?W)) [0..<99])) + 1 +
               length (filter ?P (map (\<lambda>k. (?W, Suc (1 + k) \<le> limit_max, 2 * ?W)) [0..<99]))"
    using w by (simp add: passed_in_rl1 ts)
  also have "\<dots> = 99 + 1 + 99"
    using w by (simp add: filter_map comp_def limit_max_def window_ms_def)
  finally show ?thesis by simp
qed

text \<open>A run of one client's requests through the whole store is that client's view.\<close>

lemma rl_run_one_client:
  "map (\<lambda>(t, i, ok). ok) (rl_run st (map (\<lambda>t. (t, ip)) ts)) = map (\<lambda>(t, ok, r). ok) (rl1 (st ip) ts)"
proof (induction ts arbitrary: st)
  case (Cons t ts)
  show ?case by (simp add: rate_limit_parts Let_def Cons.IH)
qed simp

text \<open>Inside a window every request adds a hit, and passes while the count is at most
  \<open>limit_max\<close>.\<close>

lemma rl1_window:
  assumes "\<forall>t\<in>set ts. t < rl_reset c"
  shows "map (\<lambda>(t, ok, r). ok) (rl1 (Some c) ts) = map (\<lambda>k. Suc (rl_hits c + k) \<le> limit_max) [0..<length ts]"
  using assms
proof (induction ts arbitrary: c)
  case (Cons t ts)
  let ?c = "c\<lparr>rl_hits := Suc (rl_hits c)\<rparr>"
  have "map (\<lambda>(t, ok, r). ok) (rl1 (Some ?c) ts) = map (\<lambda>k. Suc (rl_hits ?c + k) \<le> limit_max) [0..<length ts]"
    using Cons.prems by (intro Cons.IH) simp
  then show ?case using Cons.prems by (simp add: rl_increment_def Let_def map_upt_Suc del: upt_Suc)
qed simp

section \<open>The sliding bound\<close>

text \<open>
  C19. The limiter counts per fixed window that opens at a client's first request, not
  per sliding 15 minutes: from server start, for requests in time order, at most
  \<open>2 * limit_max - 1\<close> = 199 requests of one IP pass in any interval of
  \<open>window_ms\<close>, and a burst at a window boundary gets exactly that many through,
  although server.ts comments the limiter as 100 requests per 15 minutes.
\<close>

theorem limiter_sliding_bound:
  assumes "sorted (map fst tr)"
  shows "passed_in ip a (rl_run Map.empty tr) \<le> 2 * limit_max - 1"
proof -
  have "sorted (map fst (filter (\<lambda>(t, i). i = ip) tr))"
    using assms by (rule sorted_filter)
  moreover have "rl_inv a None 0" by (simp add: rl_inv_def)
  ultimately have "0 + length (filter (\<lambda>(t, ok, r). ok \<and> a \<le> t \<and> t < a + window_ms)
                     (rl1 None (map fst (filter (\<lambda>(t, i). i = ip) tr)))) < 2 * limit_max"
    by (intro rl1_bound) (simp_all add: window_ok_def)
  then show ?thesis by (simp add: passed_in_rl1)
qed

theorem limiter_sliding_bound_witness:
  "sorted (map fst burst_trace) \<and>
   passed_in ''203.0.113.7'' (window_ms - 1) (rl_run Map.empty burst_trace) = 2 * limit_max - 1"
proof -
  have s: "sorted (map fst burst_trace)"
    by (simp add: burst_trace_def sorted_append window_ms_def)
  have "passed_in ''203.0.113.7'' (window_ms - 1) (rl_run Map.empty burst_trace) \<le> 2 * limit_max - 1"
    using limiter_sliding_bound [OF s] .
  with s burst_passes show ?thesis by (simp add: limit_max_def)
qed

section \<open>A new window restores service\<close>

text \<open>
  C15. Each window lets a client through \<open>limit_max\<close> = 100 times and a new window
  restores service: when a client's last window has ended (or it has sent nothing yet), a
  request at \<open>t0\<close> opens a new window, and of that request and the client's next ones
  before \<open>t0 + window_ms\<close> the first 100 pass and every later one is answered 429,
  whatever the client's count was before.
\<close>

theorem limiter_window_resets:
  assumes "\<forall>x. st ip = Some x \<longrightarrow> rl_reset x \<le> t0" and "\<forall>t\<in>set ts. t < t0 + window_ms"
  shows "map (\<lambda>(t, i, ok). ok) (rl_run st (map (\<lambda>t. (t, ip)) (t0 # ts))) =
           map (\<lambda>k. k < limit_max) [0..<Suc (length ts)]"
proof -
  have new: "rl_increment t0 (st ip) = \<lparr>rl_hits = 1, rl_reset = t0 + window_ms\<rparr>"
    using assms(1) by (auto simp: rl_increment_def split: option.split)
  have "map (\<lambda>(t, i, ok). ok) (rl_run st (map (\<lambda>t. (t, ip)) (t0 # ts))) =
          map (\<lambda>(t, ok, r). ok) (rl1 (st ip) (t0 # ts))"
    by (rule rl_run_one_client)
  also have "\<dots> = True # map (\<lambda>(t, ok, r). ok) (rl1 (Some \<lparr>rl_hits = 1, rl_reset = t0 + window_ms\<rparr>) ts)"
    by (simp add: new limit_max_def)
  also have "\<dots> = True # map (\<lambda>k. Suc (1 + k) \<le> limit_max) [0..<length ts]"
    using assms(2) by (subst rl1_window) simp_all
  also have "\<dots> = map (\<lambda>k. k < limit_max) [0..<Suc (length ts)]"
    by (simp add: map_upt_Suc Suc_le_eq limit_max_def [of] del: upt_Suc)
  finally show ?thesis .
qed

theorem limiter_window_resets_witness:
  "map (\<lambda>(t, i, ok). ok) (rl_run [''203.0.113.7'' \<mapsto> \<lparr>rl_hits = 150, rl_reset = 10\<rparr>]
      (map (\<lambda>t. (t, ''203.0.113.7'')) (10 # replicate 100 11))) = replicate 100 True @ [False]"
proof -
  have "map (\<lambda>(t, i, ok). ok) (rl_run [''203.0.113.7'' \<mapsto> \<lparr>rl_hits = 150, rl_reset = 10\<rparr>]
      (map (\<lambda>t. (t, ''203.0.113.7'')) (10 # replicate 100 11))) =
        map (\<lambda>k. k < limit_max) [0..<Suc (length (replicate 100 (11::nat)))]"
    by (rule limiter_window_resets) (simp_all add: window_ms_def)
  also have "\<dots> = map (\<lambda>k. k < (100::nat)) ([0..<100] @ [100])"
    by (simp only: length_replicate upt_Suc limit_max_def) simp
  also have "\<dots> = map (\<lambda>k. k < (100::nat)) [0..<100] @ [False]"
    by simp
  also have "map (\<lambda>k. k < (100::nat)) [0..<100] = map (\<lambda>_. True) [0..<100]"
    by (rule map_cong) simp_all
  also have "map (\<lambda>_. True) [0..<(100::nat)] = replicate 100 True"
    by (simp only: map_replicate_const length_upt) simp
  finally show ?thesis .
qed

end
