(* ===== verification/Database.thy ===== *)
theory Database
  imports Schema
begin

text \<open>
  src/src/config/database.ts: the pool configuration read from the environment
  (\<open>dbConfig\<close>, with JavaScript's \<^verbatim>\<open>||\<close> defaults and \<^verbatim>\<open>parseInt\<close> for the port) and the
  \<^verbatim>\<open>Database\<close> class over a mysql2 pool. The pool is modelled by the number of
  connections it has handed out and not got back, and whether it has been closed; a
  statement is a function of the store that answers rows or throws (the \<open>'a response\<close>
  of the handlers). Whether the server can be reached (\<open>up\<close>) and whether a ping
  succeeds are inputs. \<^verbatim>\<open>getConnection\<close> on a pool whose ten connections are all out
  waits (\<^verbatim>\<open>waitForConnections: true\<close>, \<^verbatim>\<open>queueLimit: 0\<close>): the model answers
  \<open>None\<close>, a call that does not return while nothing is released.
\<close>

record db_config =
  cfg_host :: string
  cfg_port :: "int option"
  cfg_user :: string
  cfg_password :: string
  cfg_database :: string
  cfg_waitForConnections :: bool
  cfg_connectionLimit :: nat
  cfg_queueLimit :: nat

text \<open>\<^verbatim>\<open>process.env.X || d\<close>: an unset or empty variable gives the default.\<close>

definition env_or :: "string option \<Rightarrow> string \<Rightarrow> string" where
  "env_or v d = (case v of Some x \<Rightarrow> if x = [] then d else x | None \<Rightarrow> d)"

text \<open>\<^verbatim>\<open>parseInt(s)\<close> without a radix: leading white space (the ASCII white space
  characters) and a sign are skipped, a \<^verbatim>\<open>0x\<close> or \<^verbatim>\<open>0X\<close> prefix selects base 16, and
  the longest prefix of digits of the base is read; no digit gives \<^verbatim>\<open>NaN\<close>
  (\<open>None\<close>).\<close>

definition js_space :: "char \<Rightarrow> bool" where
  "js_space c \<longleftrightarrow> of_char c \<in> ({9, 10, 11, 12, 13, 32} :: nat set)"

definition hex_val :: "char \<Rightarrow> nat option" where
  "hex_val c =
     (let n = of_char c :: nat in
      if 48 \<le> n \<and> n \<le> 57 then Some (n - 48)
      else if 97 \<le> n \<and> n \<le> 102 then Some (n - 87)
      else if 65 \<le> n \<and> n \<le> 70 then Some (n - 55)
      else None)"

definition hex_digits_val :: "string \<Rightarrow> nat" where
  "hex_digits_val s = foldl (\<lambda>acc c. 16 * acc + the (hex_val c)) 0 s"

definition parse_int :: "string \<Rightarrow> int option" where
  "parse_int s =
     (let t = dropWhile js_space s;
          (sg, r) = (case t of
                       c # r \<Rightarrow> if c = CHR ''-'' then (-1, r) else if c = CHR ''+'' then (1, r) else (1, t)
                     | [] \<Rightarrow> (1, []))
      in case r of
           z # x # h \<Rightarrow>
             if z = CHR ''0'' \<and> (x = CHR ''x'' \<or> x = CHR ''X'') then
               (let ds = takeWhile (\<lambda>c. hex_val c \<noteq> None) h in
                if ds = [] then None else Some (sg * int (hex_digits_val ds)))
             else (let ds = takeWhile is_digit r in
                   if ds = [] then None else Some (sg * int (digits_val ds)))
         | _ \<Rightarrow> (let ds = takeWhile is_digit r in
                if ds = [] then None else Some (sg * int (digits_val ds))))"

definition dbConfig :: "(string \<Rightarrow> string option) \<Rightarrow> db_config" where
  "dbConfig env =
     \<lparr>cfg_host = env_or (env ''DB_HOST'') ''localhost'',
      cfg_port = parse_int (env_or (env ''DB_PORT'') ''3306''),
      cfg_user = env_or (env ''DB_USER'') ''root'',
      cfg_password = env_or (env ''DB_PASSWORD'') [],
      cfg_database = env_or (env ''DB_NAME'') ''financial_management'',
      cfg_waitForConnections = True,
      cfg_connectionLimit = 10,
      cfg_queueLimit = 0\<rparr>"

record pool =
  pool_out :: nat
  pool_closed :: bool

definition new_pool :: pool where
  "new_pool = \<lparr>pool_out = 0, pool_closed = False\<rparr>"

datatype db_failure = Connection_Failed | Pool_Closed

text \<open>\<^verbatim>\<open>pool.getConnection()\<close>: an error when the pool is closed or the server cannot
  be reached, a wait (\<open>None\<close>) when every connection is out, else one more connection
  out.\<close>

definition getConnection :: "db_config \<Rightarrow> bool \<Rightarrow> pool \<Rightarrow> (db_failure + pool) option" where
  "getConnection cfg up p =
     (if pool_closed p then Some (Inl Pool_Closed)
      else if pool_out p < cfg_connectionLimit cfg then
        (if up then Some (Inr (p\<lparr>pool_out := Suc (pool_out p)\<rparr>)) else Some (Inl Connection_Failed))
      else None)"

definition release :: "pool \<Rightarrow> pool" where
  "release p = p\<lparr>pool_out := pool_out p - 1\<rparr>"

text \<open>\<^verbatim>\<open>Database.query\<close>: take a connection, execute, and release it in the
  \<^verbatim>\<open>finally\<close> whether the statement answered or threw. A failure to get a
  connection is thrown to the caller (\<open>Inl\<close> of \<open>Inl\<close>).\<close>

definition query ::
  "db_config \<Rightarrow> bool \<Rightarrow> (db \<Rightarrow> 'a response) \<Rightarrow> pool \<times> db \<Rightarrow> ((db_failure + api_error + 'a) \<times> pool \<times> db) option" where
  "query cfg up stmt ps =
     (let (p, s) = ps in
      case getConnection cfg up p of
        None \<Rightarrow> None
      | Some (Inl f) \<Rightarrow> Some (Inl f, p, s)
      | Some (Inr p1) \<Rightarrow>
          (let (r, s') = stmt s in
           Some ((case r of Inl e \<Rightarrow> Inr (Inl e) | Inr v \<Rightarrow> Inr (Inr v)), release p1, s')))"

text \<open>\<^verbatim>\<open>Database.testConnection\<close>: take a connection, ping, release, answer true; any
  error answers false. The release comes after the ping inside the \<^verbatim>\<open>try\<close>, so a failed
  ping keeps the connection out.\<close>

definition testConnection :: "db_config \<Rightarrow> bool \<Rightarrow> bool \<Rightarrow> pool \<Rightarrow> (bool \<times> pool) option" where
  "testConnection cfg up ping_ok p =
     (case getConnection cfg up p of
        None \<Rightarrow> None
      | Some (Inl f) \<Rightarrow> Some (False, p)
      | Some (Inr p1) \<Rightarrow> if ping_ok then Some (True, release p1) else Some (False, p1))"

definition close :: "pool \<Rightarrow> pool" where
  "close p = p\<lparr>pool_closed := True\<rparr>"

section \<open>Lemmas\<close>

lemma env_or_unset [simp]: "env_or None d = d" "env_or (Some []) d = d"
  by (simp_all add: env_or_def)

text \<open>With no database variables set the pool connects to the defaults of the source.\<close>

lemma dbConfig_defaults:
  "dbConfig (\<lambda>_. None) =
     \<lparr>cfg_host = ''localhost'', cfg_port = Some 3306, cfg_user = ''root'', cfg_password = [],
      cfg_database = ''financial_management'', cfg_waitForConnections = True,
      cfg_connectionLimit = 10, cfg_queueLimit = 0\<rparr>"
  by (simp add: dbConfig_def parse_int_def js_space_def is_digit_def digits_val_def digit_val_def)

text \<open>
  C24. Every query gives its connection back: whether the statement answers or throws,
  the pool has as many connections out afterwards as before, and a query that could not
  get a connection took none.
\<close>

lemma query_releases:
  assumes "query cfg up stmt (p, s) = Some (r, p', s')"
  shows "pool_out p' = pool_out p \<and> pool_closed p' = pool_closed p"
  using assms
  by (auto simp: query_def getConnection_def release_def split: if_splits sum.splits prod.splits)

text \<open>A query answers exactly what its statement answers, errors included, on the
  store the statement leaves.\<close>

lemma query_result:
  assumes "\<not> pool_closed p" and "pool_out p < cfg_connectionLimit cfg" and "up"
  shows "query cfg up stmt (p, s) =
           Some ((case fst (stmt s) of Inl e \<Rightarrow> Inr (Inl e) | Inr v \<Rightarrow> Inr (Inr v)),
                 p, snd (stmt s))"
  using assms
  by (simp add: query_def getConnection_def release_def split: prod.split)

text \<open>A failed ping leaves the connection out.\<close>

lemma failed_ping_leaks:
  assumes "\<not> pool_closed p" and "pool_out p < cfg_connectionLimit cfg" and "up"
  shows "testConnection cfg up False p = Some (False, p\<lparr>pool_out := Suc (pool_out p)\<rparr>)"
  using assms by (simp add: testConnection_def getConnection_def)


text \<open>\<^verbatim>\<open>parseInt\<close> reads back the decimal text of every number, so a \<^verbatim>\<open>DB_PORT\<close>
  written as digits is the port used.\<close>

lemma digit_not_space: "is_digit c \<Longrightarrow> \<not> js_space c"
  by (auto simp: is_digit_def js_space_def)

lemma parse_int_digits:
  assumes d: "list_all is_digit d" and ne: "d \<noteq> []"
  shows "parse_int d = Some (int (digits_val d))"
proof -
  obtain c cs where dc: "d = c # cs" using ne by (cases d) auto
  from d dc have c: "is_digit c" by simp
  then have nc: "\<not> js_space c" "c \<noteq> CHR ''-''" "c \<noteq> CHR ''+''"
    by (simp_all add: digit_not_space) (auto simp: is_digit_def)
  have tw: "takeWhile is_digit d = d" using d by (simp add: list_all_iff)
  have nx: "x \<noteq> CHR ''x'' \<and> x \<noteq> CHR ''X''" if "x \<in> set d" for x
    using d that by (auto simp: list_all_iff is_digit_def)
  show ?thesis
  proof (cases cs)
    case Nil
    with dc nc tw show ?thesis by (simp add: parse_int_def)
  next
    case (Cons x h)
    with dc nx have "x \<noteq> CHR ''x'' \<and> x \<noteq> CHR ''X''" by simp
    with dc Cons nc tw show ?thesis by (simp add: parse_int_def)
  qed
qed

lemma parse_int_show_nat: "parse_int (show_nat n) = Some (int n)"
  using show_nat_digits [of n] parse_int_digits [of "show_nat n"] by simp

text \<open>It also accepts a number followed by anything, and gives \<^verbatim>\<open>NaN\<close> for no digits.\<close>

lemma parse_int_examples:
  "parse_int ''3306abc'' = Some 3306" "parse_int ''  -7'' = Some (-7)" "parse_int ''0x1F'' = Some 31"
  "parse_int ''abc'' = None"
  by (simp_all add: parse_int_def js_space_def is_digit_def digits_val_def digit_val_def
                    hex_val_def hex_digits_val_def)

text \<open>Ten failed pings in a row take every connection of a fresh pool; from then on every
  query waits.\<close>

lemma failed_pings_exhaust:
  assumes "cfg_connectionLimit cfg = 10" and "k \<le> 10"
  shows "((\<lambda>p. snd (the (testConnection cfg True False p))) ^^ k) new_pool = \<lparr>pool_out = k, pool_closed = False\<rparr>"
  using assms(2)
proof (induction k)
  case (Suc k)
  then show ?case using assms(1) by (simp add: testConnection_def getConnection_def)
qed (simp add: new_pool_def)

lemma exhausted_pool_waits:
  assumes "pool_out p = cfg_connectionLimit cfg" and "\<not> pool_closed p"
  shows "query cfg up stmt (p, s) = None"
  using assms by (simp add: query_def getConnection_def)


theorem query_releases_witness:
  "query (dbConfig (\<lambda>_. None)) True (\<lambda>s. ((Inl (Server_Error ''boom''), s) :: unit response))
     (new_pool, empty_db) = Some (Inr (Inl (Server_Error ''boom'')), new_pool, empty_db) \<and>
   pool_out new_pool = 0"
proof -
  have q: "query (dbConfig (\<lambda>_. None)) True (\<lambda>s. ((Inl (Server_Error ''boom''), s) :: unit response))
     (new_pool, empty_db) = Some (Inr (Inl (Server_Error ''boom'')), new_pool, empty_db)"
    by (simp add: query_def getConnection_def dbConfig_def new_pool_def release_def)
  from query_releases [OF q] have "pool_out new_pool = pool_out new_pool" by simp
  with q show ?thesis by (simp add: new_pool_def)
qed

end
