(* ===== verification/Server.thy ===== *)
theory Server
  imports Api Router Limiter Database
begin

text \<open>
  The request pipeline of src/src/server.ts put together: the rate limiter runs first on
  every request, then Express routes it (\<open>dispatch\<close>); a routed request runs its
  route's middleware and then its handler. \<^verbatim>\<open>authenticateToken\<close> is not under src:
  the caller id it derives from the \<^verbatim>\<open>Authorization\<close> header is an input
  (\<open>hr_user\<close>, \<open>None\<close> when the header is missing or its token does not verify),
  and a protected route without one is refused before its handler runs. An HTTP request
  carries, besides its method, path, client IP and time, the handler invocation
  (\<open>hr_request\<close>, a request of theory \<open>Api\<close> with its body); the pipeline runs it when
  the path routes to that request's endpoint, and otherwise the path names another
  route, which is one of the read routes or the health check (they leave the store
  unchanged), or no route at all.
\<close>

fun endpoint_of :: "request \<Rightarrow> endpoint" where
  "endpoint_of (Create_Expense b) = Create_Expense_EP"
| "endpoint_of (Update_Expense i b) = Update_Expense_EP"
| "endpoint_of (Delete_Expense i) = Delete_Expense_EP"
| "endpoint_of (Create_Budget b) = Create_Budget_EP"
| "endpoint_of (Update_Budget i b) = Update_Budget_EP"
| "endpoint_of (Delete_Budget i) = Delete_Budget_EP"
| "endpoint_of (Create_Goal b) = Create_Goal_EP"
| "endpoint_of (Update_Goal i b) = Update_Goal_EP"
| "endpoint_of (Goal_Progress i a) = Goal_Progress_EP"
| "endpoint_of (Delete_Goal i) = Delete_Goal_EP"
| "endpoint_of (Register env b) = Register_EP"
| "endpoint_of (Verify_OTP now e c) = Verify_OTP_EP"
| "endpoint_of (Login now ok b) = Login_EP"
| "endpoint_of (Forgot_Password env e) = Forgot_Password_EP"
| "endpoint_of (Reset_Password now e c p) = Reset_Password_EP"
| "endpoint_of (Recommend_Budgeting reply) = Recommend_Budgeting_EP"
| "endpoint_of (Spending_Insights reply) = Spending_Insights_EP"
| "endpoint_of (Goal_Advice reply i) = Goal_Advice_EP"
| "endpoint_of (Mark_Recommendation_Read i) = Mark_Read_EP"
| "endpoint_of (Delete_Recommendation i) = Delete_Recommendation_EP"

record http_req =
  hr_method :: http_method
  hr_path :: string
  hr_ip :: string
  hr_time :: nat
  hr_user :: "user_id option"
  hr_request :: request

datatype reply =
    Rate_Limited
  | Health_Reply
  | Route_Not_Found
  | Unauthenticated
  | Other_Route endpoint
  | Handled

type_synonym server_state = "(string \<rightharpoonup> rl_client) \<times> db"

definition serve :: "int \<Rightarrow> http_req \<Rightarrow> server_state \<Rightarrow> reply \<times> server_state" where
  "serve tz h st =
     (let (rl, s) = st; lim = rate_limit (hr_time h) (hr_ip h) rl; rl' = snd lim in
      if fst lim \<noteq> Inr () then (Rate_Limited, (rl', s))
      else case dispatch (hr_method h) (hr_path h) of
             Health \<Rightarrow> (Health_Reply, (rl', s))
           | No_Route \<Rightarrow> (Route_Not_Found, (rl', s))
           | Routed ep mw bs \<Rightarrow>
               if ep \<noteq> endpoint_of (hr_request h) then (Other_Route ep, (rl', s))
               else if AuthenticateToken \<in> set mw then
                 (case hr_user h of
                    None \<Rightarrow> (Unauthenticated, (rl', s))
                  | Some uid \<Rightarrow> (Handled, (rl', handle tz uid (hr_request h) s)))
               else (Handled, (rl', handle tz (case hr_user h of Some uid \<Rightarrow> uid | None \<Rightarrow> 0) (hr_request h) s)))"

text \<open>\<^verbatim>\<open>startServer\<close>: test the database connection, exit with status 1 when it
  fails, listen otherwise. \<^verbatim>\<open>testConnection\<close> answers false rather than throwing, so
  the \<^verbatim>\<open>catch\<close> of \<^verbatim>\<open>startServer\<close> only sees errors of \<^verbatim>\<open>app.listen\<close>, which are
  I/O.\<close>

datatype startup = Listening pool | Exited nat

definition startServer :: "db_config \<Rightarrow> bool \<Rightarrow> bool \<Rightarrow> pool \<Rightarrow> startup option" where
  "startServer cfg up ping_ok p =
     (case testConnection cfg up ping_ok p of
        None \<Rightarrow> None
      | Some (ok, p') \<Rightarrow> Some (if ok then Listening p' else Exited 1))"

inductive server_reachable :: "int \<Rightarrow> (request \<Rightarrow> bool) \<Rightarrow> server_state \<Rightarrow> bool" for tz allowed where
  start: "server_reachable tz allowed (Map.empty, empty_db)"
| step: "server_reachable tz allowed st \<Longrightarrow> allowed (hr_request h) \<Longrightarrow>
           server_reachable tz allowed (snd (serve tz h st))"

section \<open>Lemmas\<close>

text \<open>What one request does to the store: nothing, or its handler for some caller.\<close>

lemma serve_store:
  "snd (snd (serve tz h st)) = snd st \<or> (\<exists>uid. snd (snd (serve tz h st)) = handle tz uid (hr_request h) (snd st))"
  by (cases st) (auto simp: serve_def Let_def split: outcome.splits option.splits)

text \<open>Every store the server builds is one that the requests it accepted build in
  theory \<open>Api\<close>; the invariants proved there hold for the whole pipeline.\<close>

lemma server_reachable_reachable:
  "server_reachable tz allowed st \<Longrightarrow> reachable tz allowed (snd st)"
proof (induction rule: server_reachable.induct)
  case start
  then show ?case by (simp add: reachable.start)
next
  case (step st h)
  from serve_store [of tz h st] show ?case
  proof
    assume "snd (snd (serve tz h st)) = snd st"
    with step.IH show ?thesis by simp
  next
    assume "\<exists>uid. snd (snd (serve tz h st)) = handle tz uid (hr_request h) (snd st)"
    then obtain uid where "snd (snd (serve tz h st)) = handle tz uid (hr_request h) (snd st)" ..
    with reachable.step [OF step.IH step.hyps(2), of uid] show ?thesis by simp
  qed
qed

text \<open>
  Through the whole pipeline, a request that reaches a protected endpoint without
  a verified token is answered before its handler runs and leaves the store unchanged.
\<close>

lemma unauthenticated_store_unchanged:
  assumes "hr_user h = None" and "\<not> public_endpoint (endpoint_of (hr_request h))"
    and "dispatch (hr_method h) (hr_path h) = Routed (endpoint_of (hr_request h)) mw bs"
  shows "snd (snd (serve tz h st)) = snd st"
proof -
  from dispatch_sound [OF assms(3)] obtain pre rs ys r where
    mt: "(pre, rs) \<in> set mounts" and r: "r \<in> set rs" "rt_endpoint r = endpoint_of (hr_request h)" "rt_mw r = mw"
    by blast
  from tables_guarded mt r assms(2) have "AuthenticateToken \<in> set mw" by fastforce
  with assms(1,3) show ?thesis by (cases st) (auto simp: serve_def Let_def)
qed


text \<open>The server starts listening exactly when the database answers the ping, and then
  with every connection of its pool back; the connection a failed ping keeps is lost
  with the process, which exits with status 1.\<close>

lemma startServer_result:
  "startServer (dbConfig env) up ping_ok new_pool =
     Some (if up \<and> ping_ok then Listening new_pool else Exited 1)"
  by (simp add: startServer_def testConnection_def getConnection_def new_pool_def dbConfig_def release_def)


theorem unauthenticated_store_unchanged_witness:
  "dispatch DELETE ''/api/budgets/3'' = Routed Delete_Budget_EP [AuthenticateToken] [(''id'', ''3'')] \<and>
   snd (snd (serve 0 \<lparr>hr_method = DELETE, hr_path = ''/api/budgets/3'', hr_ip = ''203.0.113.7'', hr_time = 0,
                      hr_user = None, hr_request = Delete_Budget 3\<rparr> (Map.empty, empty_db))) = empty_db"
proof -
  let ?h = "\<lparr>hr_method = DELETE, hr_path = ''/api/budgets/3'', hr_ip = ''203.0.113.7'', hr_time = 0,
             hr_user = None, hr_request = Delete_Budget 3\<rparr>"
  have d: "dispatch DELETE ''/api/budgets/3'' = Routed Delete_Budget_EP [AuthenticateToken] [(''id'', ''3'')]"
    by code_simp
  have "\<not> public_endpoint (endpoint_of (hr_request ?h))" by (simp add: public_endpoint_def)
  from unauthenticated_store_unchanged [of ?h, OF _ this] d
  have "snd (snd (serve 0 ?h (Map.empty, empty_db))) = empty_db" by simp
  with d show ?thesis by blast
qed

end
