(* ===== verification/HealthCheck.thy ===== *)
theory HealthCheck
  imports Database
begin

text \<open>
  src/scripts/health-check.ts: test the connection, count the categories, count the
  tables, print what it found, close the pool and exit. The console output is the list
  of the texts passed to \<^verbatim>\<open>console.log\<close> and \<^verbatim>\<open>console.error\<close>, one per call (the
  emoji as their UTF-8 bytes); the text of a thrown error is the argument
  \<open>show_err\<close>. \<^verbatim>\<open>SHOW TABLES\<close> lists the six tables of the schema, one per table of the
  store \<open>db\<close>.
\<close>

definition utf8 :: "nat list \<Rightarrow> string" where
  "utf8 bs = map char_of bs"

definition check_mark :: string where "check_mark = utf8 [226, 156, 133]"
definition cross_mark :: string where "cross_mark = utf8 [226, 157, 140]"

definition count_categories :: "db \<Rightarrow> nat response" where
  "count_categories s = (Inr (length (categories s)), s)"

definition show_tables :: "db \<Rightarrow> nat response" where
  "show_tables s = (Inr 6, s)"

text \<open>The \<^verbatim>\<open>catch\<close> block.\<close>

definition troubleshooting :: "string \<Rightarrow> string list" where
  "troubleshooting e =
     [cross_mark @ '' Health check failed: '' @ e,
      [CHR 0x0A] @ utf8 [240, 159, 148, 167] @ '' Troubleshooting:'',
      ''1. Make sure MySQL is running'',
      ''2. Check your database credentials in .env'',
      ''3. Run the schema.sql file to create tables:'',
      ''   mysql -u your_username -p financial_management < database/schema.sql'']"

definition next_steps :: "string list" where
  "next_steps =
     [[CHR 0x0A] @ utf8 [240, 159, 142, 137] @ '' Health check completed successfully!'',
      [CHR 0x0A] @ utf8 [240, 159, 147, 157] @ '' Next steps:'',
      ''1. Update .env file with your actual database credentials'',
      ''2. Update .env file with your Gmail credentials for email'',
      ''3. Get a Gemini API key from Google AI Studio'',
      ''4. Run: npm run dev'',
      ''5. Test the API endpoints with Postman or similar tool'']"

text \<open>The script: its output, its exit code (\<^verbatim>\<open>process.exit(0)\<close>) and the pool it leaves;
  \<open>None\<close> when a call waits for a connection.\<close>

definition healthCheck ::
  "db_config \<Rightarrow> bool \<Rightarrow> bool \<Rightarrow> (db_failure + api_error \<Rightarrow> string) \<Rightarrow> pool \<times> db \<Rightarrow>
     (string list \<times> nat \<times> pool) option" where
  "healthCheck cfg up ping_ok show_err ps =
     (let (p, s) = ps;
          start = [utf8 [240, 159, 148, 141] @ '' Running health check...'' @ [CHR 0x0A],
                   utf8 [240, 159, 147, 138] @ '' Testing database connection...'']
      in case testConnection cfg up ping_ok p of
           None \<Rightarrow> None
         | Some (ok, p1) \<Rightarrow>
             (let out1 = start @
                    [if ok then check_mark @ '' Database connection: OK''
                     else cross_mark @ '' Database connection: FAILED'',
                     utf8 [240, 159, 147, 139] @ '' Testing categories table...'']
              in case query cfg up count_categories (p1, s) of
                   None \<Rightarrow> None
                 | Some (Inl f, p2, _) \<Rightarrow> Some (out1 @ troubleshooting (show_err (Inl f)), 0, close p2)
                 | Some (Inr (Inl e), p2, _) \<Rightarrow> Some (out1 @ troubleshooting (show_err (Inr e)), 0, close p2)
                 | Some (Inr (Inr n), p2, s2) \<Rightarrow>
                     (let out2 = out1 @
                            [check_mark @ '' Categories table: '' @ show_nat n @ '' categories found'',
                             utf8 [240, 159, 143, 151] @ utf8 [239, 184, 143] @ ''  Testing table structure...'']
                      in case query cfg up show_tables (p2, s2) of
                           None \<Rightarrow> None
                         | Some (Inl f, p3, _) \<Rightarrow> Some (out2 @ troubleshooting (show_err (Inl f)), 0, close p3)
                         | Some (Inr (Inl e), p3, _) \<Rightarrow> Some (out2 @ troubleshooting (show_err (Inr e)), 0, close p3)
                         | Some (Inr (Inr t), p3, _) \<Rightarrow>
                             Some (out2 @ [check_mark @ '' Found '' @ show_nat t @ '' tables in database''] @
                                   next_steps, 0, close p3))))"

section \<open>Lemmas\<close>

text \<open>The script exits with status 0 whatever it finds, so a caller cannot tell a failed
  check from a passed one by the exit status, and it closes the pool on every path.\<close>

lemma healthCheck_exit_zero:
  assumes "healthCheck cfg up ping_ok show_err ps = Some (out, code, p)"
  shows "code = 0 \<and> pool_closed p"
  using assms
  by (auto simp: healthCheck_def Let_def close_def split: option.splits prod.splits sum.splits)

text \<open>With the database down the script reports the failure and exits 0; with the
  database up it counts the categories of the store.\<close>

lemma healthCheck_down:
  "healthCheck (dbConfig env) False ping_ok show_err (new_pool, s) =
     Some ([utf8 [240, 159, 148, 141] @ '' Running health check...'' @ [CHR 0x0A],
            utf8 [240, 159, 147, 138] @ '' Testing database connection...'',
            cross_mark @ '' Database connection: FAILED'',
            utf8 [240, 159, 147, 139] @ '' Testing categories table...''] @
           troubleshooting (show_err (Inl Connection_Failed)),
           0, close new_pool)"
  by (simp add: healthCheck_def testConnection_def query_def getConnection_def new_pool_def
                dbConfig_def)


lemma healthCheck_up:
  "healthCheck (dbConfig env) True True show_err (new_pool, s) =
     Some ([utf8 [240, 159, 148, 141] @ '' Running health check...'' @ [CHR 0x0A],
            utf8 [240, 159, 147, 138] @ '' Testing database connection...'',
            check_mark @ '' Database connection: OK'',
            utf8 [240, 159, 147, 139] @ '' Testing categories table...'',
            check_mark @ '' Categories table: '' @ show_nat (length (categories s)) @ '' categories found'',
            utf8 [240, 159, 143, 151] @ utf8 [239, 184, 143] @ ''  Testing table structure...'',
            check_mark @ '' Found '' @ show_nat 6 @ '' tables in database''] @ next_steps,
           0, \<lparr>pool_out = 0, pool_closed = True\<rparr>)"
  by (simp add: healthCheck_def testConnection_def query_def getConnection_def new_pool_def
                dbConfig_def release_def close_def count_categories_def show_tables_def)

end
