(* ===== verification/Spec2Isabelle.thy ===== *)
theory Spec2Isabelle
  imports Refinement Email Prompts Categories Server HealthCheck
begin

text \<open>
  \<^bold>\<open>A verification model of the Plan-Wise personal-finance backend.\<close>

  \<^emph>\<open>The program.\<close> An Express/TypeScript REST API over MySQL (src/src). src/src/server.ts
  mounts one router per file of src/src/routes/; every route outside \<^verbatim>\<open>/api/auth\<close>
  and the category listings authenticates the caller (\<^verbatim>\<open>authenticateToken\<close>,
  outside src), validates the body with Joi (src/src/middleware/validation.ts) and issues
  a few single-row SQL statements through \<^verbatim>\<open>database.query\<close>
  (src/src/config/database.ts), with no transaction. The account routes mail codes through
  src/src/services/emailService.ts; the AI routes build prompts from the stored data and
  save the model's reply (src/src/services/geminiService.ts). The part with real logic is the reconciliation of the cached
  \<^verbatim>\<open>budgets.current_spent\<close> with the \<^verbatim>\<open>expenses\<close> ledger
  (src/src/routes/expenses.ts, src/src/routes/budgets.ts) and the automatic completion of
  savings goals (src/src/routes/goals.ts).

  \<^emph>\<open>The library.\<close>
  \<^item> \<open>Prelude\<close>: the SQL statement shapes on a table (a list of rows):
    \<open>update_where\<close>, \<open>delete_where\<close>, \<open>select_where\<close>, \<open>affected\<close>, and the facts about
    sums over filtered tables that the aggregate proofs share; \<open>sort_by\<close> for
    \<^verbatim>\<open>ORDER BY\<close>; \<open>lines_text\<close> and \<open>indent\<close> for template literals.
  \<^item> \<open>Dates\<close>: calendar dates; \<open>month_key\<close> (SQL \<^verbatim>\<open>DATE_FORMAT(d,'%Y-%m')\<close>),
    \<open>to_iso_string\<close> and \<open>iso_month_slice\<close> (\<^verbatim>\<open>toISOString().slice(0, 7)\<close>),
    \<open>month_of_request\<close> (a request date parsed as UTC) and \<open>month_of_row\<close> (a stored
    \<^verbatim>\<open>DATE\<close> that mysql2 returns at the server's local midnight, for a server
    \<open>tz\<close> minutes east of UTC); the budget month pattern \<open>budget_month_ok\<close>.
  \<^item> \<open>Schema\<close>: the rows of src/src/types/index.ts as records, the store \<open>db\<close> (one
    list per table and one \<^verbatim>\<open>AUTO_INCREMENT\<close> counter per table), the error type
    \<open>api_error\<close> (400, 404, 500), and \<open>wf_db\<close>: distinct primary keys below their
    counters and unique budget keys \<^verbatim>\<open>(user_id, category_id, month_year)\<close>.
  \<^item> \<open>Validation\<close>: \<open>validateExpense\<close>, \<open>validateBudget\<close>, \<open>validateGoal\<close> over
    bodies whose fields are options (absent keys).
  \<^item> \<open>Budgets\<close>: \<open>adjust_budget\<close> (the \<^verbatim>\<open>current_spent + ?\<close> statement the expense
    routes issue), \<open>backfill_spent\<close>, and the handlers \<open>create_budget\<close> (upsert),
    \<open>update_budget\<close>, \<open>delete_budget\<close>.
  \<^item> \<open>Expenses\<close>: \<open>create_expense\<close>, \<open>update_expense\<close>, \<open>delete_expense\<close>, each the
    statements of its route in order; the paging of \<^verbatim>\<open>GET /\<close> (\<open>list_limit\<close>,
    \<open>list_offset\<close>).
  \<^item> \<open>Ledger\<close>: the spec's reconciliation invariant \<open>ledger_inv\<close> (every cached
    \<^verbatim>\<open>current_spent\<close> equals the backfill sum of its key) and its proof for every
    handler, through per-key deltas (\<open>budgets_shift\<close>, \<open>ledger_inv_shift\<close>).
  \<^item> \<open>Goals\<close>: \<open>create_goal\<close>, \<open>update_goal\<close>, \<open>goal_progress\<close>, \<open>delete_goal\<close>, and
    \<open>goal_inv\<close>: no goal is paused and a completed goal has reached its target.
  \<^item> \<open>Auth\<close>: src/src/services/authService.ts with the checks of src/src/routes/auth.ts
    and the validators \<^verbatim>\<open>validateRegistration\<close>, \<^verbatim>\<open>validateLogin\<close>:
    \<open>register\<close>, \<open>verify_otp\<close>, \<open>login\<close>, \<open>resend_otp\<close>,
    \<open>request_password_reset\<close>, \<open>reset_password\<close>, the code check \<open>check_otp\<close> and
    \<open>generate_otp\<close>. The clock, the random draw, the SMTP outcome and Joi's e-mail verdict
    are inputs (\<open>auth_env\<close>); bcrypt is an injective tagging, which is what
    \<^verbatim>\<open>bcrypt.compare\<close> decides; a JWT is its payload.
  \<^item> \<open>Api\<close>: the \<open>request\<close> datatype of the routes the server mounts (expenses,
    budgets, goals, auth), the step function \<open>handle\<close>, and \<open>reachable\<close>: the stores
    that any interleaving of whole requests of any callers builds from the empty store.
    Invariants are lifted to it by rule induction. The AI routes that write
    (\<open>budgeting_route\<close>, \<open>spending_route\<close>, \<open>goal_advice_route\<close>,
    \<open>mark_read_route\<close>, \<open>delete_recommendation_route\<close>) are requests too.
  \<^item> \<open>Reports\<close>: the read routes of expenses, budgets and goals (lists, single-row
    lookups, \<^verbatim>\<open>/stats/summary\<close>, \<^verbatim>\<open>/overview/current\<close>, \<^verbatim>\<open>/missing/:monthYear\<close>) as
    functions of the store; \<^verbatim>\<open>JOIN categories\<close> is \<open>join_categories\<close>, \<^verbatim>\<open>ORDER BY\<close> is
    the stable insertion sort \<open>sort_by\<close> of the prelude.
  \<^item> \<open>Insights\<close>: src/src/services/geminiService.ts without the model: the three
    queries of \<^verbatim>\<open>getUserFinancialData\<close>, \<^verbatim>\<open>processFinancialData\<close> (its
    \<^verbatim>\<open>forEach\<close> accumulation \<open>add_to\<close> over \<open>string \<rightharpoonup> rat\<close> maps of
    JavaScript numbers, compared with the per-key \<^verbatim>\<open>reduce\<close> \<open>group_total\<close>),
    \<^verbatim>\<open>saveRecommendation\<close> and the three generators, whose model reply is an input
    (\<open>None\<close> when the call throws). JavaScript numbers are binary doubles: \<open>to_double\<close>
    rounds to the nearest one, ties to even, and \<open>js_number\<close>, \<open>js_add\<close> and
    \<open>js_div\<close> are \<^verbatim>\<open>Number(...)\<close>, \<^verbatim>\<open>+\<close> and \<^verbatim>\<open>/\<close>.
  \<^item> \<open>Recommendations\<close>: the routes of src/src/routes/ai.ts.
  \<^item> \<open>Typing\<close>: the column types the validators promise (\<open>typed_db\<close>) and their
    preservation by every request.
  \<^item> \<open>Concurrency\<close>: \<^verbatim>\<open>DELETE /api/expenses/:id\<close> split at its \<^verbatim>\<open>await\<close> into a
    read and a write phase, and the schedule of two such requests that interleaves them.
  \<^item> \<open>Refinement\<close>: the expenses table as a finite map from id to row
    (\<open>expense_map\<close>) and the abstract CRUD step \<open>expense_spec\<close> it refines.
  \<^item> \<open>Email\<close>: src/src/services/emailService.ts: the three mails (\<open>otp_mail\<close>,
    \<open>welcome_mail\<close>, \<open>reset_mail\<close>, their HTML templates line by line through the
    prelude's \<open>lines_text\<close> and \<open>indent\<close>), the send methods with SMTP success an input,
    and the mails \<^verbatim>\<open>register\<close>, \<^verbatim>\<open>resendOTP\<close> and \<^verbatim>\<open>requestPasswordReset\<close>
    send (\<open>register_mails\<close>, \<open>resend_mails\<close>, \<open>reset_mails\<close>): a mailed code is the
    stored code.
  \<^item> \<open>Prompts\<close>: the three prompt builders of geminiService.ts, verbatim, with
    \<^verbatim>\<open>Object.entries\<close> in insertion order and the top-three sort, and
    \<^verbatim>\<open>getGoalData\<close>, which reads a goal by id alone; the goal-advice route split at its
    awaits (\<open>goal_advice_check\<close>, then \<open>goal_advice_generate\<close>, which sends the prompt
    to a model given as a function from prompts to replies).
  \<^item> \<open>Categories\<close>: \<^verbatim>\<open>GET /api/categories\<close> and \<^verbatim>\<open>GET /api/ai/categories\<close>.
  \<^item> \<open>Router\<close>: the route tables of src/src/routes/ in declaration order with their
    middleware, the mount prefixes of server.ts, \<^verbatim>\<open>GET /health\<close> and the 404 handler,
    matched as Express 4 matches paths (\<open>dispatch\<close>); the tables are unambiguous
    (\<open>unambiguous\<close>, \<open>mounts_disjoint\<close>), checked by evaluation.
  \<^item> \<open>Limiter\<close>: the \<^verbatim>\<open>rateLimit\<close> configuration of server.ts with the fixed-window
    counting of express-rate-limit's memory store (\<open>rate_limit\<close>, \<open>rl_run\<close> over a
    sequence of timed requests), the invariant \<open>rl_inv\<close> behind the sliding bound, and
    one client's view \<open>rl1\<close> of a run.
  \<^item> \<open>Database\<close>: src/src/config/database.ts: \<open>dbConfig\<close> from the environment
    (\<open>env_or\<close> for \<^verbatim>\<open>||\<close>, \<open>parse_int\<close> for \<^verbatim>\<open>parseInt\<close>), the pool as the number
    of connections out, \<open>query\<close> with its \<^verbatim>\<open>finally\<close>, \<open>testConnection\<close>, \<open>close\<close>.
  \<^item> \<open>Server\<close>: the app stack of server.ts as one function \<open>serve\<close> of an HTTP request
    and the server state (limiter store and database): the limiter, the routing, the
    token check before a protected handler, the handler of \<open>Api\<close>; \<open>startServer\<close>;
    \<open>server_reachable\<close>, whose stores are all \<open>reachable\<close> in \<open>Api\<close>, so the
    invariants proved there hold for the whole pipeline.
  \<^item> \<open>HealthCheck\<close>: src/scripts/health-check.ts: its console output and exit status.
  This theory states the properties that span components; the claims about one component
  are in its theory (C14 and C29 in Router, C15 and C19 in Limiter, C24 in Database,
  C30 in Typing, C32 in Insights, C33 in Prompts, C35, C36 and C40 in Reports, C37 in
  Recommendations, C38 in Concurrency, C39 in Refinement).

  \<^emph>\<open>Modelling choices.\<close> Money is \<open>int\<close> (exact \<^verbatim>\<open>DECIMAL\<close> cents; the JS
  difference \<^verbatim>\<open>amount - oldExpense.amount\<close> of the update route is taken exactly, while
  the sums of \<^verbatim>\<open>processFinancialData\<close> are binary doubles). The \<^verbatim>\<open>DECIMAL\<close>
  quotient of the budget overview's percentage is the server's: the argument \<open>dec_pct\<close>. A request body field
  is \<open>None\<close> when the key is absent; the JSON type of a present field is the schema's.
  A handler returns \<open>(api_error + 'a) \<times> db\<close>; the store is threaded explicitly. No
  handler loops (the only iterations of the code are \<^verbatim>\<open>forEach\<close>, \<^verbatim>\<open>reduce\<close>,
  \<^verbatim>\<open>map\<close> and \<^verbatim>\<open>sort\<close> over finite arrays, modelled by structural recursion), so no
  fuel and no termination argument beyond the one \<^theory_text>\<open>fun\<close> finds is needed; a call
  that may wait forever, \<^verbatim>\<open>getConnection\<close> on an exhausted pool, answers \<open>None\<close>; every definition is executable and the concrete
  scenarios below are evaluated by \<open>simp\<close>. Requests interleave at request granularity
  in \<open>reachable\<close>; the finer interleaving of two requests' statements is modelled for the
  delete route (theory \<open>Concurrency\<close>), where it breaks the ledger. \<^verbatim>\<open>created_at\<close>
  orders are id orders (rows are inserted in id order); names sort by character code.

  \<^emph>\<open>What the theorems show.\<close> On a server at or west of UTC the ledger invariant holds
  in every store reachable by any requests except \<^verbatim>\<open>PUT /api/budgets/:id\<close> (C1),
  with the per-handler deltas of the spec (C3 to C7). Two ways to break it are exhibited
  as closed theorems: a budget \<^verbatim>\<open>PUT\<close> moves a row to a new key without recomputing
  its sum (C8), and on a server east of UTC the update and delete routes read the month of
  a first-of-month expense as the previous month (C9, C10). Every reachable store has no
  paused goal and no completed goal below its target (C12); a goal can never be paused
  through the API, since the goal schema refuses the \<^verbatim>\<open>status\<close> key and \<^verbatim>\<open>PUT\<close>
  writes \<^verbatim>\<open>status || 'active'\<close>, which also un-completes a completed goal (C2), and a
  goal created at or above its target stays active (C11).
  The route a request reaches does not depend on the declaration order (C14), so
  \<^verbatim>\<open>GET /:id\<close> shadows none of the routes declared after it. C13, C16 and C17 are the
  progress result and the error paths (validation errors write nothing, absent optional
  fields are a 500); an expired code is refused (C18). The rate limiter lets a client
  through 100 times per window and a new window restores service whatever the old count
  (C15); it lets at most 199 requests of one IP through in any 15 minutes, and a burst at
  a window boundary gets 199 through (C19);
  C20 bounds the paging of the expense list. For accounts: a login token needs a verified user and the right password
  (C21); verify-otp needs the stored, unexpired code (C22), which is single-use (C23);
  every database query gives its connection back, on the error path too (C24);
  registration, verification and login complete (C25). Three gaps of the account flow are
  proved: a failed verification e-mail leaves a registered, unverified user (C26), no
  request ever issues such a user a new code, since \<^verbatim>\<open>resendOTP\<close> has no route (C27),
  and reset-password consumes a registration code without verifying (C28). Every routed
  request but the account routes and the category listings runs \<^verbatim>\<open>authenticateToken\<close>
  first (C29).

  Every reachable store is typed as the validators promise (C30), and without budget
  \<^verbatim>\<open>PUT\<close> no \<^verbatim>\<open>current_spent\<close> is negative (C31). The accumulation of
  \<^verbatim>\<open>processFinancialData\<close> computes for each category and month the floating-point
  \<^verbatim>\<open>reduce\<close> of that group's amounts (C32); these are not the cent sums of the table
  (0.10 + 0.20 gives 0.30000000000000004, lemma \<open>float_total_differs\<close>). When the caller
  deletes a goal between the advice route's ownership check and \<^verbatim>\<open>getGoalData\<close>, the
  model is sent the bare text \<^verbatim>\<open>'Goal not found'\<close> and its reply is saved as advice (C33). Every read route sees only the caller's rows (C34). The
  budget overview, the missing categories and the expense statistics compute what their
  queries promise (C35, C36, C40). Marking read and deleting a recommendation touch only
  the caller's row with that id (C37). Two interleaved deletes of one expense refund it twice (C38).
  The expenses table refines a finite map under the abstract CRUD step (C39).

  \<^emph>\<open>Not modelled.\<close> JWT verification (\<^verbatim>\<open>verifyToken\<close> and the
  \<^verbatim>\<open>authenticateToken\<close> middleware, which is not under src: the caller id is an
  argument of each handler and an input \<open>hr_user\<close> of the app stack), the SMTP
  transport and its \<^verbatim>\<open>testConnection\<close> (I/O: a send's outcome is an input), the Gemini client (the model is outside the program: its reply is
  an input; the text JavaScript prints for a number is an argument \<open>num\<close>, and
  \<^verbatim>\<open>toLocaleDateString\<close> an argument \<open>local_date\<close>),
  \<^verbatim>\<open>AVG(amount)\<close> of the expense statistics and the digits of the overview's
  percentage (rounded \<^verbatim>\<open>DECIMAL\<close> quotients, whose scale depends on the server's
  settings), overflow of JavaScript numbers to \<^verbatim>\<open>Infinity\<close>, the
  response bodies of the read routes beyond their rows, helmet, CORS and the body parsers
  (library configuration), the limiter's key generation (the client IP is an input),
  \<^verbatim>\<open>HEAD\<close> requests and percent-decoding of paths, the JSON of the health response,
  \<^verbatim>\<open>app.listen\<close>, the MySQL wire protocol behind a pool connection (reachability and
  ping are inputs), and database errors other than the bind and duplicate-key errors the
  handlers can provoke.
\<close>

definition scenario_budget :: budget_body where
  "scenario_budget = \<lparr>bb_categoryId = Some 2, bb_monthlyLimit = Some 500, bb_monthYear = Some ''2024-03''\<rparr>"

definition scenario_expense :: "money \<Rightarrow> nat \<Rightarrow> expense_body" where
  "scenario_expense a day =
     \<lparr>eb_categoryId = Some 2, eb_amount = Some a, eb_description = Some '''',
      eb_expenseDate = Some \<lparr>d_year = 2024, d_month = 3, d_day = day\<rparr>\<rparr>"

definition scenario_store :: db where
  "scenario_store = snd (create_expense 1 (scenario_expense 120 5) (snd (create_budget 1 scenario_budget empty_db)))"

definition scen_old :: expense_row where
  "scen_old = \<lparr>ex_id = 1, ex_user_id = 1, ex_category_id = 2, ex_amount = 120, ex_description = '''',
               ex_expense_date = \<lparr>d_year = 2024, d_month = 3, d_day = 5\<rparr>\<rparr>"

definition scen_moved :: expense_body where
  "scen_moved = \<lparr>eb_categoryId = Some 3, eb_amount = Some 200, eb_description = Some '''',
                 eb_expenseDate = Some \<lparr>d_year = 2024, d_month = 3, d_day = 5\<rparr>\<rparr>"

definition scen_april :: budget_body where
  "scen_april = \<lparr>bb_categoryId = Some 2, bb_monthlyLimit = Some 500, bb_monthYear = Some ''2024-04''\<rparr>"

definition east_store :: db where
  "east_store = handle 330 1 (Delete_Expense 1)
     (handle 330 1 (Create_Expense (scenario_expense 120 1))
       (handle 330 1 (Create_Budget scenario_budget) empty_db))"

definition scen_goal :: goal_body where
  "scen_goal = \<lparr>gb_title = Some ''Car fund'', gb_targetAmount = Some 1000, gb_currentAmount = Some 0,
                gb_targetDate = Some \<lparr>d_year = 2025, d_month = 1, d_day = 1\<rparr>,
                gb_description = Some '''', gb_status = None\<rparr>"

definition goal_store :: db where
  "goal_store = snd (create_goal 1 scen_goal empty_db)"

definition scen_env :: auth_env where
  "scen_env = \<lparr>env_now = 1000, env_rand = 23456, env_mail_ok = True, env_email_ok = True\<rparr>"

definition scen_register :: register_body where
  "scen_register = \<lparr>rb_email = Some ''ann@example.com'', rb_password = Some ''secret1'',
                    rb_firstName = Some ''Ann'', rb_lastName = Some ''Lee''\<rparr>"

definition scen_login :: login_body where
  "scen_login = \<lparr>lb_email = Some ''ann@example.com'', lb_password = Some ''secret1''\<rparr>"

definition user_store :: db where
  "user_store = snd (register_route scen_env scen_register empty_db)"

definition verified_store :: db where
  "verified_store = snd (verify_otp_route 2000 (Some ''ann@example.com'') (Some ''123456'') user_store)"

definition lost_store :: db where
  "lost_store = handle 0 1 (Register (scen_env\<lparr>env_mail_ok := False\<rparr>) scen_register) empty_db"

text \<open>The store with only the rows of one user (the categories are shared).\<close>

definition own_rows :: "user_id \<Rightarrow> db \<Rightarrow> db" where
  "own_rows uid s =
     s\<lparr>expenses := filter (\<lambda>e. ex_user_id e = uid) (expenses s),
       budgets := filter (\<lambda>b. bu_user_id b = uid) (budgets s),
       goals := filter (\<lambda>g. go_user_id g = uid) (goals s),
       recommendations := filter (\<lambda>r. rc_user_id r = uid) (recommendations s)\<rparr>"


lemma scen_otp: "generate_otp 23456 = ''123456''"
  by (simp add: generate_otp_def digit_def)

lemma user_store_eq:
  "user_store = empty_db\<lparr>users :=
     [\<lparr>us_id = 1, us_email = ''ann@example.com'', us_password = bcrypt_hash ''secret1'',
       us_first_name = ''Ann'', us_last_name = ''Lee'', us_is_verified = False,
       us_otp_code = Some ''123456'', us_otp_expires_at = Some 601000\<rparr>], next_user_id := 2\<rparr>"
  by (simp add: user_store_def register_route_def register_def scen_env_def scen_register_def
                scen_otp auth_eval empty_db_def)

lemma verified_store_eq:
  "verified_store = empty_db\<lparr>users :=
     [\<lparr>us_id = 1, us_email = ''ann@example.com'', us_password = bcrypt_hash ''secret1'',
       us_first_name = ''Ann'', us_last_name = ''Lee'', us_is_verified = True,
       us_otp_code = None, us_otp_expires_at = None\<rparr>], next_user_id := 2\<rparr>"
  by (simp add: verified_store_def user_store_eq verify_otp_route_def verifyOTP_def auth_eval empty_db_def)

section \<open>The reconciliation invariant\<close>

text \<open>
  C1. On a server at or west of UTC, in every store that any sequence of requests of any
  callers (other than budget updates) builds from the empty store, each budget's
  \<^verbatim>\<open>current_spent\<close> is the sum of the amounts of its owner's expenses in its category
  and month.
\<close>

theorem ledger_consistent_reachable:
  assumes tz: "tz \<le> 0" and r: "reachable tz not_budget_put s"
  shows "ledger_inv s"
  using r
proof (induction rule: reachable.induct)
  case start
  show ?case by (simp add: ledger_inv_def empty_db_def)
next
  case (step s r uid)
  then show ?case by (simp add: ledger_handle [OF tz] reachable_wf)
qed

theorem ledger_consistent_reachable_witness:
  "reachable 0 not_budget_put (handle 0 1 (Create_Expense (scenario_expense 120 5))
      (handle 0 1 (Create_Budget scenario_budget) empty_db)) \<and>
   ledger_inv (handle 0 1 (Create_Expense (scenario_expense 120 5))
      (handle 0 1 (Create_Budget scenario_budget) empty_db))"
proof -
  have r: "reachable 0 not_budget_put (handle 0 1 (Create_Expense (scenario_expense 120 5))
      (handle 0 1 (Create_Budget scenario_budget) empty_db))"
    by (intro reachable.step reachable.start) (simp_all add: not_budget_put_def)
  show ?thesis using r ledger_consistent_reachable [OF _ r] by simp
qed

text \<open>
  The spec's worked scenario: a budget for user 1, category 2, March 2024 starts at 0;
  an expense of 120 on 2024-03-05 raises it to 120; editing the amount to 200 raises it
  to 200; deleting the expense brings it back to 0 (server at UTC).
\<close>

theorem spec_scenario_budget_spent:
  "map bu_current_spent (budgets (snd (create_budget 1 scenario_budget empty_db))) = [0] \<and>
   map bu_current_spent (budgets scenario_store) = [120] \<and>
   map bu_current_spent (budgets (snd (update_expense 0 1 1 (scenario_expense 200 5) scenario_store))) = [200] \<and>
   map bu_current_spent (budgets (snd (delete_expense 0 1 1
      (snd (update_expense 0 1 1 (scenario_expense 200 5) scenario_store))))) = [0]"
  by (simp add: scenario_store_def scenario_budget_def scenario_expense_def create_budget_def
                create_expense_def update_expense_def delete_expense_def eval_simps)

text \<open>
  C3. Editing an expense without changing its category or month moves the budget of that
  key by exactly the difference of the new and the old amount, and no other budget.
\<close>

theorem update_same_key_moves_difference:
  assumes tz: "tz \<le> 0"
    and sel: "select_where (expense_row_of uid eid) (expenses s) = old # rest"
    and valid: "validateExpense b = None" and desc: "eb_description b = Some x"
    and fields: "eb_categoryId b = Some (int (ex_category_id old))" "eb_amount b = Some a"
      "eb_expenseDate b = Some d"
    and same_month: "month_key d = month_key (ex_expense_date old)"
  shows "map bu_current_spent (budgets (snd (update_expense tz uid eid b s))) =
           map (\<lambda>r. if budget_key r = (uid, ex_category_id old, month_key d)
                    then bu_current_spent r + (a - ex_amount old) else bu_current_spent r)
               (budgets s)"
  using tz valid desc fields same_month
  by (simp add: update_expense_def sel adjust_budget_def update_where_def budget_match_def Let_def)

theorem update_same_key_moves_difference_witness:
  "map bu_current_spent (budgets (snd (update_expense 0 1 1 (scenario_expense 200 5) scenario_store))) =
   map (\<lambda>r. if budget_key r = (1, 2, ''2024-03'') then bu_current_spent r + 80 else bu_current_spent r)
       (budgets scenario_store)"
  using update_same_key_moves_difference [of 0 1 1 scenario_store scen_old "[]" "scenario_expense 200 5"
          "''''" 200 "\<lparr>d_year = 2024, d_month = 3, d_day = 5\<rparr>"]
  by (simp add: scenario_store_def scenario_budget_def scenario_expense_def create_budget_def
                create_expense_def scen_old_def eval_simps)

text \<open>
  C4. Editing an expense into another category or month takes exactly its old amount off
  the old key's budget and adds exactly its new amount to the new key's budget.
\<close>

theorem update_other_key_moves_amounts:
  assumes tz: "tz \<le> 0"
    and sel: "select_where (expense_row_of uid eid) (expenses s) = old # rest"
    and valid: "validateExpense b = None" and desc: "eb_description b = Some x"
    and fields: "eb_categoryId b = Some ci" "eb_amount b = Some a" "eb_expenseDate b = Some d"
    and moved: "month_key d \<noteq> month_key (ex_expense_date old) \<or> nat ci \<noteq> ex_category_id old"
  shows "map bu_current_spent (budgets (snd (update_expense tz uid eid b s))) =
           map (\<lambda>r. bu_current_spent r
                    - (if budget_key r = (uid, ex_category_id old, month_key (ex_expense_date old))
                       then ex_amount old else 0)
                    + (if budget_key r = (uid, nat ci, month_key d) then a else 0))
               (budgets s)"
proof -
  have "budgets (snd (update_expense tz uid eid b s)) =
          budgets_shift (at_key uid (nat ci) (month_key d) a)
            (budgets_shift (at_key uid (ex_category_id old) (month_key (ex_expense_date old))
               (- ex_amount old)) (budgets s))"
    using tz valid desc fields moved
    by (auto simp: update_expense_def sel budgets_adjust_budget Let_def)
  then show ?thesis
    by (simp add: budgets_shift_def at_key_def budget_key_def)
qed

theorem update_other_key_moves_amounts_witness:
  "map bu_current_spent (budgets (snd (update_expense 0 1 1 scen_moved scenario_store))) =
   map (\<lambda>r. bu_current_spent r - (if budget_key r = (1, 2, ''2024-03'') then 120 else 0)
            + (if budget_key r = (1, 3, ''2024-03'') then 200 else 0)) (budgets scenario_store)"
  using update_other_key_moves_amounts [of 0 1 1 scenario_store scen_old "[]" scen_moved
          "''''" 3 200 "\<lparr>d_year = 2024, d_month = 3, d_day = 5\<rparr>"]
  by (simp add: scenario_store_def scenario_budget_def scenario_expense_def create_budget_def
                create_expense_def scen_old_def scen_moved_def eval_simps)

text \<open>
  C5. Deleting an expense takes exactly its amount off the budget of its key, and
  deleting the same expense again answers 404 and changes nothing.
\<close>

theorem delete_expense_refunds_once:
  assumes tz: "tz \<le> 0"
    and sel: "select_where (expense_row_of uid eid) (expenses s) = old # rest"
  shows "map bu_current_spent (budgets (snd (delete_expense tz uid eid s))) =
           map (\<lambda>r. if budget_key r = (uid, ex_category_id old, month_key (ex_expense_date old))
                    then bu_current_spent r - ex_amount old else bu_current_spent r) (budgets s) \<and>
         delete_expense tz uid eid (snd (delete_expense tz uid eid s)) =
           (Inl (Not_Found ''Expense not found''), snd (delete_expense tz uid eid s))"
proof
  show "map bu_current_spent (budgets (snd (delete_expense tz uid eid s))) =
          map (\<lambda>r. if budget_key r = (uid, ex_category_id old, month_key (ex_expense_date old))
                   then bu_current_spent r - ex_amount old else bu_current_spent r) (budgets s)"
    using tz by (simp add: delete_expense_def sel adjust_budget_def update_where_def budget_match_def)
  have "select_where (expense_row_of uid eid) (expenses (snd (delete_expense tz uid eid s))) = []"
    by (simp add: delete_expense_def sel select_where_empty_iff)
  then show "delete_expense tz uid eid (snd (delete_expense tz uid eid s)) =
               (Inl (Not_Found ''Expense not found''), snd (delete_expense tz uid eid s))"
    by (simp add: delete_expense_def)
qed

theorem delete_expense_refunds_once_witness:
  "map bu_current_spent (budgets (snd (delete_expense 0 1 1 scenario_store))) =
     map (\<lambda>r. if budget_key r = (1, 2, ''2024-03'') then bu_current_spent r - 120
              else bu_current_spent r) (budgets scenario_store) \<and>
   delete_expense 0 1 1 (snd (delete_expense 0 1 1 scenario_store)) =
     (Inl (Not_Found ''Expense not found''), snd (delete_expense 0 1 1 scenario_store))"
  using delete_expense_refunds_once [of 0 1 1 scenario_store scen_old "[]"]
  by (simp add: scenario_store_def scenario_budget_def scenario_expense_def create_budget_def
                create_expense_def scen_old_def eval_simps)

text \<open>
  C6. Creating an expense returns the next expense id, appends exactly the new row, and
  raises the budget of the expense's key (caller, category, month of the request date) by
  its amount, and no other budget.
\<close>

theorem create_expense_charges_budget:
  assumes valid: "validateExpense b = None" and desc: "eb_description b = Some x"
    and fields: "eb_categoryId b = Some ci" "eb_amount b = Some a" "eb_expenseDate b = Some d"
  shows "fst (create_expense uid b s) = Inr (next_expense_id s) \<and>
         expenses (snd (create_expense uid b s)) = expenses s @
           [\<lparr>ex_id = next_expense_id s, ex_user_id = uid, ex_category_id = nat ci, ex_amount = a,
             ex_description = x, ex_expense_date = d\<rparr>] \<and>
         map bu_current_spent (budgets (snd (create_expense uid b s))) =
           map (\<lambda>r. if budget_key r = (uid, nat ci, month_key d) then bu_current_spent r + a
                    else bu_current_spent r) (budgets s)"
  using valid desc fields
  by (simp add: create_expense_def adjust_budget_def update_where_def budget_match_def Let_def)

theorem create_expense_charges_budget_witness:
  "fst (create_expense 1 (scenario_expense 120 5) (snd (create_budget 1 scenario_budget empty_db))) = Inr 1 \<and>
   map bu_current_spent (budgets scenario_store) = [120]"
  using create_expense_charges_budget [of "scenario_expense 120 5" "''''" 2 120
          "\<lparr>d_year = 2024, d_month = 3, d_day = 5\<rparr>" 1 "snd (create_budget 1 scenario_budget empty_db)"]
  by (simp add: scenario_store_def scenario_budget_def scenario_expense_def create_budget_def eval_simps)

text \<open>
  C7. Posting a budget leaves exactly one budget of its key, with the posted limit and a spent
  equal to the sum of the caller's expenses already recorded for that key: a new key is
  backfilled, an existing key (whose spent is consistent) keeps its spent and takes the limit.
\<close>

theorem create_budget_upsert:
  assumes wf: "wf_db s" and inv: "ledger_inv s"
    and valid: "validateBudget b = None"
    and fields: "bb_categoryId b = Some ci" "bb_monthlyLimit b = Some l" "bb_monthYear b = Some m"
  shows "\<exists>r. select_where (budget_match uid (nat ci) m) (budgets (snd (create_budget uid b s))) = [r] \<and>
             bu_monthly_limit r = l \<and> bu_current_spent r = backfill_spent uid (nat ci) m s"
proof (cases "list_ex (budget_match uid (nat ci) m) (budgets s)")
  case True
  then obtain r0 where r0: "r0 \<in> set (budgets s)" "budget_match uid (nat ci) m r0"
    by (auto simp: list_ex_iff)
  have uniq: "select_where (budget_match uid (nat ci) m) (budgets s) = [r0]"
    unfolding select_where_def
    by (rule filter_key_unique [where k = budget_key])
       (use wf r0 in \<open>auto simp: wf_db_def budget_match_def budget_key_def\<close>)
  have sel: "select_where P (update_where P (\<lambda>r. r\<lparr>bu_monthly_limit := l\<rparr>) rows) =
               map (\<lambda>r. r\<lparr>bu_monthly_limit := l\<rparr>) (select_where P rows)"
    if "\<And>r. P (r\<lparr>bu_monthly_limit := l\<rparr>) = P r" for P rows
    using that by (induction rows) auto
  have "bu_current_spent r0 = backfill_spent uid (nat ci) m s"
    using inv r0 by (auto simp: ledger_inv_def budget_match_def budget_key_def)
  moreover have "select_where (budget_match uid (nat ci) m)
      (update_where (budget_match uid (nat ci) m) (\<lambda>r. r\<lparr>bu_monthly_limit := l\<rparr>) (budgets s)) =
        [r0\<lparr>bu_monthly_limit := l\<rparr>]"
    by (simp add: sel uniq budget_match_def budget_key_def)
  ultimately show ?thesis
    using True valid fields by (simp add: create_budget_def Let_def)
next
  case False
  then have "select_where (budget_match uid (nat ci) m) (budgets s) = []"
    by (simp add: select_where_empty_iff list_ex_iff)
  with False show ?thesis
    using valid fields
    by (simp add: create_budget_def Let_def select_where_def budget_match_def budget_key_def)
qed

theorem create_budget_upsert_witness:
  "\<exists>r. select_where (budget_match 1 2 ''2024-03'') (budgets (snd (create_budget 1 scenario_budget scenario_store))) = [r] \<and>
        bu_monthly_limit r = 500 \<and> bu_current_spent r = 120"
  using create_budget_upsert [of scenario_store scenario_budget 2 500 "''2024-03''" 1]
  by (simp add: scenario_store_def scenario_budget_def scenario_expense_def create_budget_def
                create_expense_def wf_db_def ledger_inv_def eval_simps)

text \<open>
  C8. PUT /api/budgets/:id breaks the reconciliation invariant: from a consistent reachable
  store, moving a budget with spent 120 to a month without expenses keeps spent 120.
\<close>

theorem budget_put_breaks_ledger:
  "reachable 0 (\<lambda>_. True) scenario_store \<and> ledger_inv scenario_store \<and>
   \<not> ledger_inv (handle 0 1 (Update_Budget 1 scen_april) scenario_store)"
proof -
  have "reachable 0 (\<lambda>_. True) (handle 0 1 (Create_Expense (scenario_expense 120 5))
          (handle 0 1 (Create_Budget scenario_budget) empty_db))"
    by (intro reachable.step reachable.start) simp_all
  then show ?thesis
    by (simp add: scenario_store_def scenario_budget_def scenario_expense_def scen_april_def
                  create_budget_def create_expense_def update_budget_def ledger_inv_def eval_simps)
qed

text \<open>
  C9. On a server east of UTC (here +05:30) the invariant fails in a store reached without any
  budget PUT: an expense dated on the first of a month is charged to that month on
  creation, but its deletion refunds the previous month.
\<close>

theorem east_server_breaks_ledger:
  "reachable 330 not_budget_put east_store \<and> \<not> ledger_inv east_store"
proof -
  have "reachable 330 not_budget_put east_store"
    unfolding east_store_def
    by (intro reachable.step reachable.start) (simp_all add: not_budget_put_def)
  then show ?thesis
    by (simp add: east_store_def scenario_budget_def scenario_expense_def
                  create_budget_def create_expense_def delete_expense_def ledger_inv_def eval_simps)
qed

text \<open>
  C10. For a valid date, the month the update and delete routes compute from a stored
  expense date agrees with the month the create route computes from the same date exactly
  when the server is at or west of UTC or the day is not the first of the month.
\<close>

theorem month_of_row_agrees_iff:
  assumes "valid_date d"
  shows "month_of_row tz d = month_of_request d \<longleftrightarrow> tz \<le> 0 \<or> 1 < d_day d"
proof (cases "tz \<le> 0")
  case False
  have "1 \<le> d_day d" using assms by (simp add: valid_date_def)
  then have "1 < d_day d \<or> d_day d = 1" by auto
  with False assms show ?thesis
    by (auto simp: month_of_row_east prev_day_same_month prev_day_first_other_month)
qed simp

theorem month_of_row_agrees_iff_witness:
  "month_of_row 330 \<lparr>d_year = 2024, d_month = 3, d_day = 1\<rparr> \<noteq> month_of_request \<lparr>d_year = 2024, d_month = 3, d_day = 1\<rparr> \<and>
   month_of_row 330 \<lparr>d_year = 2024, d_month = 3, d_day = 2\<rparr> = month_of_request \<lparr>d_year = 2024, d_month = 3, d_day = 2\<rparr>"
  using month_of_row_agrees_iff [of "\<lparr>d_year = 2024, d_month = 3, d_day = 1\<rparr>" 330]
        month_of_row_agrees_iff [of "\<lparr>d_year = 2024, d_month = 3, d_day = 2\<rparr>" 330]
  by (simp add: valid_date_def days_in_month_def leap_year_def)

text \<open>
  C12. In every reachable store, no goal is paused, and a completed goal has reached its target.
\<close>

theorem reachable_goals_never_paused:
  assumes "reachable tz allowed s" and "g \<in> set (goals s)"
  shows "go_status g \<noteq> Paused \<and> (go_status g = Completed \<longrightarrow> go_target_amount g \<le> go_current_amount g)"
  using reachable_goal_inv [OF assms(1)] assms(2) by (simp add: goal_inv_def)

theorem reachable_goals_never_paused_witness:
  "go_status (hd (goals (handle 0 1 (Goal_Progress 1 (Some 1000)) (handle 0 1 (Create_Goal scen_goal) empty_db))))
     = Completed \<and>
   go_target_amount (hd (goals (handle 0 1 (Goal_Progress 1 (Some 1000)) (handle 0 1 (Create_Goal scen_goal) empty_db))))
     \<le> go_current_amount (hd (goals (handle 0 1 (Goal_Progress 1 (Some 1000)) (handle 0 1 (Create_Goal scen_goal) empty_db))))"
proof -
  let ?s = "handle 0 1 (Goal_Progress 1 (Some 1000)) (handle 0 1 (Create_Goal scen_goal) empty_db)"
  have r: "reachable 0 (\<lambda>_. True) ?s" by (intro reachable.step reachable.start) simp_all
  have g: "hd (goals ?s) \<in> set (goals ?s)" and st: "go_status (hd (goals ?s)) = Completed"
    by (simp_all add: scen_goal_def create_goal_def goal_progress_def goal_row_of_def eval_simps)
  show ?thesis using reachable_goals_never_paused [OF r g] st by simp
qed

text \<open>
  C13. Adding a positive amount to an existing goal answers the new amount and the status
  Completed exactly when the new amount reaches the target, and leaves every other row of
  the goals table as it was.
\<close>

theorem goal_progress_result:
  assumes pos: "0 < a" and sel: "select_where (goal_row_of uid gid) (goals s) = g # rest"
  shows "fst (goal_progress uid gid (Some a) s) =
           Inr (go_current_amount g + a,
                if go_target_amount g \<le> go_current_amount g + a then Completed else Active) \<and>
         filter (\<lambda>r. \<not> goal_row_of uid gid r) (goals (snd (goal_progress uid gid (Some a) s))) =
           filter (\<lambda>r. \<not> goal_row_of uid gid r) (goals s)"
proof -
  have "filter (\<lambda>r. \<not> goal_row_of uid gid r) (update_where (goal_row_of uid gid) f rows) =
          filter (\<lambda>r. \<not> goal_row_of uid gid r) rows"
    if "\<And>r. goal_row_of uid gid (f r) = goal_row_of uid gid r" for f rows
    using that by (induction rows) auto
  with pos sel show ?thesis
    by (simp add: goal_progress_def Let_def)
qed

theorem goal_progress_result_witness:
  "fst (goal_progress 1 1 (Some 400) goal_store) = Inr (400, Active) \<and>
   fst (goal_progress 1 1 (Some 1000) goal_store) = Inr (1000, Completed)"
  using goal_progress_result [of 400 1 1 goal_store "hd (goals goal_store)" "[]"]
        goal_progress_result [of 1000 1 1 goal_store "hd (goals goal_store)" "[]"]
  by (simp_all add: goal_store_def scen_goal_def create_goal_def goal_row_of_def eval_simps)

text \<open>
  C2. A successful goal PUT leaves the updated goal Active, whatever its status was: the
  goal schema refuses a status key, so \<^verbatim>\<open>status || 'active'\<close> always writes
  \<^verbatim>\<open>'active'\<close>, and a PUT un-completes a completed goal.
\<close>

theorem update_goal_sets_active:
  assumes ok: "fst (update_goal uid gid b s) = Inr ()"
  shows "\<forall>g\<in>set (goals (snd (update_goal uid gid b s))). goal_row_of uid gid g \<longrightarrow> go_status g = Active"
proof (cases "validateGoal b")
  case None
  then have "gb_status b = None" by (simp add: validateGoal_None_iff)
  with None ok show ?thesis
    by (auto simp: update_goal_def Let_def update_where_def split: option.splits if_splits)
next
  case (Some e)
  with ok show ?thesis by (simp add: update_goal_def)
qed

theorem update_goal_sets_active_witness:
  "go_status (hd (goals (snd (goal_progress 1 1 (Some 1000) goal_store)))) = Completed \<and>
   go_status (hd (goals (snd (update_goal 1 1 scen_goal (snd (goal_progress 1 1 (Some 1000) goal_store)))))) = Active"
proof -
  let ?s = "snd (goal_progress 1 1 (Some 1000) goal_store)"
  have ok: "fst (update_goal 1 1 scen_goal ?s) = Inr ()"
    and c: "go_status (hd (goals ?s)) = Completed"
    and m: "hd (goals (snd (update_goal 1 1 scen_goal ?s))) \<in> set (goals (snd (update_goal 1 1 scen_goal ?s)))"
    and r: "goal_row_of 1 1 (hd (goals (snd (update_goal 1 1 scen_goal ?s))))"
    by (simp_all add: goal_store_def scen_goal_def create_goal_def update_goal_def goal_progress_def
                      goal_row_of_def eval_simps)
  show ?thesis using update_goal_sets_active [OF ok] c m r by blast
qed

text \<open>
  A missing or non-positive progress amount is answered 400 before the goal is looked
  up, and changes nothing.
\<close>

theorem progress_amount_checked_first:
  assumes "case a of None \<Rightarrow> True | Some x \<Rightarrow> x \<le> 0"
  shows "goal_progress uid gid a s = (Inl (Bad_Request ''Valid amount is required''), s)"
  using assms by (simp add: goal_progress_def split: option.splits)

theorem progress_amount_checked_first_witness:
  "goal_progress 1 7 (Some (-5)) empty_db = (Inl (Bad_Request ''Valid amount is required''), empty_db) \<and>
   status_code (Bad_Request ''Valid amount is required'') = 400"
  using progress_amount_checked_first [of "Some (-5)" 1 7 empty_db] by simp

text \<open>
  C16. A body the validator refuses is answered with a 400 and leaves the store unchanged, on
  every create and update route.
\<close>

theorem validation_errors_are_400_and_write_nothing:
  "(validateExpense eb = Some e \<longrightarrow> status_code e = 400 \<and>
      create_expense uid eb s = (Inl e, s) \<and> update_expense tz uid i eb s = (Inl e, s)) \<and>
   (validateBudget bb = Some e \<longrightarrow> status_code e = 400 \<and>
      create_budget uid bb s = (Inl e, s) \<and> update_budget uid i bb s = (Inl e, s)) \<and>
   (validateGoal gb = Some e \<longrightarrow> status_code e = 400 \<and>
      create_goal uid gb s = (Inl e, s) \<and> update_goal uid i gb s = (Inl e, s))"
  by (auto simp: validation_status_400 create_expense_def update_expense_def create_budget_def
                 update_budget_def create_goal_def update_goal_def)

theorem validation_errors_are_400_and_write_nothing_witness:
  "create_expense 1 (scenario_expense 0 5) scenario_store =
     (Inl (Bad_Request ''\"amount\" must be a positive number''), scenario_store) \<and>
   create_goal 1 (scen_goal\<lparr>gb_status := Some Paused\<rparr>) goal_store =
     (Inl (Bad_Request ''\"status\" is not allowed''), goal_store)"
  using validation_errors_are_400_and_write_nothing [of "scenario_expense 0 5"
          "Bad_Request ''\"amount\" must be a positive number''" 1 scenario_store 0 1
          "scenario_budget" "scen_goal\<lparr>gb_status := Some Paused\<rparr>"]
        validation_errors_are_400_and_write_nothing [of "scenario_expense 0 5"
          "Bad_Request ''\"status\" is not allowed''" 1 goal_store 0 1
          "scenario_budget" "scen_goal\<lparr>gb_status := Some Paused\<rparr>"]
  by (simp add: scenario_expense_def scen_goal_def validateExpense_def validateGoal_def required_positive_def)

text \<open>
  C17. An expense without a description, or a goal without a target date or a description,
  passes validation but is answered 500: the route binds an undefined parameter.
\<close>

theorem absent_optional_field_is_500:
  assumes "validateExpense eb = None" and "eb_description eb = None"
    and "validateGoal gb = None" and "gb_targetDate gb = None \<or> gb_description gb = None"
  shows "create_expense uid eb s = (Inl bind_undefined_error, s) \<and>
         create_goal uid gb s = (Inl bind_undefined_error, s) \<and>
         status_code bind_undefined_error = 500"
proof -
  from assms(1) obtain ci a d where
    "eb_categoryId eb = Some ci" "eb_amount eb = Some a" "eb_expenseDate eb = Some d"
    by (auto simp: validateExpense_None_iff)
  with assms(1,2) have "create_expense uid eb s = (Inl bind_undefined_error, s)"
    by (simp add: create_expense_def)
  moreover from assms(3) obtain t ta where "gb_title gb = Some t" "gb_targetAmount gb = Some ta"
    by (auto simp: validateGoal_None_iff)
  with assms(3,4) have "create_goal uid gb s = (Inl bind_undefined_error, s)"
    by (auto simp: create_goal_def split: option.split)
  ultimately show ?thesis by (simp add: bind_undefined_error_def)
qed

theorem absent_optional_field_is_500_witness:
  "create_expense 1 (scenario_expense 120 5\<lparr>eb_description := None\<rparr>) scenario_store =
     (Inl bind_undefined_error, scenario_store) \<and>
   create_goal 1 (scen_goal\<lparr>gb_description := None\<rparr>) scenario_store =
     (Inl bind_undefined_error, scenario_store)"
  using absent_optional_field_is_500 [of "scenario_expense 120 5\<lparr>eb_description := None\<rparr>"
          "scen_goal\<lparr>gb_description := None\<rparr>" 1 scenario_store]
  by (simp add: scenario_expense_def scen_goal_def eval_simps)

text \<open>
  C11. A goal created with a current amount already at or above its target is stored
  Active, not Completed: only the progress route completes a goal.
\<close>

theorem created_goal_reached_stays_active:
  assumes "validateGoal b = None" and "gb_title b = Some t" "gb_targetAmount b = Some ta"
    and "gb_currentAmount b = Some ca" "gb_targetDate b = Some td" "gb_description b = Some x"
    and "ta \<le> ca"
  shows "\<exists>g. goals (snd (create_goal uid b s)) = goals s @ [g] \<and>
             go_target_amount g \<le> go_current_amount g \<and> go_status g = Active"
  using assms by (simp add: create_goal_def Let_def)

theorem created_goal_reached_stays_active_witness:
  "\<exists>g. goals (snd (create_goal 1 (scen_goal\<lparr>gb_currentAmount := Some 1500\<rparr>) empty_db)) = [g] \<and>
        go_target_amount g \<le> go_current_amount g \<and> go_status g = Active"
  using created_goal_reached_stays_active [of "scen_goal\<lparr>gb_currentAmount := Some 1500\<rparr>"
          "''Car fund''" 1000 1500 "\<lparr>d_year = 2025, d_month = 1, d_day = 1\<rparr>" "''''" 1 empty_db]
  by (simp add: scen_goal_def eval_simps)

text \<open>
  C20. The expense list's LIMIT is always between 1 and 1000 and its OFFSET non-negative; a
  limit of 0 or an absent limit gives 50, and a limit in range is kept.
\<close>

theorem list_paging_bounds:
  "1 \<le> list_limit p \<and> list_limit p \<le> 1000 \<and> 0 \<le> list_offset q \<and>
   list_limit (Some 0) = 50 \<and> list_limit None = 50 \<and>
   (1 \<le> n \<and> n \<le> 1000 \<longrightarrow> list_limit (Some n) = n)"
  by (auto simp: list_limit_def list_offset_def parse_int_or_def)

theorem list_paging_bounds_witness:
  "list_limit (Some 20) = 20 \<and> list_limit (Some 5000) = 1000 \<and> list_offset (Some (-3)) = 0"
  using list_paging_bounds [of "Some 5000" "Some (-3)" 20]
  by (simp add: list_limit_def list_offset_def parse_int_or_def)

section \<open>Accounts and one-time codes\<close>

text \<open>
  C21. A login that answers a token writes nothing, and the token is for a stored, verified user
  whose e-mail is the one given and whose stored hash is the hash of the password given.
\<close>

theorem login_requires_verified_password:
  assumes ok: "login_route now em b s = (Inr (tok, u), s')"
  shows "s' = s \<and> u \<in> set (users s) \<and> lb_email b = Some (us_email u) \<and> us_is_verified u \<and>
         us_password u = bcrypt_hash (the (lb_password b)) \<and> tok_id tok = us_id u \<and>
         tok_email tok = us_email u"
proof -
  from ok have v: "validateLogin em b = None" by (auto simp: login_route_def split: option.splits)
  then obtain e p where e: "lb_email b = Some e" "lb_password b = Some p"
    by (auto simp: validateLogin_None_iff)
  with ok v have "login now e p s = (Inr (tok, u), s')" by (simp add: login_route_def)
  with e show ?thesis
    by (auto simp: login_def bcrypt_compare_def generate_jwt_def user_by_email_def
             dest!: select_where_ConsD split: list.splits if_splits)
qed

theorem login_requires_verified_password_witness:
  "\<exists>tok u. login_route 3000 True scen_login verified_store = (Inr (tok, u), verified_store) \<and>
     us_is_verified u \<and> tok_id tok = 1"
proof -
  have l: "login_route 3000 True scen_login verified_store =
    (Inr (generate_jwt 3000 1 ''ann@example.com'', hd (users verified_store)), verified_store)"
    by (simp add: verified_store_eq login_route_def login_def scen_login_def auth_eval)
  show ?thesis using login_requires_verified_password [OF l] l by (auto simp: generate_jwt_def)
qed

text \<open>
  C22. verify-otp answers a token only for a user whose stored code equals the one given and
  has not expired, and afterwards every row of that e-mail is verified with its code cleared.
\<close>

theorem verify_otp_token_for_matching_code:
  assumes ok: "verify_otp_route now em c s = (Inr tok, s')"
  shows "\<exists>u\<in>set (users s). em = Some (us_email u) \<and> us_otp_code u = c \<and> c \<noteq> Some [] \<and>
           now \<le> (case us_otp_expires_at u of None \<Rightarrow> 0 | Some t \<Rightarrow> t) \<and> tok_id tok = us_id u \<and>
           (\<forall>u'\<in>set (users s'). us_email u' = us_email u \<longrightarrow> us_is_verified u' \<and> us_otp_code u' = None)"
proof -
  from ok have nf: "\<not> falsy em" "\<not> falsy c"
    and call0: "verifyOTP now (the em) (the c) s = (Inr tok, s')"
    by (auto simp: verify_otp_route_def split: if_splits)
  then obtain e otp where e: "em = Some e" "e \<noteq> []" "c = Some otp" "otp \<noteq> []"
    by (cases em; cases c) (auto simp: falsy_def)
  with call0 have call: "verifyOTP now e otp s = (Inr tok, s')" by simp
  then obtain u rest where sel: "select_where (user_by_email e) (users s) = u # rest"
    and chk: "check_otp now otp u = None" and tok: "tok = generate_jwt now (us_id u) e"
    and s': "s' = s\<lparr>users := update_where (user_by_email e)
             (\<lambda>r. r\<lparr>us_is_verified := True, us_otp_code := None, us_otp_expires_at := None\<rparr>)
             (users s)\<rparr>"
    by (rule verifyOTP_success)
  from select_where_ConsD [OF sel] have u: "u \<in> set (users s)" "us_email u = e"
    by (simp_all add: user_by_email_def)
  show ?thesis
  proof (intro bexI conjI)
    show "\<forall>u'\<in>set (users s'). us_email u' = us_email u \<longrightarrow> us_is_verified u' \<and> us_otp_code u' = None"
      using u by (auto simp: s' update_where_def user_by_email_def)
  qed (use u e chk tok in \<open>auto simp: check_otp_None_iff generate_jwt_def\<close>)
qed

theorem verify_otp_token_for_matching_code_witness:
  "\<exists>u\<in>set (users user_store). us_otp_code u = Some ''123456'' \<and>
     tok_id (generate_jwt 2000 1 ''ann@example.com'') = us_id u"
proof -
  have v: "verify_otp_route 2000 (Some ''ann@example.com'') (Some ''123456'') user_store =
             (Inr (generate_jwt 2000 1 ''ann@example.com''), verified_store)"
    by (simp add: verified_store_def user_store_eq verify_otp_route_def verifyOTP_def auth_eval)
  show ?thesis using verify_otp_token_for_matching_code [OF v] by auto
qed

text \<open>
  C23. A code is used at most once: after a successful verification the same code is refused as
  invalid, by verify-otp and by reset-password.
\<close>

theorem otp_single_use:
  assumes ok: "verify_otp_route now em c s = (Inr tok, s')" and p: "\<not> falsy p"
  shows "verify_otp_route now' em c s' = (Inl (Bad_Request ''Invalid OTP''), s') \<and>
         reset_password_route now' em c p s' = (Inl (Bad_Request ''Invalid OTP''), s')"
proof -
  from ok have nf: "\<not> falsy em" "\<not> falsy c"
    and call0: "verifyOTP now (the em) (the c) s = (Inr tok, s')"
    by (auto simp: verify_otp_route_def split: if_splits)
  then obtain e otp where e: "em = Some e" "e \<noteq> []" "c = Some otp" "otp \<noteq> []"
    by (cases em; cases c) (auto simp: falsy_def)
  with call0 have call: "verifyOTP now e otp s = (Inr tok, s')" by simp
  then obtain u rest where sel: "select_where (user_by_email e) (users s) = u # rest"
    and s': "s' = s\<lparr>users := update_where (user_by_email e)
             (\<lambda>r. r\<lparr>us_is_verified := True, us_otp_code := None, us_otp_expires_at := None\<rparr>)
             (users s)\<rparr>"
    by (rule verifyOTP_success)
  from select_where_ConsD [OF sel] have "u\<lparr>us_is_verified := True, us_otp_code := None,
      us_otp_expires_at := None\<rparr> \<in> set (users s')" "user_by_email e u"
    by (force simp: s' update_where_def)+
  then have "select_where (user_by_email e) (users s') \<noteq> []"
    unfolding select_where_empty_iff user_by_email_def by force
  moreover have "\<forall>r\<in>set (select_where (user_by_email e) (users s')). us_otp_code r = None"
    by (auto simp: s' select_where_def update_where_def)
  ultimately obtain r rs where "select_where (user_by_email e) (users s') = r # rs" "us_otp_code r = None"
    by (auto simp: neq_Nil_conv)
  with e p show ?thesis
    by (simp add: verify_otp_route_def reset_password_route_def verifyOTP_def resetPassword_def
                  check_otp_def falsy_def)
qed

theorem otp_single_use_witness:
  "verify_otp_route 2500 (Some ''ann@example.com'') (Some ''123456'') verified_store =
     (Inl (Bad_Request ''Invalid OTP''), verified_store)"
proof -
  have v: "verify_otp_route 2000 (Some ''ann@example.com'') (Some ''123456'') user_store =
             (Inr (generate_jwt 2000 1 ''ann@example.com''), verified_store)"
    by (simp add: verified_store_def user_store_eq verify_otp_route_def verifyOTP_def auth_eval)
  show ?thesis using otp_single_use [OF v, of "Some ''x''" 2500] by (simp add: falsy_def)
qed

text \<open>
  C18. The stored code, given after its expiry, is refused as expired by verify-otp and by
  reset-password, and nothing is written.
\<close>

theorem expired_otp_refused:
  assumes "select_where (user_by_email e) (users s) = u # rest" and "e \<noteq> []"
    and "us_otp_code u = Some c" "c \<noteq> []" and "us_otp_expires_at u = Some t" "t < now"
    and "\<not> falsy p"
  shows "verify_otp_route now (Some e) (Some c) s = (Inl (Bad_Request ''OTP has expired''), s) \<and>
         reset_password_route now (Some e) (Some c) p s = (Inl (Bad_Request ''OTP has expired''), s)"
  using assms
  by (simp add: verify_otp_route_def reset_password_route_def verifyOTP_def resetPassword_def
                check_otp_def falsy_def)

theorem expired_otp_refused_witness:
  "verify_otp_route 700000 (Some ''ann@example.com'') (Some ''123456'') user_store =
     (Inl (Bad_Request ''OTP has expired''), user_store)"
  using expired_otp_refused [of "''ann@example.com''" user_store "hd (users user_store)" "[]"
          "''123456''" 601000 700000 "Some ''x''"]
  by (simp add: user_store_eq auth_eval)

text \<open>
  C25. After a successful registration, the mailed code verifies the new account within ten
  minutes, with a token for its new id, and then the password logs in.
\<close>

theorem register_verify_login:
  assumes reg: "register_route env b s = (Inr (), s1)" and fresh: "now \<le> env_now env + otp_lifetime"
  shows "\<exists>s2 u. verify_otp_route now (rb_email b) (Some (generate_otp (env_rand env))) s1 =
              (Inr (generate_jwt now (next_user_id s) (the (rb_email b))), s2) \<and>
            login_route now' True \<lparr>lb_email = rb_email b, lb_password = rb_password b\<rparr> s2 =
              (Inr (generate_jwt now' (next_user_id s) (the (rb_email b)), u), s2)"
proof -
  from reg have v: "validateRegistration (env_email_ok env) b = None"
    by (auto simp: register_route_def split: option.splits)
  then obtain e p f l where e: "rb_email b = Some e" "e \<noteq> []" "rb_password b = Some p" "6 \<le> length p"
    "rb_firstName b = Some f" "rb_lastName b = Some l"
    by (auto simp: validateRegistration_None_iff)
  with reg v have "register env e p f l s = (Inr (), s1)" by (simp add: register_route_def)
  then have fresh_e: "select_where (user_by_email e) (users s) = []"
    and s1: "s1 = s\<lparr>users := users s @
            [\<lparr>us_id = next_user_id s, us_email = e, us_password = bcrypt_hash p,
              us_first_name = f, us_last_name = l, us_is_verified = False,
              us_otp_code = Some (generate_otp (env_rand env)),
              us_otp_expires_at = Some (env_now env + otp_lifetime)\<rparr>],
          next_user_id := Suc (next_user_id s)\<rparr>"
    by (simp_all add: register_success)
  have none: "\<forall>r\<in>set (users s). \<not> user_by_email e r"
    using fresh_e by (simp add: select_where_empty_iff)
  then have keep: "update_where (user_by_email e) g (users s) = users s" for g
    by (rule update_where_no_match)
  have "p \<noteq> []" using e(4) by auto
  then show ?thesis
    using e fresh fresh_e none
    by (simp add: s1 verify_otp_route_def verifyOTP_def login_route_def login_def keep check_otp_def
                  falsy_def user_by_email_def validateLogin_def joi_email_def joi_string_min_def
                  bcrypt_compare_def
                  select_where_def filter_empty_conv)
qed

theorem register_verify_login_witness:
  "\<exists>s2 u. verify_otp_route 2000 (Some ''ann@example.com'') (Some ''123456'') user_store =
       (Inr (generate_jwt 2000 1 ''ann@example.com''), s2) \<and>
     login_route 5000 True scen_login s2 = (Inr (generate_jwt 5000 1 ''ann@example.com'', u), s2)"
proof -
  have r: "register_route scen_env scen_register empty_db = (Inr (), user_store)"
    by (simp add: user_store_def register_route_def register_def scen_env_def scen_register_def
                  auth_eval empty_db_def)
  show ?thesis
    using register_verify_login [OF r, of 2000 5000]
    by (simp add: scen_env_def scen_register_def scen_login_def scen_otp otp_lifetime_def empty_db_def)
qed

text \<open>
  C26. When the verification e-mail cannot be sent, registration answers an error, yet the
  unverified user is stored, and registering the same e-mail again is refused.
\<close>

theorem register_mail_failure_keeps_user:
  assumes v: "validateRegistration (env_email_ok env) b = None" and e: "rb_email b = Some e"
    and fresh: "select_where (user_by_email e) (users s) = []" and fail: "\<not> env_mail_ok env"
    and v': "validateRegistration (env_email_ok env') b' = None" and e': "rb_email b' = Some e"
  shows "fst (register_route env b s) = Inl (Bad_Request ''Failed to send verification email'') \<and>
         (\<exists>u\<in>set (users (snd (register_route env b s))). us_email u = e \<and> \<not> us_is_verified u) \<and>
         register_route env' b' (snd (register_route env b s)) =
           (Inl (Bad_Request ''User already exists with this email''), snd (register_route env b s))"
proof -
  have r: "register_route env b s =
      (Inl (Bad_Request ''Failed to send verification email''),
       s\<lparr>users := users s @
            [\<lparr>us_id = next_user_id s, us_email = e, us_password = bcrypt_hash (the (rb_password b)),
              us_first_name = the (rb_firstName b), us_last_name = the (rb_lastName b),
              us_is_verified = False, us_otp_code = Some (generate_otp (env_rand env)),
              us_otp_expires_at = Some (env_now env + otp_lifetime)\<rparr>],
          next_user_id := Suc (next_user_id s)\<rparr>)"
    using v e fresh fail by (simp add: register_route_def register_def Let_def)
  with v' e' show ?thesis
    unfolding r by (simp add: register_route_def register_def select_where_def user_by_email_def)
qed

theorem register_mail_failure_keeps_user_witness:
  "fst (register_route (scen_env\<lparr>env_mail_ok := False\<rparr>) scen_register empty_db) =
     Inl (Bad_Request ''Failed to send verification email'') \<and>
   register_route scen_env scen_register (snd (register_route (scen_env\<lparr>env_mail_ok := False\<rparr>) scen_register empty_db)) =
     (Inl (Bad_Request ''User already exists with this email''),
      snd (register_route (scen_env\<lparr>env_mail_ok := False\<rparr>) scen_register empty_db))"
  using register_mail_failure_keeps_user [of "scen_env\<lparr>env_mail_ok := False\<rparr>" scen_register
          "''ann@example.com''" empty_db scen_env scen_register]
  by (simp add: scen_env_def scen_register_def auth_eval empty_db_def)

text \<open>
  C27. In every reachable store, no request gives an unverified user a new code: the code of
  a row with that user's e-mail after any request is the old one or none (resendOTP has
  no route, and forgot-password serves verified users only).
\<close>

theorem unverified_code_never_reissued:
  assumes r: "reachable tz allowed s" and u: "u \<in> set (users s)" "\<not> us_is_verified u"
    and u': "u' \<in> set (users (handle tz uid q s))" "us_email u' = us_email u"
  shows "us_otp_code u' = us_otp_code u \<or> us_otp_code u' = None"
proof -
  have wf: "wf_db s" using r by (rule reachable_wf)
  note kept = unverified_code_kept [OF wf u u'(2)]
  have same: "us_otp_code u' = us_otp_code u" if "u' \<in> set (users s)"
    using wf_email_unique [OF wf u(1) that u'(2)] by simp
  from handle_users [of tz uid q s] show ?thesis
  proof (elim disjE exE)
    assume "users (handle tz uid q s) = users s"
    with u'(1) show ?thesis by (simp add: same)
  next
    fix env e p f l assume "users (handle tz uid q s) = users (snd (register env e p f l s))"
    with u'(1) show ?thesis by (simp add: kept(1))
  next
    fix now e c assume "users (handle tz uid q s) = users (snd (verifyOTP now e c s))"
    with u'(1) kept(2) show ?thesis by auto
  next
    fix env e assume "users (handle tz uid q s) = users (snd (requestPasswordReset env e s))"
    with u'(1) show ?thesis by (simp add: kept(3))
  next
    fix now e c p assume "users (handle tz uid q s) = users (snd (resetPassword now e c p s))"
    with u'(1) kept(4) show ?thesis by auto
  qed
qed

theorem unverified_code_never_reissued_witness:
  "us_otp_code (hd (users (handle 0 1 (Forgot_Password scen_env (Some ''ann@example.com'')) lost_store))) =
     Some ''123456''"
proof -
  have r: "reachable 0 (\<lambda>_. True) lost_store"
    unfolding lost_store_def by (intro reachable.step reachable.start) simp_all
  show ?thesis
    using unverified_code_never_reissued [OF r, of "hd (users lost_store)"
            "hd (users (handle 0 1 (Forgot_Password scen_env (Some ''ann@example.com'')) lost_store))" 1
            "Forgot_Password scen_env (Some ''ann@example.com'')"]
    by (simp add: lost_store_def register_route_def register_def forgot_password_route_def
                  requestPasswordReset_def scen_env_def scen_register_def scen_otp auth_eval empty_db_def)
qed

text \<open>
  C28. reset-password accepts the registration code of an unverified user, changes the
  password and consumes the code without verifying the account: the new password cannot
  log in and the code no longer verifies.
\<close>

theorem reset_password_does_not_verify:
  "fst (reset_password_route 2000 (Some ''ann@example.com'') (Some ''123456'') (Some ''newpass'') user_store) = Inr () \<and>
   fst (login_route 3000 True \<lparr>lb_email = Some ''ann@example.com'', lb_password = Some ''newpass''\<rparr>
     (snd (reset_password_route 2000 (Some ''ann@example.com'') (Some ''123456'') (Some ''newpass'') user_store))) =
     Inl (Bad_Request ''Please verify your email before logging in'') \<and>
   fst (verify_otp_route 3000 (Some ''ann@example.com'') (Some ''123456'')
     (snd (reset_password_route 2000 (Some ''ann@example.com'') (Some ''123456'') (Some ''newpass'') user_store))) =
     Inl (Bad_Request ''Invalid OTP'')"
  by (simp add: user_store_eq reset_password_route_def resetPassword_def login_route_def login_def
                verify_otp_route_def verifyOTP_def auth_eval)

text \<open>
  A generated code is six decimal digits with value between 100000 and 999999, so it is
  never the falsy empty string.
\<close>

theorem generate_otp_bounds:
  "length (generate_otp r) = 6 \<and> list_all is_digit (generate_otp r) \<and>
   100000 \<le> digits_val (generate_otp r) \<and> digits_val (generate_otp r) \<le> 999999 \<and>
   \<not> falsy (Some (generate_otp r))"
  using generate_otp_digits [of r] by (simp add: falsy_def)

section \<open>Properties added with the read routes and the AI routes\<close>

text \<open>
  C31. On a server at or west of UTC, as long as no budget is edited by
  \<^verbatim>\<open>PUT /api/budgets/:id\<close>, no budget's \<^verbatim>\<open>current_spent\<close> is ever negative: it is the
  sum of the amounts of expenses, and every stored amount is positive.
\<close>

theorem spent_never_negative:
  assumes tz: "tz \<le> 0" and r: "reachable tz not_budget_put s" and b: "b \<in> set (budgets s)"
  shows "0 \<le> bu_current_spent b"
proof -
  from r have "typed_db s \<and> ledger_inv s"
  proof (induction rule: reachable.induct)
    case start
    show ?case by (simp add: typed_db_def ledger_inv_def empty_db_def)
  next
    case (step s r uid)
    then show ?case by (simp add: typed_handle ledger_handle [OF tz] reachable_wf)
  qed
  then have "bu_current_spent b = sum_list (map ex_amount (filter (expense_in (bu_user_id b)
               (bu_category_id b) (bu_month_year b)) (expenses s)))"
    and pos: "\<forall>e\<in>set (expenses s). 0 < ex_amount e"
    using b by (auto simp: ledger_inv_def backfill_spent_def typed_db_def expense_typed_def)
  moreover have "0 \<le> sum_list (map ex_amount (filter (expense_in (bu_user_id b)
               (bu_category_id b) (bu_month_year b)) (expenses s)))"
    by (rule sum_list_nonneg) (use pos in auto)
  ultimately show ?thesis by simp
qed

theorem spent_never_negative_witness:
  "0 \<le> bu_current_spent (hd (budgets (handle 0 1 (Create_Expense (scenario_expense 120 5))
      (handle 0 1 (Create_Budget scenario_budget) empty_db))))"
proof -
  have r: "reachable 0 not_budget_put (handle 0 1 (Create_Expense (scenario_expense 120 5))
      (handle 0 1 (Create_Budget scenario_budget) empty_db))"
    by (intro reachable.step reachable.start) (simp_all add: not_budget_put_def)
  have b: "hd (budgets (handle 0 1 (Create_Expense (scenario_expense 120 5))
      (handle 0 1 (Create_Budget scenario_budget) empty_db))) \<in> set (budgets (handle 0 1
      (Create_Expense (scenario_expense 120 5)) (handle 0 1 (Create_Budget scenario_budget) empty_db)))"
    by (simp add: create_budget_def create_expense_def scenario_budget_def scenario_expense_def
                  adjust_budget_def eval_simps)
  show ?thesis by (rule spent_never_negative [OF order_refl r b])
qed

text \<open>
  C34. Every read route sees only the caller's rows: the expense list and lookup, the
  expense statistics, the budget list, lookup, overview and missing categories, the goal
  list, lookup and statistics, the financial data sent to the model and the list of saved
  recommendations are the same on the whole store as on the store that keeps only the
  caller's rows.
\<close>

theorem reads_see_only_caller_rows:
  "list_expenses uid q s = list_expenses uid q (own_rows uid s) \<and>
   get_expense uid i s = get_expense uid i (own_rows uid s) \<and>
   expense_stats uid p today s = expense_stats uid p today (own_rows uid s) \<and>
   list_budgets uid m s = list_budgets uid m (own_rows uid s) \<and>
   get_budget uid i s = get_budget uid i (own_rows uid s) \<and>
   budget_overview dec_pct uid now s = budget_overview dec_pct uid now (own_rows uid s) \<and>
   missing_categories uid mo s = missing_categories uid mo (own_rows uid s) \<and>
   list_goals uid st s = list_goals uid st (own_rows uid s) \<and>
   get_goal uid i s = get_goal uid i (own_rows uid s) \<and>
   goal_stats uid today s = goal_stats uid today (own_rows uid s) \<and>
   getUserFinancialData tz today now uid s = getUserFinancialData tz today now uid (own_rows uid s) \<and>
   list_recommendations ok uid rq s = list_recommendations ok uid rq (own_rows uid s)"
  by (intro conjI;
      simp del: filter_filter
           add: own_rows_def filter_weaker select_where_def join_categories_def Let_def
                list_expenses_def expense_filter_def get_expense_def expense_row_of_def
                expense_stats_def in_period_def list_budgets_def get_budget_def budget_row_of_def
                budget_overview_def missing_categories_def list_goals_def get_goal_def
                goal_row_of_def goal_stats_def getUserFinancialData_def recent_expenses_def
                active_goals_def current_budgets_def list_recommendations_def
                recommendation_filter_def)

theorem goal_advice_race_witness:
  "goal_advice_generate (\<lambda>p. if p = ''Goal not found'' then Some ''Save 100 a month'' else None)
     (\<lambda>_. []) (\<lambda>_. []) 0 \<lparr>d_year = 2024, d_month = 3, d_day = 5\<rparr> report_now 1 1
     (snd (delete_goal 1 1 goal_store)) =
   (Inr ''Save 100 a month'', saveRecommendation 1 ''Save 100 a month'' Goal (snd (delete_goal 1 1 goal_store)))"
proof -
  have r: "reachable 0 (\<lambda>_. True) (handle 0 1 (Create_Goal scen_goal) empty_db)"
    by (intro reachable.step reachable.start) simp
  have gs: "goal_store = handle 0 1 (Create_Goal scen_goal) empty_db" by (simp add: goal_store_def)
  have wf: "wf_db goal_store" using reachable_wf [OF r] gs by simp
  have g: "select_where (goal_row_of 1 1) (goals goal_store) \<noteq> []"
    by (simp add: goal_store_def scen_goal_def create_goal_def goal_row_of_def eval_simps)
  from Prompts.goal_advice_race [OF wf g,
      of "\<lambda>p. if p = ''Goal not found'' then Some ''Save 100 a month'' else None"
         "\<lambda>_. []" "\<lambda>_. []" 0 "\<lparr>d_year = 2024, d_month = 3, d_day = 5\<rparr>" report_now]
  show ?thesis by simp
qed

end
